(* ===== verification/Prelude.thy ===== *)
theory Prelude
  imports Main "HOL-Library.Char_ord" "HOL-Library.List_Lexorder"
begin

text \<open>
  The vocabulary the components share: the functions of Go's \<^verbatim>\<open>strings\<close>,
  \<^verbatim>\<open>strconv\<close> and \<^verbatim>\<open>sort\<close> packages that the sources call, keyed
  lookups and updates on lists of records (the shape of a database table), and the
  fact collections of the development.

  A Go string is a sequence of bytes, here a \<^typ>\<open>string\<close> (a list of 8-bit characters).
  \<open>TrimSpace\<close> and \<open>ToLower\<close> are modelled on the ASCII range: Go also trims
  the Unicode spaces and folds the non-ASCII letters, which no comparison of the sources
  depends on.
\<close>

named_theorems go_string "facts about the Go string functions"
named_theorems table_simps "how keyed updates and deletions act on the rows of a table"

section \<open>Strings\<close>

definition is_space :: "char \<Rightarrow> bool" where
  "is_space c \<longleftrightarrow> c \<in> set [CHR 0x09, CHR 0x0A, CHR 0x0B, CHR 0x0C, CHR 0x0D, CHR 0x20]"

definition TrimSpace :: "string \<Rightarrow> string" where
  "TrimSpace s = rev (dropWhile is_space (rev (dropWhile is_space s)))"

definition upper_letters :: string where
  "upper_letters = ''ABCDEFGHIJKLMNOPQRSTUVWXYZ''"

definition lower_letters :: string where
  "lower_letters = ''abcdefghijklmnopqrstuvwxyz''"

definition lower_char :: "char \<Rightarrow> char" where
  "lower_char c = (case map_of (zip upper_letters lower_letters) c of
     None \<Rightarrow> c | Some d \<Rightarrow> d)"

definition ToLower :: "string \<Rightarrow> string" where
  "ToLower s = map lower_char s"

definition EqualFold :: "string \<Rightarrow> string \<Rightarrow> bool" where
  "EqualFold s t \<longleftrightarrow> ToLower s = ToLower t"

definition HasPrefix :: "string \<Rightarrow> string \<Rightarrow> bool" where
  "HasPrefix s p \<longleftrightarrow> take (length p) s = p"

definition HasSuffix :: "string \<Rightarrow> string \<Rightarrow> bool" where
  "HasSuffix s p \<longleftrightarrow> length p \<le> length s \<and> drop (length s - length p) s = p"

fun Contains :: "string \<Rightarrow> string \<Rightarrow> bool" where
  "Contains [] sub \<longleftrightarrow> sub = []"
| "Contains (c # s) sub \<longleftrightarrow> HasPrefix (c # s) sub \<or> Contains s sub"

fun Join :: "string list \<Rightarrow> string \<Rightarrow> string" where
  "Join [] sep = []"
| "Join [s] sep = s"
| "Join (s # t # ss) sep = s @ sep @ Join (t # ss) sep"

text \<open>\<open>strings.NewReplacer\<close>: at each position the first pair, in argument order, whose
  old string matches is applied; matches do not overlap and the output is not rescanned.\<close>

fun Replacer :: "(string \<times> string) list \<Rightarrow> string \<Rightarrow> string" where
  "Replacer ps [] = []"
| "Replacer ps (c # cs) =
     (case find (\<lambda>p. fst p \<noteq> [] \<and> HasPrefix (c # cs) (fst p)) ps of
        None \<Rightarrow> c # Replacer ps cs
      | Some p \<Rightarrow> snd p @ Replacer ps (drop (length (fst p) - 1) cs))"

text \<open>The variadic \<open>firstNonEmpty\<close> of the \<open>xray\<close> package takes the first string that is not
  empty; \<open>firstNonEmptyString\<close> of the \<open>api\<close> package the first that is not blank.\<close>

fun firstNonEmpty :: "string list \<Rightarrow> string" where
  "firstNonEmpty [] = []"
| "firstNonEmpty (v # vs) = (if v \<noteq> [] then v else firstNonEmpty vs)"

fun firstNonEmptyString :: "string list \<Rightarrow> string" where
  "firstNonEmptyString [] = []"
| "firstNonEmptyString (v # vs) = (if TrimSpace v \<noteq> [] then v else firstNonEmptyString vs)"

text \<open>\<open>EqualFold\<close> by comparing from the left, for evaluation.\<close>

fun eq_fold :: "string \<Rightarrow> string \<Rightarrow> bool" where
  "eq_fold [] t = (t = [])"
| "eq_fold (a # s) [] = False"
| "eq_fold (a # s) (b # t) =
     (if a = b then eq_fold s t else if lower_char a = lower_char b then eq_fold s t else False)"

lemma EqualFold_eval [code]: "EqualFold s t = eq_fold s t"
  unfolding EqualFold_def ToLower_def by (induction s t rule: eq_fold.induct) auto

lemma dropWhile_all_not [go_string]: "s \<noteq> [] \<Longrightarrow> \<not> P (hd s) \<Longrightarrow> dropWhile P s = s"
  by (cases s) auto

lemma TrimSpace_Nil [simp]: "TrimSpace [] = []"
  by (simp add: TrimSpace_def)

lemma dropWhile_rev_dropWhile_idem:
  "dropWhile P (rev (dropWhile P (rev (dropWhile P s)))) = rev (dropWhile P (rev (dropWhile P s)))"
proof (cases "dropWhile P s")
  case Nil
  then show ?thesis unfolding Nil by simp
next
  case (Cons c t)
  then have c: "\<not> P c"
    by (metis dropWhile_eq_Cons_conv)
  then have "rev (dropWhile P (rev (c # t))) = c # rev (dropWhile P (rev t))"
    by (induction "rev t" arbitrary: t rule: list.induct)
       (auto simp: dropWhile_append)
  with Cons c show ?thesis by simp
qed

lemma TrimSpace_idem [simp]: "TrimSpace (TrimSpace s) = TrimSpace s"
  by (simp add: TrimSpace_def dropWhile_rev_dropWhile_idem)

lemma set_TrimSpace: "set (TrimSpace s) \<subseteq> set s"
  by (auto simp: TrimSpace_def dest!: set_dropWhileD)

lemma TrimSpace_id:
  assumes "\<forall>c\<in>set s. \<not> is_space c"
  shows "TrimSpace s = s"
proof -
  have dw: "\<And>t. \<forall>c\<in>set t. \<not> is_space c \<Longrightarrow> dropWhile is_space t = t"
    by (rule dropWhile_eq_self_iff [THEN iffD2]) auto
  show ?thesis by (simp add: TrimSpace_def dw assms)
qed

lemma ToLower_Nil_iff [simp]: "ToLower s = [] \<longleftrightarrow> s = []"
  by (simp add: ToLower_def)

lemma length_ToLower [simp]: "length (ToLower s) = length s"
  by (simp add: ToLower_def)

lemma EqualFold_refl [simp]: "EqualFold s s"
  by (simp add: EqualFold_def)

lemma HasPrefix_append [simp]: "HasPrefix (p @ s) p"
  by (simp add: HasPrefix_def)

lemma HasPrefix_iff: "HasPrefix s p \<longleftrightarrow> (\<exists>t. s = p @ t)"
  by (metis HasPrefix_append HasPrefix_def append_take_drop_id)

lemma Contains_append: "Contains s sub \<Longrightarrow> Contains (p @ s) sub"
  by (induction p) auto

lemma HasPrefix_Contains: "HasPrefix s sub \<Longrightarrow> Contains s sub"
  by (cases s) (auto simp: HasPrefix_def)

lemma Contains_iff: "Contains s sub \<longleftrightarrow> (\<exists>a b. s = a @ sub @ b)"
proof
  show "Contains s sub \<Longrightarrow> \<exists>a b. s = a @ sub @ b"
  proof (induction s)
    case Nil
    then show ?case by simp
  next
    case (Cons c s)
    show ?case
    proof (cases "HasPrefix (c # s) sub")
      case True
      then obtain b where "c # s = [] @ sub @ b" by (auto simp: HasPrefix_iff)
      then show ?thesis by blast
    next
      case False
      with Cons obtain a b where "s = a @ sub @ b" by auto
      then have "c # s = (c # a) @ sub @ b" by simp
      then show ?thesis by blast
    qed
  qed
next
  assume "\<exists>a b. s = a @ sub @ b"
  then obtain a b where s: "s = a @ (sub @ b)" by blast
  have "Contains (sub @ b) sub" by (rule HasPrefix_Contains) simp
  then show "Contains s sub" unfolding s by (rule Contains_append)
qed

lemma length_Replacer_le:
  assumes "\<forall>p\<in>set ps. length (snd p) \<le> length (fst p)"
  shows "length (Replacer ps s) \<le> length s"
  using assms
proof (induction ps s rule: Replacer.induct)
  case (1 ps)
  then show ?case by simp
next
  case (2 ps c cs)
  show ?case
  proof (cases "find (\<lambda>p. fst p \<noteq> [] \<and> HasPrefix (c # cs) (fst p)) ps")
    case None
    with "2.IH"(1) "2.prems" show ?thesis by simp
  next
    case (Some p)
    then have p: "p \<in> set ps" "fst p \<noteq> []" "HasPrefix (c # cs) (fst p)"
      by (auto simp: find_Some_iff)
    from p(3) have len: "length (fst p) \<le> Suc (length cs)"
      by (auto simp: HasPrefix_iff dest: arg_cong [where f = length])
    have "length (Replacer ps (drop (length (fst p) - 1) cs)) \<le> length cs - (length (fst p) - 1)"
      using "2.IH"(2) [OF Some "2.prems"] by simp
    moreover have "length (snd p) \<le> length (fst p)" using "2.prems" p(1) by blast
    moreover have "0 < length (fst p)" using p(2) by simp
    ultimately show ?thesis using len Some by simp
  qed
qed

section \<open>Decimal numbers\<close>

definition digit_chars :: string where
  "digit_chars = ''0123456789''"

definition digit_char :: "nat \<Rightarrow> char" where
  "digit_char d = digit_chars ! d"

definition digit_val :: "char \<Rightarrow> nat option" where
  "digit_val c = map_of (zip digit_chars [0..<10]) c"

fun utoa :: "nat \<Rightarrow> string" where
  "utoa n = (if n < 10 then [digit_char n] else utoa (n div 10) @ [digit_char (n mod 10)])"

declare utoa.simps [simp del]

definition Itoa :: "int \<Rightarrow> string" where
  "Itoa i = (if i < 0 then CHR ''-'' # utoa (nat (- i)) else utoa (nat i))"

fun atou_from :: "nat \<Rightarrow> string \<Rightarrow> nat option" where
  "atou_from acc [] = Some acc"
| "atou_from acc (c # cs) =
     (case digit_val c of None \<Rightarrow> None | Some d \<Rightarrow> atou_from (10 * acc + d) cs)"

definition atou :: "string \<Rightarrow> nat option" where
  "atou s = (if s = [] then None else atou_from 0 s)"

abbreviation int64_min :: int where "int64_min \<equiv> - (2 ^ 63)"
abbreviation int64_max :: int where "int64_max \<equiv> 2 ^ 63 - 1"

text \<open>\<open>strconv.ParseInt(s, 10, 64)\<close> and, on the 64-bit targets the service is built for,
  \<open>strconv.Atoi\<close>: an optional sign, at least one digit, in the range of \<open>int64\<close>.\<close>

definition ParseInt :: "string \<Rightarrow> int option" where
  "ParseInt s =
     (let (neg, body) = (case s of
            [] \<Rightarrow> (False, [])
          | c # cs \<Rightarrow> if c = CHR ''-'' then (True, cs)
                     else if c = CHR ''+'' then (False, cs) else (False, s))
      in case atou body of
           None \<Rightarrow> None
         | Some n \<Rightarrow>
             (let i = (if neg then - int n else int n)
              in if int64_min \<le> i \<and> i \<le> int64_max then Some i else None))"

lemma digit_val_digit_char [simp]: "d < 10 \<Longrightarrow> digit_val (digit_char d) = Some d"
  by (auto simp: digit_val_def digit_char_def digit_chars_def numeral_eq_Suc less_Suc_eq
           upt_rec)

lemma digit_char_not_dash: "d < 10 \<Longrightarrow> digit_char d \<noteq> CHR ''-'' \<and> digit_char d \<noteq> CHR ''+''"
  by (auto simp: digit_char_def digit_chars_def numeral_eq_Suc less_Suc_eq)

lemma utoa_nonempty [simp]: "utoa n \<noteq> []"
  by (subst utoa.simps) simp

lemma atou_from_append:
  "atou_from acc (s @ t) = (case atou_from acc s of None \<Rightarrow> None | Some a \<Rightarrow> atou_from a t)"
  by (induction s arbitrary: acc) (auto split: option.splits)

lemma atou_from_utoa: "atou_from 0 (utoa n) = Some n"
proof (induction n rule: utoa.induct)
  case (1 n)
  show ?case
  proof (cases "n < 10")
    case True
    then show ?thesis by (subst utoa.simps) simp
  next
    case False
    with 1 have "atou_from 0 (utoa (n div 10)) = Some (n div 10)" by simp
    with False show ?thesis by (subst utoa.simps) (simp add: atou_from_append)
  qed
qed

lemma atou_utoa [simp]: "atou (utoa n) = Some n"
  by (simp add: atou_def atou_from_utoa)

lemma utoa_inj: "utoa m = utoa n \<Longrightarrow> m = n"
  by (metis atou_utoa option.inject)

lemma set_utoa: "c \<in> set (utoa n) \<Longrightarrow> \<exists>d<10. c = digit_char d"
proof (induction n rule: utoa.induct)
  case (1 n)
  then show ?case
    by (subst (asm) (2) utoa.simps) (auto split: if_splits intro: exI [of _ "n mod 10"])
qed

lemma utoa_no_sign: "CHR ''-'' \<notin> set (utoa n)" "CHR ''+'' \<notin> set (utoa n)"
  using set_utoa digit_char_not_dash by metis+

lemma ParseInt_Itoa: "int64_min \<le> i \<Longrightarrow> i \<le> int64_max \<Longrightarrow> ParseInt (Itoa i) = Some i"
proof (cases "i < 0")
  case True
  then show "int64_min \<le> i \<Longrightarrow> i \<le> int64_max \<Longrightarrow> ?thesis"
    by (simp add: ParseInt_def Itoa_def)
next
  case False
  obtain c cs where u: "utoa (nat i) = c # cs" by (cases "utoa (nat i)") auto
  then have c: "c \<noteq> CHR ''-''" "c \<noteq> CHR ''+''" using utoa_no_sign [of "nat i"] by auto
  have "atou (c # cs) = Some (nat i)" using u by (metis atou_utoa)
  then show "int64_min \<le> i \<Longrightarrow> i \<le> int64_max \<Longrightarrow> ?thesis"
    using False u c by (simp add: ParseInt_def Itoa_def)
qed

section \<open>Tables: lists of rows with keys\<close>

text \<open>\<open>UPDATE ... WHERE\<close> and \<open>DELETE ... WHERE\<close> on a list of rows, and the
  facts about keys every table needs.\<close>

definition update_where :: "('r \<Rightarrow> bool) \<Rightarrow> ('r \<Rightarrow> 'r) \<Rightarrow> 'r list \<Rightarrow> 'r list" where
  "update_where P f rows = map (\<lambda>r. if P r then f r else r) rows"

definition delete_where :: "('r \<Rightarrow> bool) \<Rightarrow> 'r list \<Rightarrow> 'r list" where
  "delete_where P rows = filter (\<lambda>r. \<not> P r) rows"

lemma update_where_Nil [simp]: "update_where P f [] = []"
  by (simp add: update_where_def)

lemma update_where_Cons [simp]:
  "update_where P f (r # rs) = (if P r then f r else r) # update_where P f rs"
  by (simp add: update_where_def)

lemma delete_where_Nil [simp]: "delete_where P [] = []"
  by (simp add: delete_where_def)

lemma delete_where_Cons [simp]:
  "delete_where P (r # rs) = (if P r then delete_where P rs else r # delete_where P rs)"
  by (simp add: delete_where_def)

lemma length_update_where [simp]: "length (update_where P f rows) = length rows"
  by (simp add: update_where_def)

lemma set_update_where [table_simps]:
  "set (update_where P f rows) = (\<lambda>r. if P r then f r else r) ` set rows"
  by (simp add: update_where_def)

lemma set_delete_where [table_simps]: "set (delete_where P rows) = {r \<in> set rows. \<not> P r}"
  by (auto simp: delete_where_def)

lemma map_key_update_where [table_simps]:
  "(\<And>r. key (f r) = key r) \<Longrightarrow> map key (update_where P f rows) = map key rows"
  by (induction rows) auto

lemma distinct_map_delete_where [table_simps]:
  "distinct (map key rows) \<Longrightarrow> distinct (map key (delete_where P rows))"
  by (induction rows) (auto simp: set_delete_where)

text \<open>Overwriting the key of the rows that match an identifier keeps keys distinct as long as
  the identifiers are distinct and no other row holds the new key.\<close>

lemma distinct_map_update_key:
  assumes "distinct (map ident rows)" and "distinct (map key rows)"
    and "\<forall>r\<in>set rows. ident r \<noteq> i \<longrightarrow> key r \<noteq> v"
    and "\<And>r. key (f r) = v"
  shows "distinct (map key (update_where (\<lambda>r. ident r = i) f rows))"
  using assms(1-3)
proof (induction rows)
  case Nil
  then show ?case by simp
next
  case (Cons r rs)
  then have IH: "distinct (map key (update_where (\<lambda>r. ident r = i) f rs))" by simp
  show ?case
  proof (cases "ident r = i")
    case True
    then have "\<forall>s\<in>set rs. ident s \<noteq> i"
      using Cons.prems(1) by (metis distinct.simps(2) image_eqI list.set_map list.simps(9))
    then have "update_where (\<lambda>r. ident r = i) f rs = rs"
      by (auto simp: update_where_def intro: map_idI)
    moreover have "v \<notin> key ` set rs"
      using \<open>\<forall>s\<in>set rs. ident s \<noteq> i\<close> Cons.prems(3) by auto
    ultimately show ?thesis using True Cons.prems(2) assms(4) by simp
  next
    case False
    then have "key r \<noteq> v" using Cons.prems(3) by simp
    then have "key r \<notin> key ` set (update_where (\<lambda>r. ident r = i) f rs)"
      using Cons.prems(2) assms(4) by (auto simp: set_update_where)
    with False IH show ?thesis by simp
  qed
qed

lemma find_key:
  assumes "distinct (map key rows)" and "r \<in> set rows"
  shows "find (\<lambda>s. key s = key r) rows = Some r"
  using assms by (induction rows) (auto simp: image_iff)

lemma find_key_eq:
  assumes "distinct (map key rows)"
  shows "find (\<lambda>s. key s = k) rows = Some r \<longleftrightarrow> r \<in> set rows \<and> key r = k"
proof
  show "find (\<lambda>s. key s = k) rows = Some r \<Longrightarrow> r \<in> set rows \<and> key r = k"
    by (auto simp: find_Some_iff)
  show "r \<in> set rows \<and> key r = k \<Longrightarrow> find (\<lambda>s. key s = k) rows = Some r"
    using find_key [OF assms, of r] by auto
qed

lemma find_append_new: "find P xs = None \<Longrightarrow> find P (xs @ [x]) = (if P x then Some x else None)"
  by (induction xs) auto

lemma find_append_old: "\<not> P x \<Longrightarrow> find P (xs @ [x]) = find P xs"
  by (induction xs) auto

lemma distinct_key_inj:
  "distinct (map key rows) \<Longrightarrow> r \<in> set rows \<Longrightarrow> s \<in> set rows \<Longrightarrow> key r = key s \<Longrightarrow> r = s"
  by (induction rows) (auto simp: image_iff)

text \<open>A replacer takes out every character it has a rule for.\<close>

lemma Replacer_removes:
  assumes "([c], v) \<in> set ps" and "\<And>p. p \<in> set ps \<Longrightarrow> c \<notin> set (snd p)"
  shows "c \<notin> set (Replacer ps s)"
  using assms
proof (induction ps s rule: Replacer.induct)
  case (2 ps d cs)
  show ?case
  proof (cases "find (\<lambda>p. fst p \<noteq> [] \<and> HasPrefix (d # cs) (fst p)) ps")
    case None
    then have "d \<noteq> c" using 2(3) by (force simp: find_None_iff HasPrefix_def)
    with None 2 show ?thesis by simp
  next
    case (Some p)
    then have "p \<in> set ps" by (auto simp: find_Some_iff)
    with Some 2 show ?thesis by simp
  qed
qed simp

end
