(* ===== verification/Json.thy ===== *)
theory Json
  imports Prelude
begin

text \<open>
  JSON documents and what \<^verbatim>\<open>encoding/json\<close> does with them, as far as the sources use it:
  decoding into a struct field by field, decoding into a \<open>map[string]interface{}\<close>, and
  encoding a struct with \<open>omitempty\<close> fields.

  A \<open>jtext\<close> is a piece of text that may be a JSON document: \<open>Doc j\<close> when it parses to \<open>j\<close>,
  \<open>Plain s\<close> when it does not parse (\<open>s\<close> may be blank). The layout of the text (white space,
  the order of the keys of an object) is not represented, so \<open>json.Marshal\<close> is \<open>Doc\<close> and
  \<open>json.Unmarshal\<close> into a generic value is the inverse of it.
\<close>

section \<open>Documents\<close>

datatype json =
    JNull
  | JBool bool
  | JInt int          \<comment> \<open>a number literal that is an integer\<close>
  | JNum string       \<comment> \<open>any other number literal\<close>
  | JStr string
  | JArr "json list"
  | JObj "(string \<times> json) list"

datatype jtext = Plain string | Doc json

definition blank_text :: "jtext \<Rightarrow> bool" where
  "blank_text t = (case t of Plain s \<Rightarrow> TrimSpace s = [] | Doc _ \<Rightarrow> False)"

text \<open>Lookup and update in a \<open>map[string]interface{}\<close>: a key that occurs twice in the
  document has its last value.\<close>

fun obj_get :: "string \<Rightarrow> (string \<times> json) list \<Rightarrow> json option" where
  "obj_get k [] = None"
| "obj_get k ((k', v) # o') =
     (case obj_get k o' of Some w \<Rightarrow> Some w | None \<Rightarrow> if k' = k then Some v else None)"

definition obj_del :: "string \<Rightarrow> (string \<times> json) list \<Rightarrow> (string \<times> json) list" where
  "obj_del k o' = filter (\<lambda>kv. fst kv \<noteq> k) o'"

definition obj_set :: "string \<Rightarrow> json \<Rightarrow> (string \<times> json) list \<Rightarrow> (string \<times> json) list" where
  "obj_set k v o' = obj_del k o' @ [(k, v)]"

text \<open>The Go type assertions \<open>v.(string)\<close> and \<open>v.(map[string]interface{})\<close>, on a value that
  may be absent: the zero value where the assertion fails.\<close>

definition as_str :: "json option \<Rightarrow> string" where
  "as_str v = (case v of Some (JStr s) \<Rightarrow> s | _ \<Rightarrow> [])"

definition as_obj :: "json option \<Rightarrow> (string \<times> json) list option" where
  "as_obj v = (case v of Some (JObj o') \<Rightarrow> Some o' | _ \<Rightarrow> None)"

definition as_arr :: "json option \<Rightarrow> json list option" where
  "as_arr v = (case v of Some (JArr js) \<Rightarrow> Some js | _ \<Rightarrow> None)"

lemma obj_get_append:
  "obj_get k (o1 @ o2) = (case obj_get k o2 of Some w \<Rightarrow> Some w | None \<Rightarrow> obj_get k o1)"
  by (induction o1) (auto split: option.splits)

lemma obj_get_None_iff: "obj_get k o' = None \<longleftrightarrow> k \<notin> fst ` set o'"
  by (induction o') (auto split: option.splits if_splits)

lemma obj_get_mem: "obj_get k o' = Some v \<Longrightarrow> (k, v) \<in> set o'"
  by (induction o') (auto split: option.splits if_splits)

lemma obj_get_del [simp]: "obj_get k (obj_del k' o') = (if k = k' then None else obj_get k o')"
  by (induction o') (auto simp: obj_del_def split: option.splits)

lemma obj_get_set [simp]: "obj_get k (obj_set k' v o') = (if k = k' then Some v else obj_get k o')"
  by (auto simp: obj_set_def obj_get_append split: option.splits)

lemma keys_obj_set [simp]: "fst ` set (obj_set k v o') = insert k (fst ` set o')"
  by (auto simp: obj_set_def obj_del_def)

section \<open>Decoding into structs\<close>

text \<open>
  A decoder takes the value the field holds so far and a JSON value; \<open>None\<close> is the type
  error \<open>json.Unmarshal\<close> reports. \<open>null\<close> leaves the field as it is. An object is read
  member by member: a member goes to the field whose name equals its key up to case, and a
  later member overwrites an earlier one.
\<close>

type_synonym 'a decoder = "'a \<Rightarrow> json \<Rightarrow> 'a option"

fun dec_string :: "string decoder" where
  "dec_string p JNull = Some p"
| "dec_string p (JStr s) = Some s"
| "dec_string p _ = None"

fun dec_int :: "int decoder" where
  "dec_int p JNull = Some p"
| "dec_int p (JInt i) = (if int64_min \<le> i \<and> i \<le> int64_max then Some i else None)"
| "dec_int p _ = None"

fun dec_uint32 :: "int decoder" where
  "dec_uint32 p JNull = Some p"
| "dec_uint32 p (JInt i) = (if 0 \<le> i \<and> i < 2 ^ 32 then Some i else None)"
| "dec_uint32 p _ = None"

fun dec_bool :: "bool decoder" where
  "dec_bool p JNull = Some p"
| "dec_bool p (JBool b) = Some b"
| "dec_bool p _ = None"

text \<open>\<open>json.RawMessage\<close> (also \<open>interface{}\<close>) keeps whatever is there.\<close>

fun dec_raw :: "json option decoder" where
  "dec_raw p j = Some (Some j)"

fun dec_all :: "'a decoder \<Rightarrow> 'a \<Rightarrow> json list \<Rightarrow> 'a list option" where
  "dec_all d z [] = Some []"
| "dec_all d z (j # js) =
     (case d z j of None \<Rightarrow> None
      | Some x \<Rightarrow> (case dec_all d z js of None \<Rightarrow> None | Some xs \<Rightarrow> Some (x # xs)))"

fun dec_list :: "'a decoder \<Rightarrow> 'a \<Rightarrow> 'a list decoder" where
  "dec_list d z p JNull = Some []"
| "dec_list d z p (JArr js) = dec_all d z js"
| "dec_list d z p _ = None"

abbreviation dec_strings :: "string list decoder" where
  "dec_strings \<equiv> dec_list dec_string []"

fun dec_ptr :: "'a decoder \<Rightarrow> 'a \<Rightarrow> 'a option decoder" where
  "dec_ptr d z p JNull = Some None"
| "dec_ptr d z p j = map_option Some (d (case p of None \<Rightarrow> z | Some x \<Rightarrow> x) j)"

fun fld :: "string \<Rightarrow> 'a decoder \<Rightarrow> (string \<times> json) list \<Rightarrow> 'a \<Rightarrow> 'a option" where
  "fld n d [] p = Some p"
| "fld n d ((k, v) # o') p =
     (if EqualFold k n
      then (case d p v of None \<Rightarrow> None | Some p' \<Rightarrow> fld n d o' p')
      else fld n d o' p)"

text \<open>A struct is decoded from an object; \<open>null\<close> leaves it unchanged.\<close>

fun dec_struct :: "('a \<Rightarrow> (string \<times> json) list \<Rightarrow> 'a option) \<Rightarrow> 'a decoder" where
  "dec_struct f p JNull = Some p"
| "dec_struct f p (JObj o') = f p o'"
| "dec_struct f p _ = None"

definition unmarshal :: "'a decoder \<Rightarrow> 'a \<Rightarrow> jtext \<Rightarrow> 'a option" where
  "unmarshal d z t = (case t of Plain _ \<Rightarrow> None | Doc j \<Rightarrow> d z j)"

lemma unmarshal_simps [simp]:
  "unmarshal d z (Plain s) = None" "unmarshal d z (Doc j) = d z j"
  by (simp_all add: unmarshal_def)

lemma fld_append:
  "fld n d (o1 @ o2) p = (case fld n d o1 p of None \<Rightarrow> None | Some q \<Rightarrow> fld n d o2 q)"
  by (induction n d o1 p rule: fld.induct) (auto split: option.splits)

lemma fld_skip: "\<forall>kv\<in>set o'. \<not> EqualFold (fst kv) n \<Longrightarrow> fld n d o' p = Some p"
  by (induction o') auto

text \<open>A decoded integer fits its Go type.\<close>

lemma dec_int_range: "dec_int p j = Some i \<Longrightarrow> int64_min \<le> p \<Longrightarrow> p \<le> int64_max \<Longrightarrow> int64_min \<le> i \<and> i \<le> int64_max"
  by (cases j) (auto split: if_splits)

lemma fld_int_range: "fld k dec_int o' p = Some i \<Longrightarrow> int64_min \<le> p \<and> p \<le> int64_max \<Longrightarrow> int64_min \<le> i \<and> i \<le> int64_max"
proof (induction k "dec_int" o' p rule: fld.induct)
  case (2 n k v o' p)
  show ?case
  proof (cases "EqualFold k n")
    case True
    with 2 obtain p' where p': "dec_int p v = Some p'" "fld n dec_int o' p' = Some i" by (auto split: option.splits)
    then have "int64_min \<le> p' \<and> p' \<le> int64_max" using "2.prems"(2) by (cases v) (auto split: if_splits)
    with "2.hyps"(1) [OF True p'(1) p'(2)] show ?thesis .
  next
    case False
    with 2 show ?thesis by simp
  qed
qed simp

lemma fld_uint32_range: "fld k dec_uint32 o' p = Some i \<Longrightarrow> 0 \<le> p \<and> p < 2 ^ 32 \<Longrightarrow> 0 \<le> i \<and> i < 2 ^ 32"
proof (induction k "dec_uint32" o' p rule: fld.induct)
  case (2 n k v o' p)
  show ?case
  proof (cases "EqualFold k n")
    case True
    with 2 obtain p' where p': "dec_uint32 p v = Some p'" "fld n dec_uint32 o' p' = Some i" by (auto split: option.splits)
    then have "0 \<le> p' \<and> p' < 2 ^ 32" using "2.prems"(2) by (cases v) (auto split: if_splits)
    with "2.hyps"(1) [OF True p'(1) p'(2)] show ?thesis .
  next
    case False
    with 2 show ?thesis by simp
  qed
qed simp

text \<open>What holds of every decoded element holds of a decoded list.\<close>

lemma dec_all_each: "dec_all d z js = Some xs \<Longrightarrow> (\<And>j x. d z j = Some x \<Longrightarrow> Q x) \<Longrightarrow> list_all Q xs"
  by (induction js arbitrary: xs) (auto split: option.splits)

lemma fld_list_each:
  "fld n (dec_list d z) o' p = Some xs \<Longrightarrow> (\<And>j x. d z j = Some x \<Longrightarrow> Q x) \<Longrightarrow> list_all Q p \<Longrightarrow> list_all Q xs"
proof (induction o' arbitrary: p)
  case (Cons kv o')
  obtain k v where kv: "kv = (k, v)" by (cases kv)
  show ?case
  proof (cases "EqualFold k n")
    case True
    with Cons.prems(1) kv obtain q where q: "dec_list d z p v = Some q" "fld n (dec_list d z) o' q = Some xs"
      by (auto split: option.splits)
    have "list_all Q q" using q(1) dec_all_each [of d z _ q Q] Cons.prems(2) by (cases v) auto
    with Cons.IH q(2) Cons.prems(2) show ?thesis by blast
  next
    case False
    with Cons kv show ?thesis by auto
  qed
qed simp

section \<open>Encoding structs\<close>

text \<open>The members \<open>json.Marshal\<close> emits for fields tagged \<open>omitempty\<close>: none for a zero value.\<close>

definition omit_str :: "string \<Rightarrow> string \<Rightarrow> (string \<times> json) list" where
  "omit_str k s = (if s = [] then [] else [(k, JStr s)])"

definition omit_int :: "string \<Rightarrow> int \<Rightarrow> (string \<times> json) list" where
  "omit_int k i = (if i = 0 then [] else [(k, JInt i)])"

definition omit_strs :: "string \<Rightarrow> string list \<Rightarrow> (string \<times> json) list" where
  "omit_strs k ss = (if ss = [] then [] else [(k, JArr (map JStr ss))])"

lemma fld_omit_str_self: "fld k dec_string (omit_str k s) [] = Some s"
  by (simp add: omit_str_def)

lemma fld_omit_str_other: "\<not> EqualFold k n \<Longrightarrow> fld n d (omit_str k s) p = Some p"
  by (simp add: omit_str_def)

lemma fld_omit_int_other: "\<not> EqualFold k n \<Longrightarrow> fld n d (omit_int k i) p = Some p"
  by (simp add: omit_int_def)

lemma fld_omit_int_self:
  "int64_min \<le> i \<Longrightarrow> i \<le> int64_max \<Longrightarrow> fld k dec_int (omit_int k i) 0 = Some i"
  by (simp add: omit_int_def)

lemma fld_omit_uint32_self:
  "0 \<le> i \<Longrightarrow> i < 2 ^ 32 \<Longrightarrow> fld k dec_uint32 (omit_int k i) 0 = Some i"
  by (simp add: omit_int_def)

lemma dec_all_JStr [simp]: "dec_all dec_string [] (map JStr ss) = Some ss"
  by (induction ss) auto

lemma fld_omit_strs_self: "fld k dec_strings (omit_strs k ss) [] = Some ss"
  by (simp add: omit_strs_def)

lemma fld_omit_strs_other: "\<not> EqualFold k n \<Longrightarrow> fld n d (omit_strs k ss) p = Some p"
  by (simp add: omit_strs_def)

lemmas fld_omit = fld_omit_str_self fld_omit_str_other fld_omit_int_self fld_omit_int_other
  fld_omit_uint32_self fld_omit_strs_self fld_omit_strs_other

text \<open>Closed instances of \<open>EqualFold\<close> are evaluated by its definition and the lower-case forms
  of the field names, which each component adds to this collection.\<close>

named_theorems lower_name "lower-case forms of field names"

lemma lower_names_common [lower_name]:
  "ToLower ''id'' = ''id''" "ToLower ''type'' = ''type''" "ToLower ''tag'' = ''tag''"
  "ToLower ''port'' = ''port''" "ToLower ''protocol'' = ''protocol''"
  "ToLower ''network'' = ''network''" "ToLower ''settings'' = ''settings''"
  "ToLower ''email'' = ''email''" "ToLower ''password'' = ''password''"
  "ToLower ''clients'' = ''clients''"
  by code_simp+

end
