(* ===== verification/Models.thy ===== *)
theory Models
  imports Json
begin

text \<open>
  The shared data structures of \<^verbatim>\<open>internal/models\<close>. Columns and struct fields that hold JSON
  text have type \<^typ>\<open>jtext\<close>. A time is a number of nanoseconds.
\<close>

type_synonym time = int

abbreviation Second :: time where "Second \<equiv> 1000000000"
abbreviation Minute :: time where "Minute \<equiv> 60 * Second"
abbreviation Hour :: time where "Hour \<equiv> 60 * Minute"

record user =
  u_ID :: int
  u_Username :: string
  u_Email :: string
  u_Token :: string
  u_FallbackToken :: string
  u_FallbackAccessedAt :: "time option"
  u_Enabled :: bool
  u_Hy2Enabled :: bool
  u_ClientRoutes :: jtext
  u_CreatedAt :: time
  u_UpdatedAt :: time

definition ClientIdentity :: "user option \<Rightarrow> string" where
  "ClientIdentity u = (case u of
     None \<Rightarrow> []
   | Some u \<Rightarrow>
       (let e = TrimSpace (u_Email u)
        in if e \<noteq> [] then e else TrimSpace (u_Username u)))"

record inbound =
  ib_ID :: int
  ib_Tag :: string
  ib_Protocol :: string
  ib_Port :: int
  ib_ConfigFile :: string
  ib_RawConfig :: jtext
  ib_UpdatedAt :: time

record node =
  n_ID :: int
  n_Name :: string
  n_APIAddr :: string
  n_InboundTag :: string
  n_PublicHost :: string
  n_PublicPort :: int
  n_Enabled :: bool
  n_CreatedAt :: time

record wanted_client =
  w_Email :: string
  w_ClientConfig :: jtext

record user_client =
  uc_ID :: int
  uc_UserID :: int
  uc_InboundID :: int
  uc_ClientConfig :: jtext
  uc_Enabled :: bool

record user_client_full = user_client +
  f_InboundTag :: string
  f_InboundProtocol :: string
  f_InboundPort :: int
  f_InboundRaw :: jtext
  f_NodeName :: string
  f_NodeHost :: string
  f_NodePort :: int

record inbound_spec =
  is_Tag :: string
  is_Protocol :: string

record emergency_profile =
  ep_ID :: int
  ep_Name :: string
  ep_Description :: string
  ep_InboundTags :: "string list"
  ep_CreatedAt :: time
  ep_UpdatedAt :: time

record emergency_status =
  es_Active :: bool
  es_ProfileID :: "int option"
  es_Profile :: "emergency_profile option"
  es_ActivatedAt :: "time option"

record user_route_rule =
  rr_ID :: string
  rr_Type :: string
  rr_OutboundTag :: string
  rr_Domain :: "string list"
  rr_IP :: "string list"
  rr_Network :: string
  rr_Port :: string
  rr_Protocol :: "string list"
  rr_InboundTag :: "string list"

definition zero_route_rule :: user_route_rule where
  "zero_route_rule = \<lparr>rr_ID = [], rr_Type = [], rr_OutboundTag = [], rr_Domain = [], rr_IP = [],
     rr_Network = [], rr_Port = [], rr_Protocol = [], rr_InboundTag = []\<rparr>"

text \<open>Decoding and encoding of a routing rule with the JSON names of the struct tags.\<close>

definition dec_route_rule :: "user_route_rule decoder" where
  "dec_route_rule = dec_struct (\<lambda>p o'.
     Option.bind (fld ''id'' dec_string o' (rr_ID p)) (\<lambda>i.
     Option.bind (fld ''type'' dec_string o' (rr_Type p)) (\<lambda>ty.
     Option.bind (fld ''outboundTag'' dec_string o' (rr_OutboundTag p)) (\<lambda>ot.
     Option.bind (fld ''domain'' dec_strings o' (rr_Domain p)) (\<lambda>dm.
     Option.bind (fld ''ip'' dec_strings o' (rr_IP p)) (\<lambda>ip.
     Option.bind (fld ''network'' dec_string o' (rr_Network p)) (\<lambda>nw.
     Option.bind (fld ''port'' dec_string o' (rr_Port p)) (\<lambda>pt.
     Option.bind (fld ''protocol'' dec_strings o' (rr_Protocol p)) (\<lambda>pr.
     Option.bind (fld ''inboundTag'' dec_strings o' (rr_InboundTag p)) (\<lambda>it.
     Some \<lparr>rr_ID = i, rr_Type = ty, rr_OutboundTag = ot, rr_Domain = dm, rr_IP = ip,
           rr_Network = nw, rr_Port = pt, rr_Protocol = pr, rr_InboundTag = it\<rparr>))))))))))"

definition enc_route_rule :: "user_route_rule \<Rightarrow> json" where
  "enc_route_rule r = JObj
     (omit_str ''id'' (rr_ID r) @ omit_str ''type'' (rr_Type r) @
      [(''outboundTag'', JStr (rr_OutboundTag r))] @
      omit_strs ''domain'' (rr_Domain r) @ omit_strs ''ip'' (rr_IP r) @
      omit_str ''network'' (rr_Network r) @ omit_str ''port'' (rr_Port r) @
      omit_strs ''protocol'' (rr_Protocol r) @ omit_strs ''inboundTag'' (rr_InboundTag r))"

definition dec_route_rules :: "user_route_rule list decoder" where
  "dec_route_rules = dec_list dec_route_rule zero_route_rule"

definition enc_route_rules :: "user_route_rule list \<Rightarrow> json" where
  "enc_route_rules rs = JArr (map enc_route_rule rs)"

lemma lower_names_route [lower_name]:
  "ToLower ''outboundTag'' = ''outboundtag''" "ToLower ''domain'' = ''domain''"
  "ToLower ''ip'' = ''ip''" "ToLower ''inboundTag'' = ''inboundtag''"
  by code_simp+

lemma dec_enc_route_rule: "dec_route_rule zero_route_rule (enc_route_rule r) = Some r"
  by (cases r)
     (simp add: dec_route_rule_def enc_route_rule_def zero_route_rule_def fld_append fld_omit
        EqualFold_def lower_name)

lemma dec_enc_route_rules: "dec_route_rules p (enc_route_rules rs) = Some rs"
proof -
  have "dec_all dec_route_rule zero_route_rule (map enc_route_rule rs) = Some rs"
    by (induction rs) (auto simp: dec_enc_route_rule)
  then show ?thesis by (simp add: dec_route_rules_def enc_route_rules_def)
qed

end
