(* ===== verification/Database.thy ===== *)
theory Database
  imports Models
begin

text \<open>
  \<^verbatim>\<open>internal/database/database.go\<close>: the SQLite tables as lists of rows in rowid order, one
  definition per method of \<open>DB\<close>. The SQL statements are translated with the constraints of
  the schema (\<open>UNIQUE\<close>, \<open>REFERENCES ... ON DELETE CASCADE\<close>, \<open>AUTOINCREMENT\<close>). A method that
  returns an error leaves the tables as they were, except \<open>AssignUserToNodes\<close>,
  \<open>ReconcileNodes\<close> and \<open>ActivateEmergency\<close>, which run several statements. \<open>conn_ok\<close> tells
  whether the connection works: when it does not, every statement fails. An upsert that updates a row
  leaves the counter of the table as it is; SQLite may skip a number there.
\<close>

section \<open>Tables\<close>

record user_row =
  row_id :: int
  row_username :: string
  row_email :: string
  row_token :: string
  row_fallback_token :: "string option"
  row_fallback_accessed_at :: "time option"
  row_enabled :: bool
  row_client_routes :: jtext
  row_hy2_enabled :: bool
  row_created_at :: time
  row_updated_at :: time

text \<open>A value of \<open>app_settings\<close>: plain text, a JSON text, or an RFC 3339 time stamp, which
  keeps whole seconds.\<close>

datatype setting = SText string | SJson jtext | SStamp int

record profile_row =
  pr_id :: int
  pr_name :: string
  pr_description :: string
  pr_inbound_tags :: jtext
  pr_created_at :: time
  pr_updated_at :: time

record db =
  conn_ok :: bool
  users :: "user_row list"
  users_seq :: int
  inbounds :: "inbound list"
  inbounds_seq :: int
  user_clients :: "user_client list"
  user_clients_seq :: int
  app_settings :: "(string \<times> setting) list"
  emergency_profiles :: "profile_row list"
  emergency_profiles_seq :: int
  nodes :: "node list"
  nodes_seq :: int
  user_nodes :: "(int \<times> int) list"

datatype db_err =
    DBUnavailable
  | UniqueConstraint string
  | ForeignKeyConstraint
  | NoRows
  | BadJSON

definition empty_db :: db where
  "empty_db = \<lparr>conn_ok = True, users = [], users_seq = 0, inbounds = [], inbounds_seq = 0,
     user_clients = [], user_clients_seq = 0, app_settings = [], emergency_profiles = [],
     emergency_profiles_seq = 0, nodes = [], nodes_seq = 0, user_nodes = []\<rparr>"

text \<open>Opening a database runs the migrations: the tables exist already or are created empty,
  and users without an email get their username. SQLite's \<open>trim\<close> removes spaces only.\<close>

definition sql_trim :: "string \<Rightarrow> string" where
  "sql_trim s = rev (dropWhile (\<lambda>c. c = CHR '' '') (rev (dropWhile (\<lambda>c. c = CHR '' '') s)))"

definition migrate :: "db \<Rightarrow> db" where
  "migrate db = db\<lparr>users := update_where (\<lambda>r. sql_trim (row_email r) = [])
     (\<lambda>r. r\<lparr>row_email := row_username r\<rparr>) (users db)\<rparr>"

definition with_conn :: "db \<Rightarrow> 'a \<Rightarrow> db_err + 'a" where
  "with_conn db x = (if conn_ok db then Inr x else Inl DBUnavailable)"

section \<open>Users\<close>

definition scanUser :: "user_row \<Rightarrow> user" where
  "scanUser r = \<lparr>u_ID = row_id r, u_Username = row_username r,
     u_Email = (if TrimSpace (row_email r) = [] then row_username r else row_email r),
     u_Token = row_token r,
     u_FallbackToken = (case row_fallback_token r of None \<Rightarrow> [] | Some t \<Rightarrow> t),
     u_FallbackAccessedAt = row_fallback_accessed_at r,
     u_Enabled = row_enabled r, u_Hy2Enabled = row_hy2_enabled r,
     u_ClientRoutes = row_client_routes r,
     u_CreatedAt = row_created_at r, u_UpdatedAt = row_updated_at r\<rparr>"

definition CreateUser ::
  "time \<Rightarrow> string \<Rightarrow> string \<Rightarrow> string \<Rightarrow> string \<Rightarrow> db \<Rightarrow> db_err + (db \<times> user)" where
  "CreateUser now username email token fallbackToken db =
     (let username = TrimSpace username;
          email = TrimSpace email;
          email = (if email = [] then username else email);
          fallbackToken = TrimSpace fallbackToken;
          fallbackArg = (if fallbackToken \<noteq> [] then Some fallbackToken else None)
      in if \<not> conn_ok db then Inl DBUnavailable
         else if list_ex (\<lambda>r. row_username r = username) (users db)
           then Inl (UniqueConstraint ''users.username'')
         else if list_ex (\<lambda>r. row_token r = token) (users db)
           then Inl (UniqueConstraint ''users.token'')
         else if fallbackArg \<noteq> None \<and> list_ex (\<lambda>r. row_fallback_token r = fallbackArg) (users db)
           then Inl (UniqueConstraint ''users.fallback_token'')
         else
           (let i = users_seq db + 1
            in Inr (db\<lparr>users := users db @
                       [\<lparr>row_id = i, row_username = username, row_email = email,
                         row_token = token, row_fallback_token = fallbackArg,
                         row_fallback_accessed_at = None, row_enabled = True,
                         row_client_routes = Doc (JArr []), row_hy2_enabled = True,
                         row_created_at = now, row_updated_at = now\<rparr>],
                     users_seq := i\<rparr>,
                    \<lparr>u_ID = i, u_Username = username, u_Email = email, u_Token = token,
                     u_FallbackToken = fallbackToken, u_FallbackAccessedAt = None,
                     u_Enabled = True, u_Hy2Enabled = True, u_ClientRoutes = Plain [],
                     u_CreatedAt = now, u_UpdatedAt = now\<rparr>)))"

text \<open>\<open>UPDATE users SET ... WHERE id = ?\<close>: no row matches is not an error.\<close>

definition update_user :: "int \<Rightarrow> (user_row \<Rightarrow> user_row) \<Rightarrow> db \<Rightarrow> db" where
  "update_user userID f db = db\<lparr>users := update_where (\<lambda>r. row_id r = userID) f (users db)\<rparr>"

definition SetUserHy2Enabled :: "time \<Rightarrow> int \<Rightarrow> bool \<Rightarrow> db \<Rightarrow> db_err + db" where
  "SetUserHy2Enabled now userID enabled db = with_conn db (update_user userID
     (\<lambda>r. r\<lparr>row_hy2_enabled := enabled, row_updated_at := now\<rparr>) db)"

definition find_user :: "(user_row \<Rightarrow> bool) \<Rightarrow> db \<Rightarrow> db_err + user option" where
  "find_user P db = with_conn db (map_option scanUser (find P (users db)))"

definition GetUserByToken :: "string \<Rightarrow> db \<Rightarrow> db_err + user option" where
  "GetUserByToken token = find_user (\<lambda>r. row_token r = token)"

definition GetUserByFallbackToken :: "string \<Rightarrow> db \<Rightarrow> db_err + user option" where
  "GetUserByFallbackToken token db =
     (if token = [] then Inr None else find_user (\<lambda>r. row_fallback_token r = Some token) db)"

definition GetUserByUsername :: "string \<Rightarrow> db \<Rightarrow> db_err + user option" where
  "GetUserByUsername username = find_user (\<lambda>r. row_username r = username)"

definition GetUserByID :: "int \<Rightarrow> db \<Rightarrow> db_err + user option" where
  "GetUserByID i = find_user (\<lambda>r. row_id r = i)"

text \<open>\<open>LIMIT\<close> and \<open>OFFSET\<close> as the two paginated queries build them.\<close>

definition paginate :: "int \<Rightarrow> int \<Rightarrow> 'a list \<Rightarrow> 'a list" where
  "paginate limit offset rows =
     (if limit > 0 then take (nat limit) (drop (nat (if offset < 0 then 0 else offset)) rows)
      else if offset > 0 then drop (nat offset) rows
      else rows)"

definition ListUsersPaginated :: "int \<Rightarrow> int \<Rightarrow> db \<Rightarrow> db_err + user list" where
  "ListUsersPaginated limit offset db =
     with_conn db (map scanUser (paginate limit offset (sort_key row_created_at (users db))))"

definition ListUsers :: "db \<Rightarrow> db_err + user list" where
  "ListUsers = ListUsersPaginated 0 0"

definition CountUsers :: "db \<Rightarrow> db_err + nat" where
  "CountUsers db = with_conn db (length (users db))"

definition UpdateUserToken :: "time \<Rightarrow> int \<Rightarrow> string \<Rightarrow> db \<Rightarrow> db_err + db" where
  "UpdateUserToken now userID token db =
     (if \<not> conn_ok db then Inl DBUnavailable
      else if list_ex (\<lambda>r. row_id r = userID) (users db) \<and>
              list_ex (\<lambda>r. row_id r \<noteq> userID \<and> row_token r = token) (users db)
        then Inl (UniqueConstraint ''users.token'')
      else Inr (update_user userID (\<lambda>r. r\<lparr>row_token := token, row_updated_at := now\<rparr>) db))"

definition UpdateFallbackToken :: "time \<Rightarrow> int \<Rightarrow> string \<Rightarrow> db \<Rightarrow> db_err + db" where
  "UpdateFallbackToken now userID fallbackToken db =
     (if \<not> conn_ok db then Inl DBUnavailable
      else if list_ex (\<lambda>r. row_id r = userID) (users db) \<and>
              list_ex (\<lambda>r. row_id r \<noteq> userID \<and> row_fallback_token r = Some fallbackToken) (users db)
        then Inl (UniqueConstraint ''users.fallback_token'')
      else Inr (update_user userID
             (\<lambda>r. r\<lparr>row_fallback_token := Some fallbackToken, row_updated_at := now\<rparr>) db))"

definition SetFallbackAccessedAt :: "int \<Rightarrow> time \<Rightarrow> db \<Rightarrow> db_err + db" where
  "SetFallbackAccessedAt userID t db =
     with_conn db (update_user userID (\<lambda>r. r\<lparr>row_fallback_accessed_at := Some t\<rparr>) db)"

definition SetUserEnabled :: "time \<Rightarrow> int \<Rightarrow> bool \<Rightarrow> db \<Rightarrow> db_err + db" where
  "SetUserEnabled now userID enabled db =
     with_conn db (update_user userID (\<lambda>r. r\<lparr>row_enabled := enabled, row_updated_at := now\<rparr>) db)"

definition DeleteUser :: "int \<Rightarrow> db \<Rightarrow> db_err + db" where
  "DeleteUser i db =
     with_conn db (db\<lparr>users := delete_where (\<lambda>r. row_id r = i) (users db),
       user_clients := delete_where (\<lambda>c. uc_UserID c = i) (user_clients db),
       user_nodes := delete_where (\<lambda>un. fst un = i) (user_nodes db)\<rparr>)"

definition UpdateUserClientRoutes :: "time \<Rightarrow> int \<Rightarrow> jtext \<Rightarrow> db \<Rightarrow> db_err + db" where
  "UpdateUserClientRoutes now userID routesJSON db = with_conn db (update_user userID
     (\<lambda>r. r\<lparr>row_client_routes := routesJSON, row_updated_at := now\<rparr>) db)"

section \<open>Settings\<close>

definition get_setting :: "string \<Rightarrow> db \<Rightarrow> setting option" where
  "get_setting key db = map_of (app_settings db) key"

text \<open>\<open>INSERT ... ON CONFLICT(key) DO UPDATE SET value = excluded.value\<close>.\<close>

definition put_setting :: "string \<Rightarrow> setting \<Rightarrow> db \<Rightarrow> db" where
  "put_setting key val db = db\<lparr>app_settings :=
     (if list_ex (\<lambda>kv. fst kv = key) (app_settings db)
      then update_where (\<lambda>kv. fst kv = key) (\<lambda>kv. (fst kv, val)) (app_settings db)
      else app_settings db @ [(key, val)])\<rparr>"

definition del_settings :: "string list \<Rightarrow> db \<Rightarrow> db" where
  "del_settings ks db =
     db\<lparr>app_settings := delete_where (\<lambda>kv. fst kv \<in> set ks) (app_settings db)\<rparr>"

definition GetFallbackEnabled :: "db \<Rightarrow> db_err + bool" where
  "GetFallbackEnabled db = with_conn db
     (case get_setting ''fallback_enabled'' db of
        None \<Rightarrow> True | Some val \<Rightarrow> val \<noteq> SText ''false'')"

definition SetFallbackEnabled :: "bool \<Rightarrow> db \<Rightarrow> db_err + db" where
  "SetFallbackEnabled enabled db = with_conn db
     (put_setting ''fallback_enabled'' (SText (if enabled then ''true'' else ''false'')) db)"

definition blank_setting :: "setting \<Rightarrow> bool" where
  "blank_setting v = (case v of SText s \<Rightarrow> TrimSpace s = [] | SJson t \<Rightarrow> blank_text t | SStamp _ \<Rightarrow> False)"

definition setting_text :: "setting \<Rightarrow> jtext" where
  "setting_text v = (case v of SText s \<Rightarrow> Plain s | SJson t \<Rightarrow> t | SStamp _ \<Rightarrow> Plain ''timestamp'')"

definition GetGlobalClientRoutes :: "db \<Rightarrow> db_err + jtext" where
  "GetGlobalClientRoutes db = with_conn db
     (case get_setting ''global_client_routes'' db of
        None \<Rightarrow> Doc (JArr [])
      | Some v \<Rightarrow> if blank_setting v then Doc (JArr []) else setting_text v)"

definition UpdateGlobalClientRoutes :: "jtext \<Rightarrow> db \<Rightarrow> db_err + db" where
  "UpdateGlobalClientRoutes routesJSON db =
     with_conn db (put_setting ''global_client_routes'' (SJson routesJSON) db)"

record balancer_runtime_config =
  brc_Strategy :: string
  brc_ProbeURL :: string
  brc_ProbeInterval :: string

definition dec_balancer :: "balancer_runtime_config decoder" where
  "dec_balancer = dec_struct (\<lambda>p o'.
     Option.bind (fld ''strategy'' dec_string o' (brc_Strategy p)) (\<lambda>s.
     Option.bind (fld ''probe_url'' dec_string o' (brc_ProbeURL p)) (\<lambda>u.
     Option.bind (fld ''probe_interval'' dec_string o' (brc_ProbeInterval p)) (\<lambda>i.
     Some \<lparr>brc_Strategy = s, brc_ProbeURL = u, brc_ProbeInterval = i\<rparr>))))"

definition enc_balancer :: "balancer_runtime_config \<Rightarrow> json" where
  "enc_balancer c = JObj [(''strategy'', JStr (brc_Strategy c)),
     (''probe_url'', JStr (brc_ProbeURL c)), (''probe_interval'', JStr (brc_ProbeInterval c))]"

definition zero_balancer :: balancer_runtime_config where
  "zero_balancer = \<lparr>brc_Strategy = [], brc_ProbeURL = [], brc_ProbeInterval = []\<rparr>"

definition GetBalancerRuntimeConfig :: "db \<Rightarrow> db_err + balancer_runtime_config option" where
  "GetBalancerRuntimeConfig db =
     (if \<not> conn_ok db then Inl DBUnavailable
      else case get_setting ''balancer_runtime_config'' db of
        None \<Rightarrow> Inr None
      | Some raw \<Rightarrow>
          (case unmarshal dec_balancer zero_balancer (setting_text raw) of
             None \<Rightarrow> Inl BadJSON
           | Some cfg \<Rightarrow> Inr (Some cfg)))"

definition SetBalancerRuntimeConfig :: "balancer_runtime_config \<Rightarrow> db \<Rightarrow> db_err + db" where
  "SetBalancerRuntimeConfig cfg db =
     with_conn db (put_setting ''balancer_runtime_config'' (SJson (Doc (enc_balancer cfg))) db)"

definition DeleteBalancerRuntimeConfig :: "db \<Rightarrow> db_err + db" where
  "DeleteBalancerRuntimeConfig db = with_conn db (del_settings [''balancer_runtime_config''] db)"

section \<open>Inbounds\<close>

definition UpsertInbound ::
  "time \<Rightarrow> string \<Rightarrow> string \<Rightarrow> int \<Rightarrow> string \<Rightarrow> jtext \<Rightarrow> db \<Rightarrow> db_err + (db \<times> int)" where
  "UpsertInbound now tag protocol port configFile rawConfig db =
     (if \<not> conn_ok db then Inl DBUnavailable
      else
        (let db' =
           (if list_ex (\<lambda>ib. ib_Tag ib = tag) (inbounds db)
            then db\<lparr>inbounds := update_where (\<lambda>ib. ib_Tag ib = tag)
                   (\<lambda>ib. ib\<lparr>ib_Protocol := protocol, ib_Port := port, ib_ConfigFile := configFile,
                            ib_RawConfig := rawConfig, ib_UpdatedAt := now\<rparr>) (inbounds db)\<rparr>
            else db\<lparr>inbounds := inbounds db @
                   [\<lparr>ib_ID = inbounds_seq db + 1, ib_Tag = tag, ib_Protocol = protocol,
                     ib_Port = port, ib_ConfigFile = configFile, ib_RawConfig = rawConfig,
                     ib_UpdatedAt = now\<rparr>],
                   inbounds_seq := inbounds_seq db + 1\<rparr>)
         in case find (\<lambda>ib. ib_Tag ib = tag) (inbounds db') of
              None \<Rightarrow> Inl NoRows
            | Some ib \<Rightarrow> Inr (db', ib_ID ib)))"

definition ListInboundsPaginated :: "int \<Rightarrow> int \<Rightarrow> db \<Rightarrow> db_err + inbound list" where
  "ListInboundsPaginated limit offset db =
     with_conn db (paginate limit offset (sort_key ib_Tag (inbounds db)))"

definition ListInbounds :: "db \<Rightarrow> db_err + inbound list" where
  "ListInbounds = ListInboundsPaginated 0 0"

definition GetInboundByTag :: "string \<Rightarrow> db \<Rightarrow> db_err + inbound option" where
  "GetInboundByTag tag db = with_conn db (find (\<lambda>ib. ib_Tag ib = tag) (inbounds db))"

definition CountInbounds :: "db \<Rightarrow> db_err + nat" where
  "CountInbounds db = with_conn db (length (inbounds db))"

text \<open>\<open>DELETE FROM inbounds WHERE ...\<close> removes the client rows of the inbounds with it.\<close>

definition delete_inbounds :: "(inbound \<Rightarrow> bool) \<Rightarrow> db \<Rightarrow> db" where
  "delete_inbounds P db =
     db\<lparr>inbounds := delete_where P (inbounds db),
        user_clients := delete_where
          (\<lambda>c. list_ex (\<lambda>ib. P ib \<and> ib_ID ib = uc_InboundID c) (inbounds db)) (user_clients db)\<rparr>"

definition DeleteInboundsByFile :: "string \<Rightarrow> db \<Rightarrow> db_err + db" where
  "DeleteInboundsByFile configFile db =
     with_conn db (delete_inbounds (\<lambda>ib. ib_ConfigFile ib = configFile) db)"

definition GetInboundTagsNotInFile :: "string \<Rightarrow> string list \<Rightarrow> db \<Rightarrow> db_err + string list" where
  "GetInboundTagsNotInFile configFile presentTags db = with_conn db
     (if presentTags = []
      then map ib_Tag (filter (\<lambda>ib. ib_ConfigFile ib = configFile) (inbounds db))
      else map ib_Tag (filter (\<lambda>ib. ib_ConfigFile ib = configFile \<and> ib_Tag ib \<notin> set presentTags)
             (inbounds db)))"

definition DeleteInboundByTag :: "string \<Rightarrow> db \<Rightarrow> db_err + db" where
  "DeleteInboundByTag tag db = with_conn db (delete_inbounds (\<lambda>ib. ib_Tag ib = tag) db)"

section \<open>User clients\<close>

definition UpsertUserClient :: "int \<Rightarrow> int \<Rightarrow> jtext \<Rightarrow> db \<Rightarrow> db_err + db" where
  "UpsertUserClient userID inboundID clientConfig db =
     (if \<not> conn_ok db then Inl DBUnavailable
      else if list_ex (\<lambda>c. uc_UserID c = userID \<and> uc_InboundID c = inboundID) (user_clients db)
        then Inr (db\<lparr>user_clients :=
               update_where (\<lambda>c. uc_UserID c = userID \<and> uc_InboundID c = inboundID)
                 (\<lambda>c. c\<lparr>uc_ClientConfig := clientConfig\<rparr>) (user_clients db)\<rparr>)
      else if \<not> list_ex (\<lambda>r. row_id r = userID) (users db) \<or>
              \<not> list_ex (\<lambda>ib. ib_ID ib = inboundID) (inbounds db)
        then Inl ForeignKeyConstraint
      else Inr (db\<lparr>user_clients := user_clients db @
               [\<lparr>uc_ID = user_clients_seq db + 1, uc_UserID = userID, uc_InboundID = inboundID,
                 uc_ClientConfig = clientConfig, uc_Enabled = True\<rparr>],
               user_clients_seq := user_clients_seq db + 1\<rparr>))"

definition join_client :: "user_client \<Rightarrow> inbound \<Rightarrow> user_client_full" where
  "join_client c ib = \<lparr>uc_ID = uc_ID c, uc_UserID = uc_UserID c, uc_InboundID = uc_InboundID c,
     uc_ClientConfig = uc_ClientConfig c, uc_Enabled = uc_Enabled c,
     f_InboundTag = ib_Tag ib, f_InboundProtocol = ib_Protocol ib, f_InboundPort = ib_Port ib,
     f_InboundRaw = ib_RawConfig ib, f_NodeName = [], f_NodeHost = [], f_NodePort = 0\<rparr>"

text \<open>\<open>user_clients uc JOIN inbounds ib ON ib.id = uc.inbound_id\<close>.\<close>

definition clients_join :: "db \<Rightarrow> user_client list \<Rightarrow> user_client_full list" where
  "clients_join db cs = concat (map (\<lambda>c. map (join_client c)
     (filter (\<lambda>ib. ib_ID ib = uc_InboundID c) (inbounds db))) cs)"

definition GetUserClients :: "int \<Rightarrow> db \<Rightarrow> db_err + user_client_full list" where
  "GetUserClients userID db = with_conn db (sort_key f_InboundTag (clients_join db
     (filter (\<lambda>c. uc_UserID c = userID \<and> uc_Enabled c) (user_clients db))))"

definition GetAllUserClients :: "int \<Rightarrow> db \<Rightarrow> db_err + user_client_full list" where
  "GetAllUserClients userID db = with_conn db (sort_key f_InboundTag (clients_join db
     (filter (\<lambda>c. uc_UserID c = userID) (user_clients db))))"

definition GetUserClientByUserAndInbound :: "int \<Rightarrow> int \<Rightarrow> db \<Rightarrow> db_err + (string \<times> jtext)" where
  "GetUserClientByUserAndInbound userID inboundID db = with_conn db
     (case clients_join db (filter (\<lambda>c. uc_UserID c = userID \<and> uc_InboundID c = inboundID)
             (user_clients db)) of
        [] \<Rightarrow> ([], Plain [])
      | c # _ \<Rightarrow> (f_InboundTag c, uc_ClientConfig c))"

definition SetUserClientEnabled :: "int \<Rightarrow> int \<Rightarrow> bool \<Rightarrow> db \<Rightarrow> db_err + db" where
  "SetUserClientEnabled userID inboundID enabled db = with_conn db
     (db\<lparr>user_clients := update_where (\<lambda>c. uc_UserID c = userID \<and> uc_InboundID c = inboundID)
        (\<lambda>c. c\<lparr>uc_Enabled := enabled\<rparr>) (user_clients db)\<rparr>)"

definition ListUserClients :: "db \<Rightarrow> db_err + user_client_full list" where
  "ListUserClients db = with_conn db
     (sort_key uc_UserID (sort_key f_InboundTag (clients_join db (user_clients db))))"

definition DeleteUserClientsByInbound :: "int \<Rightarrow> db \<Rightarrow> db_err + db" where
  "DeleteUserClientsByInbound inboundID db = with_conn db
     (db\<lparr>user_clients := delete_where (\<lambda>c. uc_InboundID c = inboundID) (user_clients db)\<rparr>)"

record user_client_for_inbound =
  ci_Username :: string
  ci_Email :: string
  ci_ClientConfig :: jtext
  ci_Protocol :: string

definition XrayClientEmail :: "user_client_for_inbound \<Rightarrow> string" where
  "XrayClientEmail r =
     (if TrimSpace (ci_Email r) \<noteq> [] then TrimSpace (ci_Email r) else TrimSpace (ci_Username r))"

definition ListUserClientsByInboundTag :: "string \<Rightarrow> db \<Rightarrow> db_err + user_client_for_inbound list" where
  "ListUserClientsByInboundTag tag db = with_conn db
     (sort_key ci_Username
       (concat (map (\<lambda>c. concat (map (\<lambda>u. map (\<lambda>ib.
          \<lparr>ci_Username = row_username u,
           ci_Email = (if TrimSpace (row_email u) = [] then row_username u else row_email u),
           ci_ClientConfig = uc_ClientConfig c, ci_Protocol = ib_Protocol ib\<rparr>)
          (filter (\<lambda>ib. ib_ID ib = uc_InboundID c \<and> ib_Tag ib = tag) (inbounds db)))
          (filter (\<lambda>u. row_id u = uc_UserID c \<and> row_enabled u) (users db))))
        (filter uc_Enabled (user_clients db)))))"

section \<open>Emergency profiles and status\<close>

definition tags_json :: "string list \<Rightarrow> jtext" where
  "tags_json tags = Doc (JArr (map JStr tags))"

definition CreateEmergencyProfile ::
  "time \<Rightarrow> string \<Rightarrow> string \<Rightarrow> string list \<Rightarrow> db \<Rightarrow> db_err + (db \<times> emergency_profile)" where
  "CreateEmergencyProfile now name description inboundTags db =
     (if \<not> conn_ok db then Inl DBUnavailable
      else if list_ex (\<lambda>p. pr_name p = name) (emergency_profiles db)
        then Inl (UniqueConstraint ''emergency_profiles.name'')
      else
        (let i = emergency_profiles_seq db + 1
         in Inr (db\<lparr>emergency_profiles := emergency_profiles db @
                    [\<lparr>pr_id = i, pr_name = name, pr_description = description,
                      pr_inbound_tags = tags_json inboundTags,
                      pr_created_at = now, pr_updated_at = now\<rparr>],
                    emergency_profiles_seq := i\<rparr>,
                 \<lparr>ep_ID = i, ep_Name = name, ep_Description = description,
                  ep_InboundTags = inboundTags, ep_CreatedAt = now, ep_UpdatedAt = now\<rparr>)))"

definition scanProfile :: "profile_row \<Rightarrow> db_err + emergency_profile" where
  "scanProfile r = (case unmarshal dec_strings [] (pr_inbound_tags r) of
     None \<Rightarrow> Inl BadJSON
   | Some tags \<Rightarrow> Inr \<lparr>ep_ID = pr_id r, ep_Name = pr_name r, ep_Description = pr_description r,
       ep_InboundTags = tags, ep_CreatedAt = pr_created_at r, ep_UpdatedAt = pr_updated_at r\<rparr>)"

definition GetEmergencyProfile :: "int \<Rightarrow> db \<Rightarrow> db_err + emergency_profile option" where
  "GetEmergencyProfile i db =
     (if \<not> conn_ok db then Inl DBUnavailable
      else case find (\<lambda>p. pr_id p = i) (emergency_profiles db) of
        None \<Rightarrow> Inr None
      | Some r \<Rightarrow> map_sum id Some (scanProfile r))"

fun scanProfiles :: "profile_row list \<Rightarrow> db_err + emergency_profile list" where
  "scanProfiles [] = Inr []"
| "scanProfiles (r # rs) = (case scanProfile r of Inl e \<Rightarrow> Inl e
     | Inr p \<Rightarrow> (case scanProfiles rs of Inl e \<Rightarrow> Inl e | Inr ps \<Rightarrow> Inr (p # ps)))"

definition ListEmergencyProfiles :: "db \<Rightarrow> db_err + emergency_profile list" where
  "ListEmergencyProfiles db =
     (if \<not> conn_ok db then Inl DBUnavailable
      else scanProfiles (sort_key pr_name (emergency_profiles db)))"

definition UpdateEmergencyProfile ::
  "time \<Rightarrow> int \<Rightarrow> string \<Rightarrow> string \<Rightarrow> string list \<Rightarrow> db \<Rightarrow> db_err + (db \<times> emergency_profile option)" where
  "UpdateEmergencyProfile now i name description inboundTags db =
     (if \<not> conn_ok db then Inl DBUnavailable
      else if list_ex (\<lambda>p. pr_id p = i) (emergency_profiles db) \<and>
              list_ex (\<lambda>p. pr_id p \<noteq> i \<and> pr_name p = name) (emergency_profiles db)
        then Inl (UniqueConstraint ''emergency_profiles.name'')
      else if \<not> list_ex (\<lambda>p. pr_id p = i) (emergency_profiles db) then Inr (db, None)
      else Inr (db\<lparr>emergency_profiles := update_where (\<lambda>p. pr_id p = i)
                   (\<lambda>p. p\<lparr>pr_name := name, pr_description := description,
                          pr_inbound_tags := tags_json inboundTags, pr_updated_at := now\<rparr>)
                   (emergency_profiles db)\<rparr>,
                Some \<lparr>ep_ID = i, ep_Name = name, ep_Description = description,
                      ep_InboundTags = inboundTags, ep_CreatedAt = 0, ep_UpdatedAt = now\<rparr>))"

definition DeleteEmergencyProfile :: "int \<Rightarrow> db \<Rightarrow> db_err + db" where
  "DeleteEmergencyProfile i db = with_conn db
     (db\<lparr>emergency_profiles := delete_where (\<lambda>p. pr_id p = i) (emergency_profiles db)\<rparr>)"

text \<open>\<open>fmt.Sscanf(s, "%d", &i)\<close>: skips leading spaces, reads an optional sign and the longest
  run of digits; what follows them is not looked at.\<close>

definition Sscanf_d :: "string \<Rightarrow> int option" where
  "Sscanf_d s =
     (let s = dropWhile is_space s;
          (sign, body) = (case s of [] \<Rightarrow> ([], [])
             | c # cs \<Rightarrow> if c = CHR ''-'' \<or> c = CHR ''+'' then ([c], cs) else ([], s))
      in ParseInt (sign @ takeWhile (\<lambda>c. digit_val c \<noteq> None) body))"

definition GetEmergencyStatus :: "db \<Rightarrow> db_err + emergency_status" where
  "GetEmergencyStatus db =
     (let inactive = \<lparr>es_Active = False, es_ProfileID = None, es_Profile = None, es_ActivatedAt = None\<rparr>
      in if \<not> conn_ok db then Inl DBUnavailable
         else case get_setting ''emergency_active'' db of
           None \<Rightarrow> Inr inactive
         | Some v \<Rightarrow>
             (if v \<noteq> SText ''true'' then Inr inactive
              else
                (let pid = (case get_setting ''emergency_profile_id'' db of
                              Some (SText s) \<Rightarrow> if s \<noteq> [] then Sscanf_d s else None
                            | _ \<Rightarrow> None);
                     prof = (case pid of None \<Rightarrow> None
                             | Some i \<Rightarrow> (case GetEmergencyProfile i db of Inl _ \<Rightarrow> None | Inr p \<Rightarrow> p));
                     at = (case get_setting ''emergency_activated_at'' db of
                             Some (SStamp sec) \<Rightarrow> Some (sec * Second)
                           | _ \<Rightarrow> None)
                 in Inr \<lparr>es_Active = True, es_ProfileID = pid, es_Profile = prof,
                         es_ActivatedAt = at\<rparr>)))"

definition ActivateEmergency :: "time \<Rightarrow> int \<Rightarrow> db \<Rightarrow> db_err + db" where
  "ActivateEmergency now profileID db = with_conn db
     (put_setting ''emergency_activated_at'' (SStamp (now div Second))
       (put_setting ''emergency_profile_id'' (SText (Itoa profileID))
         (put_setting ''emergency_active'' (SText ''true'') db)))"

definition DeactivateEmergency :: "db \<Rightarrow> db_err + db" where
  "DeactivateEmergency db = with_conn db
     (del_settings [''emergency_active'', ''emergency_profile_id'', ''emergency_activated_at''] db)"

section \<open>Nodes and placement\<close>

definition UpsertNode :: "time \<Rightarrow> node \<Rightarrow> db \<Rightarrow> db_err + (db \<times> int)" where
  "UpsertNode now n db =
     (if \<not> conn_ok db then Inl DBUnavailable
      else
        (let db' =
           (if list_ex (\<lambda>m. n_Name m = n_Name n) (nodes db)
            then db\<lparr>nodes := update_where (\<lambda>m. n_Name m = n_Name n)
                   (\<lambda>m. m\<lparr>n_APIAddr := n_APIAddr n, n_InboundTag := n_InboundTag n,
                          n_PublicHost := n_PublicHost n, n_PublicPort := n_PublicPort n,
                          n_Enabled := n_Enabled n\<rparr>) (nodes db)\<rparr>
            else db\<lparr>nodes := nodes db @
                   [\<lparr>n_ID = nodes_seq db + 1, n_Name = n_Name n, n_APIAddr = n_APIAddr n,
                     n_InboundTag = n_InboundTag n, n_PublicHost = n_PublicHost n,
                     n_PublicPort = n_PublicPort n, n_Enabled = n_Enabled n, n_CreatedAt = now\<rparr>],
                   nodes_seq := nodes_seq db + 1\<rparr>)
         in case find (\<lambda>m. n_Name m = n_Name n) (nodes db') of
              None \<Rightarrow> Inl NoRows
            | Some m \<Rightarrow> Inr (db', n_ID m)))"

definition ListNodes :: "db \<Rightarrow> db_err + node list" where
  "ListNodes db = with_conn db (sort_key n_Name (nodes db))"

definition GetNodeByName :: "string \<Rightarrow> db \<Rightarrow> db_err + node option" where
  "GetNodeByName name db = with_conn db (find (\<lambda>n. n_Name n = name) (nodes db))"

fun upsert_nodes :: "time \<Rightarrow> node list \<Rightarrow> db \<Rightarrow> db \<times> db_err option" where
  "upsert_nodes now [] db = (db, None)"
| "upsert_nodes now (n # ns) db =
     (case UpsertNode now n db of
        Inl e \<Rightarrow> (db, Some e)
      | Inr (db', _) \<Rightarrow> upsert_nodes now ns db')"

definition disable_node :: "int \<Rightarrow> db \<Rightarrow> db" where
  "disable_node i db = db\<lparr>nodes := update_where (\<lambda>n. n_ID n = i) (\<lambda>n. n\<lparr>n_Enabled := False\<rparr>) (nodes db)\<rparr>"

definition ReconcileNodes :: "time \<Rightarrow> node list \<Rightarrow> db \<Rightarrow> db \<times> db_err option" where
  "ReconcileNodes now desired db =
     (case upsert_nodes now desired db of
        (db', Some e) \<Rightarrow> (db', Some e)
      | (db', None) \<Rightarrow>
          (case ListNodes db' of
             Inl e \<Rightarrow> (db', Some e)
           | Inr existing \<Rightarrow>
               (fold (\<lambda>n d. if n_Name n \<in> set (map n_Name desired) \<or> \<not> n_Enabled n then d
                            else disable_node (n_ID n) d) existing db', None)))"

definition BackfillUserNodesToEnabled :: "db \<Rightarrow> db_err + db" where
  "BackfillUserNodesToEnabled db = with_conn db
     (db\<lparr>user_nodes := user_nodes db @
        concat (map (\<lambda>u. map (\<lambda>n. (row_id u, n_ID n)) (filter n_Enabled (nodes db)))
          (filter (\<lambda>u. \<not> list_ex (\<lambda>un. fst un = row_id u) (user_nodes db)) (users db)))\<rparr>)"

text \<open>\<open>INSERT OR IGNORE INTO user_nodes\<close>: a duplicate is ignored, a missing user or node is not.\<close>

definition insert_placement :: "int \<Rightarrow> int \<Rightarrow> db \<Rightarrow> db_err + db" where
  "insert_placement userID nid db =
     (if \<not> conn_ok db then Inl DBUnavailable
      else if (userID, nid) \<in> set (user_nodes db) then Inr db
      else if \<not> list_ex (\<lambda>r. row_id r = userID) (users db) \<or>
              \<not> list_ex (\<lambda>n. n_ID n = nid) (nodes db) then Inl ForeignKeyConstraint
      else Inr (db\<lparr>user_nodes := user_nodes db @ [(userID, nid)]\<rparr>))"

fun AssignUserToNodes :: "int \<Rightarrow> int list \<Rightarrow> db \<Rightarrow> db \<times> db_err option" where
  "AssignUserToNodes userID [] db = (db, None)"
| "AssignUserToNodes userID (nid # nids) db =
     (case insert_placement userID nid db of
        Inl e \<Rightarrow> (db, Some e)
      | Inr db' \<Rightarrow> AssignUserToNodes userID nids db')"

definition ListNodeIDsForUser :: "int \<Rightarrow> db \<Rightarrow> db_err + int list" where
  "ListNodeIDsForUser userID db =
     with_conn db (sort (map snd (filter (\<lambda>un. fst un = userID) (user_nodes db))))"

definition ListNodesForUser :: "int \<Rightarrow> db \<Rightarrow> db_err + node list" where
  "ListNodesForUser userID db =
     with_conn db (sort_key n_Name (filter (\<lambda>n. (userID, n_ID n) \<in> set (user_nodes db)) (nodes db)))"

text \<open>In a transaction: an error rolls the deletion back.\<close>

definition SetUserNodes :: "int \<Rightarrow> int list \<Rightarrow> db \<Rightarrow> db_err + db" where
  "SetUserNodes userID nodeIDs db =
     (if \<not> conn_ok db then Inl DBUnavailable
      else
        (case AssignUserToNodes userID nodeIDs
           (db\<lparr>user_nodes := delete_where (\<lambda>un. fst un = userID) (user_nodes db)\<rparr>) of
           (db', None) \<Rightarrow> Inr db'
         | (_, Some e) \<Rightarrow> Inl e))"

definition RemoveUserFromNode :: "int \<Rightarrow> int \<Rightarrow> db \<Rightarrow> db_err + db" where
  "RemoveUserFromNode userID nodeID db = with_conn db
     (db\<lparr>user_nodes := delete_where (\<lambda>un. un = (userID, nodeID)) (user_nodes db)\<rparr>)"

definition ListWantedClientsForNode :: "int \<Rightarrow> string \<Rightarrow> db \<Rightarrow> db_err + wanted_client list" where
  "ListWantedClientsForNode nodeID inboundTag db = with_conn db
     (sort_key w_Email
       (concat (map (\<lambda>un. concat (map (\<lambda>u. concat (map (\<lambda>ib. map (\<lambda>c.
          \<lparr>w_Email = row_email u, w_ClientConfig = uc_ClientConfig c\<rparr>)
          (filter (\<lambda>c. uc_UserID c = row_id u \<and> uc_InboundID c = ib_ID ib \<and> uc_Enabled c)
             (user_clients db)))
          (filter (\<lambda>ib. ib_Tag ib = inboundTag) (inbounds db))))
          (filter (\<lambda>u. row_id u = fst un \<and> row_enabled u) (users db))))
        (filter (\<lambda>un. snd un = nodeID) (user_nodes db)))))"

definition EnabledNodeIDs :: "db \<Rightarrow> db_err + int list" where
  "EnabledNodeIDs db = with_conn db (map n_ID (sort_key n_Name (filter n_Enabled (nodes db))))"

end
