(* ===== verification/Db_Invariant.thy ===== *)
theory Db_Invariant
  imports Database
begin

text \<open>
  The integrity of the tables: identifiers are positive, distinct and below the sequence
  counter, the unique columns are unique, and every client and placement row refers to
  existing rows. Every method of \<open>DB\<close> keeps it, so it holds in every state that a sequence
  of calls can reach from a fresh database.
\<close>

section \<open>The invariant\<close>

definition ids_ok :: "int list \<Rightarrow> int \<Rightarrow> bool" where
  "ids_ok is m \<longleftrightarrow> distinct is \<and> (\<forall>i\<in>set is. 0 < i \<and> i \<le> m) \<and> 0 \<le> m"

definition fallback_unique :: "user_row list \<Rightarrow> bool" where
  "fallback_unique rs \<longleftrightarrow> (\<forall>r\<in>set rs. \<forall>s\<in>set rs.
     row_fallback_token r \<noteq> None \<longrightarrow> row_fallback_token r = row_fallback_token s \<longrightarrow>
     row_id r = row_id s)"

definition users_ok :: "db \<Rightarrow> bool" where
  "users_ok db \<longleftrightarrow> ids_ok (map row_id (users db)) (users_seq db) \<and>
     distinct (map row_username (users db)) \<and> distinct (map row_token (users db)) \<and>
     fallback_unique (users db)"

definition inbounds_ok :: "db \<Rightarrow> bool" where
  "inbounds_ok db \<longleftrightarrow> ids_ok (map ib_ID (inbounds db)) (inbounds_seq db) \<and>
     distinct (map ib_Tag (inbounds db))"

definition clients_ok :: "db \<Rightarrow> bool" where
  "clients_ok db \<longleftrightarrow> ids_ok (map uc_ID (user_clients db)) (user_clients_seq db) \<and>
     distinct (map (\<lambda>c. (uc_UserID c, uc_InboundID c)) (user_clients db)) \<and>
     uc_UserID ` set (user_clients db) \<subseteq> row_id ` set (users db) \<and>
     uc_InboundID ` set (user_clients db) \<subseteq> ib_ID ` set (inbounds db)"

definition settings_ok :: "db \<Rightarrow> bool" where
  "settings_ok db \<longleftrightarrow> distinct (map fst (app_settings db))"

definition profiles_ok :: "db \<Rightarrow> bool" where
  "profiles_ok db \<longleftrightarrow> ids_ok (map pr_id (emergency_profiles db)) (emergency_profiles_seq db) \<and>
     distinct (map pr_name (emergency_profiles db))"

definition nodes_ok :: "db \<Rightarrow> bool" where
  "nodes_ok db \<longleftrightarrow> ids_ok (map n_ID (nodes db)) (nodes_seq db) \<and> distinct (map n_Name (nodes db))"

definition placements_ok :: "db \<Rightarrow> bool" where
  "placements_ok db \<longleftrightarrow> distinct (user_nodes db) \<and>
     fst ` set (user_nodes db) \<subseteq> row_id ` set (users db) \<and>
     snd ` set (user_nodes db) \<subseteq> n_ID ` set (nodes db)"

definition db_inv :: "db \<Rightarrow> bool" where
  "db_inv db \<longleftrightarrow> users_ok db \<and> inbounds_ok db \<and> clients_ok db \<and> settings_ok db \<and>
     profiles_ok db \<and> nodes_ok db \<and> placements_ok db"

lemmas inv_defs = db_inv_def users_ok_def inbounds_ok_def clients_ok_def settings_ok_def
  profiles_ok_def nodes_ok_def placements_ok_def

lemma db_inv_empty: "db_inv empty_db"
  by (simp add: inv_defs empty_db_def ids_ok_def fallback_unique_def)

section \<open>Shared steps\<close>

lemma with_conn_Inr [simp]: "with_conn db x = Inr y \<longleftrightarrow> conn_ok db \<and> x = y"
  by (auto simp: with_conn_def)

lemma with_conn_Inl [simp]: "with_conn db x = Inl e \<longleftrightarrow> \<not> conn_ok db \<and> e = DBUnavailable"
  by (auto simp: with_conn_def)

lemma list_ex_iff_mem: "list_ex (\<lambda>r. key r = k) rows \<longleftrightarrow> k \<in> key ` set rows"
  by (auto simp: list_ex_iff)

lemma ids_ok_append: "ids_ok is m \<Longrightarrow> ids_ok (is @ [m + 1]) (m + 1)"
  by (force simp: ids_ok_def)

lemma ids_ok_delete: "ids_ok (map key rows) m \<Longrightarrow> ids_ok (map key (delete_where P rows)) m"
  by (auto simp: ids_ok_def distinct_map_delete_where set_delete_where)

lemma subset_delete: "A \<subseteq> B \<Longrightarrow> {x \<in> A. P x} \<subseteq> B"
  by auto

text \<open>An update of a user that keeps its identifier and its unique columns keeps everything.\<close>

lemma update_user_fields [simp]:
  "conn_ok (update_user i f db) = conn_ok db"
  "users_seq (update_user i f db) = users_seq db"
  "inbounds (update_user i f db) = inbounds db"
  "inbounds_seq (update_user i f db) = inbounds_seq db"
  "user_clients (update_user i f db) = user_clients db"
  "user_clients_seq (update_user i f db) = user_clients_seq db"
  "app_settings (update_user i f db) = app_settings db"
  "emergency_profiles (update_user i f db) = emergency_profiles db"
  "emergency_profiles_seq (update_user i f db) = emergency_profiles_seq db"
  "nodes (update_user i f db) = nodes db" "nodes_seq (update_user i f db) = nodes_seq db"
  "user_nodes (update_user i f db) = user_nodes db"
  "users (update_user i f db) = update_where (\<lambda>r. row_id r = i) f (users db)"
  by (simp_all add: update_user_def)

lemma image_update_where:
  assumes "\<And>r. key (f r) = key r"
  shows "key ` set (update_where P f rows) = key ` set rows"
  using assms by (metis list.set_map map_key_update_where)

lemma fallback_unique_update_same:
  assumes "fallback_unique rs" and "\<And>r. row_id (f r) = row_id r"
    and "\<And>r. row_fallback_token (f r) = row_fallback_token r"
  shows "fallback_unique (update_where P f rs)"
  unfolding fallback_unique_def
proof (intro ballI impI)
  fix r s
  assume "r \<in> set (update_where P f rs)" and "s \<in> set (update_where P f rs)"
    and tok: "row_fallback_token r \<noteq> None" "row_fallback_token r = row_fallback_token s"
  then obtain r' s' where "r' \<in> set rs" "s' \<in> set rs"
    "row_fallback_token r = row_fallback_token r'" "row_id r = row_id r'"
    "row_fallback_token s = row_fallback_token s'" "row_id s = row_id s'"
    using assms(2,3) by (auto simp: set_update_where split: if_splits)
  with tok assms(1) show "row_id r = row_id s" by (metis fallback_unique_def)
qed

lemma fallback_unique_update_token:
  assumes "fallback_unique rs"
    and free: "(\<exists>r\<in>set rs. row_id r = i) \<longrightarrow>
      (\<forall>r\<in>set rs. row_id r \<noteq> i \<longrightarrow> row_fallback_token r \<noteq> Some tok)"
  shows "fallback_unique (update_where (\<lambda>r. row_id r = i)
    (\<lambda>r. r\<lparr>row_fallback_token := Some tok, row_updated_at := now\<rparr>) rs)"
  unfolding fallback_unique_def set_update_where
proof (clarify)
  fix r s y
  assume r: "r \<in> set rs" and s: "s \<in> set rs"
    and y: "row_fallback_token (if row_id r = i
        then r\<lparr>row_fallback_token := Some tok, row_updated_at := now\<rparr> else r) = Some y"
    and eq: "row_fallback_token (if row_id r = i
        then r\<lparr>row_fallback_token := Some tok, row_updated_at := now\<rparr> else r) =
      row_fallback_token (if row_id s = i
        then s\<lparr>row_fallback_token := Some tok, row_updated_at := now\<rparr> else s)"
  have "row_id r = row_id s"
  proof (cases "row_id r = i \<longleftrightarrow> row_id s = i")
    case True
    with r s y eq assms(1) show ?thesis
      by (cases "row_id r = i") (auto simp: fallback_unique_def)
  next
    case False
    with r s y eq free show ?thesis by (auto split: if_splits)
  qed
  then show "row_id (if row_id r = i
        then r\<lparr>row_fallback_token := Some tok, row_updated_at := now\<rparr> else r) =
      row_id (if row_id s = i
        then s\<lparr>row_fallback_token := Some tok, row_updated_at := now\<rparr> else s)"
    by simp
qed

lemma users_ok_update:
  assumes "users_ok db" and "\<And>r. row_id (f r) = row_id r"
    and "\<And>r. row_username (f r) = row_username r" and "\<And>r. row_token (f r) = row_token r"
    and "\<And>r. row_fallback_token (f r) = row_fallback_token r"
  shows "users_ok (db\<lparr>users := update_where P f (users db)\<rparr>)"
  using assms by (auto simp: users_ok_def map_key_update_where fallback_unique_update_same)

lemma db_inv_users:
  assumes "db_inv db" and "users_ok (db\<lparr>users := us\<rparr>)"
    and "row_id ` set us = row_id ` set (users db)"
  shows "db_inv (db\<lparr>users := us\<rparr>)"
  using assms by (simp add: inv_defs)

lemma db_inv_update_user:
  assumes "db_inv db" and "\<And>r. row_id (f r) = row_id r"
    and "\<And>r. row_username (f r) = row_username r" and "\<And>r. row_token (f r) = row_token r"
    and "\<And>r. row_fallback_token (f r) = row_fallback_token r"
  shows "db_inv (update_user i f db)"
  unfolding update_user_def using assms
  by (intro db_inv_users users_ok_update image_update_where) (auto simp: db_inv_def)

text \<open>What is left to show when only the clients or only the placements change.\<close>

lemma db_inv_clients:
  assumes "db_inv db"
    and "clients_ok (db\<lparr>user_clients := cs, user_clients_seq := n\<rparr>)"
  shows "db_inv (db\<lparr>user_clients := cs, user_clients_seq := n\<rparr>)"
  using assms by (simp add: inv_defs)

lemma db_inv_clients_same_seq:
  assumes "db_inv db" and "clients_ok (db\<lparr>user_clients := cs\<rparr>)"
  shows "db_inv (db\<lparr>user_clients := cs\<rparr>)"
  using assms by (simp add: inv_defs)

lemma db_inv_placements:
  assumes "db_inv db" and "placements_ok (db\<lparr>user_nodes := uns\<rparr>)"
  shows "db_inv (db\<lparr>user_nodes := uns\<rparr>)"
  using assms by (simp add: inv_defs)

lemma clients_ok_update:
  assumes "clients_ok db" and "\<And>c. uc_ID (f c) = uc_ID c"
    and "\<And>c. uc_UserID (f c) = uc_UserID c" and "\<And>c. uc_InboundID (f c) = uc_InboundID c"
  shows "clients_ok (db\<lparr>user_clients := update_where P f (user_clients db)\<rparr>)"
  using assms by (simp add: clients_ok_def map_key_update_where image_update_where)

section \<open>Users\<close>

lemma migrate_inv: "db_inv db \<Longrightarrow> db_inv (migrate db)"
  unfolding migrate_def
  by (intro db_inv_users users_ok_update image_update_where) (auto simp: db_inv_def)

lemma CreateUser_inv:
  assumes "db_inv db" and "CreateUser now name email tok fb db = Inr (db', u)"
  shows "db_inv db'"
proof -
  define fba where "fba = (if TrimSpace fb \<noteq> [] then Some (TrimSpace fb) else None)"
  define row where "row = \<lparr>row_id = users_seq db + 1, row_username = TrimSpace name,
    row_email = (if TrimSpace email = [] then TrimSpace name else TrimSpace email),
    row_token = tok, row_fallback_token = fba,
    row_fallback_accessed_at = None, row_enabled = True, row_client_routes = Doc (JArr []),
    row_hy2_enabled = True, row_created_at = now, row_updated_at = now\<rparr>"
  from assms(2) have db': "db' = db\<lparr>users := users db @ [row], users_seq := users_seq db + 1\<rparr>"
    and new: "TrimSpace name \<notin> row_username ` set (users db)" "tok \<notin> row_token ` set (users db)"
      "fba \<noteq> None \<Longrightarrow> fba \<notin> row_fallback_token ` set (users db)"
    by (auto simp: CreateUser_def Let_def row_def fba_def list_ex_iff split: if_splits)
  have fields: "row_id row = users_seq db + 1" "row_username row = TrimSpace name"
    "row_token row = tok" "row_fallback_token row = fba"
    by (simp_all add: row_def)
  have ok: "users_ok db" using assms(1) by (simp add: db_inv_def)
  then have "fallback_unique (users db)" by (simp add: users_ok_def)
  moreover have "fba \<noteq> None \<Longrightarrow> \<forall>r\<in>set (users db). row_fallback_token r \<noteq> fba"
    using new(3) by (metis image_eqI)
  ultimately have "fallback_unique (users db @ [row])"
    unfolding fallback_unique_def using fields(4) by (metis Un_iff empty_iff insert_iff list.set set_append)
  then have "users_ok db'"
    using ok new(1,2) fields(1-3) by (simp add: users_ok_def db' ids_ok_append)
  then show ?thesis
    using assms(1) unfolding db' by (simp add: inv_defs) blast
qed

lemma UpdateUserToken_inv:
  assumes "db_inv db" and "UpdateUserToken now i tok db = Inr db'"
  shows "db_inv db'"
proof -
  let ?f = "\<lambda>r. r\<lparr>row_token := tok, row_updated_at := now\<rparr>"
  let ?us = "update_where (\<lambda>r. row_id r = i) ?f (users db)"
  from assms(2) have db': "db' = db\<lparr>users := ?us\<rparr>"
    and free: "(\<exists>r\<in>set (users db). row_id r = i) \<longrightarrow>
      (\<forall>r\<in>set (users db). row_id r \<noteq> i \<longrightarrow> row_token r \<noteq> tok)"
    by (auto simp: UpdateUserToken_def update_user_def list_ex_iff split: if_splits)
  have "distinct (map row_token ?us)"
  proof (cases "\<exists>r\<in>set (users db). row_id r = i")
    case True
    with free assms(1) show ?thesis
      by (intro distinct_map_update_key) (auto simp: inv_defs ids_ok_def)
  next
    case False
    then have "?us = users db" by (auto simp: update_where_def intro: map_idI)
    with assms(1) show ?thesis by (simp add: inv_defs)
  qed
  moreover have "fallback_unique ?us"
    using assms(1) by (intro fallback_unique_update_same) (auto simp: inv_defs)
  ultimately have "users_ok (db\<lparr>users := ?us\<rparr>)"
    using assms(1) by (simp add: inv_defs map_key_update_where)
  then show ?thesis unfolding db'
    using assms(1) by (intro db_inv_users image_update_where) auto
qed

lemma UpdateFallbackToken_inv:
  assumes "db_inv db" and "UpdateFallbackToken now i tok db = Inr db'"
  shows "db_inv db'"
proof -
  let ?f = "\<lambda>r. r\<lparr>row_fallback_token := Some tok, row_updated_at := now\<rparr>"
  let ?us = "update_where (\<lambda>r. row_id r = i) ?f (users db)"
  from assms(2) have db': "db' = db\<lparr>users := ?us\<rparr>"
    and free: "(\<exists>r\<in>set (users db). row_id r = i) \<longrightarrow>
      (\<forall>r\<in>set (users db). row_id r \<noteq> i \<longrightarrow> row_fallback_token r \<noteq> Some tok)"
    by (auto simp: UpdateFallbackToken_def update_user_def list_ex_iff split: if_splits)
  have "fallback_unique (users db)" using assms(1) by (simp add: inv_defs)
  then have "fallback_unique ?us"
    using free by (rule fallback_unique_update_token)
  then have "users_ok (db\<lparr>users := ?us\<rparr>)"
    using assms(1) by (simp add: inv_defs map_key_update_where)
  then show ?thesis unfolding db'
    using assms(1) by (intro db_inv_users image_update_where) auto
qed

lemma DeleteUser_inv:
  assumes "db_inv db" and "DeleteUser i db = Inr db'"
  shows "db_inv db'"
proof -
  have fu: "fallback_unique (users db) \<Longrightarrow> fallback_unique (delete_where P (users db))" for P
    by (auto simp: fallback_unique_def set_delete_where)
  from assms(2) have db': "db' = db\<lparr>users := delete_where (\<lambda>r. row_id r = i) (users db),
      user_clients := delete_where (\<lambda>c. uc_UserID c = i) (user_clients db),
      user_nodes := delete_where (\<lambda>un. fst un = i) (user_nodes db)\<rparr>"
    by (simp add: DeleteUser_def)
  have "users_ok db'"
    using assms(1) by (simp add: db' inv_defs ids_ok_delete distinct_map_delete_where fu)
  moreover have "clients_ok db'"
    using assms(1) unfolding db' inv_defs
    by (simp add: ids_ok_delete distinct_map_delete_where set_delete_where) blast
  moreover have "placements_ok db'"
    using assms(1) unfolding db' inv_defs
    by (simp add: set_delete_where) (auto simp: delete_where_def)
  ultimately show ?thesis using assms(1) by (simp add: db' inv_defs)
qed

section \<open>Settings\<close>

lemma put_setting_fields [simp]:
  "conn_ok (put_setting k v db) = conn_ok db" "users (put_setting k v db) = users db"
  "emergency_profiles (put_setting k v db) = emergency_profiles db"
  "inbounds (put_setting k v db) = inbounds db"
  "user_clients (put_setting k v db) = user_clients db"
  by (simp_all add: put_setting_def)

lemma put_setting_inv: "db_inv db \<Longrightarrow> db_inv (put_setting k v db)"
  by (auto simp: inv_defs put_setting_def map_key_update_where list_ex_iff)

lemma del_settings_inv: "db_inv db \<Longrightarrow> db_inv (del_settings ks db)"
  by (simp add: inv_defs del_settings_def distinct_map_delete_where)

section \<open>Inbounds and clients\<close>

lemma UpsertInbound_inv:
  assumes "db_inv db" and "UpsertInbound now tag proto port file raw db = Inr (db', i)"
  shows "db_inv db'"
proof (cases "list_ex (\<lambda>ib. ib_Tag ib = tag) (inbounds db)")
  case True
  with assms show ?thesis
    by (clarsimp simp: UpsertInbound_def Let_def split: option.splits if_splits)
       (simp add: inv_defs map_key_update_where image_update_where)
next
  case False
  then have "tag \<notin> ib_Tag ` set (inbounds db)" by (auto simp: list_ex_iff)
  with False assms show ?thesis
    by (clarsimp simp: UpsertInbound_def Let_def split: option.splits if_splits)
       (simp add: inv_defs ids_ok_append subset_insertI2)
qed

lemma delete_inbounds_inv:
  assumes "db_inv db"
  shows "db_inv (delete_inbounds P db)"
proof -
  let ?db = "delete_inbounds P db"
  have sub: "uc_InboundID ` set (user_clients db) \<subseteq> ib_ID ` set (inbounds db)"
    "uc_UserID ` set (user_clients db) \<subseteq> row_id ` set (users db)"
    using assms by (simp_all add: inv_defs)
  have "uc_InboundID ` set (user_clients ?db) \<subseteq> ib_ID ` set (inbounds ?db)"
  proof (rule image_subsetI)
    fix c
    assume "c \<in> set (user_clients ?db)"
    then have c: "c \<in> set (user_clients db)"
      and gone: "\<forall>ib\<in>set (inbounds db). P ib \<longrightarrow> ib_ID ib \<noteq> uc_InboundID c"
      by (auto simp: delete_inbounds_def set_delete_where list_ex_iff)
    from c sub(1) obtain ib where "ib \<in> set (inbounds db)" "uc_InboundID c = ib_ID ib" by blast
    with gone show "uc_InboundID c \<in> ib_ID ` set (inbounds ?db)"
      by (auto simp: delete_inbounds_def set_delete_where)
  qed
  moreover have "uc_UserID ` set (user_clients ?db) \<subseteq> row_id ` set (users db)"
    using sub(2) by (auto simp: delete_inbounds_def set_delete_where)
  ultimately show ?thesis
    using assms
    by (simp add: delete_inbounds_def inv_defs ids_ok_delete distinct_map_delete_where)
qed

lemma UpsertUserClient_inv:
  assumes "db_inv db" and "UpsertUserClient u i cc db = Inr db'"
  shows "db_inv db'"
proof (cases "list_ex (\<lambda>c. uc_UserID c = u \<and> uc_InboundID c = i) (user_clients db)")
  case True
  with assms(2) have "db' = db\<lparr>user_clients := update_where (\<lambda>c. uc_UserID c = u \<and> uc_InboundID c = i)
      (\<lambda>c. c\<lparr>uc_ClientConfig := cc\<rparr>) (user_clients db)\<rparr>"
    by (simp add: UpsertUserClient_def split: if_splits)
  then show ?thesis
    using assms(1) db_inv_def [of db] by (auto intro!: db_inv_clients_same_seq clients_ok_update)
next
  case False
  then have new: "(u, i) \<notin> (\<lambda>c. (uc_UserID c, uc_InboundID c)) ` set (user_clients db)"
    by (auto simp: list_ex_iff)
  from False assms(2) have refs: "u \<in> row_id ` set (users db)" "i \<in> ib_ID ` set (inbounds db)"
    and db': "db' = db\<lparr>user_clients := user_clients db @
      [\<lparr>uc_ID = user_clients_seq db + 1, uc_UserID = u, uc_InboundID = i,
        uc_ClientConfig = cc, uc_Enabled = True\<rparr>], user_clients_seq := user_clients_seq db + 1\<rparr>"
    by (auto simp: UpsertUserClient_def list_ex_iff split: if_splits)
  show ?thesis unfolding db' using assms(1) refs new
    by (intro db_inv_clients) (simp_all add: inv_defs ids_ok_append)
qed

lemma SetUserClientEnabled_inv:
  "db_inv db \<Longrightarrow> SetUserClientEnabled u i en db = Inr db' \<Longrightarrow> db_inv db'"
  by (auto simp: SetUserClientEnabled_def db_inv_def [of db]
        intro!: db_inv_clients_same_seq clients_ok_update)

lemma DeleteUserClientsByInbound_inv:
  assumes "db_inv db" and "DeleteUserClientsByInbound i db = Inr db'"
  shows "db_inv db'"
proof -
  have "uc_UserID ` set (delete_where P (user_clients db)) \<subseteq> uc_UserID ` set (user_clients db)"
    "uc_InboundID ` set (delete_where P (user_clients db)) \<subseteq> uc_InboundID ` set (user_clients db)"
    for P by (auto simp: set_delete_where)
  with assms show ?thesis
    by (clarsimp simp: DeleteUserClientsByInbound_def)
       (rule db_inv_clients_same_seq, assumption,
        simp add: inv_defs ids_ok_delete distinct_map_delete_where, meson order_trans)
qed

section \<open>Emergency profiles\<close>

lemma db_inv_profiles:
  assumes "db_inv db"
    and "profiles_ok (db\<lparr>emergency_profiles := ps, emergency_profiles_seq := n\<rparr>)"
  shows "db_inv (db\<lparr>emergency_profiles := ps, emergency_profiles_seq := n\<rparr>)"
  using assms by (simp add: inv_defs)

lemma profiles_ok_append:
  assumes "profiles_ok db" and "pr_id p = emergency_profiles_seq db + 1"
    and "\<forall>q\<in>set (emergency_profiles db). pr_name q \<noteq> pr_name p"
  shows "profiles_ok (db\<lparr>emergency_profiles := emergency_profiles db @ [p],
    emergency_profiles_seq := emergency_profiles_seq db + 1\<rparr>)"
proof -
  have "pr_name p \<notin> pr_name ` set (emergency_profiles db)" using assms(3) by fastforce
  with assms(1,2) show ?thesis by (simp add: profiles_ok_def ids_ok_append)
qed

lemma CreateEmergencyProfile_inv:
  "db_inv db \<Longrightarrow> CreateEmergencyProfile now name desc tags db = Inr (db', p) \<Longrightarrow> db_inv db'"
  by (clarsimp simp: CreateEmergencyProfile_def Let_def list_ex_iff split: if_splits)
     (rule db_inv_profiles, assumption, rule profiles_ok_append, simp_all add: db_inv_def [of db])

lemma UpdateEmergencyProfile_inv:
  assumes "db_inv db" and "UpdateEmergencyProfile now i name desc tags db = Inr (db', p)"
  shows "db_inv db'"
proof (cases "list_ex (\<lambda>p. pr_id p = i) (emergency_profiles db)")
  case False
  with assms show ?thesis by (simp add: UpdateEmergencyProfile_def split: if_splits)
next
  case True
  let ?f = "\<lambda>p. p\<lparr>pr_name := name, pr_description := desc, pr_inbound_tags := tags_json tags,
    pr_updated_at := now\<rparr>"
  from True assms(2)
  have db': "db' = db\<lparr>emergency_profiles := update_where (\<lambda>p. pr_id p = i) ?f (emergency_profiles db)\<rparr>"
    and free: "\<forall>p\<in>set (emergency_profiles db). pr_id p \<noteq> i \<longrightarrow> pr_name p \<noteq> name"
    by (auto simp: UpdateEmergencyProfile_def list_ex_iff split: if_splits)
  have "distinct (map pr_name (update_where (\<lambda>p. pr_id p = i) ?f (emergency_profiles db)))"
    using assms(1) free by (intro distinct_map_update_key) (auto simp: inv_defs ids_ok_def)
  with assms(1) show ?thesis unfolding db' by (simp add: inv_defs map_key_update_where)
qed

lemma DeleteEmergencyProfile_inv:
  "db_inv db \<Longrightarrow> DeleteEmergencyProfile i db = Inr db' \<Longrightarrow> db_inv db'"
  by (clarsimp simp only: DeleteEmergencyProfile_def with_conn_Inr)
     (simp add: inv_defs ids_ok_delete distinct_map_delete_where)

section \<open>Nodes and placements\<close>

lemma UpsertNode_inv:
  assumes "db_inv db" and "UpsertNode now n db = Inr (db', i)"
  shows "db_inv db'"
proof (cases "list_ex (\<lambda>m. n_Name m = n_Name n) (nodes db)")
  case True
  with assms show ?thesis
    by (clarsimp simp: UpsertNode_def Let_def split: option.splits if_splits)
       (simp add: inv_defs map_key_update_where image_update_where)
next
  case False
  then have "n_Name n \<notin> n_Name ` set (nodes db)" by (auto simp: list_ex_iff)
  with False assms show ?thesis
    by (clarsimp simp: UpsertNode_def Let_def split: option.splits if_splits)
       (simp add: inv_defs ids_ok_append subset_insertI2)
qed

lemma upsert_nodes_inv: "db_inv db \<Longrightarrow> upsert_nodes now ns db = (db', e) \<Longrightarrow> db_inv db'"
proof (induction now ns db rule: upsert_nodes.induct)
  case (1 now db)
  then show ?case by simp
next
  case (2 now n ns db)
  then show ?case
    by (auto split: sum.splits dest: UpsertNode_inv)
qed

lemma disable_node_inv: "db_inv db \<Longrightarrow> db_inv (disable_node i db)"
  by (simp add: disable_node_def inv_defs map_key_update_where image_update_where)

lemma fold_disable_inv:
  "db_inv db \<Longrightarrow> db_inv (fold (\<lambda>n d. if Q n then d else disable_node (n_ID n) d) ns db)"
  by (induction ns arbitrary: db) (auto simp: disable_node_inv)

lemma ReconcileNodes_inv: "db_inv db \<Longrightarrow> ReconcileNodes now ds db = (db', e) \<Longrightarrow> db_inv db'"
  by (auto simp: ReconcileNodes_def fold_disable_inv split: prod.splits option.splits sum.splits
        dest: upsert_nodes_inv)

lemma distinct_concat_pairs:
  assumes "distinct us" and "distinct ns"
  shows "distinct (concat (map (\<lambda>u. map (\<lambda>n. (u, n)) ns) us))"
  using assms by (induction us) (auto simp: distinct_map inj_on_def)

lemma Backfill_inv:
  assumes "db_inv db" and "BackfillUserNodesToEnabled db = Inr db'"
  shows "db_inv db'"
proof -
  let ?us = "map row_id (filter (\<lambda>u. \<not> list_ex (\<lambda>un. fst un = row_id u) (user_nodes db)) (users db))"
  let ?ns = "map n_ID (filter n_Enabled (nodes db))"
  have d: "distinct ?us" "distinct ?ns"
    using assms(1) by (auto simp: inv_defs ids_ok_def distinct_map_filter)
  have new: "concat (map (\<lambda>u. map (\<lambda>n. (row_id u, n_ID n)) (filter n_Enabled (nodes db)))
      (filter (\<lambda>u. \<not> list_ex (\<lambda>un. fst un = row_id u) (user_nodes db)) (users db)))
    = concat (map (\<lambda>u. map (\<lambda>n. (u, n)) ?ns) ?us)"
    by (simp add: comp_def)
  let ?new = "concat (map (\<lambda>u. map (\<lambda>n. (u, n)) ?ns) ?us)"
  have "set ?new \<inter> set (user_nodes db) = {}" by (auto simp: list_ex_iff)
  moreover have "fst ` set ?new \<subseteq> row_id ` set (users db)" "snd ` set ?new \<subseteq> n_ID ` set (nodes db)"
    by auto
  ultimately have "placements_ok (db\<lparr>user_nodes := user_nodes db @ ?new\<rparr>)"
    using assms(1) distinct_concat_pairs [OF d]
    by (simp add: inv_defs image_Un Int_commute)
  then show ?thesis
    using assms by (clarsimp simp: BackfillUserNodesToEnabled_def new db_inv_placements)
qed

lemma insert_placement_inv:
  assumes "db_inv db" and "insert_placement u n db = Inr db'"
  shows "db_inv db'"
proof (cases "(u, n) \<in> set (user_nodes db)")
  case True
  with assms show ?thesis by (simp add: insert_placement_def split: if_splits)
next
  case False
  with assms(2) have "u \<in> row_id ` set (users db)" "n \<in> n_ID ` set (nodes db)"
    and "db' = db\<lparr>user_nodes := user_nodes db @ [(u, n)]\<rparr>"
    by (auto simp: insert_placement_def list_ex_iff split: if_splits)
  with False assms(1) show ?thesis
    by (auto intro!: db_inv_placements simp: inv_defs)
qed

lemma AssignUserToNodes_inv: "db_inv db \<Longrightarrow> AssignUserToNodes u ns db = (db', e) \<Longrightarrow> db_inv db'"
proof (induction u ns db rule: AssignUserToNodes.induct)
  case (1 u db)
  then show ?case by simp
next
  case (2 u n ns db)
  then show ?case by (auto split: sum.splits dest: insert_placement_inv)
qed

lemma delete_placements_inv:
  assumes "db_inv db"
  shows "db_inv (db\<lparr>user_nodes := delete_where P (user_nodes db)\<rparr>)"
proof (rule db_inv_placements)
  have "set (delete_where P (user_nodes db)) \<subseteq> set (user_nodes db)"
    by (auto simp: set_delete_where)
  then have "fst ` set (delete_where P (user_nodes db)) \<subseteq> fst ` set (user_nodes db)"
    "snd ` set (delete_where P (user_nodes db)) \<subseteq> snd ` set (user_nodes db)"
    by (simp_all add: image_mono)
  moreover have "distinct (delete_where P (user_nodes db))"
    using assms by (simp add: inv_defs delete_where_def)
  ultimately show "placements_ok (db\<lparr>user_nodes := delete_where P (user_nodes db)\<rparr>)"
    using assms by (simp add: inv_defs) (meson order_trans)
qed (rule assms)

lemma SetUserNodes_inv: "db_inv db \<Longrightarrow> SetUserNodes u ns db = Inr db' \<Longrightarrow> db_inv db'"
  using AssignUserToNodes_inv [OF delete_placements_inv]
  by (fastforce simp: SetUserNodes_def split: if_splits prod.splits option.splits)

lemma RemoveUserFromNode_inv: "db_inv db \<Longrightarrow> RemoveUserFromNode u n db = Inr db' \<Longrightarrow> db_inv db'"
  by (auto simp: RemoveUserFromNode_def delete_placements_inv)

section \<open>Every reachable database\<close>

text \<open>One rule for each method that writes, with the error results that leave something
  behind; the connection may be lost and come back at any point. The clock, the random
  tokens and all arguments are free.\<close>

inductive db_step :: "db \<Rightarrow> db \<Rightarrow> bool" where
  step_conn: "db_step db (db\<lparr>conn_ok := up\<rparr>)"
| step_migrate: "db_step db (migrate db)"
| step_create: "CreateUser now name email tok fb db = Inr (db', u) \<Longrightarrow> db_step db db'"
| step_token: "UpdateUserToken now i tok db = Inr db' \<Longrightarrow> db_step db db'"
| step_fallback_token: "UpdateFallbackToken now i tok db = Inr db' \<Longrightarrow> db_step db db'"
| step_accessed: "SetFallbackAccessedAt i now db = Inr db' \<Longrightarrow> db_step db db'"
| step_enabled: "SetUserEnabled now i en db = Inr db' \<Longrightarrow> db_step db db'"
| step_hy2: "SetUserHy2Enabled now i en db = Inr db' \<Longrightarrow> db_step db db'"
| step_routes: "UpdateUserClientRoutes now i r db = Inr db' \<Longrightarrow> db_step db db'"
| step_delete_user: "DeleteUser i db = Inr db' \<Longrightarrow> db_step db db'"
| step_fallback: "SetFallbackEnabled en db = Inr db' \<Longrightarrow> db_step db db'"
| step_global_routes: "UpdateGlobalClientRoutes r db = Inr db' \<Longrightarrow> db_step db db'"
| step_balancer: "SetBalancerRuntimeConfig cfg db = Inr db' \<Longrightarrow> db_step db db'"
| step_no_balancer: "DeleteBalancerRuntimeConfig db = Inr db' \<Longrightarrow> db_step db db'"
| step_inbound: "UpsertInbound now tag proto port file raw db = Inr (db', i) \<Longrightarrow> db_step db db'"
| step_delete_file: "DeleteInboundsByFile file db = Inr db' \<Longrightarrow> db_step db db'"
| step_delete_tag: "DeleteInboundByTag tag db = Inr db' \<Longrightarrow> db_step db db'"
| step_client: "UpsertUserClient u i cc db = Inr db' \<Longrightarrow> db_step db db'"
| step_client_enabled: "SetUserClientEnabled u i en db = Inr db' \<Longrightarrow> db_step db db'"
| step_delete_clients: "DeleteUserClientsByInbound i db = Inr db' \<Longrightarrow> db_step db db'"
| step_create_profile:
    "CreateEmergencyProfile now name desc tags db = Inr (db', p) \<Longrightarrow> db_step db db'"
| step_update_profile:
    "UpdateEmergencyProfile now i name desc tags db = Inr (db', q) \<Longrightarrow> db_step db db'"
| step_delete_profile: "DeleteEmergencyProfile i db = Inr db' \<Longrightarrow> db_step db db'"
| step_activate: "ActivateEmergency now i db = Inr db' \<Longrightarrow> db_step db db'"
| step_deactivate: "DeactivateEmergency db = Inr db' \<Longrightarrow> db_step db db'"
| step_node: "UpsertNode now n db = Inr (db', i) \<Longrightarrow> db_step db db'"
| step_reconcile: "ReconcileNodes now ds db = (db', e) \<Longrightarrow> db_step db db'"
| step_backfill: "BackfillUserNodesToEnabled db = Inr db' \<Longrightarrow> db_step db db'"
| step_assign: "AssignUserToNodes u ns db = (db', e) \<Longrightarrow> db_step db db'"
| step_set_nodes: "SetUserNodes u ns db = Inr db' \<Longrightarrow> db_step db db'"
| step_remove_node: "RemoveUserFromNode u n db = Inr db' \<Longrightarrow> db_step db db'"

inductive db_reachable :: "db \<Rightarrow> bool" where
  reach_new: "db_reachable empty_db"
| reach_step: "db_reachable db \<Longrightarrow> db_step db db' \<Longrightarrow> db_reachable db'"

lemma user_field_steps_inv:
  "db_inv db \<Longrightarrow> SetFallbackAccessedAt i now db = Inr db' \<Longrightarrow> db_inv db'"
  "db_inv db \<Longrightarrow> SetUserEnabled now i en db = Inr db' \<Longrightarrow> db_inv db'"
  "db_inv db \<Longrightarrow> SetUserHy2Enabled now i en db = Inr db' \<Longrightarrow> db_inv db'"
  "db_inv db \<Longrightarrow> UpdateUserClientRoutes now i r db = Inr db' \<Longrightarrow> db_inv db'"
  by (auto simp: SetFallbackAccessedAt_def SetUserEnabled_def SetUserHy2Enabled_def
      UpdateUserClientRoutes_def intro!: db_inv_update_user)

lemma setting_steps_inv:
  "db_inv db \<Longrightarrow> SetFallbackEnabled en db = Inr db' \<Longrightarrow> db_inv db'"
  "db_inv db \<Longrightarrow> UpdateGlobalClientRoutes rs db = Inr db' \<Longrightarrow> db_inv db'"
  "db_inv db \<Longrightarrow> SetBalancerRuntimeConfig cfg db = Inr db' \<Longrightarrow> db_inv db'"
  "db_inv db \<Longrightarrow> DeleteBalancerRuntimeConfig db = Inr db' \<Longrightarrow> db_inv db'"
  "db_inv db \<Longrightarrow> ActivateEmergency now i db = Inr db' \<Longrightarrow> db_inv db'"
  "db_inv db \<Longrightarrow> DeactivateEmergency db = Inr db' \<Longrightarrow> db_inv db'"
  by (auto simp: SetFallbackEnabled_def UpdateGlobalClientRoutes_def SetBalancerRuntimeConfig_def
      DeleteBalancerRuntimeConfig_def ActivateEmergency_def DeactivateEmergency_def
      intro!: put_setting_inv del_settings_inv)

lemma delete_inbound_steps_inv:
  "db_inv db \<Longrightarrow> DeleteInboundsByFile file db = Inr db' \<Longrightarrow> db_inv db'"
  "db_inv db \<Longrightarrow> DeleteInboundByTag tag db = Inr db' \<Longrightarrow> db_inv db'"
  by (auto simp: DeleteInboundsByFile_def DeleteInboundByTag_def intro: delete_inbounds_inv)

lemma conn_inv [simp]: "db_inv (db\<lparr>conn_ok := up\<rparr>) = db_inv db"
  by (simp add: inv_defs)

lemmas step_invs = migrate_inv CreateUser_inv UpdateUserToken_inv UpdateFallbackToken_inv
  user_field_steps_inv DeleteUser_inv setting_steps_inv UpsertInbound_inv delete_inbound_steps_inv
  UpsertUserClient_inv SetUserClientEnabled_inv DeleteUserClientsByInbound_inv
  CreateEmergencyProfile_inv UpdateEmergencyProfile_inv DeleteEmergencyProfile_inv UpsertNode_inv
  ReconcileNodes_inv Backfill_inv AssignUserToNodes_inv SetUserNodes_inv RemoveUserFromNode_inv

lemma db_step_inv: "db_step db db' \<Longrightarrow> db_inv db \<Longrightarrow> db_inv db'"
  by (induction rule: db_step.induct) (auto intro: step_invs simp del: with_conn_Inr)

lemma reachable_inv: "db_reachable db \<Longrightarrow> db_inv db"
  by (induction rule: db_reachable.induct) (auto intro: db_inv_empty db_step_inv)

end
