(* ===== verification/Samples.thy ===== *)
theory Samples
  imports Db_Invariant
begin

text \<open>
  A small database that a sequence of calls builds: two users, one inbound, one client and
  two nodes. The concrete instances of the properties are evaluated on it.
\<close>

definition sample_node :: "string \<Rightarrow> bool \<Rightarrow> node" where
  "sample_node name en = \<lparr>n_ID = 0, n_Name = name, n_APIAddr = name @ '':10085'',
     n_InboundTag = ''vless-in'', n_PublicHost = name @ ''.example.org'', n_PublicPort = 443,
     n_Enabled = en, n_CreatedAt = 0\<rparr>"

definition sample_alice :: db where
  "sample_alice = fst (projr (CreateUser 1 ''alice'' ''alice@x'' ''t-alice'' ''f-alice'' empty_db))"

definition sample_bob :: db where
  "sample_bob = fst (projr (CreateUser 2 ''bob'' [] ''t-bob'' [] sample_alice))"

definition sample_inbound :: db where
  "sample_inbound = fst (projr (UpsertInbound 3 ''vless-in'' ''vless'' 443 ''/etc/xray/a.json''
     (Doc (JObj [])) sample_bob))"

definition sample_client :: db where
  "sample_client = projr (UpsertUserClient 1 1 (Doc (JObj [])) sample_inbound)"

definition sample_db :: db where
  "sample_db = fst (ReconcileNodes 4 [sample_node ''n1'' True, sample_node ''n2'' True] sample_client)"

lemma sample_reachable: "db_reachable sample_db"
proof -
  have "CreateUser 1 ''alice'' ''alice@x'' ''t-alice'' ''f-alice'' empty_db =
      Inr (sample_alice, snd (projr (CreateUser 1 ''alice'' ''alice@x'' ''t-alice'' ''f-alice'' empty_db)))"
    by code_simp
  then have a: "db_reachable sample_alice" by (blast intro: reach_new reach_step step_create)
  have "CreateUser 2 ''bob'' [] ''t-bob'' [] sample_alice =
      Inr (sample_bob, snd (projr (CreateUser 2 ''bob'' [] ''t-bob'' [] sample_alice)))"
    by code_simp
  then have b: "db_reachable sample_bob" by (blast intro: a reach_step step_create)
  have "UpsertInbound 3 ''vless-in'' ''vless'' 443 ''/etc/xray/a.json'' (Doc (JObj [])) sample_bob =
      Inr (sample_inbound, 1)"
    by code_simp
  then have i: "db_reachable sample_inbound" by (blast intro: b reach_step step_inbound)
  have "UpsertUserClient 1 1 (Doc (JObj [])) sample_inbound = Inr sample_client" by code_simp
  then have c: "db_reachable sample_client" by (blast intro: i reach_step step_client)
  have "ReconcileNodes 4 [sample_node ''n1'' True, sample_node ''n2'' True] sample_client =
      (sample_db, snd (ReconcileNodes 4 [sample_node ''n1'' True, sample_node ''n2'' True] sample_client))"
    by (simp add: sample_db_def)
  then show ?thesis by (blast intro: c reach_step step_reconcile)
qed

lemma sample_conn: "conn_ok sample_db"
  by code_simp

end
