(* ===== verification/Tokens.thy ===== *)
theory Tokens
  imports Samples
begin

text \<open>
  Subscription tokens and fallback tokens. Both are credentials that the public endpoints
  turn into a user (\<open>GetUserByToken\<close>, \<open>GetUserByFallbackToken\<close>) and that the admin API rotates
  (\<open>UpdateUserToken\<close>, \<open>UpdateFallbackToken\<close>). \<open>token_directory\<close> states what such a pair
  promises; the two pairs of \<open>DB\<close> methods implement it.
\<close>

section \<open>The interface\<close>

text \<open>A run of rotations: the first error ends it.\<close>

fun run_rotations ::
  "('c \<Rightarrow> 'i \<Rightarrow> 't \<Rightarrow> 's \<Rightarrow> 'e + 's) \<Rightarrow> ('c \<times> 'i \<times> 't) list \<Rightarrow> 's \<Rightarrow> 'e + 's" where
  "run_rotations rot [] s = Inr s"
| "run_rotations rot ((now, i, t) # ops) s =
     (case rot now i t s of Inl e \<Rightarrow> Inl e | Inr s' \<Rightarrow> run_rotations rot ops s')"

locale token_directory =
  fixes ok :: "'s \<Rightarrow> bool"
    and ids :: "'s \<Rightarrow> 'i set"
    and usable :: "'t \<Rightarrow> bool"
    and rotate :: "'c \<Rightarrow> 'i \<Rightarrow> 't \<Rightarrow> 's \<Rightarrow> 'e + 's"
    and who :: "'t \<Rightarrow> 's \<Rightarrow> 'i option"
  assumes ok_rotate: "ok s \<Longrightarrow> rotate now i t s = Inr s' \<Longrightarrow> ok s'"
    and ids_rotate: "ok s \<Longrightarrow> rotate now i t s = Inr s' \<Longrightarrow> ids s' = ids s"
    and who_new: "ok s \<Longrightarrow> i \<in> ids s \<Longrightarrow> usable t \<Longrightarrow> rotate now i t s = Inr s' \<Longrightarrow> who t s' = Some i"
    and who_one: "ok s \<Longrightarrow> who t s = Some i \<Longrightarrow> who t' s = Some i \<Longrightarrow> t = t'"
    and who_other: "ok s \<Longrightarrow> rotate now i t s = Inr s' \<Longrightarrow> j \<noteq> i \<Longrightarrow> who x s' = Some j \<longleftrightarrow> who x s = Some j"
begin

lemma only_new_token:
  assumes "ok s" and "i \<in> ids s" and "usable t" and "rotate now i t s = Inr s'"
  shows "who x s' = Some i \<longleftrightarrow> x = t"
  using assms ok_rotate who_new who_one by blast

lemma old_token_revoked:
  assumes "ok s" and "i \<in> ids s" and "usable t" and "rotate now i t s = Inr s'"
    and "who old s = Some i" and "old \<noteq> t"
  shows "who old s' = None"
proof (cases "who old s'")
  case (Some j)
  with assms who_other [of s now i t s' j old] only_new_token [of s i t now s' old] show ?thesis
    by (cases "j = i") auto
qed

lemma run_keeps:
  "ok s \<Longrightarrow> run_rotations rotate ops s = Inr s' \<Longrightarrow> ok s' \<and> ids s' = ids s"
proof (induction ops arbitrary: s)
  case (Cons op ops)
  obtain now i t where "op = (now, i, t)" by (cases op)
  with Cons.prems obtain s1 where s1: "rotate now i t s = Inr s1" "run_rotations rotate ops s1 = Inr s'"
    by (auto split: sum.splits)
  with Cons show ?case using ok_rotate ids_rotate by metis
qed simp

lemma run_other:
  "ok s \<Longrightarrow> run_rotations rotate ops s = Inr s' \<Longrightarrow> j \<notin> (fst \<circ> snd) ` set ops \<Longrightarrow>
   who x s' = Some j \<longleftrightarrow> who x s = Some j"
proof (induction ops arbitrary: s)
  case (Cons op ops)
  obtain now i t where op: "op = (now, i, t)" by (cases op)
  with Cons.prems obtain s1 where s1: "rotate now i t s = Inr s1" "run_rotations rotate ops s1 = Inr s'"
    by (auto split: sum.splits)
  with Cons op have "who x s' = Some j \<longleftrightarrow> who x s1 = Some j" by (simp add: ok_rotate)
  also have "\<dots> \<longleftrightarrow> who x s = Some j" using Cons.prems op s1(1) by (intro who_other) auto
  finally show ?case .
qed simp

lemma run_only_last:
  assumes "ok s" and "i \<in> ids s" and "usable t" and "i \<notin> (fst \<circ> snd) ` set post"
    and "run_rotations rotate (pre @ (now, i, t) # post) s = Inr s'"
  shows "who x s' = Some i \<longleftrightarrow> x = t"
  using assms(1,2,5)
proof (induction pre arbitrary: s)
  case Nil
  then obtain s1 where s1: "rotate now i t s = Inr s1" "run_rotations rotate post s1 = Inr s'"
    by (auto split: sum.splits)
  with Nil assms(4) have "who x s' = Some i \<longleftrightarrow> who x s1 = Some i"
    by (intro run_other) (auto intro: ok_rotate)
  with Nil s1(1) assms(3) show ?case by (simp add: only_new_token)
next
  case (Cons op pre)
  obtain c j u where op: "op = (c, j, u)" by (cases op)
  with Cons.prems obtain s1 where "rotate c j u s = Inr s1"
    "run_rotations rotate (pre @ (now, i, t) # post) s1 = Inr s'"
    by (auto split: sum.splits)
  with Cons show ?case using ok_rotate ids_rotate by metis
qed

end

section \<open>The two token columns\<close>

lemma find_SomeD: "find P xs = Some x \<Longrightarrow> x \<in> set xs \<and> P x"
  by (auto simp: find_Some_iff)

lemma bex_update_where:
  "(\<exists>x\<in>set (update_where P f rows). Q x) \<longleftrightarrow> (\<exists>r\<in>set rows. Q (if P r then f r else r))"
  by (auto simp: update_where_def)

definition user_ids :: "db \<Rightarrow> int set" where
  "user_ids db = row_id ` set (users db)"

text \<open>The user a credential resolves to.\<close>

definition who_of :: "(db_err + user option) \<Rightarrow> int option" where
  "who_of r = (case r of Inr (Some u) \<Rightarrow> Some (u_ID u) | _ \<Rightarrow> None)"

lemma scanUser_id [simp]: "u_ID (scanUser r) = row_id r"
  by (simp add: scanUser_def)

lemma who_of_find: "conn_ok db \<Longrightarrow> who_of (find_user P db) = map_option row_id (find P (users db))"
  by (auto simp: who_of_def find_user_def with_conn_def split: option.splits)

lemma who_token:
  assumes "db_inv db" and "conn_ok db"
  shows "who_of (GetUserByToken t db) = Some i \<longleftrightarrow> (\<exists>r\<in>set (users db). row_id r = i \<and> row_token r = t)"
proof -
  have "distinct (map row_token (users db))" using assms(1) by (simp add: inv_defs)
  then have "find (\<lambda>r. row_token r = t) (users db) = Some r \<longleftrightarrow> r \<in> set (users db) \<and> row_token r = t"
    for r by (auto simp: find_key_eq dest: find_SomeD)
  with assms(2) show ?thesis by (auto simp: GetUserByToken_def who_of_find)
qed

lemma who_fallback:
  assumes "db_inv db" and "conn_ok db"
  shows "who_of (GetUserByFallbackToken t db) = Some i \<longleftrightarrow>
    t \<noteq> [] \<and> (\<exists>r\<in>set (users db). row_id r = i \<and> row_fallback_token r = Some t)"
proof -
  have uniq: "row_id r = row_id s" if "r \<in> set (users db)" "s \<in> set (users db)"
    "row_fallback_token r = Some t" "row_fallback_token s = Some t" for r s
  proof -
    have "fallback_unique (users db)" using assms(1) by (simp add: db_inv_def users_ok_def)
    with that show ?thesis unfolding fallback_unique_def by (metis option.distinct(1))
  qed
  show ?thesis
  proof (cases "find (\<lambda>r. row_fallback_token r = Some t) (users db)")
    case None
    then show ?thesis using assms(2)
      by (auto simp: GetUserByFallbackToken_def who_of_find who_of_def [of "Inr None"] find_None_iff
          dest: find_SomeD)
  next
    case (Some r)
    then have "r \<in> set (users db)" "row_fallback_token r = Some t"
      by (auto simp: find_Some_iff)
    moreover from this have "(\<exists>s\<in>set (users db). row_id s = i \<and> row_fallback_token s = Some t) \<longleftrightarrow>
        row_id r = i"
      using uniq by blast
    ultimately show ?thesis using Some assms(2)
      by (simp add: GetUserByFallbackToken_def who_of_find who_of_def [of "Inr None"])
  qed
qed

lemma row_id_unique:
  "db_inv db \<Longrightarrow> r \<in> set (users db) \<Longrightarrow> s \<in> set (users db) \<Longrightarrow> row_id r = row_id s \<Longrightarrow> r = s"
  by (auto simp: inv_defs ids_ok_def distinct_map inj_on_def)

lemma UpdateUserToken_Inr:
  assumes "UpdateUserToken now i t db = Inr db'"
  shows "db' = update_user i (\<lambda>r. r\<lparr>row_token := t, row_updated_at := now\<rparr>) db \<and> conn_ok db"
  using assms by (auto simp: UpdateUserToken_def split: if_splits)

lemma UpdateFallbackToken_Inr:
  assumes "UpdateFallbackToken now i t db = Inr db'"
  shows "db' = update_user i (\<lambda>r. r\<lparr>row_fallback_token := Some t, row_updated_at := now\<rparr>) db \<and> conn_ok db"
  using assms by (auto simp: UpdateFallbackToken_def split: if_splits)

interpretation sub_token: token_directory "\<lambda>db. db_inv db \<and> conn_ok db" user_ids "\<lambda>t. True"
  UpdateUserToken "\<lambda>t db. who_of (GetUserByToken t db)"
proof
  fix db now i t db' j x
  assume ok: "db_inv db \<and> conn_ok db" and rot: "UpdateUserToken now i t db = Inr db'"
  note db' = UpdateUserToken_Inr [OF rot]
  from ok rot show ok': "db_inv db' \<and> conn_ok db'"
    using db' UpdateUserToken_inv by auto
  show "user_ids db' = user_ids db"
    using db' by (simp add: user_ids_def image_update_where)
  show "i \<in> user_ids db \<Longrightarrow> who_of (GetUserByToken t db') = Some i"
    using ok' db' by (auto simp: who_token bex_update_where user_ids_def)
  show "j \<noteq> i \<Longrightarrow> who_of (GetUserByToken x db') = Some j \<longleftrightarrow> who_of (GetUserByToken x db) = Some j"
    using ok ok' db' by (auto simp: who_token bex_update_where)
next
  fix db t i t'
  assume "db_inv db \<and> conn_ok db" "who_of (GetUserByToken t db) = Some i"
    "who_of (GetUserByToken t' db) = Some i"
  then show "t = t'" by (metis who_token row_id_unique)
qed

interpretation fb_token: token_directory "\<lambda>db. db_inv db \<and> conn_ok db" user_ids "\<lambda>t. t \<noteq> []"
  UpdateFallbackToken "\<lambda>t db. who_of (GetUserByFallbackToken t db)"
proof
  fix db now i t db' j x
  assume ok: "db_inv db \<and> conn_ok db" and rot: "UpdateFallbackToken now i t db = Inr db'"
  note db' = UpdateFallbackToken_Inr [OF rot]
  from ok rot show ok': "db_inv db' \<and> conn_ok db'"
    using db' UpdateFallbackToken_inv by auto
  show "user_ids db' = user_ids db"
    using db' by (simp add: user_ids_def image_update_where)
  show "i \<in> user_ids db \<Longrightarrow> t \<noteq> [] \<Longrightarrow> who_of (GetUserByFallbackToken t db') = Some i"
    using ok' db' by (auto simp: who_fallback bex_update_where user_ids_def)
  show "j \<noteq> i \<Longrightarrow>
    who_of (GetUserByFallbackToken x db') = Some j \<longleftrightarrow> who_of (GetUserByFallbackToken x db) = Some j"
    using ok ok' db' by (auto simp: who_fallback bex_update_where)
next
  fix db t i t'
  assume "db_inv db \<and> conn_ok db" "who_of (GetUserByFallbackToken t db) = Some i"
    "who_of (GetUserByFallbackToken t' db) = Some i"
  then show "t = t'" by (metis who_fallback row_id_unique option.inject)
qed

section \<open>Properties\<close>

text \<open>C2: Rotation revokes. After any successful run of token rotations, by any admins at any
  times, a user whose last rotation issued token \<open>t\<close> is found by \<open>GetUserByToken\<close> under \<open>t\<close> and
  under no other token, and a user that was not rotated is found under the same tokens as
  before.\<close>

theorem token_rotation_revokes:
  assumes "db_reachable db" and "conn_ok db"
    and "run_rotations UpdateUserToken (pre @ (now, i, t) # post) db = Inr db'"
    and "i \<in> user_ids db" and "i \<notin> (fst \<circ> snd) ` set post"
  shows "(\<forall>x. who_of (GetUserByToken x db') = Some i \<longleftrightarrow> x = t) \<and>
    (\<forall>j x. j \<notin> (fst \<circ> snd) ` set (pre @ (now, i, t) # post) \<longrightarrow>
      who_of (GetUserByToken x db') = Some j \<longleftrightarrow> who_of (GetUserByToken x db) = Some j)"
  using sub_token.run_only_last [OF _ assms(4) TrueI assms(5,3)] sub_token.run_other [OF _ assms(3)]
    assms(1,2) by (auto simp: reachable_inv)

theorem token_rotation_revokes_witness:
  "\<exists>db'. run_rotations UpdateUserToken [(5, 1, ''a''), (6, 1, ''b'')] sample_db = Inr db' \<and>
     who_of (GetUserByToken ''b'' db') = Some 1 \<and> who_of (GetUserByToken ''t-alice'' db') \<noteq> Some 1 \<and>
     who_of (GetUserByToken ''t-bob'' db') = Some 2"
proof -
  define db' where "db' = projr (run_rotations UpdateUserToken [(5, 1, ''a''), (6, 1, ''b'')] sample_db)"
  have run: "run_rotations UpdateUserToken ([(5, 1, ''a'')] @ (6, 1, ''b'') # []) sample_db = Inr db'"
    unfolding db'_def by code_simp
  have u: "1 \<in> user_ids sample_db" by code_simp
  have "who_of (GetUserByToken ''t-bob'' sample_db) = Some 2" by code_simp
  with run token_rotation_revokes [OF sample_reachable sample_conn run u] show ?thesis by simp
qed

text \<open>A fallback token behaves in the same way: after a successful rotation to a non-empty
  token, the user is found by \<open>GetUserByFallbackToken\<close> under the new token only, the previous
  token finds nobody, and the other users keep their tokens.\<close>

lemma fallback_rotation_revokes:
  assumes "db_reachable db" and "conn_ok db" and "i \<in> user_ids db" and "t \<noteq> []"
    and "UpdateFallbackToken now i t db = Inr db'"
  shows "(\<forall>x. who_of (GetUserByFallbackToken x db') = Some i \<longleftrightarrow> x = t) \<and>
    (\<forall>old. who_of (GetUserByFallbackToken old db) = Some i \<longrightarrow> old \<noteq> t \<longrightarrow>
      who_of (GetUserByFallbackToken old db') = None) \<and>
    (\<forall>j x. j \<noteq> i \<longrightarrow> who_of (GetUserByFallbackToken x db') = Some j \<longleftrightarrow>
      who_of (GetUserByFallbackToken x db) = Some j)"
  using fb_token.only_new_token [OF _ assms(3-5)] fb_token.old_token_revoked [OF _ assms(3-5)]
    fb_token.who_other [OF _ assms(5)] assms(1,2) by (simp add: reachable_inv)

end
