(* ===== verification/Db_Properties.thy ===== *)
theory Db_Properties
  imports Tokens
begin

text \<open>
  What the callers of \<open>DB\<close> rely on: the life cycle of a user, what a resync of the
  configuration files keeps, and the switches stored in \<open>app_settings\<close>.
\<close>

section \<open>Integrity\<close>

text \<open>C1: Whatever sequence of \<open>DB\<close> calls runs, with whatever arguments and whatever connection
  failures in between, the tables keep their integrity: identifiers are positive, distinct and
  below their counter; user names, tokens, fallback tokens, inbound tags, profile names, node
  names and setting keys are unique; a user has at most one client per inbound; every client
  and every placement refers to rows that exist.\<close>

theorem db_integrity: "db_reachable db \<Longrightarrow> db_inv db"
  by (rule reachable_inv)

theorem db_integrity_witness: "db_inv sample_db \<and> users sample_db \<noteq> [] \<and> user_clients sample_db \<noteq> []"
  by (intro conjI, rule db_integrity [OF sample_reachable]) code_simp+

section \<open>The settings table as a key-value store\<close>

locale kv_store =
  fixes get :: "'k \<Rightarrow> 's \<Rightarrow> 'v option"
    and put :: "'k \<Rightarrow> 'v \<Rightarrow> 's \<Rightarrow> 's"
    and del :: "'k list \<Rightarrow> 's \<Rightarrow> 's"
  assumes get_put: "get k (put j v s) = (if k = j then Some v else get k s)"
    and get_del: "get k (del ks s) = (if k \<in> set ks then None else get k s)"
begin

lemma get_put_same [simp]: "get k (put k v s) = Some v"
  by (simp add: get_put)

lemma get_put_other [simp]: "k \<noteq> j \<Longrightarrow> get k (put j v s) = get k s"
  by (simp add: get_put)

lemma get_put_all:
  assumes "distinct (map fst kvs)" and "(k, v) \<in> set kvs"
  shows "get k (fold (\<lambda>(k, v). put k v) kvs s) = Some v"
  using assms
proof (induction kvs arbitrary: s rule: rev_induct)
  case (snoc kv kvs)
  then show ?case by (cases kv) (auto simp: get_put rev_image_eqI)
qed simp

lemma get_put_untouched:
  "k \<notin> fst ` set kvs \<Longrightarrow> get k (fold (\<lambda>(k, v). put k v) kvs s) = get k s"
  by (induction kvs arbitrary: s) (auto simp: get_put)

lemma del_put: "k \<in> set ks \<Longrightarrow> get j (del ks (put k v s)) = get j (del ks s)"
  by (auto simp: get_del get_put)

end

lemma map_of_update_where:
  "map_of (update_where (\<lambda>kv. fst kv = j) (\<lambda>kv. (fst kv, v)) kvs) k =
     (if k = j then map_option (\<lambda>_. v) (map_of kvs k) else map_of kvs k)"
  by (induction kvs) auto

lemma map_of_delete_where:
  "map_of (delete_where (\<lambda>kv. fst kv \<in> K) kvs) k = (if k \<in> K then None else map_of kvs k)"
  by (induction kvs) (auto simp: delete_where_def)

lemma has_key: "list_ex (\<lambda>kv. fst kv = k) kvs \<longleftrightarrow> map_of kvs k \<noteq> None"
  by (induction kvs) auto

interpretation settings: kv_store get_setting put_setting del_settings
proof
  fix k j :: string and v :: setting and db :: db
  show "get_setting k (put_setting j v db) = (if k = j then Some v else get_setting k db)"
    by (auto simp: get_setting_def put_setting_def has_key map_of_update_where map_add_def
        split: option.splits)
next
  fix k :: string and ks :: "string list" and db :: db
  show "get_setting k (del_settings ks db) = (if k \<in> set ks then None else get_setting k db)"
    by (simp add: get_setting_def del_settings_def map_of_delete_where)
qed

section \<open>The emergency switch\<close>

lemma digit_of_utoa: "c \<in> set (utoa n) \<Longrightarrow> digit_val c \<noteq> None"
  using set_utoa by fastforce

lemma not_space_digit: "digit_val c \<noteq> None \<Longrightarrow> \<not> is_space c"
  by (auto simp: digit_val_def digit_chars_def is_space_def upt_rec split: if_splits)

lemma Sscanf_Itoa:
  assumes "int64_min \<le> i" and "i \<le> int64_max"
  shows "Sscanf_d (Itoa i) = Some i"
proof -
  have digits: "takeWhile (\<lambda>c. digit_val c \<noteq> None) (utoa n) = utoa n" for n
    using digit_of_utoa by (simp only: takeWhile_eq_all_conv) blast
  obtain c cs where u: "utoa (nat i) = c # cs" by (cases "utoa (nat i)") auto
  then have c: "digit_val c \<noteq> None" "c \<noteq> CHR ''-''" "c \<noteq> CHR ''+''"
    using utoa_no_sign [of "nat i"] digit_of_utoa [of c "nat i"] by auto
  have "Sscanf_d (Itoa i) = ParseInt (Itoa i)"
  proof (cases "i < 0")
    case True
    then show ?thesis by (simp add: Sscanf_d_def Itoa_def is_space_def digits del: not_None_eq)
  next
    case False
    have "takeWhile (\<lambda>c. digit_val c \<noteq> None) cs = cs"
      using digits [of "nat i", unfolded u] c(1) by (simp only: takeWhile.simps if_True not_False_eq_True list.inject)
    with False u c show ?thesis
      by (simp add: Sscanf_d_def Itoa_def not_space_digit del: not_None_eq takeWhile_eq_all_conv)
  qed
  then show ?thesis using assms by (simp add: ParseInt_Itoa)
qed

definition inactive_status :: emergency_status where
  "inactive_status = \<lparr>es_Active = False, es_ProfileID = None, es_Profile = None, es_ActivatedAt = None\<rparr>"

lemma GetEmergencyProfile_put [simp]:
  "GetEmergencyProfile i (put_setting k v db) = GetEmergencyProfile i db"
  by (simp add: GetEmergencyProfile_def)

lemma conn_del_settings [simp]: "conn_ok (del_settings ks db) = conn_ok db"
  by (simp add: del_settings_def)

lemma Itoa_nonempty [simp]: "Itoa i \<noteq> []"
  by (simp add: Itoa_def)

text \<open>The emergency switch reads back as it was set. For every profile id that fits
  \<open>int64\<close>, activation on a working connection succeeds and the status then reports active, that
  id, the profile stored under it, and the activation time in whole seconds; deactivation
  makes the status inactive again. Neither changes the fallback switch.\<close>

lemma emergency_switch_roundtrip:
  assumes "conn_ok db" and "int64_min \<le> i" and "i \<le> int64_max"
  shows "\<exists>db1 db2. ActivateEmergency now i db = Inr db1 \<and> DeactivateEmergency db1 = Inr db2 \<and>
    GetEmergencyStatus db1 = Inr \<lparr>es_Active = True, es_ProfileID = Some i,
      es_Profile = (case GetEmergencyProfile i db of Inl _ \<Rightarrow> None | Inr p \<Rightarrow> p),
      es_ActivatedAt = Some (now div Second * Second)\<rparr> \<and>
    GetEmergencyStatus db2 = Inr inactive_status \<and>
    GetFallbackEnabled db1 = GetFallbackEnabled db \<and> GetFallbackEnabled db2 = GetFallbackEnabled db"
  using assms
  by (simp add: ActivateEmergency_def DeactivateEmergency_def GetEmergencyStatus_def
      GetFallbackEnabled_def with_conn_def settings.get_put settings.get_del Sscanf_Itoa
      inactive_status_def Let_def)

section \<open>The life of a user\<close>

lemma find_append_Some: "find P xs = Some x \<Longrightarrow> find P (xs @ ys) = Some x"
  by (induction xs) (auto split: if_splits)

lemma find_none_new: "x \<notin> key ` set rows \<Longrightarrow> find (\<lambda>r. key r = x) rows = None"
  by (auto simp: find_None_iff)

text \<open>A created user is found. When \<open>CreateUser\<close> succeeds, looking the user up by id, by
  user name, by token and (when one was given) by fallback token all return the user that
  \<open>CreateUser\<close> returned, enabled, with an empty list of routes; every user that was there is
  still found under its token.\<close>

lemma created_user_found:
  assumes "db_reachable db" and "CreateUser now name email tok fb db = Inr (db', u)"
  shows "(let r = Inr (Some (u\<lparr>u_ClientRoutes := Doc (JArr [])\<rparr>)) in
      GetUserByID (u_ID u) db' = r \<and> GetUserByUsername (TrimSpace name) db' = r \<and>
      GetUserByToken tok db' = r \<and>
      (TrimSpace fb \<noteq> [] \<longrightarrow> GetUserByFallbackToken (TrimSpace fb) db' = r)) \<and>
    u_Enabled u \<and> u_ID u \<notin> user_ids db \<and>
    (\<forall>t v. GetUserByToken t db = Inr (Some v) \<longrightarrow> GetUserByToken t db' = Inr (Some v))"
proof -
  define row where "row = \<lparr>row_id = users_seq db + 1, row_username = TrimSpace name,
    row_email = (if TrimSpace email = [] then TrimSpace name else TrimSpace email),
    row_token = tok, row_fallback_token = (if TrimSpace fb \<noteq> [] then Some (TrimSpace fb) else None),
    row_fallback_accessed_at = None, row_enabled = True, row_client_routes = Doc (JArr []),
    row_hy2_enabled = True, row_created_at = now, row_updated_at = now\<rparr>"
  have inv: "db_inv db" using assms(1) by (rule reachable_inv)
  from assms(2) have db': "db' = db\<lparr>users := users db @ [row], users_seq := users_seq db + 1\<rparr>"
    and u: "u\<lparr>u_ClientRoutes := Doc (JArr [])\<rparr> = scanUser row" "u_ID u = users_seq db + 1" "u_Enabled u"
    and conn: "conn_ok db"
    and new: "TrimSpace name \<notin> row_username ` set (users db)" "tok \<notin> row_token ` set (users db)"
      "TrimSpace fb \<noteq> [] \<Longrightarrow> Some (TrimSpace fb) \<notin> row_fallback_token ` set (users db)"
    by (auto simp: CreateUser_def Let_def row_def list_ex_iff scanUser_def TrimSpace_idem split: if_splits)
  have id: "users_seq db + 1 \<notin> row_id ` set (users db)"
    using inv by (force simp: inv_defs ids_ok_def)
  have fnd: "find_user (\<lambda>r. key r = x) db' = Inr (Some (scanUser row))"
    if "x \<notin> key ` set (users db)" "key row = x" for key :: "user_row \<Rightarrow> 'k" and x
    using that conn by (simp add: find_user_def with_conn_def db' find_append_new find_none_new)
  have "GetUserByID (u_ID u) db' = Inr (Some (scanUser row))"
    "GetUserByUsername (TrimSpace name) db' = Inr (Some (scanUser row))"
    "GetUserByToken tok db' = Inr (Some (scanUser row))"
    using id new(1,2) u(2) by (simp_all add: GetUserByID_def GetUserByUsername_def GetUserByToken_def fnd row_def)
  moreover have "GetUserByFallbackToken (TrimSpace fb) db' = Inr (Some (scanUser row))" if "TrimSpace fb \<noteq> []"
    using new(3) that by (simp add: GetUserByFallbackToken_def fnd row_def)
  moreover have "GetUserByToken t db = Inr (Some v) \<longrightarrow> GetUserByToken t db' = Inr (Some v)" for t v
    by (auto simp: GetUserByToken_def find_user_def with_conn_def db' dest: find_append_Some)
  ultimately show ?thesis using u id by (simp add: Let_def user_ids_def)
qed

text \<open>C5: Deleting a user leaves nothing behind. The user is no longer found under any token, has
  no client and no placement; every other user keeps row, clients and placement.\<close>

theorem deleted_user_gone:
  assumes "db_reachable db" and "DeleteUser i db = Inr db'"
  shows "GetUserByID i db' = Inr None \<and> (\<forall>t. who_of (GetUserByToken t db') \<noteq> Some i) \<and>
    (\<forall>t. who_of (GetUserByFallbackToken t db') \<noteq> Some i) \<and>
    GetAllUserClients i db' = Inr [] \<and> ListNodeIDsForUser i db' = Inr [] \<and>
    (\<forall>j. j \<noteq> i \<longrightarrow> GetUserByID j db' = GetUserByID j db \<and>
      GetAllUserClients j db' = GetAllUserClients j db \<and>
      ListNodeIDsForUser j db' = ListNodeIDsForUser j db)"
proof -
  have inv: "db_inv db'" using assms reachable_inv DeleteUser_inv by blast
  from assms(2) have db': "db' = db\<lparr>users := delete_where (\<lambda>r. row_id r = i) (users db),
      user_clients := delete_where (\<lambda>c. uc_UserID c = i) (user_clients db),
      user_nodes := delete_where (\<lambda>un. fst un = i) (user_nodes db)\<rparr>" and conn: "conn_ok db'"
    by (auto simp: DeleteUser_def)
  have "find (\<lambda>r. row_id r = i) (users db') = None"
    by (auto simp: db' find_None_iff set_delete_where)
  then have "GetUserByID i db' = Inr None"
    using conn by (simp add: GetUserByID_def find_user_def with_conn_def)
  moreover have "i \<notin> row_id ` set (users db')" by (auto simp: db' set_delete_where)
  then have "\<forall>t. who_of (GetUserByToken t db') \<noteq> Some i \<and> who_of (GetUserByFallbackToken t db') \<noteq> Some i"
    using inv conn by (auto simp: who_token who_fallback)
  moreover have "filter (\<lambda>c. uc_UserID c = i) (user_clients db') = []"
    "filter (\<lambda>un. fst un = i) (user_nodes db') = []"
    by (auto simp: db' filter_empty_conv set_delete_where)
  then have "GetAllUserClients i db' = Inr []" "ListNodeIDsForUser i db' = Inr []"
    using conn by (simp_all add: GetAllUserClients_def ListNodeIDsForUser_def with_conn_def clients_join_def)
  moreover have "find (\<lambda>r. row_id r = j) (users db') = find (\<lambda>r. row_id r = j) (users db)"
    "filter (\<lambda>c. uc_UserID c = j) (user_clients db') = filter (\<lambda>c. uc_UserID c = j) (user_clients db)"
    "filter (\<lambda>un. fst un = j) (user_nodes db') = filter (\<lambda>un. fst un = j) (user_nodes db)"
    if "j \<noteq> i" for j
  proof -
    have "find (\<lambda>r. row_id r = j) (delete_where (\<lambda>r. row_id r = i) rs) = find (\<lambda>r. row_id r = j) rs" for rs
      using that by (induction rs) (auto simp: delete_where_def)
    moreover have "filter (\<lambda>x. key x = j) (delete_where (\<lambda>x. key x = i) xs) = filter (\<lambda>x. key x = j) xs"
      for key :: "'r \<Rightarrow> int" and xs
      using that by (induction xs) (auto simp: delete_where_def)
    ultimately show "find (\<lambda>r. row_id r = j) (users db') = find (\<lambda>r. row_id r = j) (users db)"
      "filter (\<lambda>c. uc_UserID c = j) (user_clients db') = filter (\<lambda>c. uc_UserID c = j) (user_clients db)"
      "filter (\<lambda>un. fst un = j) (user_nodes db') = filter (\<lambda>un. fst un = j) (user_nodes db)"
      by (simp_all add: db')
  qed
  then have "\<forall>j. j \<noteq> i \<longrightarrow> GetUserByID j db' = GetUserByID j db \<and>
      GetAllUserClients j db' = GetAllUserClients j db \<and> ListNodeIDsForUser j db' = ListNodeIDsForUser j db"
    by (simp add: GetUserByID_def find_user_def with_conn_def GetAllUserClients_def clients_join_def
        ListNodeIDsForUser_def) (simp add: db')
  ultimately show ?thesis by blast
qed

theorem deleted_user_gone_witness:
  "GetUserByID 1 (projr (DeleteUser 1 sample_db)) = Inr None \<and>
   GetAllUserClients 1 (projr (DeleteUser 1 sample_db)) = Inr []"
proof -
  have d: "DeleteUser 1 sample_db = Inr (projr (DeleteUser 1 sample_db))" by code_simp
  show ?thesis using deleted_user_gone [OF sample_reachable d] by blast
qed

end
