(* ===== verification/Placement.thy ===== *)
theory Placement
  imports Samples
begin

text \<open>
  Nodes and the placement of users on them: \<open>ReconcileNodes\<close> makes the table follow the
  configuration, \<open>SetUserNodes\<close> replaces the placement of one user, and
  \<open>BackfillUserNodesToEnabled\<close> gives the users that have none every enabled node.
\<close>

section \<open>Reconciling the node table\<close>

definition find_node :: "string \<Rightarrow> db \<Rightarrow> node option" where
  "find_node name db = find (\<lambda>n. n_Name n = name) (nodes db)"

text \<open>The row that configuration entry \<open>d\<close> gives: what the configuration says, with the
  identifier and the creation time of the row that is there already.\<close>

definition node_row :: "time \<Rightarrow> int \<Rightarrow> node option \<Rightarrow> node \<Rightarrow> node" where
  "node_row now i old d = (case old of
     None \<Rightarrow> d\<lparr>n_ID := i, n_CreatedAt := now\<rparr>
   | Some m \<Rightarrow> d\<lparr>n_ID := n_ID m, n_CreatedAt := n_CreatedAt m\<rparr>)"

lemma node_row_simps [simp]:
  "n_Name (node_row now i old d) = n_Name d" "n_Enabled (node_row now i old d) = n_Enabled d"
  by (simp_all add: node_row_def split: option.splits)

lemma list_ex_find: "list_ex P xs \<longleftrightarrow> find P xs \<noteq> None"
  by (induction xs) auto

lemma find_node_None: "find_node x db = None \<longleftrightarrow> x \<notin> n_Name ` set (nodes db)"
  by (auto simp: find_node_def find_None_iff)

lemma find_node_SomeD: "find_node x db = Some n \<Longrightarrow> n \<in> set (nodes db) \<and> n_Name n = x"
  by (auto simp: find_node_def find_Some_iff)

lemma find_nodes_fun_upd:
  assumes "\<And>m. n_Name (f m) = n_Name m"
  shows "find (\<lambda>n. n_Name n = x) (update_where (\<lambda>m. n_Name m = y) f ns) =
    map_option (\<lambda>m. if x = y then f m else m) (find (\<lambda>n. n_Name n = x) ns)"
  using assms by (induction ns) auto

lemma UpsertNode_view:
  assumes "conn_ok db"
  shows "\<exists>db' i. UpsertNode now n db = Inr (db', i) \<and> conn_ok db' \<and>
    user_nodes db' = user_nodes db \<and>
    (\<forall>x. find_node x db' = (if x = n_Name n
       then Some (node_row now (nodes_seq db + 1) (find_node x db) n) else find_node x db))"
proof (cases "find_node (n_Name n) db")
  case None
  then have no: "find (\<lambda>m. n_Name m = n_Name n) (nodes db) = None" by (simp add: find_node_def)
  moreover have "\<not> list_ex (\<lambda>m. n_Name m = n_Name n) (nodes db)"
    using None by (simp add: list_ex_find find_node_def)
  ultimately show ?thesis using assms None
    by (auto simp: UpsertNode_def Let_def find_append_new find_node_def node_row_def
        find_append_old split: option.splits)
next
  case (Some m)
  then have ex: "list_ex (\<lambda>m. n_Name m = n_Name n) (nodes db)"
    by (simp add: list_ex_find find_node_def)
  have "n_Name m = n_Name n" using Some by (auto dest: find_node_SomeD)
  then have "m\<lparr>n_APIAddr := n_APIAddr n, n_InboundTag := n_InboundTag n, n_PublicHost := n_PublicHost n,
      n_PublicPort := n_PublicPort n, n_Enabled := n_Enabled n\<rparr> =
      n\<lparr>n_ID := n_ID m, n_CreatedAt := n_CreatedAt m\<rparr>"
    by (cases m; cases n) simp
  with assms Some ex show ?thesis
    by (auto simp: UpsertNode_def Let_def find_nodes_fun_upd find_node_def node_row_def option.map_ident)
qed

lemma upsert_nodes_view:
  assumes "conn_ok db" and "distinct (map n_Name ds)"
  shows "\<exists>db'. upsert_nodes now ds db = (db', None) \<and> conn_ok db' \<and> user_nodes db' = user_nodes db \<and>
    (\<forall>d\<in>set ds. \<exists>i. find_node (n_Name d) db' = Some (node_row now i (find_node (n_Name d) db) d)) \<and>
    (\<forall>x. x \<notin> n_Name ` set ds \<longrightarrow> find_node x db' = find_node x db)"
  using assms
proof (induction ds arbitrary: db)
  case (Cons d ds)
  from UpsertNode_view [OF Cons.prems(1), of now d] obtain db1 i where
    step: "UpsertNode now d db = Inr (db1, i)" and conn: "conn_ok db1" and un: "user_nodes db1 = user_nodes db"
    and view: "\<And>x. find_node x db1 = (if x = n_Name d
       then Some (node_row now (nodes_seq db + 1) (find_node x db) d) else find_node x db)"
    by blast
  from Cons.prems have new: "n_Name d \<notin> n_Name ` set ds" "distinct (map n_Name ds)" by auto
  from Cons.IH [OF conn new(2)] obtain db' where
    "upsert_nodes now ds db1 = (db', None)" "conn_ok db'" "user_nodes db' = user_nodes db1"
    and here: "\<forall>d\<in>set ds. \<exists>i. find_node (n_Name d) db' = Some (node_row now i (find_node (n_Name d) db1) d)"
    and rest: "\<forall>x. x \<notin> n_Name ` set ds \<longrightarrow> find_node x db' = find_node x db1"
    by blast
  moreover have "\<exists>i. find_node (n_Name d) db' = Some (node_row now i (find_node (n_Name d) db) d)"
    using rest new(1) view by auto
  moreover have "find_node (n_Name e) db1 = find_node (n_Name e) db" if "e \<in> set ds" for e
    using that new(1) by (metis view image_eqI)
  ultimately show ?case using step un view by auto
qed simp

lemma fold_disable_nodes:
  "nodes (fold (\<lambda>n d. if Q n then d else disable_node (n_ID n) d) ns db) =
     update_where (\<lambda>n. n_ID n \<in> n_ID ` {m \<in> set ns. \<not> Q m}) (\<lambda>n. n\<lparr>n_Enabled := False\<rparr>) (nodes db) \<and>
   user_nodes (fold (\<lambda>n d. if Q n then d else disable_node (n_ID n) d) ns db) = user_nodes db \<and>
   conn_ok (fold (\<lambda>n d. if Q n then d else disable_node (n_ID n) d) ns db) = conn_ok db"
proof (induction ns arbitrary: db)
  case Nil
  show ?case by (simp add: update_where_def)
next
  case (Cons n ns)
  show ?case
  proof (cases "Q n")
    case True
    then have "{m \<in> set (n # ns). \<not> Q m} = {m \<in> set ns. \<not> Q m}" by auto
    with True Cons show ?thesis by simp
  next
    case False
    then have "n_ID ` {m \<in> set (n # ns). \<not> Q m} = insert (n_ID n) (n_ID ` {m \<in> set ns. \<not> Q m})"
      by auto
    with False Cons [of "disable_node (n_ID n) db"] show ?thesis
      by (simp add: disable_node_def update_where_def comp_def if_distrib [of n_ID] cong: if_cong)
  qed
qed

lemma disable_others:
  assumes "db_inv db"
    and "db' = fold (\<lambda>n d. if n_Name n \<in> N \<or> \<not> n_Enabled n then d else disable_node (n_ID n) d)
      (sort_key n_Name (nodes db)) db"
  shows "find_node x db' = (if x \<in> N then find_node x db
    else map_option (\<lambda>n. n\<lparr>n_Enabled := False\<rparr>) (find_node x db))"
proof -
  have dist: "distinct (map n_ID (nodes db))" using assms(1) by (simp add: inv_defs ids_ok_def)
  have "n_ID n \<in> n_ID ` {m \<in> set (nodes db). \<not> (n_Name m \<in> N \<or> \<not> n_Enabled m)} \<longleftrightarrow>
      n_Name n \<notin> N \<and> n_Enabled n" if "n \<in> set (nodes db)" for n
    using distinct_key_inj [OF dist] that by blast
  then have "nodes db' = map (\<lambda>n. if n_Name n \<notin> N \<and> n_Enabled n then n\<lparr>n_Enabled := False\<rparr> else n) (nodes db)"
    unfolding assms(2) by (simp add: fold_disable_nodes update_where_def)
  also have "\<dots> = map (\<lambda>n. if n_Name n \<in> N then n else n\<lparr>n_Enabled := False\<rparr>) (nodes db)"
    by simp
  finally have nodes: "nodes db' = map (\<lambda>n. if n_Name n \<in> N then n else n\<lparr>n_Enabled := False\<rparr>) (nodes db)" .
  have "find (\<lambda>n. n_Name n = x) (map (\<lambda>n. if n_Name n \<in> N then n else n\<lparr>n_Enabled := False\<rparr>) ns) =
    (if x \<in> N then find (\<lambda>n. n_Name n = x) ns
     else map_option (\<lambda>n. n\<lparr>n_Enabled := False\<rparr>) (find (\<lambda>n. n_Name n = x) ns))" for ns
    by (induction ns) auto
  then show ?thesis unfolding find_node_def nodes .
qed

section \<open>Placements\<close>

lemma AssignUserToNodes_set:
  "AssignUserToNodes u ns db = (db', None) \<Longrightarrow>
   set (user_nodes db') = set (user_nodes db) \<union> Pair u ` set ns \<and> conn_ok db' = conn_ok db \<and>
   users db' = users db \<and> nodes db' = nodes db"
proof (induction ns arbitrary: db)
  case (Cons n ns)
  then obtain db1 where "insert_placement u n db = Inr db1" "AssignUserToNodes u ns db1 = (db', None)"
    by (auto split: sum.splits)
  moreover from this(1) have "set (user_nodes db1) = insert (u, n) (set (user_nodes db))"
    "conn_ok db1 = conn_ok db" "users db1 = users db" "nodes db1 = nodes db"
    by (auto simp: insert_placement_def split: if_splits)
  ultimately show ?case using Cons.IH by auto
qed simp

lemma AssignUserToNodes_total:
  assumes "conn_ok db" and "u \<in> row_id ` set (users db)" and "set ns \<subseteq> n_ID ` set (nodes db)"
  shows "\<exists>db'. AssignUserToNodes u ns db = (db', None)"
  using assms
proof (induction ns arbitrary: db)
  case (Cons n ns)
  then have "list_ex (\<lambda>r. row_id r = u) (users db)" "list_ex (\<lambda>m. n_ID m = n) (nodes db)"
    unfolding list_ex_iff_mem by (blast, simp)
  then obtain db1 where db1: "insert_placement u n db = Inr db1"
    "conn_ok db1" "users db1 = users db" "nodes db1 = nodes db"
    using Cons.prems(1) by (cases "(u, n) \<in> set (user_nodes db)") (simp_all add: insert_placement_def)
  with Cons.prems have "\<exists>db'. AssignUserToNodes u ns db1 = (db', None)" by (intro Cons.IH) simp_all
  with db1(1) show ?case by simp
qed simp

lemma AssignUserToNodes_unknown:
  assumes "conn_ok db" and "u \<in> row_id ` set (users db)" and "\<not> set ns \<subseteq> n_ID ` set (nodes db)"
    and "snd ` set (user_nodes db) \<subseteq> n_ID ` set (nodes db)"
  shows "\<exists>db'. AssignUserToNodes u ns db = (db', Some ForeignKeyConstraint)"
  using assms
proof (induction ns arbitrary: db)
  case (Cons n ns)
  have u: "list_ex (\<lambda>r. row_id r = u) (users db)"
    using Cons.prems(2) unfolding list_ex_iff_mem .
  show ?case
  proof (cases "n \<in> n_ID ` set (nodes db)")
    case False
    then have "\<not> list_ex (\<lambda>m. n_ID m = n) (nodes db)" unfolding list_ex_iff_mem .
    moreover have "(u, n) \<notin> set (user_nodes db)" using False Cons.prems(4) by force
    ultimately show ?thesis using Cons.prems(1) by (simp add: insert_placement_def)
  next
    case True
    then have "list_ex (\<lambda>m. n_ID m = n) (nodes db)" unfolding list_ex_iff_mem .
    with u Cons.prems(1,4) True obtain db1 where db1: "insert_placement u n db = Inr db1"
      "conn_ok db1" "users db1 = users db" "nodes db1 = nodes db"
      "snd ` set (user_nodes db1) \<subseteq> n_ID ` set (nodes db)"
      by (cases "(u, n) \<in> set (user_nodes db)") (simp_all add: insert_placement_def)
    with Cons.prems True have "\<exists>db'. AssignUserToNodes u ns db1 = (db', Some ForeignKeyConstraint)"
      by (intro Cons.IH) simp_all
    with db1(1) show ?thesis by simp
  qed
qed simp

lemma sorted_distinct_eq:
  "set xs = set ys \<Longrightarrow> distinct xs \<Longrightarrow> sort xs = sort (remdups ys)" for xs ys :: "'a :: linorder list"
  by (metis distinct_remdups distinct_sort set_remdups set_sort sorted_distinct_set_unique sorted_sort)

lemma placement_of:
  assumes "db_inv db" and "conn_ok db" and "set ns = {n. (u, n) \<in> set (user_nodes db)}"
  shows "ListNodeIDsForUser u db = Inr (sort (remdups ns))"
proof -
  let ?l = "map snd (filter (\<lambda>un. fst un = u) (user_nodes db))"
  have "distinct (user_nodes db)" using assms(1) by (simp add: inv_defs)
  then have "distinct ?l" by (auto simp: distinct_map inj_on_def)
  moreover have "set ?l = set ns" using assms(3) by force
  ultimately have "sort ?l = sort (remdups ns)" by (intro sorted_distinct_eq)
  with assms(2) show ?thesis by (simp add: ListNodeIDsForUser_def with_conn_def)
qed


section \<open>Properties\<close>

text \<open>C7: Reconciling the node table with a configuration whose names are distinct always
  succeeds on a working connection, and makes the table follow the configuration: each
  configured node has a row with the configured fields, keeping the identifier and the
  creation time it had; every other node stays, disabled; no placement is touched.\<close>

theorem reconcile_follows_config:
  assumes "db_reachable db" and "conn_ok db" and "distinct (map n_Name ds)"
  shows "\<exists>db'. ReconcileNodes now ds db = (db', None) \<and> user_nodes db' = user_nodes db \<and>
    (\<forall>d\<in>set ds. \<exists>i. GetNodeByName (n_Name d) db' =
       Inr (Some (node_row now i (find_node (n_Name d) db) d))) \<and>
    (\<forall>x. x \<notin> n_Name ` set ds \<longrightarrow> GetNodeByName x db' =
       Inr (map_option (\<lambda>n. n\<lparr>n_Enabled := False\<rparr>) (find_node x db)))"
proof -
  have inv: "db_inv db" using assms(1) by (rule reachable_inv)
  from upsert_nodes_view [OF assms(2,3), of now] obtain db1 where
    up: "upsert_nodes now ds db = (db1, None)" and conn: "conn_ok db1"
    and un: "user_nodes db1 = user_nodes db"
    and here: "\<forall>d\<in>set ds. \<exists>i. find_node (n_Name d) db1 = Some (node_row now i (find_node (n_Name d) db) d)"
    and rest: "\<forall>x. x \<notin> n_Name ` set ds \<longrightarrow> find_node x db1 = find_node x db"
    by blast
  let ?Q = "\<lambda>n. n_Name n \<in> set (map n_Name ds) \<or> \<not> n_Enabled n"
  let ?db' = "fold (\<lambda>n d. if ?Q n then d else disable_node (n_ID n) d) (sort_key n_Name (nodes db1)) db1"
  have "db_inv db1" using inv up by (rule upsert_nodes_inv)
  then have view: "find_node x ?db' = (if x \<in> set (map n_Name ds) then find_node x db1
      else map_option (\<lambda>n. n\<lparr>n_Enabled := False\<rparr>) (find_node x db1))" for x
    by (rule disable_others) (rule refl)
  have "ReconcileNodes now ds db = (?db', None)"
    using up conn by (simp add: ReconcileNodes_def ListNodes_def with_conn_def)
  moreover have frame: "user_nodes ?db' = user_nodes db" "conn_ok ?db'"
    using fold_disable_nodes [of ?Q "sort_key n_Name (nodes db1)" db1] un conn by auto
  moreover have "GetNodeByName x ?db' = Inr (find_node x ?db')" for x
    using frame(2) by (simp add: GetNodeByName_def with_conn_def find_node_def)
  ultimately show ?thesis using here rest view by (auto intro!: exI [of _ ?db'])
qed

theorem reconcile_follows_config_witness:
  "\<exists>db'. ReconcileNodes 7 [sample_node ''n2'' True] sample_db = (db', None) \<and>
     GetNodeByName ''n1'' db' = Inr (Some ((sample_node ''n1'' False)\<lparr>n_ID := 1, n_CreatedAt := 4\<rparr>))"
proof -
  have h: "db_reachable sample_db" "conn_ok sample_db" "distinct (map n_Name [sample_node ''n2'' True])"
    by (rule sample_reachable, code_simp, code_simp)
  have "find_node ''n1'' sample_db = Some ((sample_node ''n1'' True)\<lparr>n_ID := 1, n_CreatedAt := 4\<rparr>)"
    by code_simp
  moreover have "''n1'' \<notin> n_Name ` set [sample_node ''n2'' True]" by code_simp
  ultimately show ?thesis
    using reconcile_follows_config [OF h, of 7] by (auto simp: sample_node_def)
qed

text \<open>C8: Replacing a user's placement is exact and atomic: on a working connection it succeeds
  when the user and all nodes exist, the user is then on exactly the requested nodes, the
  placement of every other user is unchanged, and an unknown node makes the whole call fail.\<close>

theorem set_user_nodes_exact:
  assumes "db_reachable db" and "conn_ok db" and "u \<in> row_id ` set (users db)"
  shows "if set ns \<subseteq> n_ID ` set (nodes db)
    then \<exists>db'. SetUserNodes u ns db = Inr db' \<and> ListNodeIDsForUser u db' = Inr (sort (remdups ns)) \<and>
      (\<forall>v. v \<noteq> u \<longrightarrow> ListNodeIDsForUser v db' = ListNodeIDsForUser v db)
    else SetUserNodes u ns db = Inl ForeignKeyConstraint"
proof -
  let ?d = "db\<lparr>user_nodes := delete_where (\<lambda>un. fst un = u) (user_nodes db)\<rparr>"
  have inv: "db_inv db" using assms(1) by (rule reachable_inv)
  then have inv': "db_inv ?d" by (rule delete_placements_inv)
  show ?thesis
  proof (cases "set ns \<subseteq> n_ID ` set (nodes db)")
    case True
    then obtain db' where as: "AssignUserToNodes u ns ?d = (db', None)"
      using AssignUserToNodes_total [of ?d u ns] assms(2,3) by auto
    with inv' have ok: "db_inv db'" by (rule AssignUserToNodes_inv)
    from AssignUserToNodes_set [OF as] have rows: "conn_ok db'"
      "set (user_nodes db') = {un \<in> set (user_nodes db). fst un \<noteq> u} \<union> Pair u ` set ns"
      using assms(2) by (auto simp: set_delete_where)
    have "ListNodeIDsForUser v db' = ListNodeIDsForUser v db" if "v \<noteq> u" for v
    proof -
      let ?l = "map snd (filter (\<lambda>un. fst un = v) (user_nodes db))"
      have l: "set ?l = {n. (v, n) \<in> set (user_nodes db)}" by force
      then have "set ?l = {n. (v, n) \<in> set (user_nodes db')}" using rows(2) that by auto
      with l placement_of inv ok rows(1) assms(2) show ?thesis by metis
    qed
    moreover have "ListNodeIDsForUser u db' = Inr (sort (remdups ns))"
      using rows ok by (intro placement_of) auto
    moreover have "SetUserNodes u ns db = Inr db'" using as assms(2) by (simp add: SetUserNodes_def)
    ultimately show ?thesis using True by auto
  next
    case False
    with assms inv' obtain db' where "AssignUserToNodes u ns ?d = (db', Some ForeignKeyConstraint)"
      using AssignUserToNodes_unknown [of ?d u ns] by (auto simp: inv_defs)
    with False assms(2) show ?thesis by (simp add: SetUserNodes_def)
  qed
qed

theorem set_user_nodes_exact_witness:
  "db_reachable sample_db \<and> ListNodeIDsForUser 1 (projr (SetUserNodes 1 [2, 1, 2] sample_db)) = Inr [1, 2] \<and>
   SetUserNodes 1 [2, 9] sample_db = Inl ForeignKeyConstraint"
proof -
  have h: "db_reachable sample_db" "conn_ok sample_db" "1 \<in> row_id ` set (users sample_db)"
    by (rule sample_reachable, code_simp, code_simp)
  have "set [2, 1, 2] \<subseteq> n_ID ` set (nodes sample_db)" "\<not> set [2, 9] \<subseteq> n_ID ` set (nodes sample_db)"
    by code_simp+
  then show ?thesis
    using h(1) set_user_nodes_exact [OF h, of "[2, 1, 2]"] set_user_nodes_exact [OF h, of "[2, 9]"]
    by (auto simp: sort_key_def)
qed

end
