(* ===== verification/Config.thy ===== *)
theory Config
  imports Models
begin

text \<open>
  \<^verbatim>\<open>internal/config/config.go\<close>: the configuration file, its defaults, its validation and the
  values the rest of the service reads from it. \<open>Load\<close> gets the outcome of \<open>os.ReadFile\<close> as an
  argument. Of package \<open>net\<close> the functions that the private-address guard uses are modelled:
  \<open>SplitHostPort\<close>, \<open>ParseIP\<close> (IPv4 and IPv6) and the three address classes.
  A Go map is a list of entries with distinct keys; the list order stands for the iteration
  order, which Go leaves open.
\<close>

section \<open>The configuration\<close>

record hysteria_config =
  hy_Enabled :: "bool"
  hy_Host :: "string"
  hy_Port :: "int"
  hy_ObfsType :: "string"
  hy_ObfsPassword :: "string"
  hy_SNI :: "string"
  hy_CertPin :: "string"
  hy_InMainSub :: "bool"

record NodeTLS =
  tls_CACert :: "string"
  tls_ClientCert :: "string"
  tls_ClientKey :: "string"
  tls_ServerName :: "string"

record NodeDeploy =
  dep_Mode :: "string"

record NodeConfig =
  nc_Name :: "string"
  nc_APIAddr :: "string"
  nc_InboundTag :: "string"
  nc_PublicHost :: "string"
  nc_PublicPort :: "int"
  nc_Enabled :: "bool option"
  nc_Deploy :: "NodeDeploy option"
  nc_AllowPublicGRPC :: "bool"
  nc_TLS :: "NodeTLS option"

record Config =
  c_ListenAddr :: "string"
  c_MetricsListen :: "string"
  c_MetricsAnonymizeSecret :: "string"
  c_ProfileUpdateIntervalHours :: "int"
  c_ServerHost :: "string"
  c_ConfigDir :: "string"
  c_DBPath :: "string"
  c_SyncInterval :: "int"
  c_BaseURL :: "string"
  c_FallbackBaseURL :: "string"
  c_FallbackServerHost :: "string"
  c_FallbackInboundHosts :: "(string \<times> string) list option"
  c_FallbackInboundTags :: "string list"
  c_KillSwitchInboundTags :: "string list"
  c_ExcludeInboundTags :: "string list"
  c_Hysteria :: "hysteria_config option"
  c_AdminToken :: "string"
  c_BalancerStrategy :: "string"
  c_BalancerProbeURL :: "string"
  c_BalancerProbeFreq :: "string"
  c_SocksInboundPort :: "int"
  c_HTTPInboundPort :: "int"
  c_RateLimitSubPerMin :: "int"
  c_RateLimitAdminPerMin :: "int"
  c_APIUserInboundTag :: "string"
  c_XrayAPIAddr :: "string"
  c_APIUserInboundProtocol :: "string"
  c_APIUserInboundPort :: "int"
  c_XrayConfigFileMode :: "string"
  c_InboundHosts :: "(string \<times> string) list"
  c_InboundPorts :: "(string \<times> int) list"
  c_ClientBlackholeResponse :: "string"
  c_ClientDNSServers :: "json list"
  c_VLESSClientEncryption :: "(string \<times> string) list"
  c_XrayEnabled :: "bool option"
  c_KillSwitchReconcileInterval :: "int"
  c_Nodes :: "NodeConfig list"
  c_xrayFilePerm :: "int"

text \<open>Decoding a JSON object into a Go map: the entries are added one after the other.\<close>

definition map_put :: "string \<Rightarrow> 'a \<Rightarrow> (string \<times> 'a) list \<Rightarrow> (string \<times> 'a) list" where
  "map_put k x m = filter (\<lambda>kv. fst kv \<noteq> k) m @ [(k, x)]"

fun dec_members :: "'a decoder \<Rightarrow> 'a \<Rightarrow> (string \<times> json) list \<Rightarrow> (string \<times> 'a) list \<Rightarrow> (string \<times> 'a) list option" where
  "dec_members d z [] m = Some m"
| "dec_members d z ((k, v) # o') m =
     (case d z v of None \<Rightarrow> None | Some x \<Rightarrow> dec_members d z o' (map_put k x m))"

fun dec_map :: "'a decoder \<Rightarrow> 'a \<Rightarrow> (string \<times> 'a) list decoder" where
  "dec_map d z p JNull = Some []"
| "dec_map d z p (JObj o') = dec_members d z o' p"
| "dec_map d z p _ = None"

abbreviation dec_any_list :: "json list decoder" where
  "dec_any_list \<equiv> dec_list (\<lambda>_ j. Some j) JNull"

definition zero_hysteria :: hysteria_config where
  "zero_hysteria = \<lparr>hy_Enabled = False,
     hy_Host = [],
     hy_Port = 0,
     hy_ObfsType = [],
     hy_ObfsPassword = [],
     hy_SNI = [],
     hy_CertPin = [],
     hy_InMainSub = False\<rparr>"

definition zero_tls :: NodeTLS where
  "zero_tls = \<lparr>tls_CACert = [],
     tls_ClientCert = [],
     tls_ClientKey = [],
     tls_ServerName = []\<rparr>"

definition zero_deploy :: NodeDeploy where
  "zero_deploy = \<lparr>dep_Mode = []\<rparr>"

definition zero_node :: NodeConfig where
  "zero_node = \<lparr>nc_Name = [],
     nc_APIAddr = [],
     nc_InboundTag = [],
     nc_PublicHost = [],
     nc_PublicPort = 0,
     nc_Enabled = None,
     nc_Deploy = None,
     nc_AllowPublicGRPC = False,
     nc_TLS = None\<rparr>"

definition dec_hysteria :: "hysteria_config decoder" where
  "dec_hysteria = dec_struct (\<lambda>p o'.
     Option.bind (fld ''enabled'' dec_bool o' (hy_Enabled p)) (\<lambda>x0.
     Option.bind (fld ''host'' dec_string o' (hy_Host p)) (\<lambda>x1.
     Option.bind (fld ''port'' dec_int o' (hy_Port p)) (\<lambda>x2.
     Option.bind (fld ''obfs_type'' dec_string o' (hy_ObfsType p)) (\<lambda>x3.
     Option.bind (fld ''obfs_password'' dec_string o' (hy_ObfsPassword p)) (\<lambda>x4.
     Option.bind (fld ''sni'' dec_string o' (hy_SNI p)) (\<lambda>x5.
     Option.bind (fld ''cert_pin'' dec_string o' (hy_CertPin p)) (\<lambda>x6.
     Option.bind (fld ''in_main_sub'' dec_bool o' (hy_InMainSub p)) (\<lambda>x7.
     Some (p\<lparr>hy_Enabled := x0, hy_Host := x1, hy_Port := x2, hy_ObfsType := x3, 
       hy_ObfsPassword := x4, hy_SNI := x5, hy_CertPin := x6, hy_InMainSub := x7\<rparr>))))))))))"

definition dec_tls :: "NodeTLS decoder" where
  "dec_tls = dec_struct (\<lambda>p o'.
     Option.bind (fld ''ca_cert'' dec_string o' (tls_CACert p)) (\<lambda>x0.
     Option.bind (fld ''client_cert'' dec_string o' (tls_ClientCert p)) (\<lambda>x1.
     Option.bind (fld ''client_key'' dec_string o' (tls_ClientKey p)) (\<lambda>x2.
     Option.bind (fld ''server_name'' dec_string o' (tls_ServerName p)) (\<lambda>x3.
     Some (p\<lparr>tls_CACert := x0, tls_ClientCert := x1, tls_ClientKey := x2, tls_ServerName := x3\<rparr>))))))"

definition dec_deploy :: "NodeDeploy decoder" where
  "dec_deploy = dec_struct (\<lambda>p o'.
     Option.bind (fld ''mode'' dec_string o' (dep_Mode p)) (\<lambda>x0.
     Some (p\<lparr>dep_Mode := x0\<rparr>)))"

definition dec_node :: "NodeConfig decoder" where
  "dec_node = dec_struct (\<lambda>p o'.
     Option.bind (fld ''name'' dec_string o' (nc_Name p)) (\<lambda>x0.
     Option.bind (fld ''api_addr'' dec_string o' (nc_APIAddr p)) (\<lambda>x1.
     Option.bind (fld ''inbound_tag'' dec_string o' (nc_InboundTag p)) (\<lambda>x2.
     Option.bind (fld ''public_host'' dec_string o' (nc_PublicHost p)) (\<lambda>x3.
     Option.bind (fld ''public_port'' dec_int o' (nc_PublicPort p)) (\<lambda>x4.
     Option.bind (fld ''enabled'' (dec_ptr dec_bool False) o' (nc_Enabled p)) (\<lambda>x5.
     Option.bind (fld ''deploy'' (dec_ptr dec_deploy zero_deploy) o' (nc_Deploy p)) (\<lambda>x6.
     Option.bind (fld ''allow_public_grpc'' dec_bool o' (nc_AllowPublicGRPC p)) (\<lambda>x7.
     Option.bind (fld ''tls'' (dec_ptr dec_tls zero_tls) o' (nc_TLS p)) (\<lambda>x8.
     Some (p\<lparr>nc_Name := x0, nc_APIAddr := x1, nc_InboundTag := x2, nc_PublicHost := x3, 
       nc_PublicPort := x4, nc_Enabled := x5, nc_Deploy := x6, nc_AllowPublicGRPC := x7, 
       nc_TLS := x8\<rparr>)))))))))))"

definition default_config :: Config where
  "default_config = \<lparr>c_ListenAddr = '':8080'',
     c_MetricsListen = [],
     c_MetricsAnonymizeSecret = [],
     c_ProfileUpdateIntervalHours = 0,
     c_ServerHost = [],
     c_ConfigDir = ''/etc/xray/config.d'',
     c_DBPath = ''/var/lib/xray-subscription/db.sqlite'',
     c_SyncInterval = 60,
     c_BaseURL = ''http://localhost:8080'',
     c_FallbackBaseURL = [],
     c_FallbackServerHost = [],
     c_FallbackInboundHosts = None,
     c_FallbackInboundTags = [],
     c_KillSwitchInboundTags = [],
     c_ExcludeInboundTags = [],
     c_Hysteria = None,
     c_AdminToken = [],
     c_BalancerStrategy = ''leastPing'',
     c_BalancerProbeURL = ''https://www.gstatic.com/generate_204'',
     c_BalancerProbeFreq = ''30s'',
     c_SocksInboundPort = 0,
     c_HTTPInboundPort = 0,
     c_RateLimitSubPerMin = 0,
     c_RateLimitAdminPerMin = 0,
     c_APIUserInboundTag = [],
     c_XrayAPIAddr = [],
     c_APIUserInboundProtocol = [],
     c_APIUserInboundPort = 0,
     c_XrayConfigFileMode = [],
     c_InboundHosts = [],
     c_InboundPorts = [],
     c_ClientBlackholeResponse = [],
     c_ClientDNSServers = [],
     c_VLESSClientEncryption = [],
     c_XrayEnabled = None,
     c_KillSwitchReconcileInterval = 30,
     c_Nodes = [],
     c_xrayFilePerm = 0\<rparr>"

definition dec_config :: "Config decoder" where
  "dec_config = dec_struct (\<lambda>p o'.
     Option.bind (fld ''listen_addr'' dec_string o' (c_ListenAddr p)) (\<lambda>x0.
     Option.bind (fld ''metrics_listen'' dec_string o' (c_MetricsListen p)) (\<lambda>x1.
     Option.bind (fld ''metrics_anonymize_secret'' dec_string o' (c_MetricsAnonymizeSecret p)) (\<lambda>x2.
     Option.bind (fld ''profile_update_interval_hours'' dec_int o' (c_ProfileUpdateIntervalHours p)) (\<lambda>x3.
     Option.bind (fld ''server_host'' dec_string o' (c_ServerHost p)) (\<lambda>x4.
     Option.bind (fld ''config_dir'' dec_string o' (c_ConfigDir p)) (\<lambda>x5.
     Option.bind (fld ''db_path'' dec_string o' (c_DBPath p)) (\<lambda>x6.
     Option.bind (fld ''sync_interval_seconds'' dec_int o' (c_SyncInterval p)) (\<lambda>x7.
     Option.bind (fld ''base_url'' dec_string o' (c_BaseURL p)) (\<lambda>x8.
     Option.bind (fld ''fallback_base_url'' dec_string o' (c_FallbackBaseURL p)) (\<lambda>x9.
     Option.bind (fld ''fallback_server_host'' dec_string o' (c_FallbackServerHost p)) (\<lambda>x10.
     Option.bind (fld ''fallback_inbound_hosts'' (dec_ptr (dec_map dec_string []) []) o' (c_FallbackInboundHosts p)) (\<lambda>x11.
     Option.bind (fld ''fallback_inbound_tags'' dec_strings o' (c_FallbackInboundTags p)) (\<lambda>x12.
     Option.bind (fld ''killswitch_inbound_tags'' dec_strings o' (c_KillSwitchInboundTags p)) (\<lambda>x13.
     Option.bind (fld ''exclude_inbound_tags'' dec_strings o' (c_ExcludeInboundTags p)) (\<lambda>x14.
     Option.bind (fld ''hysteria'' (dec_ptr dec_hysteria zero_hysteria) o' (c_Hysteria p)) (\<lambda>x15.
     Option.bind (fld ''admin_token'' dec_string o' (c_AdminToken p)) (\<lambda>x16.
     Option.bind (fld ''balancer_strategy'' dec_string o' (c_BalancerStrategy p)) (\<lambda>x17.
     Option.bind (fld ''balancer_probe_url'' dec_string o' (c_BalancerProbeURL p)) (\<lambda>x18.
     Option.bind (fld ''balancer_probe_interval'' dec_string o' (c_BalancerProbeFreq p)) (\<lambda>x19.
     Option.bind (fld ''socks_inbound_port'' dec_int o' (c_SocksInboundPort p)) (\<lambda>x20.
     Option.bind (fld ''http_inbound_port'' dec_int o' (c_HTTPInboundPort p)) (\<lambda>x21.
     Option.bind (fld ''rate_limit_sub_per_min'' dec_int o' (c_RateLimitSubPerMin p)) (\<lambda>x22.
     Option.bind (fld ''rate_limit_admin_per_min'' dec_int o' (c_RateLimitAdminPerMin p)) (\<lambda>x23.
     Option.bind (fld ''api_user_inbound_tag'' dec_string o' (c_APIUserInboundTag p)) (\<lambda>x24.
     Option.bind (fld ''xray_api_addr'' dec_string o' (c_XrayAPIAddr p)) (\<lambda>x25.
     Option.bind (fld ''api_user_inbound_protocol'' dec_string o' (c_APIUserInboundProtocol p)) (\<lambda>x26.
     Option.bind (fld ''api_user_inbound_port'' dec_int o' (c_APIUserInboundPort p)) (\<lambda>x27.
     Option.bind (fld ''xray_config_file_mode'' dec_string o' (c_XrayConfigFileMode p)) (\<lambda>x28.
     Option.bind (fld ''inbound_hosts'' (dec_map dec_string []) o' (c_InboundHosts p)) (\<lambda>x29.
     Option.bind (fld ''inbound_ports'' (dec_map dec_int 0) o' (c_InboundPorts p)) (\<lambda>x30.
     Option.bind (fld ''client_blackhole_response'' dec_string o' (c_ClientBlackholeResponse p)) (\<lambda>x31.
     Option.bind (fld ''client_dns_servers'' dec_any_list o' (c_ClientDNSServers p)) (\<lambda>x32.
     Option.bind (fld ''vless_client_encryption'' (dec_map dec_string []) o' (c_VLESSClientEncryption p)) (\<lambda>x33.
     Option.bind (fld ''xray_enabled'' (dec_ptr dec_bool False) o' (c_XrayEnabled p)) (\<lambda>x34.
     Option.bind (fld ''killswitch_reconcile_interval_seconds'' dec_int o' (c_KillSwitchReconcileInterval p)) (\<lambda>x35.
     Option.bind (fld ''nodes'' (dec_list dec_node zero_node) o' (c_Nodes p)) (\<lambda>x36.
     Some (p\<lparr>c_ListenAddr := x0, c_MetricsListen := x1, c_MetricsAnonymizeSecret := x2, c_ProfileUpdateIntervalHours := x3, 
       c_ServerHost := x4, c_ConfigDir := x5, c_DBPath := x6, c_SyncInterval := x7, 
       c_BaseURL := x8, c_FallbackBaseURL := x9, c_FallbackServerHost := x10, c_FallbackInboundHosts := x11, 
       c_FallbackInboundTags := x12, c_KillSwitchInboundTags := x13, c_ExcludeInboundTags := x14, c_Hysteria := x15, 
       c_AdminToken := x16, c_BalancerStrategy := x17, c_BalancerProbeURL := x18, c_BalancerProbeFreq := x19, 
       c_SocksInboundPort := x20, c_HTTPInboundPort := x21, c_RateLimitSubPerMin := x22, c_RateLimitAdminPerMin := x23, 
       c_APIUserInboundTag := x24, c_XrayAPIAddr := x25, c_APIUserInboundProtocol := x26, c_APIUserInboundPort := x27, 
       c_XrayConfigFileMode := x28, c_InboundHosts := x29, c_InboundPorts := x30, c_ClientBlackholeResponse := x31, 
       c_ClientDNSServers := x32, c_VLESSClientEncryption := x33, c_XrayEnabled := x34, c_KillSwitchReconcileInterval := x35, 
       c_Nodes := x36\<rparr>)))))))))))))))))))))))))))))))))))))))"

lemma lower_names_config [lower_name]:
  "ToLower ''enabled'' = ''enabled''"
  "ToLower ''obfs_type'' = ''obfs_type''"
  "ToLower ''obfs_password'' = ''obfs_password''"
  "ToLower ''sni'' = ''sni''"
  "ToLower ''cert_pin'' = ''cert_pin''"
  "ToLower ''in_main_sub'' = ''in_main_sub''"
  "ToLower ''ca_cert'' = ''ca_cert''"
  "ToLower ''client_cert'' = ''client_cert''"
  "ToLower ''client_key'' = ''client_key''"
  "ToLower ''server_name'' = ''server_name''"
  "ToLower ''mode'' = ''mode''"
  "ToLower ''name'' = ''name''"
  "ToLower ''api_addr'' = ''api_addr''"
  "ToLower ''inbound_tag'' = ''inbound_tag''"
  "ToLower ''public_host'' = ''public_host''"
  "ToLower ''public_port'' = ''public_port''"
  "ToLower ''deploy'' = ''deploy''"
  "ToLower ''allow_public_grpc'' = ''allow_public_grpc''"
  "ToLower ''tls'' = ''tls''"
  "ToLower ''listen_addr'' = ''listen_addr''"
  "ToLower ''metrics_listen'' = ''metrics_listen''"
  "ToLower ''metrics_anonymize_secret'' = ''metrics_anonymize_secret''"
  "ToLower ''profile_update_interval_hours'' = ''profile_update_interval_hours''"
  "ToLower ''server_host'' = ''server_host''"
  "ToLower ''config_dir'' = ''config_dir''"
  "ToLower ''db_path'' = ''db_path''"
  "ToLower ''sync_interval_seconds'' = ''sync_interval_seconds''"
  "ToLower ''base_url'' = ''base_url''"
  "ToLower ''fallback_base_url'' = ''fallback_base_url''"
  "ToLower ''fallback_server_host'' = ''fallback_server_host''"
  "ToLower ''fallback_inbound_hosts'' = ''fallback_inbound_hosts''"
  "ToLower ''fallback_inbound_tags'' = ''fallback_inbound_tags''"
  "ToLower ''killswitch_inbound_tags'' = ''killswitch_inbound_tags''"
  "ToLower ''exclude_inbound_tags'' = ''exclude_inbound_tags''"
  "ToLower ''hysteria'' = ''hysteria''"
  "ToLower ''admin_token'' = ''admin_token''"
  "ToLower ''balancer_strategy'' = ''balancer_strategy''"
  "ToLower ''balancer_probe_url'' = ''balancer_probe_url''"
  "ToLower ''balancer_probe_interval'' = ''balancer_probe_interval''"
  "ToLower ''socks_inbound_port'' = ''socks_inbound_port''"
  "ToLower ''http_inbound_port'' = ''http_inbound_port''"
  "ToLower ''rate_limit_sub_per_min'' = ''rate_limit_sub_per_min''"
  "ToLower ''rate_limit_admin_per_min'' = ''rate_limit_admin_per_min''"
  "ToLower ''api_user_inbound_tag'' = ''api_user_inbound_tag''"
  "ToLower ''xray_api_addr'' = ''xray_api_addr''"
  "ToLower ''api_user_inbound_protocol'' = ''api_user_inbound_protocol''"
  "ToLower ''api_user_inbound_port'' = ''api_user_inbound_port''"
  "ToLower ''xray_config_file_mode'' = ''xray_config_file_mode''"
  "ToLower ''inbound_hosts'' = ''inbound_hosts''"
  "ToLower ''inbound_ports'' = ''inbound_ports''"
  "ToLower ''client_blackhole_response'' = ''client_blackhole_response''"
  "ToLower ''client_dns_servers'' = ''client_dns_servers''"
  "ToLower ''vless_client_encryption'' = ''vless_client_encryption''"
  "ToLower ''xray_enabled'' = ''xray_enabled''"
  "ToLower ''killswitch_reconcile_interval_seconds'' = ''killswitch_reconcile_interval_seconds''"
  "ToLower ''nodes'' = ''nodes''"
  by code_simp+

section \<open>Node settings\<close>

definition IsEnabled :: "NodeConfig \<Rightarrow> bool" where
  "IsEnabled n = (case nc_Enabled n of None \<Rightarrow> True | Some b \<Rightarrow> b)"

definition DeployMode :: "NodeConfig \<Rightarrow> string" where
  "DeployMode n = (case nc_Deploy n of
     None \<Rightarrow> ''grpc''
   | Some d \<Rightarrow> if TrimSpace (dep_Mode d) = [] then ''grpc'' else TrimSpace (dep_Mode d))"

definition KillSwitchTags :: "Config \<Rightarrow> string list" where
  "KillSwitchTags c =
     (if c_KillSwitchInboundTags c \<noteq> [] then c_KillSwitchInboundTags c else c_FallbackInboundTags c)"

section \<open>Addresses\<close>

text \<open>\<open>net.SplitHostPort\<close>: the host, or \<open>None\<close> for an error.\<close>

definition split_last :: "char \<Rightarrow> string \<Rightarrow> (string \<times> string) option" where
  "split_last c s = (if c \<in> set s
     then Some (rev (tl (dropWhile (\<lambda>x. x \<noteq> c) (rev s))), rev (takeWhile (\<lambda>x. x \<noteq> c) (rev s)))
     else None)"

definition SplitHostPort :: "string \<Rightarrow> string option" where
  "SplitHostPort s =
     (case split_last CHR '':'' s of
        None \<Rightarrow> None
      | Some (pre, port) \<Rightarrow>
          (if HasPrefix s ''[''
           then (let host = takeWhile (\<lambda>c. c \<noteq> CHR '']'') (tl s);
                     rest = dropWhile (\<lambda>c. c \<noteq> CHR '']'') (tl s)
                 in if rest = '']:'' @ port \<and> CHR ''['' \<notin> set host \<and>
                       CHR ''['' \<notin> set port \<and> CHR '']'' \<notin> set port
                    then Some host else None)
           else if CHR '':'' \<in> set pre \<or> CHR ''['' \<in> set s \<or> CHR '']'' \<in> set s then None
           else Some pre))"

fun split_on :: "char \<Rightarrow> string \<Rightarrow> string list" where
  "split_on c [] = [[]]"
| "split_on c (x # xs) =
     (if x = c then [] # split_on c xs
      else (case split_on c xs of [] \<Rightarrow> [[x]] | f # fs \<Rightarrow> (x # f) # fs))"

text \<open>One decimal field of an IPv4 address: no sign, no leading zero, at most 255.\<close>

definition parse_octet :: "string \<Rightarrow> int option" where
  "parse_octet f = (case atou f of
     None \<Rightarrow> None
   | Some n \<Rightarrow> if n \<le> 255 \<and> (length f = 1 \<or> hd f \<noteq> CHR ''0'') then Some (int n) else None)"

definition ParseIPv4 :: "string \<Rightarrow> int list option" where
  "ParseIPv4 s = (case map parse_octet (split_on CHR ''.'' s) of
     [Some a, Some b, Some c, Some d] \<Rightarrow> Some [a, b, c, d]
   | _ \<Rightarrow> None)"

definition hex_digit :: "char \<Rightarrow> nat option" where
  "hex_digit c = map_of (zip ''0123456789abcdef'' [0..<16]) (lower_char c)"

fun parse_hex :: "nat \<Rightarrow> string \<Rightarrow> nat option" where
  "parse_hex acc [] = Some acc"
| "parse_hex acc (c # cs) = (case hex_digit c of None \<Rightarrow> None | Some d \<Rightarrow> parse_hex (16 * acc + d) cs)"

text \<open>The 16-bit groups of a colon-separated list; the last field may be an IPv4 address.\<close>

fun parse_groups :: "string list \<Rightarrow> int list option" where
  "parse_groups [] = Some []"
| "parse_groups (f # fs) =
     (if fs = [] \<and> CHR ''.'' \<in> set f
      then (case ParseIPv4 f of Some [a, b, c, d] \<Rightarrow> Some [a * 256 + b, c * 256 + d] | _ \<Rightarrow> None)
      else if f = [] \<or> length f > 4 then None
      else (case parse_hex 0 f of None \<Rightarrow> None
            | Some g \<Rightarrow> (case parse_groups fs of None \<Rightarrow> None | Some gs \<Rightarrow> Some (int g # gs))))"

fun find_ellipsis :: "string \<Rightarrow> (string \<times> string) option" where
  "find_ellipsis (x # y # r) =
     (if x = CHR '':'' \<and> y = CHR '':'' then Some ([], r)
      else (case find_ellipsis (y # r) of None \<Rightarrow> None | Some (a, b) \<Rightarrow> Some (x # a, b)))"
| "find_ellipsis _ = None"

definition groups_of :: "string \<Rightarrow> int list option" where
  "groups_of s = (if s = [] then Some [] else parse_groups (split_on CHR '':'' s))"

definition ParseIPv6 :: "string \<Rightarrow> int list option" where
  "ParseIPv6 s =
     (case find_ellipsis s of
        None \<Rightarrow> (case groups_of s of Some gs \<Rightarrow> if length gs = 8 then Some gs else None | None \<Rightarrow> None)
      | Some (l, r) \<Rightarrow>
          (if CHR ''.'' \<in> set l then None
           else case (groups_of l, groups_of r) of
             (Some gl, Some gr) \<Rightarrow>
               if length gl + length gr \<le> 7
               then Some (gl @ replicate (8 - length gl - length gr) 0 @ gr) else None
           | _ \<Rightarrow> None))"

text \<open>\<open>net.ParseIP\<close>: the first of \<open>.\<close>, \<open>:\<close> and \<open>%\<close> decides; an IPv4 address is kept in the last
  four bytes of an IPv4-mapped address.\<close>

datatype ip_addr = IPv4 "int list" | IPv6 "int list"

definition to4 :: "int list \<Rightarrow> ip_addr" where
  "to4 gs = (if take 6 gs = [0, 0, 0, 0, 0, 65535]
     then IPv4 [gs ! 6 div 256, gs ! 6 mod 256, gs ! 7 div 256, gs ! 7 mod 256] else IPv6 gs)"

definition ParseIP :: "string \<Rightarrow> ip_addr option" where
  "ParseIP s = (case find (\<lambda>c. c = CHR ''.'' \<or> c = CHR '':'' \<or> c = CHR ''%'') s of
     None \<Rightarrow> None
   | Some c \<Rightarrow>
       (if c = CHR ''.'' then map_option IPv4 (ParseIPv4 s)
        else if c = CHR '':'' then map_option to4 (ParseIPv6 s)
        else None))"

definition IsLoopback :: "ip_addr \<Rightarrow> bool" where
  "IsLoopback ip = (case ip of IPv4 b \<Rightarrow> b ! 0 = 127 | IPv6 g \<Rightarrow> g = [0, 0, 0, 0, 0, 0, 0, 1])"

definition IsPrivate :: "ip_addr \<Rightarrow> bool" where
  "IsPrivate ip = (case ip of
     IPv4 b \<Rightarrow> b ! 0 = 10 \<or> b ! 0 = 172 \<and> 16 \<le> b ! 1 \<and> b ! 1 \<le> 31 \<or> b ! 0 = 192 \<and> b ! 1 = 168
   | IPv6 g \<Rightarrow> g ! 0 div 512 = 126)"

definition IsLinkLocalUnicast :: "ip_addr \<Rightarrow> bool" where
  "IsLinkLocalUnicast ip = (case ip of
     IPv4 b \<Rightarrow> b ! 0 = 169 \<and> b ! 1 = 254
   | IPv6 g \<Rightarrow> g ! 0 div 64 = 1018)"

definition isPrivateHostPort :: "string \<Rightarrow> bool" where
  "isPrivateHostPort addr =
     (let host = (case SplitHostPort (TrimSpace addr) of Some h \<Rightarrow> h | None \<Rightarrow> TrimSpace addr)
      in case ParseIP host of
           None \<Rightarrow> False
         | Some ip \<Rightarrow> IsLoopback ip \<or> IsPrivate ip \<or> IsLinkLocalUnicast ip)"

section \<open>Validation\<close>

datatype node_err =
    NameRequired nat
  | DuplicateName string
  | APIAddrRequired string
  | InvalidMode string string
  | TLSIncomplete string
  | PublicGRPC string string

fun validate_nodes :: "nat \<Rightarrow> string list \<Rightarrow> NodeConfig list \<Rightarrow> node_err option" where
  "validate_nodes i seen [] = None"
| "validate_nodes i seen (n # ns) =
     (let name = TrimSpace (nc_Name n); mode = DeployMode n
      in if name = [] then Some (NameRequired i)
         else if name \<in> set seen then Some (DuplicateName name)
         else if TrimSpace (nc_APIAddr n) = [] then Some (APIAddrRequired name)
         else if mode \<noteq> ''grpc'' \<and> mode \<noteq> ''ssh_rsync'' then Some (InvalidMode name mode)
         else if (case nc_TLS n of None \<Rightarrow> False | Some t \<Rightarrow>
                   TrimSpace (tls_CACert t) = [] \<or> TrimSpace (tls_ClientCert t) = [] \<or>
                   TrimSpace (tls_ClientKey t) = []) then Some (TLSIncomplete name)
         else if mode = ''grpc'' \<and> nc_TLS n = None \<and> \<not> nc_AllowPublicGRPC n \<and>
                 \<not> isPrivateHostPort (nc_APIAddr n) then Some (PublicGRPC name (nc_APIAddr n))
         else validate_nodes (Suc i) (name # seen) ns)"

definition validateNodes :: "NodeConfig list \<Rightarrow> node_err option" where
  "validateNodes ns = validate_nodes 0 [] ns"

definition ResolvedNodes :: "Config \<Rightarrow> NodeConfig list" where
  "ResolvedNodes c =
     (if c_Nodes c \<noteq> [] then c_Nodes c
      else [zero_node\<lparr>nc_Name := ''local'', nc_APIAddr := c_XrayAPIAddr c,
              nc_InboundTag := c_APIUserInboundTag c, nc_PublicHost := c_ServerHost c,
              nc_PublicPort := 443\<rparr>])"

definition normalizeVLESSClientEncryption :: "Config \<Rightarrow> Config" where
  "normalizeVLESSClientEncryption cfg =
     cfg\<lparr>c_VLESSClientEncryption :=
       fold (\<lambda>(k, v) out. if TrimSpace k = [] \<or> TrimSpace v = [] then out
               else map_put (TrimSpace k) (TrimSpace v) out) (c_VLESSClientEncryption cfg) []\<rparr>"

section \<open>File permissions\<close>

definition XrayConfigFilePerm :: "Config option \<Rightarrow> int" where
  "XrayConfigFilePerm c = (case c of
     None \<Rightarrow> 384
   | Some c \<Rightarrow> if c_xrayFilePerm c = 0 then 384 else c_xrayFilePerm c)"

datatype mode_err = EmptyAfterPrefix | InvalidOctal string | ParseOctal | ModeTooLarge int

definition TrimPrefix :: "string \<Rightarrow> string \<Rightarrow> string" where
  "TrimPrefix s p = (if HasPrefix s p then drop (length p) s else s)"

fun octal_val :: "nat \<Rightarrow> string \<Rightarrow> nat" where
  "octal_val acc [] = acc"
| "octal_val acc (c # cs) = octal_val (8 * acc + (case digit_val c of None \<Rightarrow> 0 | Some d \<Rightarrow> d)) cs"

definition octal_digit :: "char \<Rightarrow> bool" where
  "octal_digit c = (case digit_val c of None \<Rightarrow> False | Some d \<Rightarrow> d \<le> 7)"

definition parseXrayConfigFileMode :: "string \<Rightarrow> mode_err + int" where
  "parseXrayConfigFileMode s =
     (let s = TrimSpace s
      in if s = [] then Inr 384
         else (let s = TrimPrefix (TrimPrefix s ''0o'') ''0O''
               in if s = [] then Inl EmptyAfterPrefix
                  else if \<not> list_all octal_digit s then Inl (InvalidOctal s)
                  else (let u = int (octal_val 0 s)
                        in if u \<ge> 2 ^ 32 then Inl ParseOctal
                           else if u > 511 then Inl (ModeTooLarge u)
                           else Inr (u mod 512))))"

definition applyXrayFilePerm :: "Config \<Rightarrow> mode_err + Config" where
  "applyXrayFilePerm cfg = (case parseXrayConfigFileMode (c_XrayConfigFileMode cfg) of
     Inl e \<Rightarrow> Inl e
   | Inr perm \<Rightarrow> Inr (cfg\<lparr>c_xrayFilePerm := perm\<rparr>))"

section \<open>Values derived from the configuration\<close>

definition IsXrayEnabled :: "Config \<Rightarrow> bool" where
  "IsXrayEnabled c = (case c_XrayEnabled c of None \<Rightarrow> True | Some b \<Rightarrow> b)"

definition HostForInbound :: "Config \<Rightarrow> string \<Rightarrow> string" where
  "HostForInbound c tag = (case map_of (c_InboundHosts c) tag of
     Some h \<Rightarrow> if TrimSpace h \<noteq> [] then h else c_ServerHost c
   | None \<Rightarrow> c_ServerHost c)"

definition SubURL :: "Config \<Rightarrow> string \<Rightarrow> string" where
  "SubURL c token = c_BaseURL c @ ''/sub/'' @ token"

definition FallbackURL :: "Config \<Rightarrow> string \<Rightarrow> string" where
  "FallbackURL c fallbackToken =
     (if fallbackToken = [] then []
      else (if c_FallbackBaseURL c \<noteq> [] then c_FallbackBaseURL c else c_BaseURL c) @
           ''/sub/fallback/'' @ fallbackToken)"

record SubURLs =
  su_Full :: string
  su_LinksText :: string
  su_LinksB64 :: string
  su_Compact :: string
  su_CompactText :: string
  su_CompactB64 :: string
  su_Hy2 :: string
  su_Fallback :: string
  su_FallbackText :: string
  su_FallbackB64 :: string
  su_FallbackCompact :: string
  su_FallbackCompactText :: string
  su_FallbackCompactB64 :: string

definition SubURLs_for :: "Config \<Rightarrow> string \<Rightarrow> SubURLs" where
  "SubURLs_for c token =
     (let sub = c_BaseURL c @ ''/sub/'' @ token;
          compact = c_BaseURL c @ ''/c/'' @ token
      in \<lparr>su_Full = sub, su_LinksText = sub @ ''/links.txt'', su_LinksB64 = sub @ ''/links.b64'',
          su_Compact = compact, su_CompactText = compact @ ''/links.txt'',
          su_CompactB64 = compact @ ''/links.b64'',
          su_Hy2 = (case c_Hysteria c of
                      Some h \<Rightarrow> if hy_Enabled h then sub @ ''/hy2'' else []
                    | None \<Rightarrow> []),
          su_Fallback = [], su_FallbackText = [], su_FallbackB64 = [], su_FallbackCompact = [],
          su_FallbackCompactText = [], su_FallbackCompactB64 = []\<rparr>)"

definition SubURLsWithFallback :: "Config \<Rightarrow> string \<Rightarrow> string \<Rightarrow> SubURLs" where
  "SubURLsWithFallback c token fallbackToken =
     (let urls = SubURLs_for c token
      in if fallbackToken = [] then urls
         else
           (let fbase = (if c_FallbackBaseURL c \<noteq> [] then c_FallbackBaseURL c else c_BaseURL c);
                fsub = fbase @ ''/sub/fallback/'' @ fallbackToken;
                fcp = fbase @ ''/c/fallback/'' @ fallbackToken
            in urls\<lparr>su_Fallback := fsub, su_FallbackText := fsub @ ''/links.txt'',
                 su_FallbackB64 := fsub @ ''/links.b64'', su_FallbackCompact := fcp,
                 su_FallbackCompactText := fcp @ ''/links.txt'',
                 su_FallbackCompactB64 := fcp @ ''/links.b64''\<rparr>))"

definition normalizeBalancerStrategy :: "string \<Rightarrow> string" where
  "normalizeBalancerStrategy v =
     (let s = ToLower (TrimSpace v)
      in if s = [] \<or> s = ''leastping'' then ''leastPing''
         else if s = ''random'' then ''random''
         else if s = ''roundrobin'' then ''roundRobin''
         else if s = ''leastload'' then ''leastLoad''
         else [])"

section \<open>Loading\<close>

datatype file_read = FileNotFound | FileError | FileData jtext

datatype config_err =
    ConfigNotFound string
  | ReadConfigFailed
  | ParseConfigFailed
  | ServerHostRequired
  | InvalidStrategy
  | NodesInvalid node_err
  | FileModeInvalid mode_err

definition Load :: "string \<Rightarrow> file_read \<Rightarrow> config_err + Config" where
  "Load path data =
     (if path = [] then map_sum FileModeInvalid id (applyXrayFilePerm default_config)
      else case data of
        FileNotFound \<Rightarrow> Inl (ConfigNotFound path)
      | FileError \<Rightarrow> Inl ReadConfigFailed
      | FileData t \<Rightarrow>
          (case unmarshal dec_config default_config t of
             None \<Rightarrow> Inl ParseConfigFailed
           | Some cfg \<Rightarrow>
               (let cfg = normalizeVLESSClientEncryption cfg
                in if c_ServerHost cfg = [] then Inl ServerHostRequired
                   else
                     (let cfg = cfg\<lparr>c_BalancerStrategy := normalizeBalancerStrategy (c_BalancerStrategy cfg)\<rparr>
                      in if c_BalancerStrategy cfg = [] then Inl InvalidStrategy
                         else case validateNodes (c_Nodes cfg) of
                           Some e \<Rightarrow> Inl (NodesInvalid e)
                         | None \<Rightarrow> map_sum FileModeInvalid id (applyXrayFilePerm cfg)))))"

lemma split_on_append: "c \<notin> set s \<Longrightarrow> split_on c (s @ c # t) = s # split_on c t"
  by (induction s) auto

lemma split_on_none: "c \<notin> set s \<Longrightarrow> split_on c s = [s]"
  by (induction s) auto

lemma map_of_map_put [simp]: "map_of (map_put k x m) j = (if j = k then Some x else map_of m j)"
proof -
  have "map_of (filter (\<lambda>kv. fst kv \<noteq> k) m) j = (if j = k then None else map_of m j)"
    by (induction m) auto
  then show ?thesis by (auto simp: map_put_def map_add_def split: option.splits)
qed

lemma distinct_map_put [simp]: "distinct (map fst m) \<Longrightarrow> distinct (map fst (map_put k x m))"
  by (auto simp: map_put_def distinct_map_filter)

end
