(* ===== verification/Config_Properties.thy ===== *)
theory Config_Properties
  imports Config
begin

text \<open>
  What a configuration that \<open>Load\<close> accepts satisfies, and what the guard against a public
  gRPC address lets through.
\<close>

section \<open>Accepted node lists\<close>

text \<open>The conditions on one node, and on the list.\<close>

definition node_ok :: "NodeConfig \<Rightarrow> bool" where
  "node_ok n \<longleftrightarrow> TrimSpace (nc_Name n) \<noteq> [] \<and> TrimSpace (nc_APIAddr n) \<noteq> [] \<and>
     DeployMode n \<in> {''grpc'', ''ssh_rsync''} \<and>
     (\<forall>t. nc_TLS n = Some t \<longrightarrow> TrimSpace (tls_CACert t) \<noteq> [] \<and>
        TrimSpace (tls_ClientCert t) \<noteq> [] \<and> TrimSpace (tls_ClientKey t) \<noteq> []) \<and>
     (DeployMode n = ''grpc'' \<longrightarrow> nc_TLS n \<noteq> None \<or> nc_AllowPublicGRPC n \<or>
        isPrivateHostPort (nc_APIAddr n))"

definition nodes_ok_spec :: "NodeConfig list \<Rightarrow> bool" where
  "nodes_ok_spec ns \<longleftrightarrow> (\<forall>n\<in>set ns. node_ok n) \<and> distinct (map (TrimSpace \<circ> nc_Name) ns)"

lemma validate_nodes_iff:
  "validate_nodes i seen ns = None \<longleftrightarrow>
     nodes_ok_spec ns \<and> set seen \<inter> (TrimSpace \<circ> nc_Name) ` set ns = {}"
proof (induction i seen ns rule: validate_nodes.induct)
  case (1 i seen)
  show ?case by (simp add: nodes_ok_spec_def)
next
  case (2 i seen n ns)
  show ?case
  proof (cases "node_ok n \<and> TrimSpace (nc_Name n) \<notin> set seen")
    case True
    then have "validate_nodes i seen (n # ns) = validate_nodes (Suc i) (TrimSpace (nc_Name n) # seen) ns"
      by (auto simp: Let_def node_ok_def split: option.splits)
    moreover have "validate_nodes (Suc i) (TrimSpace (nc_Name n) # seen) ns = None \<longleftrightarrow>
        nodes_ok_spec ns \<and> set (TrimSpace (nc_Name n) # seen) \<inter> (TrimSpace \<circ> nc_Name) ` set ns = {}"
      using True by (intro 2) (auto simp: node_ok_def split: option.splits)
    ultimately show ?thesis using True by (auto simp: nodes_ok_spec_def)
  next
    case False
    then have "validate_nodes i seen (n # ns) \<noteq> None"
      by (auto simp: Let_def node_ok_def split: option.splits)
    with False show ?thesis by (auto simp: nodes_ok_spec_def)
  qed
qed

lemma validateNodes_iff: "validateNodes ns = None \<longleftrightarrow> nodes_ok_spec ns"
  by (simp add: validateNodes_def validate_nodes_iff)

section \<open>Private addresses\<close>

text \<open>The text of an IPv4 address with a port.\<close>

definition ipv4_addr :: "nat \<Rightarrow> nat \<Rightarrow> nat \<Rightarrow> nat \<Rightarrow> nat \<Rightarrow> string" where
  "ipv4_addr a b c d port =
     utoa a @ ''.'' @ utoa b @ ''.'' @ utoa c @ ''.'' @ utoa d @ '':'' @ utoa port"

lemma utoa_chars: "x \<in> set (utoa n) \<Longrightarrow> x \<in> set ''0123456789''"
  using set_utoa [of x n] by (auto simp: digit_char_def digit_chars_def numeral_eq_Suc less_Suc_eq)

lemma utoa_other: "x \<notin> set ''0123456789'' \<Longrightarrow> x \<notin> set (utoa n)"
  using utoa_chars by blast

lemma utoa_lead: "0 < n \<Longrightarrow> hd (utoa n) \<noteq> CHR ''0''"
proof (induction n rule: utoa.induct)
  case (1 n)
  show ?case
  proof (cases "n < 10")
    case True
    with "1.prems" show ?thesis
      by (subst utoa.simps) (auto simp: digit_char_def digit_chars_def numeral_eq_Suc less_Suc_eq)
  next
    case False
    with 1 have "hd (utoa (n div 10)) \<noteq> CHR ''0''" by simp
    with False show ?thesis by (subst utoa.simps) simp
  qed
qed

lemma parse_octet_utoa: "n \<le> 255 \<Longrightarrow> parse_octet (utoa n) = Some (int n)"
proof (cases "n = 0")
  case True
  have "length (utoa 0) = 1" by (subst utoa.simps) simp
  with True show ?thesis by (simp add: parse_octet_def)
next
  case False
  assume "n \<le> 255"
  with False show ?thesis using utoa_lead [of n] by (simp add: parse_octet_def)
qed

lemma split_last_append: "c \<notin> set t \<Longrightarrow> split_last c (s @ c # t) = Some (s, t)"
  by (simp add: split_last_def dropWhile_append takeWhile_append)


lemma ParseIPv4_utoa:
  assumes "a \<le> 255" and "b \<le> 255" and "c \<le> 255" and "d \<le> 255"
  shows "ParseIPv4 (utoa a @ ''.'' @ utoa b @ ''.'' @ utoa c @ ''.'' @ utoa d) =
    Some [int a, int b, int c, int d]"
  using assms
  by (simp add: ParseIPv4_def split_on_append split_on_none utoa_other parse_octet_utoa)

lemma find_first: "\<forall>x\<in>set s. \<not> P x \<Longrightarrow> P c \<Longrightarrow> find P (s @ c # t) = Some c"
  by (induction s) auto

lemma ParseIP_utoa:
  assumes "a \<le> 255" and "b \<le> 255" and "c \<le> 255" and "d \<le> 255"
  shows "ParseIP (utoa a @ ''.'' @ utoa b @ ''.'' @ utoa c @ ''.'' @ utoa d) =
    Some (IPv4 [int a, int b, int c, int d])"
proof -
  have "find (\<lambda>c. c = CHR ''.'' \<or> c = CHR '':'' \<or> c = CHR ''%'')
      (utoa a @ CHR ''.'' # utoa b @ ''.'' @ utoa c @ ''.'' @ utoa d) = Some CHR ''.''"
    by (rule find_first) (auto dest: utoa_chars)
  with ParseIPv4_utoa [OF assms] show ?thesis by (simp add: ParseIP_def)
qed

lemma SplitHostPort_plain:
  assumes "CHR '':'' \<notin> set h" "CHR '':'' \<notin> set p" "\<forall>c\<in>{CHR ''['', CHR '']''}. c \<notin> set h \<union> set p"
  shows "SplitHostPort (h @ CHR '':'' # p) = Some h"
proof -
  have "\<not> HasPrefix (h @ CHR '':'' # p) ''[''" using assms(3) by (cases h) (auto simp: HasPrefix_def)
  with assms show ?thesis by (auto simp: SplitHostPort_def split_last_append)
qed

text \<open>C10: The guard on IPv4 addresses lets exactly the loopback, RFC 1918 and link-local ranges
  through: for every dotted address with a port, \<open>isPrivateHostPort\<close> holds iff the address is
  in 127/8, 10/8, 172.16/12, 192.168/16 or 169.254/16.\<close>

theorem private_ipv4_exact:
  assumes "a \<le> 255" and "b \<le> 255" and "c \<le> 255" and "d \<le> 255"
  shows "isPrivateHostPort (ipv4_addr a b c d port) \<longleftrightarrow>
    a = 127 \<or> a = 10 \<or> (a = 172 \<and> 16 \<le> b \<and> b \<le> 31) \<or> (a = 192 \<and> b = 168) \<or> (a = 169 \<and> b = 254)"
proof -
  let ?h = "utoa a @ ''.'' @ utoa b @ ''.'' @ utoa c @ ''.'' @ utoa d"
  have addr: "ipv4_addr a b c d port = ?h @ CHR '':'' # utoa port" by (simp add: ipv4_addr_def)
  have chars: "x \<in> set ''0123456789.:''" if "x \<in> set (ipv4_addr a b c d port)" for x
    using that by (auto simp: ipv4_addr_def dest: utoa_chars)
  have "\<not> is_space x" if "x \<in> set (ipv4_addr a b c d port)" for x
    using chars [OF that] by (auto simp: is_space_def)
  then have trim: "TrimSpace (ipv4_addr a b c d port) = ipv4_addr a b c d port"
    by (intro TrimSpace_id) blast
  have "SplitHostPort (?h @ CHR '':'' # utoa port) = Some ?h"
    by (rule SplitHostPort_plain) (auto dest: utoa_chars)
  then have "isPrivateHostPort (ipv4_addr a b c d port) \<longleftrightarrow>
      (case ParseIP ?h of None \<Rightarrow> False | Some ip \<Rightarrow> IsLoopback ip \<or> IsPrivate ip \<or> IsLinkLocalUnicast ip)"
    unfolding isPrivateHostPort_def trim unfolding addr by (simp add: Let_def)
  then show ?thesis unfolding ParseIP_utoa [OF assms]
    by (auto simp: IsLoopback_def IsPrivate_def IsLinkLocalUnicast_def)
qed

theorem private_ipv4_exact_witness:
  "isPrivateHostPort (ipv4_addr 10 7 0 1 10085) \<and> \<not> isPrivateHostPort (ipv4_addr 203 0 113 5 10085)"
  using private_ipv4_exact [of 10 7 0 1 10085] private_ipv4_exact [of 203 0 113 5 10085] by simp

section \<open>Loading\<close>

lemma strategies: "normalizeBalancerStrategy v \<noteq> [] \<Longrightarrow>
  normalizeBalancerStrategy v \<in> {''leastPing'', ''random'', ''roundRobin'', ''leastLoad''}"
  by (auto simp: normalizeBalancerStrategy_def Let_def split: if_splits)

lemma mode_bounds: "parseXrayConfigFileMode s = Inr m \<Longrightarrow> 0 \<le> m \<and> m \<le> 511"
  by (auto simp: parseXrayConfigFileMode_def Let_def split: if_splits)

lemma applyXrayFilePerm_Inr:
  "applyXrayFilePerm cfg = Inr cfg' \<Longrightarrow>
     \<exists>m. cfg' = cfg\<lparr>c_xrayFilePerm := m\<rparr> \<and> 0 \<le> m \<and> m \<le> 511"
  by (auto simp: applyXrayFilePerm_def split: sum.splits dest: mode_bounds)

text \<open>C9: What \<open>Load\<close> accepts is safe to run. A configuration read from a file has a server
  host and one of the four balancer strategies; node names are non-empty and distinct up to
  surrounding space, every node has an API address, a known deploy mode and a complete TLS
  block if any, and no node is reached by plaintext gRPC over a public address unless that was
  opted in; config files are written with permission bits only, never with mode 0.\<close>

theorem loaded_config_safe:
  assumes "Load path d = Inr cfg" and "path \<noteq> []"
  shows "c_ServerHost cfg \<noteq> [] \<and>
    c_BalancerStrategy cfg \<in> {''leastPing'', ''random'', ''roundRobin'', ''leastLoad''} \<and>
    nodes_ok_spec (c_Nodes cfg) \<and>
    0 < XrayConfigFilePerm (Some cfg) \<and> XrayConfigFilePerm (Some cfg) \<le> 511"
proof -
  from assms obtain t cfg0 cfg1 where "d = FileData t" "unmarshal dec_config default_config t = Some cfg0"
    and cfg1: "cfg1 = (normalizeVLESSClientEncryption cfg0)\<lparr>c_BalancerStrategy :=
      normalizeBalancerStrategy (c_BalancerStrategy (normalizeVLESSClientEncryption cfg0))\<rparr>"
    and checks: "c_ServerHost cfg1 \<noteq> []" "c_BalancerStrategy cfg1 \<noteq> []" "validateNodes (c_Nodes cfg1) = None"
    and perm: "applyXrayFilePerm cfg1 = Inr cfg"
    by (auto simp: Load_def Let_def map_sum_def split: file_read.splits option.splits if_splits sum.splits)
  have "c_BalancerStrategy cfg1 \<in> {''leastPing'', ''random'', ''roundRobin'', ''leastLoad''}"
    using checks(2) strategies unfolding cfg1 by auto
  moreover have "nodes_ok_spec (c_Nodes cfg1)" using checks(3) by (simp add: validateNodes_iff)
  moreover from applyXrayFilePerm_Inr [OF perm] obtain m where
    "cfg = cfg1\<lparr>c_xrayFilePerm := m\<rparr>" "0 \<le> m" "m \<le> 511" by blast
  ultimately show ?thesis using checks(1) by (simp add: XrayConfigFilePerm_def)
qed

definition sample_config_doc :: json where
  "sample_config_doc = JObj [(''server_host'', JStr ''vpn.example.org''),
     (''balancer_strategy'', JStr '' RoundRobin''), (''xray_config_file_mode'', JStr ''0o640''),
     (''nodes'', JArr [JObj [(''name'', JStr ''n1''), (''api_addr'', JStr ''10.7.0.1:10085'')]])]"

definition sample_node_config :: NodeConfig where
  "sample_node_config = zero_node\<lparr>nc_Name := ''n1'', nc_APIAddr := ''10.7.0.1:10085''\<rparr>"

lemma sample_decodes:
  "unmarshal dec_config default_config (Doc sample_config_doc) = Some (default_config\<lparr>
     c_ServerHost := ''vpn.example.org'', c_BalancerStrategy := '' RoundRobin'',
     c_XrayConfigFileMode := ''0o640'', c_Nodes := [sample_node_config]\<rparr>)"
  by (simp add: sample_config_doc_def dec_config_def dec_node_def EqualFold_def lower_name
      default_config_def zero_node_def sample_node_config_def)

theorem loaded_config_safe_witness:
  "\<exists>cfg. Load ''c.json'' (FileData (Doc sample_config_doc)) = Inr cfg \<and> c_Nodes cfg = [sample_node_config] \<and>
     c_BalancerStrategy cfg = ''roundRobin'' \<and> XrayConfigFilePerm (Some cfg) = 416 \<and>
     nodes_ok_spec (c_Nodes cfg)"
proof -
  have parts: "normalizeBalancerStrategy '' RoundRobin'' = ''roundRobin''"
    "validateNodes [sample_node_config] = None" "parseXrayConfigFileMode ''0o640'' = Inr 416"
    by code_simp+
  have "c_VLESSClientEncryption default_config = []" by (simp add: default_config_def)
  with parts sample_decodes obtain cfg where load: "Load ''c.json'' (FileData (Doc sample_config_doc)) = Inr cfg"
    and fields: "c_Nodes cfg = [sample_node_config]" "c_BalancerStrategy cfg = ''roundRobin''" "c_xrayFilePerm cfg = 416"
    by (simp add: Load_def applyXrayFilePerm_def normalizeVLESSClientEncryption_def)
  with loaded_config_safe [OF load] show ?thesis by (simp add: XrayConfigFilePerm_def)
qed

end
