(* ===== verification/Xray_Types.thy ===== *)
theory Xray_Types
  imports Models
begin

text \<open>
  \<^verbatim>\<open>internal/xray/types.go\<close>: the parts of an Xray configuration that the service reads and
  writes. One record per struct, in the order of the source, a decoder for the structs that
  are read from JSON and an encoder for those that are written to JSON and read again.
  A \<open>json.RawMessage\<close> and an \<open>interface{}\<close> are a \<open>json option\<close>.
\<close>

section \<open>Server side and stream settings\<close>

text \<open>An \<open>interface{}\<close> field: \<open>null\<close> is \<open>nil\<close>.\<close>

definition dec_iface :: "json option decoder" where
  "dec_iface p j = (case j of JNull \<Rightarrow> Some None | _ \<Rightarrow> Some (Some j))"

record VMessClient =
  vm_ID :: "string"
  vm_AlterId :: "int"
  vm_Email :: "string"
  vm_Level :: "int"

definition zero_VMessClient :: VMessClient where
  "zero_VMessClient = \<lparr>vm_ID = [], vm_AlterId = 0, vm_Email = [], vm_Level = 0\<rparr>"

definition dec_VMessClient :: "VMessClient decoder" where
  "dec_VMessClient = dec_struct (\<lambda>p o'.
     Option.bind (fld ''id'' dec_string o' (vm_ID p)) (\<lambda>x0.
     Option.bind (fld ''alterId'' dec_int o' (vm_AlterId p)) (\<lambda>x1.
     Option.bind (fld ''email'' dec_string o' (vm_Email p)) (\<lambda>x2.
     Option.bind (fld ''level'' dec_int o' (vm_Level p)) (\<lambda>x3.
     Some \<lparr>vm_ID = x0, vm_AlterId = x1, vm_Email = x2, vm_Level = x3\<rparr>)))))"

record VMessInboundSettings =
  vmi_Clients :: "VMessClient list"

definition zero_VMessInboundSettings :: VMessInboundSettings where
  "zero_VMessInboundSettings = \<lparr>vmi_Clients = []\<rparr>"

definition dec_VMessInboundSettings :: "VMessInboundSettings decoder" where
  "dec_VMessInboundSettings = dec_struct (\<lambda>p o'.
     Option.bind (fld ''clients'' (dec_list dec_VMessClient zero_VMessClient) o' (vmi_Clients p)) (\<lambda>x0.
     Some \<lparr>vmi_Clients = x0\<rparr>))"

record VLESSClient =
  vl_ID :: "string"
  vl_Flow :: "string"
  vl_Email :: "string"
  vl_Level :: "int"

definition zero_VLESSClient :: VLESSClient where
  "zero_VLESSClient = \<lparr>vl_ID = [], vl_Flow = [], vl_Email = [], vl_Level = 0\<rparr>"

definition dec_VLESSClient :: "VLESSClient decoder" where
  "dec_VLESSClient = dec_struct (\<lambda>p o'.
     Option.bind (fld ''id'' dec_string o' (vl_ID p)) (\<lambda>x0.
     Option.bind (fld ''flow'' dec_string o' (vl_Flow p)) (\<lambda>x1.
     Option.bind (fld ''email'' dec_string o' (vl_Email p)) (\<lambda>x2.
     Option.bind (fld ''level'' dec_int o' (vl_Level p)) (\<lambda>x3.
     Some \<lparr>vl_ID = x0, vl_Flow = x1, vl_Email = x2, vl_Level = x3\<rparr>)))))"

record VLESSInboundSettings =
  vli_Clients :: "VLESSClient list"
  vli_Decryption :: "string"
  vli_Testpre :: "int"

definition zero_VLESSInboundSettings :: VLESSInboundSettings where
  "zero_VLESSInboundSettings = \<lparr>vli_Clients = [], vli_Decryption = [], vli_Testpre = 0\<rparr>"

definition dec_VLESSInboundSettings :: "VLESSInboundSettings decoder" where
  "dec_VLESSInboundSettings = dec_struct (\<lambda>p o'.
     Option.bind (fld ''clients'' (dec_list dec_VLESSClient zero_VLESSClient) o' (vli_Clients p)) (\<lambda>x0.
     Option.bind (fld ''decryption'' dec_string o' (vli_Decryption p)) (\<lambda>x1.
     Option.bind (fld ''testpre'' dec_uint32 o' (vli_Testpre p)) (\<lambda>x2.
     Some \<lparr>vli_Clients = x0, vli_Decryption = x1, vli_Testpre = x2\<rparr>))))"

record TrojanClient =
  tj_Password :: "string"
  tj_Email :: "string"
  tj_Level :: "int"

definition zero_TrojanClient :: TrojanClient where
  "zero_TrojanClient = \<lparr>tj_Password = [], tj_Email = [], tj_Level = 0\<rparr>"

definition dec_TrojanClient :: "TrojanClient decoder" where
  "dec_TrojanClient = dec_struct (\<lambda>p o'.
     Option.bind (fld ''password'' dec_string o' (tj_Password p)) (\<lambda>x0.
     Option.bind (fld ''email'' dec_string o' (tj_Email p)) (\<lambda>x1.
     Option.bind (fld ''level'' dec_int o' (tj_Level p)) (\<lambda>x2.
     Some \<lparr>tj_Password = x0, tj_Email = x1, tj_Level = x2\<rparr>))))"

record TrojanInboundSettings =
  tji_Clients :: "TrojanClient list"

definition zero_TrojanInboundSettings :: TrojanInboundSettings where
  "zero_TrojanInboundSettings = \<lparr>tji_Clients = []\<rparr>"

definition dec_TrojanInboundSettings :: "TrojanInboundSettings decoder" where
  "dec_TrojanInboundSettings = dec_struct (\<lambda>p o'.
     Option.bind (fld ''clients'' (dec_list dec_TrojanClient zero_TrojanClient) o' (tji_Clients p)) (\<lambda>x0.
     Some \<lparr>tji_Clients = x0\<rparr>))"

record ShadowsocksClient =
  sc_Password :: "string"
  sc_Email :: "string"
  sc_Method :: "string"

definition zero_ShadowsocksClient :: ShadowsocksClient where
  "zero_ShadowsocksClient = \<lparr>sc_Password = [], sc_Email = [], sc_Method = []\<rparr>"

definition dec_ShadowsocksClient :: "ShadowsocksClient decoder" where
  "dec_ShadowsocksClient = dec_struct (\<lambda>p o'.
     Option.bind (fld ''password'' dec_string o' (sc_Password p)) (\<lambda>x0.
     Option.bind (fld ''email'' dec_string o' (sc_Email p)) (\<lambda>x1.
     Option.bind (fld ''method'' dec_string o' (sc_Method p)) (\<lambda>x2.
     Some \<lparr>sc_Password = x0, sc_Email = x1, sc_Method = x2\<rparr>))))"

record ShadowsocksInboundSettings =
  sci_Method :: "string"
  sci_Password :: "string"
  sci_Clients :: "ShadowsocksClient list"
  sci_Network :: "string"

definition zero_ShadowsocksInboundSettings :: ShadowsocksInboundSettings where
  "zero_ShadowsocksInboundSettings = \<lparr>sci_Method = [], sci_Password = [], 
     sci_Clients = [], sci_Network = []\<rparr>"

definition dec_ShadowsocksInboundSettings :: "ShadowsocksInboundSettings decoder" where
  "dec_ShadowsocksInboundSettings = dec_struct (\<lambda>p o'.
     Option.bind (fld ''method'' dec_string o' (sci_Method p)) (\<lambda>x0.
     Option.bind (fld ''password'' dec_string o' (sci_Password p)) (\<lambda>x1.
     Option.bind (fld ''clients'' (dec_list dec_ShadowsocksClient zero_ShadowsocksClient) o' (sci_Clients p)) (\<lambda>x2.
     Option.bind (fld ''network'' dec_string o' (sci_Network p)) (\<lambda>x3.
     Some \<lparr>sci_Method = x0, sci_Password = x1, sci_Clients = x2, sci_Network = x3\<rparr>)))))"

record SOCKSAccount =
  sa_User :: "string"
  sa_Pass :: "string"

definition zero_SOCKSAccount :: SOCKSAccount where
  "zero_SOCKSAccount = \<lparr>sa_User = [], sa_Pass = []\<rparr>"

definition dec_SOCKSAccount :: "SOCKSAccount decoder" where
  "dec_SOCKSAccount = dec_struct (\<lambda>p o'.
     Option.bind (fld ''user'' dec_string o' (sa_User p)) (\<lambda>x0.
     Option.bind (fld ''pass'' dec_string o' (sa_Pass p)) (\<lambda>x1.
     Some \<lparr>sa_User = x0, sa_Pass = x1\<rparr>)))"

record SOCKSInboundSettings =
  sai_Auth :: "string"
  sai_Accounts :: "SOCKSAccount list"
  sai_UDP :: "bool"

definition zero_SOCKSInboundSettings :: SOCKSInboundSettings where
  "zero_SOCKSInboundSettings = \<lparr>sai_Auth = [], sai_Accounts = [], sai_UDP = False\<rparr>"

definition dec_SOCKSInboundSettings :: "SOCKSInboundSettings decoder" where
  "dec_SOCKSInboundSettings = dec_struct (\<lambda>p o'.
     Option.bind (fld ''auth'' dec_string o' (sai_Auth p)) (\<lambda>x0.
     Option.bind (fld ''accounts'' (dec_list dec_SOCKSAccount zero_SOCKSAccount) o' (sai_Accounts p)) (\<lambda>x1.
     Option.bind (fld ''udp'' dec_bool o' (sai_UDP p)) (\<lambda>x2.
     Some \<lparr>sai_Auth = x0, sai_Accounts = x1, sai_UDP = x2\<rparr>))))"

record TLSSettings =
  ts_ServerName :: "string"
  ts_Fingerprint :: "string"
  ts_ALPN :: "string list"
  ts_AllowInsecure :: "bool"
  ts_PinnedPeerCertSha256 :: "string list"
  ts_VerifyPeerCertByName :: "string"
  ts_Certificates :: "json option"

definition zero_TLSSettings :: TLSSettings where
  "zero_TLSSettings = \<lparr>ts_ServerName = [], ts_Fingerprint = [], ts_ALPN = [], 
     ts_AllowInsecure = False, ts_PinnedPeerCertSha256 = [], ts_VerifyPeerCertByName = [], 
     ts_Certificates = None\<rparr>"

definition dec_TLSSettings :: "TLSSettings decoder" where
  "dec_TLSSettings = dec_struct (\<lambda>p o'.
     Option.bind (fld ''serverName'' dec_string o' (ts_ServerName p)) (\<lambda>x0.
     Option.bind (fld ''fingerprint'' dec_string o' (ts_Fingerprint p)) (\<lambda>x1.
     Option.bind (fld ''alpn'' dec_strings o' (ts_ALPN p)) (\<lambda>x2.
     Option.bind (fld ''allowInsecure'' dec_bool o' (ts_AllowInsecure p)) (\<lambda>x3.
     Option.bind (fld ''pinnedPeerCertSha256'' dec_strings o' (ts_PinnedPeerCertSha256 p)) (\<lambda>x4.
     Option.bind (fld ''verifyPeerCertByName'' dec_string o' (ts_VerifyPeerCertByName p)) (\<lambda>x5.
     Option.bind (fld ''certificates'' dec_iface o' (ts_Certificates p)) (\<lambda>x6.
     Some \<lparr>ts_ServerName = x0, ts_Fingerprint = x1, ts_ALPN = x2, ts_AllowInsecure = x3, 
       ts_PinnedPeerCertSha256 = x4, ts_VerifyPeerCertByName = x5, ts_Certificates = x6\<rparr>))))))))"

record RealitySettings =
  rs_Show :: "bool"
  rs_Dest :: "string"
  rs_XVer :: "int"
  rs_ServerNames :: "string list"
  rs_PrivateKey :: "string"
  rs_ShortIds :: "string list"
  rs_MLDSA65Seed :: "string"
  rs_MinClientVer :: "string"
  rs_MaxClientVer :: "string"
  rs_MaxTimeDiff :: "int"
  rs_PublicKey :: "string"
  rs_ServerName :: "string"
  rs_Fingerprint :: "string"
  rs_ShortId :: "string"
  rs_SpiderX :: "string"
  rs_MLDSA65Verify :: "string"

definition zero_RealitySettings :: RealitySettings where
  "zero_RealitySettings = \<lparr>rs_Show = False, rs_Dest = [], rs_XVer = 0, 
     rs_ServerNames = [], rs_PrivateKey = [], rs_ShortIds = [], rs_MLDSA65Seed = [], 
     rs_MinClientVer = [], rs_MaxClientVer = [], rs_MaxTimeDiff = 0, rs_PublicKey = [], 
     rs_ServerName = [], rs_Fingerprint = [], rs_ShortId = [], rs_SpiderX = [], 
     rs_MLDSA65Verify = []\<rparr>"

definition dec_RealitySettings :: "RealitySettings decoder" where
  "dec_RealitySettings = dec_struct (\<lambda>p o'.
     Option.bind (fld ''show'' dec_bool o' (rs_Show p)) (\<lambda>x0.
     Option.bind (fld ''dest'' dec_string o' (rs_Dest p)) (\<lambda>x1.
     Option.bind (fld ''xver'' dec_int o' (rs_XVer p)) (\<lambda>x2.
     Option.bind (fld ''serverNames'' dec_strings o' (rs_ServerNames p)) (\<lambda>x3.
     Option.bind (fld ''privateKey'' dec_string o' (rs_PrivateKey p)) (\<lambda>x4.
     Option.bind (fld ''shortIds'' dec_strings o' (rs_ShortIds p)) (\<lambda>x5.
     Option.bind (fld ''mldsa65Seed'' dec_string o' (rs_MLDSA65Seed p)) (\<lambda>x6.
     Option.bind (fld ''minClientVer'' dec_string o' (rs_MinClientVer p)) (\<lambda>x7.
     Option.bind (fld ''maxClientVer'' dec_string o' (rs_MaxClientVer p)) (\<lambda>x8.
     Option.bind (fld ''maxTimeDiff'' dec_int o' (rs_MaxTimeDiff p)) (\<lambda>x9.
     Option.bind (fld ''publicKey'' dec_string o' (rs_PublicKey p)) (\<lambda>x10.
     Option.bind (fld ''serverName'' dec_string o' (rs_ServerName p)) (\<lambda>x11.
     Option.bind (fld ''fingerprint'' dec_string o' (rs_Fingerprint p)) (\<lambda>x12.
     Option.bind (fld ''shortId'' dec_string o' (rs_ShortId p)) (\<lambda>x13.
     Option.bind (fld ''spiderX'' dec_string o' (rs_SpiderX p)) (\<lambda>x14.
     Option.bind (fld ''mldsa65Verify'' dec_string o' (rs_MLDSA65Verify p)) (\<lambda>x15.
     Some \<lparr>rs_Show = x0, rs_Dest = x1, rs_XVer = x2, rs_ServerNames = x3, rs_PrivateKey = x4, 
       rs_ShortIds = x5, rs_MLDSA65Seed = x6, rs_MinClientVer = x7, rs_MaxClientVer = x8, 
       rs_MaxTimeDiff = x9, rs_PublicKey = x10, rs_ServerName = x11, rs_Fingerprint = x12, 
       rs_ShortId = x13, rs_SpiderX = x14, rs_MLDSA65Verify = x15\<rparr>)))))))))))))))))"

record TCPSettings =
  tcp_Header :: "json option"

definition zero_TCPSettings :: TCPSettings where
  "zero_TCPSettings = \<lparr>tcp_Header = None\<rparr>"

definition dec_TCPSettings :: "TCPSettings decoder" where
  "dec_TCPSettings = dec_struct (\<lambda>p o'.
     Option.bind (fld ''header'' dec_iface o' (tcp_Header p)) (\<lambda>x0.
     Some \<lparr>tcp_Header = x0\<rparr>))"

record HTTPSettings =
  h2_Host :: "string list"
  h2_Path :: "string"

definition zero_HTTPSettings :: HTTPSettings where
  "zero_HTTPSettings = \<lparr>h2_Host = [], h2_Path = []\<rparr>"

definition dec_HTTPSettings :: "HTTPSettings decoder" where
  "dec_HTTPSettings = dec_struct (\<lambda>p o'.
     Option.bind (fld ''host'' dec_strings o' (h2_Host p)) (\<lambda>x0.
     Option.bind (fld ''path'' dec_string o' (h2_Path p)) (\<lambda>x1.
     Some \<lparr>h2_Host = x0, h2_Path = x1\<rparr>)))"

record KCPSettings =
  kcp_MTU :: "int"
  kcp_TTI :: "int"
  kcp_UplinkCapacity :: "int"
  kcp_DownlinkCapacity :: "int"
  kcp_Congestion :: "bool"
  kcp_ReadBufferSize :: "int"
  kcp_WriteBufferSize :: "int"
  kcp_Header :: "json option"
  kcp_Seed :: "string"

definition zero_KCPSettings :: KCPSettings where
  "zero_KCPSettings = \<lparr>kcp_MTU = 0, kcp_TTI = 0, kcp_UplinkCapacity = 0, 
     kcp_DownlinkCapacity = 0, kcp_Congestion = False, kcp_ReadBufferSize = 0, 
     kcp_WriteBufferSize = 0, kcp_Header = None, kcp_Seed = []\<rparr>"

definition dec_KCPSettings :: "KCPSettings decoder" where
  "dec_KCPSettings = dec_struct (\<lambda>p o'.
     Option.bind (fld ''mtu'' dec_int o' (kcp_MTU p)) (\<lambda>x0.
     Option.bind (fld ''tti'' dec_int o' (kcp_TTI p)) (\<lambda>x1.
     Option.bind (fld ''uplinkCapacity'' dec_int o' (kcp_UplinkCapacity p)) (\<lambda>x2.
     Option.bind (fld ''downlinkCapacity'' dec_int o' (kcp_DownlinkCapacity p)) (\<lambda>x3.
     Option.bind (fld ''congestion'' dec_bool o' (kcp_Congestion p)) (\<lambda>x4.
     Option.bind (fld ''readBufferSize'' dec_int o' (kcp_ReadBufferSize p)) (\<lambda>x5.
     Option.bind (fld ''writeBufferSize'' dec_int o' (kcp_WriteBufferSize p)) (\<lambda>x6.
     Option.bind (fld ''header'' dec_iface o' (kcp_Header p)) (\<lambda>x7.
     Option.bind (fld ''seed'' dec_string o' (kcp_Seed p)) (\<lambda>x8.
     Some \<lparr>kcp_MTU = x0, kcp_TTI = x1, kcp_UplinkCapacity = x2, kcp_DownlinkCapacity = x3, 
       kcp_Congestion = x4, kcp_ReadBufferSize = x5, kcp_WriteBufferSize = x6, 
       kcp_Header = x7, kcp_Seed = x8\<rparr>))))))))))"

record QUICSettings =
  quic_Security :: "string"
  quic_Key :: "string"
  quic_Header :: "json option"

definition zero_QUICSettings :: QUICSettings where
  "zero_QUICSettings = \<lparr>quic_Security = [], quic_Key = [], quic_Header = None\<rparr>"

definition dec_QUICSettings :: "QUICSettings decoder" where
  "dec_QUICSettings = dec_struct (\<lambda>p o'.
     Option.bind (fld ''security'' dec_string o' (quic_Security p)) (\<lambda>x0.
     Option.bind (fld ''key'' dec_string o' (quic_Key p)) (\<lambda>x1.
     Option.bind (fld ''header'' dec_iface o' (quic_Header p)) (\<lambda>x2.
     Some \<lparr>quic_Security = x0, quic_Key = x1, quic_Header = x2\<rparr>))))"

record StreamSettings =
  ss_Network :: "string"
  ss_Security :: "string"
  ss_TLSSettings :: "TLSSettings option"
  ss_RealitySettings :: "RealitySettings option"
  ss_WSSettings :: "json option"
  ss_GRPCSettings :: "json option"
  ss_TCPSettings :: "TCPSettings option"
  ss_HTTPSettings :: "HTTPSettings option"
  ss_KCPSettings :: "KCPSettings option"
  ss_QUICSettings :: "QUICSettings option"
  ss_HTTPUpgradeSettings :: "json option"
  ss_XHTTPSettings :: "json option"

definition zero_StreamSettings :: StreamSettings where
  "zero_StreamSettings = \<lparr>ss_Network = [], ss_Security = [], ss_TLSSettings = None, 
     ss_RealitySettings = None, ss_WSSettings = None, ss_GRPCSettings = None, 
     ss_TCPSettings = None, ss_HTTPSettings = None, ss_KCPSettings = None, 
     ss_QUICSettings = None, ss_HTTPUpgradeSettings = None, ss_XHTTPSettings = None\<rparr>"

definition dec_stream_alias :: "StreamSettings decoder" where
  "dec_stream_alias = dec_struct (\<lambda>p o'.
     Option.bind (fld ''network'' dec_string o' (ss_Network p)) (\<lambda>x0.
     Option.bind (fld ''security'' dec_string o' (ss_Security p)) (\<lambda>x1.
     Option.bind (fld ''tlsSettings'' (dec_ptr dec_TLSSettings zero_TLSSettings) o' (ss_TLSSettings p)) (\<lambda>x2.
     Option.bind (fld ''realitySettings'' (dec_ptr dec_RealitySettings zero_RealitySettings) o' (ss_RealitySettings p)) (\<lambda>x3.
     Option.bind (fld ''wsSettings'' dec_raw o' (ss_WSSettings p)) (\<lambda>x4.
     Option.bind (fld ''grpcSettings'' dec_raw o' (ss_GRPCSettings p)) (\<lambda>x5.
     Option.bind (fld ''tcpSettings'' (dec_ptr dec_TCPSettings zero_TCPSettings) o' (ss_TCPSettings p)) (\<lambda>x6.
     Option.bind (fld ''httpSettings'' (dec_ptr dec_HTTPSettings zero_HTTPSettings) o' (ss_HTTPSettings p)) (\<lambda>x7.
     Option.bind (fld ''kcpSettings'' (dec_ptr dec_KCPSettings zero_KCPSettings) o' (ss_KCPSettings p)) (\<lambda>x8.
     Option.bind (fld ''quicSettings'' (dec_ptr dec_QUICSettings zero_QUICSettings) o' (ss_QUICSettings p)) (\<lambda>x9.
     Option.bind (fld ''httpupgradeSettings'' dec_raw o' (ss_HTTPUpgradeSettings p)) (\<lambda>x10.
     Option.bind (fld ''xhttpSettings'' dec_raw o' (ss_XHTTPSettings p)) (\<lambda>x11.
     Some \<lparr>ss_Network = x0, ss_Security = x1, ss_TLSSettings = x2, ss_RealitySettings = x3, 
       ss_WSSettings = x4, ss_GRPCSettings = x5, ss_TCPSettings = x6, ss_HTTPSettings = x7, 
       ss_KCPSettings = x8, ss_QUICSettings = x9, ss_HTTPUpgradeSettings = x10, 
       ss_XHTTPSettings = x11\<rparr>)))))))))))))"

text \<open>\<open>StreamSettings.UnmarshalJSON\<close> decodes into a fresh value and renames \<open>raw\<close> to \<open>tcp\<close>.\<close>

definition dec_StreamSettings :: "StreamSettings decoder" where
  "dec_StreamSettings p j = map_option
     (\<lambda>s. if EqualFold (TrimSpace (ss_Network s)) ''raw'' then s\<lparr>ss_Network := ''tcp''\<rparr> else s)
     (dec_stream_alias zero_StreamSettings j)"

record ServerInbound =
  si_Tag :: "string"
  si_Listen :: "string"
  si_Port :: "json option"
  si_Protocol :: "string"
  si_Settings :: "json option"
  si_StreamSettings :: "StreamSettings option"

definition zero_ServerInbound :: ServerInbound where
  "zero_ServerInbound = \<lparr>si_Tag = [], si_Listen = [], si_Port = None, si_Protocol = [], 
     si_Settings = None, si_StreamSettings = None\<rparr>"

definition dec_ServerInbound :: "ServerInbound decoder" where
  "dec_ServerInbound = dec_struct (\<lambda>p o'.
     Option.bind (fld ''tag'' dec_string o' (si_Tag p)) (\<lambda>x0.
     Option.bind (fld ''listen'' dec_string o' (si_Listen p)) (\<lambda>x1.
     Option.bind (fld ''port'' dec_raw o' (si_Port p)) (\<lambda>x2.
     Option.bind (fld ''protocol'' dec_string o' (si_Protocol p)) (\<lambda>x3.
     Option.bind (fld ''settings'' dec_raw o' (si_Settings p)) (\<lambda>x4.
     Option.bind (fld ''streamSettings'' (dec_ptr dec_StreamSettings zero_StreamSettings) o' (si_StreamSettings p)) (\<lambda>x5.
     Some \<lparr>si_Tag = x0, si_Listen = x1, si_Port = x2, si_Protocol = x3, si_Settings = x4, 
       si_StreamSettings = x5\<rparr>)))))))"

section \<open>Outbound settings\<close>

record VMessUser =
  vmu_ID :: "string"
  vmu_AlterId :: "int"
  vmu_Security :: "string"
  vmu_Level :: "int"

definition zero_VMessUser :: VMessUser where
  "zero_VMessUser = \<lparr>vmu_ID = [], vmu_AlterId = 0, vmu_Security = [], vmu_Level = 0\<rparr>"

definition dec_VMessUser :: "VMessUser decoder" where
  "dec_VMessUser = dec_struct (\<lambda>p o'.
     Option.bind (fld ''id'' dec_string o' (vmu_ID p)) (\<lambda>x0.
     Option.bind (fld ''alterId'' dec_int o' (vmu_AlterId p)) (\<lambda>x1.
     Option.bind (fld ''security'' dec_string o' (vmu_Security p)) (\<lambda>x2.
     Option.bind (fld ''level'' dec_int o' (vmu_Level p)) (\<lambda>x3.
     Some \<lparr>vmu_ID = x0, vmu_AlterId = x1, vmu_Security = x2, vmu_Level = x3\<rparr>)))))"

definition enc_VMessUser :: "VMessUser \<Rightarrow> json" where
  "enc_VMessUser c = JObj (
     [(''id'', JStr (vmu_ID c))] @
     [(''alterId'', JInt (vmu_AlterId c))] @
     omit_str ''security'' (vmu_Security c) @
     omit_int ''level'' (vmu_Level c))"

record VMessServer =
  vms_Address :: "string"
  vms_Port :: "int"
  vms_Users :: "VMessUser list"

definition zero_VMessServer :: VMessServer where
  "zero_VMessServer = \<lparr>vms_Address = [], vms_Port = 0, vms_Users = []\<rparr>"

definition dec_VMessServer :: "VMessServer decoder" where
  "dec_VMessServer = dec_struct (\<lambda>p o'.
     Option.bind (fld ''address'' dec_string o' (vms_Address p)) (\<lambda>x0.
     Option.bind (fld ''port'' dec_int o' (vms_Port p)) (\<lambda>x1.
     Option.bind (fld ''users'' (dec_list dec_VMessUser zero_VMessUser) o' (vms_Users p)) (\<lambda>x2.
     Some \<lparr>vms_Address = x0, vms_Port = x1, vms_Users = x2\<rparr>))))"

definition enc_VMessServer :: "VMessServer \<Rightarrow> json" where
  "enc_VMessServer c = JObj (
     [(''address'', JStr (vms_Address c))] @
     [(''port'', JInt (vms_Port c))] @
     [(''users'', JArr (map enc_VMessUser (vms_Users c)))])"

record VMessOutboundSettings =
  vmo_Vnext :: "VMessServer list"

definition zero_VMessOutboundSettings :: VMessOutboundSettings where
  "zero_VMessOutboundSettings = \<lparr>vmo_Vnext = []\<rparr>"

definition dec_VMessOutboundSettings :: "VMessOutboundSettings decoder" where
  "dec_VMessOutboundSettings = dec_struct (\<lambda>p o'.
     Option.bind (fld ''vnext'' (dec_list dec_VMessServer zero_VMessServer) o' (vmo_Vnext p)) (\<lambda>x0.
     Some \<lparr>vmo_Vnext = x0\<rparr>))"

definition enc_VMessOutboundSettings :: "VMessOutboundSettings \<Rightarrow> json" where
  "enc_VMessOutboundSettings c = JObj (
     [(''vnext'', JArr (map enc_VMessServer (vmo_Vnext c)))])"

record VLESSUser =
  vlu_ID :: "string"
  vlu_Flow :: "string"
  vlu_Encryption :: "string"
  vlu_Email :: "string"
  vlu_Level :: "int"
  vlu_Testpre :: "int"

definition zero_VLESSUser :: VLESSUser where
  "zero_VLESSUser = \<lparr>vlu_ID = [], vlu_Flow = [], vlu_Encryption = [], vlu_Email = [], 
     vlu_Level = 0, vlu_Testpre = 0\<rparr>"

definition dec_VLESSUser :: "VLESSUser decoder" where
  "dec_VLESSUser = dec_struct (\<lambda>p o'.
     Option.bind (fld ''id'' dec_string o' (vlu_ID p)) (\<lambda>x0.
     Option.bind (fld ''flow'' dec_string o' (vlu_Flow p)) (\<lambda>x1.
     Option.bind (fld ''encryption'' dec_string o' (vlu_Encryption p)) (\<lambda>x2.
     Option.bind (fld ''email'' dec_string o' (vlu_Email p)) (\<lambda>x3.
     Option.bind (fld ''level'' dec_int o' (vlu_Level p)) (\<lambda>x4.
     Option.bind (fld ''testpre'' dec_uint32 o' (vlu_Testpre p)) (\<lambda>x5.
     Some \<lparr>vlu_ID = x0, vlu_Flow = x1, vlu_Encryption = x2, vlu_Email = x3, vlu_Level = x4, 
       vlu_Testpre = x5\<rparr>)))))))"

definition enc_VLESSUser :: "VLESSUser \<Rightarrow> json" where
  "enc_VLESSUser c = JObj (
     [(''id'', JStr (vlu_ID c))] @
     omit_str ''flow'' (vlu_Flow c) @
     [(''encryption'', JStr (vlu_Encryption c))] @
     omit_str ''email'' (vlu_Email c) @
     omit_int ''level'' (vlu_Level c) @
     omit_int ''testpre'' (vlu_Testpre c))"

record VLESSServer =
  vls_Address :: "string"
  vls_Port :: "int"
  vls_Users :: "VLESSUser list"

definition zero_VLESSServer :: VLESSServer where
  "zero_VLESSServer = \<lparr>vls_Address = [], vls_Port = 0, vls_Users = []\<rparr>"

definition dec_VLESSServer :: "VLESSServer decoder" where
  "dec_VLESSServer = dec_struct (\<lambda>p o'.
     Option.bind (fld ''address'' dec_string o' (vls_Address p)) (\<lambda>x0.
     Option.bind (fld ''port'' dec_int o' (vls_Port p)) (\<lambda>x1.
     Option.bind (fld ''users'' (dec_list dec_VLESSUser zero_VLESSUser) o' (vls_Users p)) (\<lambda>x2.
     Some \<lparr>vls_Address = x0, vls_Port = x1, vls_Users = x2\<rparr>))))"

definition enc_VLESSServer :: "VLESSServer \<Rightarrow> json" where
  "enc_VLESSServer c = JObj (
     [(''address'', JStr (vls_Address c))] @
     [(''port'', JInt (vls_Port c))] @
     [(''users'', JArr (map enc_VLESSUser (vls_Users c)))])"

record VLESSOutboundSettings =
  vlo_Vnext :: "VLESSServer list"

definition zero_VLESSOutboundSettings :: VLESSOutboundSettings where
  "zero_VLESSOutboundSettings = \<lparr>vlo_Vnext = []\<rparr>"

definition dec_VLESSOutboundSettings :: "VLESSOutboundSettings decoder" where
  "dec_VLESSOutboundSettings = dec_struct (\<lambda>p o'.
     Option.bind (fld ''vnext'' (dec_list dec_VLESSServer zero_VLESSServer) o' (vlo_Vnext p)) (\<lambda>x0.
     Some \<lparr>vlo_Vnext = x0\<rparr>))"

definition enc_VLESSOutboundSettings :: "VLESSOutboundSettings \<Rightarrow> json" where
  "enc_VLESSOutboundSettings c = JObj (
     [(''vnext'', JArr (map enc_VLESSServer (vlo_Vnext c)))])"

record TrojanServer =
  tjs_Address :: "string"
  tjs_Port :: "int"
  tjs_Password :: "string"
  tjs_Level :: "int"

definition zero_TrojanServer :: TrojanServer where
  "zero_TrojanServer = \<lparr>tjs_Address = [], tjs_Port = 0, tjs_Password = [], 
     tjs_Level = 0\<rparr>"

definition dec_TrojanServer :: "TrojanServer decoder" where
  "dec_TrojanServer = dec_struct (\<lambda>p o'.
     Option.bind (fld ''address'' dec_string o' (tjs_Address p)) (\<lambda>x0.
     Option.bind (fld ''port'' dec_int o' (tjs_Port p)) (\<lambda>x1.
     Option.bind (fld ''password'' dec_string o' (tjs_Password p)) (\<lambda>x2.
     Option.bind (fld ''level'' dec_int o' (tjs_Level p)) (\<lambda>x3.
     Some \<lparr>tjs_Address = x0, tjs_Port = x1, tjs_Password = x2, tjs_Level = x3\<rparr>)))))"

definition enc_TrojanServer :: "TrojanServer \<Rightarrow> json" where
  "enc_TrojanServer c = JObj (
     [(''address'', JStr (tjs_Address c))] @
     [(''port'', JInt (tjs_Port c))] @
     [(''password'', JStr (tjs_Password c))] @
     omit_int ''level'' (tjs_Level c))"

record TrojanOutboundSettings =
  tjo_Servers :: "TrojanServer list"

definition zero_TrojanOutboundSettings :: TrojanOutboundSettings where
  "zero_TrojanOutboundSettings = \<lparr>tjo_Servers = []\<rparr>"

definition dec_TrojanOutboundSettings :: "TrojanOutboundSettings decoder" where
  "dec_TrojanOutboundSettings = dec_struct (\<lambda>p o'.
     Option.bind (fld ''servers'' (dec_list dec_TrojanServer zero_TrojanServer) o' (tjo_Servers p)) (\<lambda>x0.
     Some \<lparr>tjo_Servers = x0\<rparr>))"

definition enc_TrojanOutboundSettings :: "TrojanOutboundSettings \<Rightarrow> json" where
  "enc_TrojanOutboundSettings c = JObj (
     [(''servers'', JArr (map enc_TrojanServer (tjo_Servers c)))])"

record ShadowsocksServer =
  scs_Address :: "string"
  scs_Port :: "int"
  scs_Method :: "string"
  scs_Password :: "string"
  scs_Level :: "int"
  scs_UoT :: "bool"

definition zero_ShadowsocksServer :: ShadowsocksServer where
  "zero_ShadowsocksServer = \<lparr>scs_Address = [], scs_Port = 0, scs_Method = [], 
     scs_Password = [], scs_Level = 0, scs_UoT = False\<rparr>"

definition dec_ShadowsocksServer :: "ShadowsocksServer decoder" where
  "dec_ShadowsocksServer = dec_struct (\<lambda>p o'.
     Option.bind (fld ''address'' dec_string o' (scs_Address p)) (\<lambda>x0.
     Option.bind (fld ''port'' dec_int o' (scs_Port p)) (\<lambda>x1.
     Option.bind (fld ''method'' dec_string o' (scs_Method p)) (\<lambda>x2.
     Option.bind (fld ''password'' dec_string o' (scs_Password p)) (\<lambda>x3.
     Option.bind (fld ''level'' dec_int o' (scs_Level p)) (\<lambda>x4.
     Option.bind (fld ''uot'' dec_bool o' (scs_UoT p)) (\<lambda>x5.
     Some \<lparr>scs_Address = x0, scs_Port = x1, scs_Method = x2, scs_Password = x3, 
       scs_Level = x4, scs_UoT = x5\<rparr>)))))))"

definition enc_ShadowsocksServer :: "ShadowsocksServer \<Rightarrow> json" where
  "enc_ShadowsocksServer c = JObj (
     [(''address'', JStr (scs_Address c))] @
     [(''port'', JInt (scs_Port c))] @
     [(''method'', JStr (scs_Method c))] @
     [(''password'', JStr (scs_Password c))] @
     omit_int ''level'' (scs_Level c) @
     (if scs_UoT c then [(''uot'', JBool True)] else []))"

record ShadowsocksOutboundSettings =
  sco_Servers :: "ShadowsocksServer list"

definition zero_ShadowsocksOutboundSettings :: ShadowsocksOutboundSettings where
  "zero_ShadowsocksOutboundSettings = \<lparr>sco_Servers = []\<rparr>"

definition dec_ShadowsocksOutboundSettings :: "ShadowsocksOutboundSettings decoder" where
  "dec_ShadowsocksOutboundSettings = dec_struct (\<lambda>p o'.
     Option.bind (fld ''servers'' (dec_list dec_ShadowsocksServer zero_ShadowsocksServer) o' (sco_Servers p)) (\<lambda>x0.
     Some \<lparr>sco_Servers = x0\<rparr>))"

definition enc_ShadowsocksOutboundSettings :: "ShadowsocksOutboundSettings \<Rightarrow> json" where
  "enc_ShadowsocksOutboundSettings c = JObj (
     [(''servers'', JArr (map enc_ShadowsocksServer (sco_Servers c)))])"

record SOCKSUser =
  sau_User :: "string"
  sau_Pass :: "string"

definition zero_SOCKSUser :: SOCKSUser where
  "zero_SOCKSUser = \<lparr>sau_User = [], sau_Pass = []\<rparr>"

definition dec_SOCKSUser :: "SOCKSUser decoder" where
  "dec_SOCKSUser = dec_struct (\<lambda>p o'.
     Option.bind (fld ''user'' dec_string o' (sau_User p)) (\<lambda>x0.
     Option.bind (fld ''pass'' dec_string o' (sau_Pass p)) (\<lambda>x1.
     Some \<lparr>sau_User = x0, sau_Pass = x1\<rparr>)))"

definition enc_SOCKSUser :: "SOCKSUser \<Rightarrow> json" where
  "enc_SOCKSUser c = JObj (
     [(''user'', JStr (sau_User c))] @
     [(''pass'', JStr (sau_Pass c))])"

record SOCKSServer =
  sas_Address :: "string"
  sas_Port :: "int"
  sas_Users :: "SOCKSUser list"

definition zero_SOCKSServer :: SOCKSServer where
  "zero_SOCKSServer = \<lparr>sas_Address = [], sas_Port = 0, sas_Users = []\<rparr>"

definition dec_SOCKSServer :: "SOCKSServer decoder" where
  "dec_SOCKSServer = dec_struct (\<lambda>p o'.
     Option.bind (fld ''address'' dec_string o' (sas_Address p)) (\<lambda>x0.
     Option.bind (fld ''port'' dec_int o' (sas_Port p)) (\<lambda>x1.
     Option.bind (fld ''users'' (dec_list dec_SOCKSUser zero_SOCKSUser) o' (sas_Users p)) (\<lambda>x2.
     Some \<lparr>sas_Address = x0, sas_Port = x1, sas_Users = x2\<rparr>))))"

definition enc_SOCKSServer :: "SOCKSServer \<Rightarrow> json" where
  "enc_SOCKSServer c = JObj (
     [(''address'', JStr (sas_Address c))] @
     [(''port'', JInt (sas_Port c))] @
     (if sas_Users c = [] then [] else [(''users'', JArr (map enc_SOCKSUser (sas_Users c)))]))"

record SOCKSOutboundSettings =
  sao_Servers :: "SOCKSServer list"

definition zero_SOCKSOutboundSettings :: SOCKSOutboundSettings where
  "zero_SOCKSOutboundSettings = \<lparr>sao_Servers = []\<rparr>"

definition dec_SOCKSOutboundSettings :: "SOCKSOutboundSettings decoder" where
  "dec_SOCKSOutboundSettings = dec_struct (\<lambda>p o'.
     Option.bind (fld ''servers'' (dec_list dec_SOCKSServer zero_SOCKSServer) o' (sao_Servers p)) (\<lambda>x0.
     Some \<lparr>sao_Servers = x0\<rparr>))"

definition enc_SOCKSOutboundSettings :: "SOCKSOutboundSettings \<Rightarrow> json" where
  "enc_SOCKSOutboundSettings c = JObj (
     [(''servers'', JArr (map enc_SOCKSServer (sao_Servers c)))])"

section \<open>Stored credentials\<close>

record StoredClientConfig =
  st_Protocol :: "string"
  st_ID :: "string"
  st_AlterId :: "int"
  st_Flow :: "string"
  st_Email :: "string"
  st_Encryption :: "string"
  st_Testpre :: "int"
  st_Password :: "string"
  st_Method :: "string"
  st_User :: "string"

definition zero_StoredClientConfig :: StoredClientConfig where
  "zero_StoredClientConfig = \<lparr>st_Protocol = [], st_ID = [], st_AlterId = 0, 
     st_Flow = [], st_Email = [], st_Encryption = [], st_Testpre = 0, st_Password = [], 
     st_Method = [], st_User = []\<rparr>"

definition dec_stored_alias :: "StoredClientConfig decoder" where
  "dec_stored_alias = dec_struct (\<lambda>p o'.
     Option.bind (fld ''protocol'' dec_string o' (st_Protocol p)) (\<lambda>x0.
     Option.bind (fld ''id'' dec_string o' (st_ID p)) (\<lambda>x1.
     Option.bind (fld ''alter_id'' dec_int o' (st_AlterId p)) (\<lambda>x2.
     Option.bind (fld ''flow'' dec_string o' (st_Flow p)) (\<lambda>x3.
     Option.bind (fld ''email'' dec_string o' (st_Email p)) (\<lambda>x4.
     Option.bind (fld ''encryption'' dec_string o' (st_Encryption p)) (\<lambda>x5.
     Option.bind (fld ''testpre'' dec_uint32 o' (st_Testpre p)) (\<lambda>x6.
     Option.bind (fld ''password'' dec_string o' (st_Password p)) (\<lambda>x7.
     Option.bind (fld ''method'' dec_string o' (st_Method p)) (\<lambda>x8.
     Option.bind (fld ''user'' dec_string o' (st_User p)) (\<lambda>x9.
     Some \<lparr>st_Protocol = x0, st_ID = x1, st_AlterId = x2, st_Flow = x3, st_Email = x4, 
       st_Encryption = x5, st_Testpre = x6, st_Password = x7, st_Method = x8, st_User = x9\<rparr>)))))))))))"

definition enc_StoredClientConfig :: "StoredClientConfig \<Rightarrow> json" where
  "enc_StoredClientConfig c = JObj (
     [(''protocol'', JStr (st_Protocol c))] @
     omit_str ''id'' (st_ID c) @
     omit_int ''alter_id'' (st_AlterId c) @
     omit_str ''flow'' (st_Flow c) @
     omit_str ''email'' (st_Email c) @
     omit_str ''encryption'' (st_Encryption c) @
     omit_int ''testpre'' (st_Testpre c) @
     omit_str ''password'' (st_Password c) @
     omit_str ''method'' (st_Method c) @
     omit_str ''user'' (st_User c))"

text \<open>\<open>StoredClientConfig.UnmarshalJSON\<close>: a fresh value, and the old spelling \<open>alterId\<close> when
  \<open>alter_id\<close> is absent or zero.\<close>

definition dec_StoredClientConfig :: "StoredClientConfig decoder" where
  "dec_StoredClientConfig p j = map_option
     (\<lambda>s. if st_AlterId s = 0
           then (case j of
                   JObj o' \<Rightarrow> (case obj_get ''alterId'' o' of
                       Some v \<Rightarrow> (case dec_int 0 v of Some i \<Rightarrow> s\<lparr>st_AlterId := i\<rparr> | None \<Rightarrow> s)
                     | None \<Rightarrow> s)
                 | _ \<Rightarrow> s)
           else s)
     (dec_stored_alias zero_StoredClientConfig j)"

section \<open>The client configuration\<close>

record LogConfig =
  lg_LogLevel :: "string"

record DNSConfig =
  dns_Servers :: "json list"

record Sniffing =
  sn_Enabled :: "bool"
  sn_DestOverride :: "string list"

record ClientInbound =
  in_Tag :: "string"
  in_Port :: "int"
  in_Listen :: "string"
  in_Protocol :: "string"
  in_Settings :: "json"
  in_Sniffing :: "Sniffing option"

record MuxConfig =
  mx_Enabled :: "bool"
  mx_Concurrency :: "int"

record Outbound =
  ob_Tag :: "string"
  ob_Protocol :: "string"
  ob_Settings :: "json"
  ob_StreamSettings :: "StreamSettings option"
  ob_Mux :: "MuxConfig option"

record BalancerStrategy =
  bs_Type :: "string"

record Balancer =
  bal_Tag :: "string"
  bal_Selector :: "string list"
  bal_Strategy :: "BalancerStrategy option"
  bal_FallbackTag :: "string"

record RoutingRule =
  rl_Type :: "string"
  rl_InboundTag :: "string list"
  rl_OutboundTag :: "string"
  rl_BalancerTag :: "string"
  rl_Domain :: "string list"
  rl_IP :: "string list"
  rl_Network :: "string"
  rl_Port :: "string"
  rl_Protocol :: "string list"

record Routing =
  rt_DomainStrategy :: "string"
  rt_Balancers :: "Balancer list"
  rt_Rules :: "RoutingRule list"

record ObservatoryConfig =
  obs_SubjectSelector :: "string list"
  obs_ProbeURL :: "string"
  obs_ProbeInterval :: "string"
  obs_EnableConcurrency :: "bool"

record ClientConfig =
  cc_Log :: "LogConfig"
  cc_DNS :: "DNSConfig"
  cc_Inbounds :: "ClientInbound list"
  cc_Outbounds :: "Outbound list"
  cc_Observatory :: "ObservatoryConfig option"
  cc_Routing :: "Routing"

section \<open>Field names\<close>

lemma lower_names_xray [lower_name]:
  "ToLower ''alterId'' = ''alterid''"
  "ToLower ''level'' = ''level''"
  "ToLower ''flow'' = ''flow''"
  "ToLower ''decryption'' = ''decryption''"
  "ToLower ''testpre'' = ''testpre''"
  "ToLower ''method'' = ''method''"
  "ToLower ''user'' = ''user''"
  "ToLower ''pass'' = ''pass''"
  "ToLower ''auth'' = ''auth''"
  "ToLower ''accounts'' = ''accounts''"
  "ToLower ''udp'' = ''udp''"
  "ToLower ''serverName'' = ''servername''"
  "ToLower ''fingerprint'' = ''fingerprint''"
  "ToLower ''alpn'' = ''alpn''"
  "ToLower ''allowInsecure'' = ''allowinsecure''"
  "ToLower ''pinnedPeerCertSha256'' = ''pinnedpeercertsha256''"
  "ToLower ''verifyPeerCertByName'' = ''verifypeercertbyname''"
  "ToLower ''certificates'' = ''certificates''"
  "ToLower ''show'' = ''show''"
  "ToLower ''dest'' = ''dest''"
  "ToLower ''xver'' = ''xver''"
  "ToLower ''serverNames'' = ''servernames''"
  "ToLower ''privateKey'' = ''privatekey''"
  "ToLower ''shortIds'' = ''shortids''"
  "ToLower ''mldsa65Seed'' = ''mldsa65seed''"
  "ToLower ''minClientVer'' = ''minclientver''"
  "ToLower ''maxClientVer'' = ''maxclientver''"
  "ToLower ''maxTimeDiff'' = ''maxtimediff''"
  "ToLower ''publicKey'' = ''publickey''"
  "ToLower ''shortId'' = ''shortid''"
  "ToLower ''spiderX'' = ''spiderx''"
  "ToLower ''mldsa65Verify'' = ''mldsa65verify''"
  "ToLower ''header'' = ''header''"
  "ToLower ''host'' = ''host''"
  "ToLower ''path'' = ''path''"
  "ToLower ''mtu'' = ''mtu''"
  "ToLower ''tti'' = ''tti''"
  "ToLower ''uplinkCapacity'' = ''uplinkcapacity''"
  "ToLower ''downlinkCapacity'' = ''downlinkcapacity''"
  "ToLower ''congestion'' = ''congestion''"
  "ToLower ''readBufferSize'' = ''readbuffersize''"
  "ToLower ''writeBufferSize'' = ''writebuffersize''"
  "ToLower ''seed'' = ''seed''"
  "ToLower ''security'' = ''security''"
  "ToLower ''key'' = ''key''"
  "ToLower ''tlsSettings'' = ''tlssettings''"
  "ToLower ''realitySettings'' = ''realitysettings''"
  "ToLower ''wsSettings'' = ''wssettings''"
  "ToLower ''grpcSettings'' = ''grpcsettings''"
  "ToLower ''tcpSettings'' = ''tcpsettings''"
  "ToLower ''httpSettings'' = ''httpsettings''"
  "ToLower ''kcpSettings'' = ''kcpsettings''"
  "ToLower ''quicSettings'' = ''quicsettings''"
  "ToLower ''httpupgradeSettings'' = ''httpupgradesettings''"
  "ToLower ''xhttpSettings'' = ''xhttpsettings''"
  "ToLower ''listen'' = ''listen''"
  "ToLower ''streamSettings'' = ''streamsettings''"
  "ToLower ''address'' = ''address''"
  "ToLower ''users'' = ''users''"
  "ToLower ''vnext'' = ''vnext''"
  "ToLower ''encryption'' = ''encryption''"
  "ToLower ''servers'' = ''servers''"
  "ToLower ''uot'' = ''uot''"
  "ToLower ''alter_id'' = ''alter_id''"
  by code_simp+

end
