(* ===== verification/Parser.thy ===== *)
theory Parser
  imports Xray_Types Config
begin

text \<open>
  \<^verbatim>\<open>internal/xray/parser.go\<close>: reading the inbounds and their clients out of Xray server
  configuration files. The directory listing and the file contents are arguments. The result
  for a directory is a Go map from paths to inbounds: a list of entries whose order stands for
  the iteration order. What is written to the log (and the map that suppresses duplicate
  warnings) is left out.
\<close>

section \<open>Clients of an inbound\<close>

record ParsedClient =
  pc_Identity :: string
  pc_ConfigJSON :: jtext

record ParsedInbound =
  pi_Tag :: string
  pi_Protocol :: string
  pi_Port :: int
  pi_RawJSON :: jtext
  pi_Clients :: "ParsedClient list"

definition stored :: "StoredClientConfig \<Rightarrow> string \<Rightarrow> ParsedClient" where
  "stored cred identity = \<lparr>pc_Identity = identity, pc_ConfigJSON = Doc (enc_StoredClientConfig cred)\<rparr>"

text \<open>\<open>json.Unmarshal(si.Settings, &s)\<close>: an absent member is an error.\<close>

definition dec_settings :: "'a decoder \<Rightarrow> 'a \<Rightarrow> json option \<Rightarrow> 'a option" where
  "dec_settings d z raw = (case raw of None \<Rightarrow> None | Some j \<Rightarrow> d z j)"

definition extractVMess :: "ServerInbound \<Rightarrow> ParsedClient list option" where
  "extractVMess si =
     (case dec_settings dec_VMessInboundSettings zero_VMessInboundSettings (si_Settings si) of
        None \<Rightarrow> None
      | Some s \<Rightarrow> Some (map (\<lambda>c.
          stored (zero_StoredClientConfig\<lparr>st_Protocol := ''vmess'', st_ID := vm_ID c,
                    st_AlterId := vm_AlterId c\<rparr>)
            (firstNonEmpty [vm_Email c, vm_ID c])) (vmi_Clients s)))"

definition extractVLESS :: "(string \<times> string) list \<Rightarrow> ServerInbound \<Rightarrow> ParsedClient list option" where
  "extractVLESS clientEncMap si =
     (case dec_settings dec_VLESSInboundSettings zero_VLESSInboundSettings (si_Settings si) of
        None \<Rightarrow> None
      | Some s \<Rightarrow>
          (let inboundTag = TrimSpace (si_Tag si);
               clientEnc =
                 (if vli_Decryption s \<noteq> [] \<and> vli_Decryption s \<noteq> ''none''
                  then (case map_of clientEncMap inboundTag of
                          Some enc \<Rightarrow> if enc \<noteq> [] then enc else ''none''
                        | None \<Rightarrow> ''none'')
                  else ''none'')
           in Some (map (\<lambda>c.
                stored (zero_StoredClientConfig\<lparr>st_Protocol := ''vless'', st_ID := vl_ID c,
                          st_Flow := vl_Flow c, st_Email := vl_Email c, st_Encryption := clientEnc,
                          st_Testpre := vli_Testpre s\<rparr>)
                  (firstNonEmpty [vl_Email c, vl_ID c])) (vli_Clients s))))"

definition extractTrojan :: "ServerInbound \<Rightarrow> ParsedClient list option" where
  "extractTrojan si =
     (case dec_settings dec_TrojanInboundSettings zero_TrojanInboundSettings (si_Settings si) of
        None \<Rightarrow> None
      | Some s \<Rightarrow> Some (map (\<lambda>c.
          stored (zero_StoredClientConfig\<lparr>st_Protocol := ''trojan'', st_Password := tj_Password c,
                    st_Email := tj_Email c\<rparr>)
            (firstNonEmpty [tj_Email c, tj_Password c])) (tji_Clients s)))"

definition extractShadowsocks :: "ServerInbound \<Rightarrow> ParsedClient list option" where
  "extractShadowsocks si =
     (case dec_settings dec_ShadowsocksInboundSettings zero_ShadowsocksInboundSettings (si_Settings si) of
        None \<Rightarrow> None
      | Some s \<Rightarrow>
          (if sci_Clients s \<noteq> []
           then Some (map (\<lambda>c.
             stored (zero_StoredClientConfig\<lparr>st_Protocol := ''shadowsocks'', st_Password := sc_Password c,
                       st_Method := firstNonEmpty [sc_Method c, sci_Method s, ''aes-256-gcm''],
                       st_Email := sc_Email c\<rparr>)
               (firstNonEmpty [sc_Email c, sc_Password c])) (sci_Clients s))
           else if sci_Password s \<noteq> []
           then Some [stored (zero_StoredClientConfig\<lparr>st_Protocol := ''shadowsocks'',
                        st_Password := sci_Password s,
                        st_Method := firstNonEmpty [sci_Method s, ''aes-256-gcm'']\<rparr>) (sci_Password s)]
           else Some []))"

definition extractSOCKS :: "ServerInbound \<Rightarrow> ParsedClient list option" where
  "extractSOCKS si =
     (case dec_settings dec_SOCKSInboundSettings zero_SOCKSInboundSettings (si_Settings si) of
        None \<Rightarrow> None
      | Some s \<Rightarrow> Some (map (\<lambda>acc.
          stored (zero_StoredClientConfig\<lparr>st_Protocol := ''socks'', st_User := sa_User acc,
                    st_Password := sa_Pass acc\<rparr>) (sa_User acc)) (sai_Accounts s)))"

definition extractClients :: "(string \<times> string) list \<Rightarrow> ServerInbound \<Rightarrow> ParsedClient list option" where
  "extractClients clientEncMap si =
     (let proto = ToLower (si_Protocol si)
      in if proto = ''vmess'' then extractVMess si
         else if proto = ''vless'' then extractVLESS clientEncMap si
         else if proto = ''trojan'' then extractTrojan si
         else if proto = ''shadowsocks'' then extractShadowsocks si
         else if proto = ''socks'' then extractSOCKS si
         else Some [])"

section \<open>Files and directories\<close>

text \<open>\<open>null\<close> decodes into an \<open>int\<close> without an error and leaves it 0.\<close>

definition parsePort :: "json option \<Rightarrow> int option" where
  "parsePort raw = (case raw of
     None \<Rightarrow> None
   | Some j \<Rightarrow>
       (case dec_int 0 j of
          Some i \<Rightarrow> Some i
        | None \<Rightarrow>
            (case dec_string [] j of
               Some s \<Rightarrow> ParseInt (takeWhile (\<lambda>c. c \<noteq> CHR ''-'') s)
             | None \<Rightarrow> None)))"

definition parse_inbound :: "(string \<times> string) list \<Rightarrow> json \<Rightarrow> ParsedInbound option" where
  "parse_inbound clientEncMap raw =
     (case dec_ServerInbound zero_ServerInbound raw of
        None \<Rightarrow> None
      | Some si \<Rightarrow>
          (case parsePort (si_Port si) of
             None \<Rightarrow> None
           | Some port \<Rightarrow>
               Some \<lparr>pi_Tag = si_Tag si, pi_Protocol = ToLower (si_Protocol si), pi_Port = port,
                     pi_RawJSON = Doc raw,
                     pi_Clients = (case extractClients clientEncMap si of None \<Rightarrow> [] | Some cs \<Rightarrow> cs)\<rparr>))"

datatype parse_err = ReadFileFailed | JsonParseFailed | ReadDirFailed

definition inbounds_of_file :: "jtext \<Rightarrow> json list option" where
  "inbounds_of_file t = (case unmarshal (dec_struct (\<lambda>p o'. fld ''inbounds'' dec_any_list o' p)) [] t of
     Some raws \<Rightarrow> Some raws
   | None \<Rightarrow> unmarshal dec_any_list [] t)"

definition parseConfigFileWith ::
  "(string \<times> string) list \<Rightarrow> file_read \<Rightarrow> parse_err + ParsedInbound list" where
  "parseConfigFileWith clientEncMap data =
     (case data of
        FileData t \<Rightarrow>
          (case inbounds_of_file t of
             None \<Rightarrow> Inl JsonParseFailed
           | Some raws \<Rightarrow> Inr (List.map_filter (parse_inbound clientEncMap) raws))
      | _ \<Rightarrow> Inl ReadFileFailed)"

definition ParseConfigFile :: "file_read \<Rightarrow> parse_err + ParsedInbound list" where
  "ParseConfigFile = parseConfigFileWith []"

text \<open>A directory entry: its name, whether it is a directory, and what reading it gives. The
  full path of an entry is built by \<open>filepath.Join\<close> of a clean directory name.\<close>

type_synonym dir_entry = "string \<times> bool \<times> file_read"

datatype dir_read = DirMissing | DirError | DirEntries "dir_entry list"

definition Join_path :: "string \<Rightarrow> string \<Rightarrow> string" where
  "Join_path dir name = dir @ ''/'' @ name"

type_synonym parsed_dir = "(string \<times> ParsedInbound list) list"

definition parseConfigDirWith ::
  "string \<Rightarrow> (string \<times> string) list \<Rightarrow> dir_read \<Rightarrow> parse_err + parsed_dir" where
  "parseConfigDirWith dir clientEncMap listing =
     (case listing of
        DirMissing \<Rightarrow> Inr []
      | DirError \<Rightarrow> Inl ReadDirFailed
      | DirEntries entries \<Rightarrow>
          Inr (List.map_filter (\<lambda>(name, isDir, data).
                 if isDir \<or> \<not> HasSuffix name ''.json'' then None
                 else (case parseConfigFileWith clientEncMap data of
                         Inl _ \<Rightarrow> None
                       | Inr inbounds \<Rightarrow> Some (Join_path dir name, inbounds))) entries))"

definition ParseConfigDir :: "string \<Rightarrow> dir_read \<Rightarrow> parse_err + parsed_dir" where
  "ParseConfigDir dir = parseConfigDirWith dir []"

definition ParseConfigDirWith ::
  "string \<Rightarrow> (string \<times> string) list \<Rightarrow> dir_read \<Rightarrow> parse_err + parsed_dir" where
  "ParseConfigDirWith = parseConfigDirWith"

definition find_inbound :: "string \<Rightarrow> parsed_dir \<Rightarrow> (ParsedInbound \<times> string) option" where
  "find_inbound tag parsed = find (\<lambda>(ib, f). TrimSpace (pi_Tag ib) = TrimSpace tag)
     (concat (map (\<lambda>(file, ibs). map (\<lambda>ib. (ib, file)) ibs) parsed))"

text \<open>\<open>order\<close> is the order in which Go ranges over the map of files.\<close>

definition GetInboundByTag_dir ::
  "(parsed_dir \<Rightarrow> parsed_dir) \<Rightarrow> string \<Rightarrow> string \<Rightarrow> dir_read \<Rightarrow> parse_err + (ParsedInbound \<times> string) option" where
  "GetInboundByTag_dir order dir tag listing =
     map_sum id (\<lambda>parsed. find_inbound tag (order parsed)) (ParseConfigDir dir listing)"

section \<open>Properties\<close>

definition stored_ok :: "StoredClientConfig \<Rightarrow> bool" where
  "stored_ok c \<longleftrightarrow> int64_min \<le> st_AlterId c \<and> st_AlterId c \<le> int64_max \<and>
     0 \<le> st_Testpre c \<and> st_Testpre c < 2 ^ 32"

lemma dec_enc_stored:
  assumes "stored_ok c"
  shows "dec_StoredClientConfig p (enc_StoredClientConfig c) = Some c"
proof -
  have "dec_stored_alias zero_StoredClientConfig (enc_StoredClientConfig c) = Some c"
    using assms
    by (simp add: stored_ok_def dec_stored_alias_def zero_StoredClientConfig_def
        enc_StoredClientConfig_def fld_append fld_omit EqualFold_def lower_name)
  moreover have "obj_get ''alterId'' (case enc_StoredClientConfig c of JObj o' \<Rightarrow> o') = None"
    by (auto simp: enc_StoredClientConfig_def obj_get_None_iff omit_str_def omit_int_def)
  ultimately show ?thesis
    by (cases "st_AlterId c = 0")
       (simp_all add: dec_StoredClientConfig_def enc_StoredClientConfig_def)
qed

text \<open>A stored text that is the encoding of a credential whose integers fit their types: what the service
  keeps for a client.\<close>

definition is_credential :: "jtext \<Rightarrow> bool" where
  "is_credential t = (case unmarshal dec_StoredClientConfig zero_StoredClientConfig t of
     Some c \<Rightarrow> stored_ok c \<and> t = Doc (enc_StoredClientConfig c) | None \<Rightarrow> False)"

lemma stored_is_credential [intro]: "stored_ok c \<Longrightarrow> is_credential (Doc (enc_StoredClientConfig c))"
  by (simp add: is_credential_def dec_enc_stored)

lemma is_credentialE:
  assumes "is_credential t"
  obtains c where "stored_ok c" "t = Doc (enc_StoredClientConfig c)"
  using assms by (auto simp: is_credential_def split: option.splits)

text \<open>Whatever the configuration files hold, the parser extracts credentials only.\<close>

lemma vmess_alter_ids:
  assumes "dec_VMessInboundSettings zero_VMessInboundSettings j = Some s"
  shows "list_all (\<lambda>c. int64_min \<le> vm_AlterId c \<and> vm_AlterId c \<le> int64_max) (vmi_Clients s)"
proof -
  have "int64_min \<le> vm_AlterId c \<and> vm_AlterId c \<le> int64_max" if "dec_VMessClient zero_VMessClient j = Some c" for j c
    using that by (cases j) (auto simp: dec_VMessClient_def zero_VMessClient_def split: Option.bind_splits dest: fld_int_range)
  then show ?thesis using assms
    by (cases j) (auto simp: dec_VMessInboundSettings_def zero_VMessInboundSettings_def split: Option.bind_splits
        intro: fld_list_each)
qed

lemma vless_testpre:
  "dec_VLESSInboundSettings zero_VLESSInboundSettings j = Some s \<Longrightarrow> 0 \<le> vli_Testpre s \<and> vli_Testpre s < 2 ^ 32"
  by (cases j) (auto simp: dec_VLESSInboundSettings_def zero_VLESSInboundSettings_def split: Option.bind_splits
      dest!: fld_uint32_range)

lemma stored_credential: "stored_ok c \<Longrightarrow> is_credential (pc_ConfigJSON (stored c identity))"
  by (simp add: stored_def stored_is_credential)

lemma extracted_credentials:
  assumes "extractClients m si = Some pcs" and "pc \<in> set pcs"
  shows "is_credential (pc_ConfigJSON pc)"
proof -
  have "is_credential (pc_ConfigJSON pc)" if "extractVMess si = Some pcs"
    using that assms(2) by (auto simp: extractVMess_def dec_settings_def list_all_iff stored_ok_def zero_StoredClientConfig_def
        split: option.splits intro!: stored_credential dest!: vmess_alter_ids)
  moreover have "is_credential (pc_ConfigJSON pc)" if "extractVLESS m si = Some pcs"
    using that assms(2) by (auto simp: extractVLESS_def dec_settings_def Let_def stored_ok_def zero_StoredClientConfig_def
        split: option.splits intro!: stored_credential dest!: vless_testpre)
  moreover have "is_credential (pc_ConfigJSON pc)" if "extractTrojan si = Some pcs \<or> extractSOCKS si = Some pcs"
    using that assms(2) by (auto simp: extractTrojan_def extractSOCKS_def stored_ok_def zero_StoredClientConfig_def
        split: option.splits intro!: stored_credential)
  moreover have "is_credential (pc_ConfigJSON pc)" if "extractShadowsocks si = Some pcs"
    using that assms(2) by (auto simp: extractShadowsocks_def stored_ok_def zero_StoredClientConfig_def
        split: option.splits if_splits intro!: stored_credential)
  ultimately show ?thesis using assms by (auto simp: extractClients_def Let_def split: if_splits)
qed

lemma parsed_credentials:
  assumes "parse_inbound m raw = Some ib" and "pc \<in> set (pi_Clients ib)"
  shows "is_credential (pc_ConfigJSON pc)"
  using assms by (auto simp: parse_inbound_def split: option.splits intro: extracted_credentials)

lemma dir_credentials:
  assumes "ParseConfigDirWith dir m listing = Inr parsed" and "(f, ibs) \<in> set parsed" and "ib \<in> set ibs" and "pc \<in> set (pi_Clients ib)"
  shows "is_credential (pc_ConfigJSON pc)"
proof -
  from assms(1-3) obtain raw where "parse_inbound m raw = Some ib"
    by (auto simp: ParseConfigDirWith_def parseConfigDirWith_def parseConfigFileWith_def List.map_filter_def
        split: dir_read.splits if_splits sum.splits file_read.splits option.splits)
  then show ?thesis using assms(4) by (rule parsed_credentials)
qed

text \<open>The client-side string of an inbound tag, by whether the inbound uses VLESS encryption at all.\<close>

definition client_string :: "(string \<times> string) list \<Rightarrow> string \<Rightarrow> bool \<Rightarrow> string" where
  "client_string clientEncMap tag encrypted =
     (if encrypted \<and> map_of clientEncMap tag \<notin> {None, Some []} then the (map_of clientEncMap tag) else ''none'')"

lemma extractVLESS_parts:
  assumes "dec_settings dec_VLESSInboundSettings zero_VLESSInboundSettings (si_Settings si) = Some s"
  shows "extractVLESS m si = Some (map (\<lambda>c.
     stored (zero_StoredClientConfig\<lparr>st_Protocol := ''vless'', st_ID := vl_ID c, st_Flow := vl_Flow c, st_Email := vl_Email c,
         st_Testpre := vli_Testpre s, st_Encryption := client_string m (TrimSpace (si_Tag si)) (vli_Decryption s \<notin> {[], ''none''})\<rparr>)
       (firstNonEmpty [vl_Email c, vl_ID c])) (vli_Clients s))"
  using assms by (auto simp: extractVLESS_def client_string_def Let_def zero_StoredClientConfig_def split: option.splits)

text \<open>C12: The client credentials that are kept for a VLESS inbound do not contain its decryption string,
  which holds the server's private keys. For fixed settings there is one list of credentials such that,
  whatever the decryption string is, the parsed clients are these credentials with their encryption
  member set to \<open>none\<close> or to the client-side string that the configuration has for the tag; the
  decryption string matters only by whether it is one of the empty string and \<open>none\<close>. This is about
  the credentials (user_clients.client_config), which subscriptions are made of. The raw text of the
  inbound, which goes to inbounds.raw_config, is the whole inbound as the file has it.\<close>

theorem vless_credentials_without_private_key:
  assumes "dec_settings dec_VLESSInboundSettings zero_VLESSInboundSettings (si_Settings si) = Some s"
  shows "\<exists>creds. \<forall>secret raw si' ib.
     dec_ServerInbound zero_ServerInbound raw = Some si' \<longrightarrow> ToLower (si_Protocol si') = ''vless'' \<longrightarrow>
     TrimSpace (si_Tag si') = TrimSpace (si_Tag si) \<longrightarrow>
     dec_settings dec_VLESSInboundSettings zero_VLESSInboundSettings (si_Settings si') = Some (s\<lparr>vli_Decryption := secret\<rparr>) \<longrightarrow>
     parse_inbound m raw = Some ib \<longrightarrow>
       pi_RawJSON ib = Doc raw \<and>
       pi_Clients ib = map (\<lambda>(identity, c). stored (c\<lparr>st_Encryption :=
         client_string m (TrimSpace (si_Tag si)) (secret \<notin> {[], ''none''})\<rparr>) identity) creds"
proof -
  let ?cred = "\<lambda>c. (firstNonEmpty [vl_Email c, vl_ID c],
     zero_StoredClientConfig\<lparr>st_Protocol := ''vless'', st_ID := vl_ID c, st_Flow := vl_Flow c, st_Email := vl_Email c,
       st_Testpre := vli_Testpre s\<rparr>)"
  have "pi_RawJSON ib = Doc raw \<and> pi_Clients ib = map (\<lambda>(identity, c). stored (c\<lparr>st_Encryption :=
         client_string m (TrimSpace (si_Tag si)) (secret \<notin> {[], ''none''})\<rparr>) identity) (map ?cred (vli_Clients s))"
    if "dec_ServerInbound zero_ServerInbound raw = Some si'" "ToLower (si_Protocol si') = ''vless''"
      "TrimSpace (si_Tag si') = TrimSpace (si_Tag si)"
      "dec_settings dec_VLESSInboundSettings zero_VLESSInboundSettings (si_Settings si') = Some (s\<lparr>vli_Decryption := secret\<rparr>)"
      "parse_inbound m raw = Some ib" for secret raw si' ib
    using that by (auto simp: parse_inbound_def extractClients_def extractVLESS_parts [OF that(4)] zero_StoredClientConfig_def split: option.splits)
  then show ?thesis by blast
qed

definition sample_vless_raw :: "string \<Rightarrow> json" where
  "sample_vless_raw dec = JObj [(''tag'', JStr ''vless-in''), (''protocol'', JStr ''vless''), (''port'', JInt 443),
     (''settings'', JObj [(''clients'', JArr [JObj [(''id'', JStr ''uuid-1''), (''email'', JStr ''alice'')]]),
       (''decryption'', JStr dec)])]"

definition sample_vless_inbound :: "string \<Rightarrow> ServerInbound" where
  "sample_vless_inbound dec = the (dec_ServerInbound zero_ServerInbound (sample_vless_raw dec))"

lemma sample_vless_inbound_decoded:
  "dec_ServerInbound zero_ServerInbound (sample_vless_raw d) = Some (sample_vless_inbound d)"
  "si_Tag (sample_vless_inbound d) = ''vless-in''" "si_Protocol (sample_vless_inbound d) = ''vless''"
  "si_Port (sample_vless_inbound d) = Some (JInt 443)"
  "dec_settings dec_VLESSInboundSettings zero_VLESSInboundSettings (si_Settings (sample_vless_inbound d)) =
     Some (\<lparr>vli_Clients = [zero_VLESSClient\<lparr>vl_ID := ''uuid-1'', vl_Email := ''alice''\<rparr>], vli_Decryption = [], vli_Testpre = 0\<rparr>
       \<lparr>vli_Decryption := d\<rparr>)"
  by (simp_all add: sample_vless_inbound_def sample_vless_raw_def dec_ServerInbound_def zero_ServerInbound_def dec_settings_def
      dec_VLESSInboundSettings_def zero_VLESSInboundSettings_def dec_VLESSClient_def zero_VLESSClient_def EqualFold_def lower_name)

lemma sample_vless_parsed: "\<exists>ib. parse_inbound m (sample_vless_raw d) = Some ib"
  by (simp add: parse_inbound_def sample_vless_inbound_decoded parsePort_def)

text \<open>What is kept for two different private strings, and for none.\<close>

theorem vless_credentials_without_private_key_witness:
  "\<exists>creds. map_option pi_Clients (parse_inbound [(''vless-in'', ''pub'')] (sample_vless_raw ''key1'')) =
       Some (map (\<lambda>(identity, c). stored (c\<lparr>st_Encryption := ''pub''\<rparr>) identity) creds) \<and>
     map_option pi_Clients (parse_inbound [(''vless-in'', ''pub'')] (sample_vless_raw ''key2'')) =
       Some (map (\<lambda>(identity, c). stored (c\<lparr>st_Encryption := ''pub''\<rparr>) identity) creds) \<and>
     map_option pi_Clients (parse_inbound [(''vless-in'', ''pub'')] (sample_vless_raw ''none'')) =
       Some (map (\<lambda>(identity, c). stored (c\<lparr>st_Encryption := ''none''\<rparr>) identity) creds)"
proof -
  let ?m = "[(''vless-in'', ''pub'')]"
  have strings: "client_string ?m (TrimSpace ''vless-in'') (''key1'' \<notin> {[], ''none''}) = ''pub''"
    "client_string ?m (TrimSpace ''vless-in'') (''key2'' \<notin> {[], ''none''}) = ''pub''"
    "client_string ?m (TrimSpace ''vless-in'') (''none'' \<notin> {[], ''none''}) = ''none''" by code_simp+
  have proto: "ToLower ''vless'' = ''vless''" by code_simp
  note decoded = sample_vless_inbound_decoded
  define base where "base = \<lparr>vli_Clients = [zero_VLESSClient\<lparr>vl_ID := ''uuid-1'', vl_Email := ''alice''\<rparr>], vli_Decryption = [], vli_Testpre = 0\<rparr>"
  have settings: "dec_settings dec_VLESSInboundSettings zero_VLESSInboundSettings (si_Settings (sample_vless_inbound d)) =
      Some (base\<lparr>vli_Decryption := d\<rparr>)" for d unfolding base_def by (rule decoded(5))
  then have "dec_settings dec_VLESSInboundSettings zero_VLESSInboundSettings (si_Settings (sample_vless_inbound [])) = Some base"
    by (simp add: base_def)
  from vless_credentials_without_private_key [OF this, of ?m]
  obtain creds where all: "\<forall>secret raw si' ib.
     dec_ServerInbound zero_ServerInbound raw = Some si' \<longrightarrow> ToLower (si_Protocol si') = ''vless'' \<longrightarrow>
     TrimSpace (si_Tag si') = TrimSpace (si_Tag (sample_vless_inbound [])) \<longrightarrow>
     dec_settings dec_VLESSInboundSettings zero_VLESSInboundSettings (si_Settings si') = Some (base\<lparr>vli_Decryption := secret\<rparr>) \<longrightarrow>
     parse_inbound ?m raw = Some ib \<longrightarrow> pi_RawJSON ib = Doc raw \<and>
       pi_Clients ib = map (\<lambda>(identity, c). stored (c\<lparr>st_Encryption :=
         client_string ?m (TrimSpace (si_Tag (sample_vless_inbound []))) (secret \<notin> {[], ''none''})\<rparr>) identity) creds" ..
  have creds: "pi_Clients ib = map (\<lambda>(identity, c). stored (c\<lparr>st_Encryption :=
        client_string ?m (TrimSpace ''vless-in'') (d \<notin> {[], ''none''})\<rparr>) identity) creds"
    if "parse_inbound ?m (sample_vless_raw d) = Some ib" for d ib
    using all [rule_format, OF decoded(1) _ _ settings that] by (simp only: decoded(2,3) proto)
  have "map_option pi_Clients (parse_inbound ?m (sample_vless_raw d)) = Some (map (\<lambda>(identity, c). stored (c\<lparr>st_Encryption :=
        client_string ?m (TrimSpace ''vless-in'') (d \<notin> {[], ''none''})\<rparr>) identity) creds)" for d
    using creds sample_vless_parsed [of ?m d] by auto
  from this [of "''key1''"] this [of "''key2''"] this [of "''none''"] show ?thesis unfolding strings by blast
qed

end
