(* ===== verification/Base64.thy ===== *)
theory Base64
  imports Prelude
begin

text \<open>
  The two encodings of \<^verbatim>\<open>encoding/base64\<close> that the sources use: \<open>StdEncoding\<close> (with padding) for
  subscription bodies and share links, \<open>RawURLEncoding\<close> (without) for REALITY keys. A byte is
  a natural number below 256; decoders skip line breaks, as Go's do.
\<close>

definition std_alphabet :: string where
  "std_alphabet = ''ABCDEFGHIJKLMNOPQRSTUVWXYZabcdefghijklmnopqrstuvwxyz0123456789+/''"

definition url_alphabet :: string where
  "url_alphabet = ''ABCDEFGHIJKLMNOPQRSTUVWXYZabcdefghijklmnopqrstuvwxyz0123456789-_''"

section \<open>Groups of three bytes\<close>

fun sextets :: "nat list \<Rightarrow> nat list" where
  "sextets [] = []"
| "sextets [a] = [a div 4, a mod 4 * 16]"
| "sextets [a, b] = [a div 4, a mod 4 * 16 + b div 16, b mod 16 * 4]"
| "sextets (a # b # c # r) =
     a div 4 # (a mod 4 * 16 + b div 16) # (b mod 16 * 4 + c div 64) # c mod 64 # sextets r"

fun octets :: "nat list \<Rightarrow> nat list option" where
  "octets [] = Some []"
| "octets [x] = None"
| "octets [x, y] = Some [x * 4 + y div 16]"
| "octets [x, y, z] = Some [x * 4 + y div 16, y mod 16 * 16 + z div 4]"
| "octets (x # y # z # w # r) = map_option
     (\<lambda>bs. (x * 4 + y div 16) # (y mod 16 * 16 + z div 4) # (z mod 4 * 64 + w) # bs) (octets r)"

lemma sextets_bound: "\<forall>b\<in>set bs. b < 256 \<Longrightarrow> s \<in> set (sextets bs) \<Longrightarrow> s < 64"
  by (induction bs rule: sextets.induct) auto

lemma byte_join: "(b mod 16 * 4 + c div 64) div 4 = b mod 16 + c div 256" for b c :: nat
  by (simp add: div_mult2_eq [symmetric])

lemma octets_sextets: "\<forall>b\<in>set bs. b < 256 \<Longrightarrow> octets (sextets bs) = Some bs"
proof (induction bs rule: sextets.induct)
  case (2 a)
  then show ?case by (simp add: mult.commute)
next
  case (3 a b)
  have "a div 4 * 4 + (a mod 4 * 16 + b div 16) div 16 = a" using 3 by auto
  moreover have "(a mod 4 * 16 + b div 16) mod 16 * 16 + b mod 16 * 4 div 4 = b" using 3 by auto
  ultimately show ?case by simp
next
  case (4 a b c r)
  have "a div 4 * 4 + (a mod 4 * 16 + b div 16) div 16 = a" using 4 by auto
  moreover have "(a mod 4 * 16 + b div 16) mod 16 * 16 + (b mod 16 * 4 + c div 64) div 4 = b"
    using 4 by (auto simp: byte_join)
  moreover have "(b mod 16 * 4 + c div 64) mod 4 * 64 + c mod 64 = c" using 4 by auto
  ultimately show ?case using 4 by simp
qed simp

section \<open>Characters\<close>

definition sextet_of :: "string \<Rightarrow> char \<Rightarrow> nat option" where
  "sextet_of alpha c = map_of (zip alpha [0..<64]) c"

fun all_sextets :: "string \<Rightarrow> string \<Rightarrow> nat list option" where
  "all_sextets alpha [] = Some []"
| "all_sextets alpha (c # cs) =
     (case sextet_of alpha c of None \<Rightarrow> None
      | Some x \<Rightarrow> map_option ((#) x) (all_sextets alpha cs))"

definition skip_breaks :: "string \<Rightarrow> string" where
  "skip_breaks s = filter (\<lambda>c. c \<noteq> CHR 0x0A \<and> c \<noteq> CHR 0x0D) s"

definition RawURLEncode :: "nat list \<Rightarrow> string" where
  "RawURLEncode bs = map ((!) url_alphabet) (sextets bs)"

definition RawURLDecode :: "string \<Rightarrow> nat list option" where
  "RawURLDecode s = Option.bind (all_sextets url_alphabet (skip_breaks s)) octets"

definition padding :: "nat \<Rightarrow> string" where
  "padding n = replicate ((4 - n mod 4) mod 4) CHR ''=''"

definition StdEncode :: "nat list \<Rightarrow> string" where
  "StdEncode bs = map ((!) std_alphabet) (sextets bs) @ padding (length (sextets bs))"

definition StdDecode :: "string \<Rightarrow> nat list option" where
  "StdDecode s =
     (let s = skip_breaks s;
          body = takeWhile (\<lambda>c. c \<noteq> CHR ''='') s;
          pad = dropWhile (\<lambda>c. c \<noteq> CHR ''='') s
      in if pad \<noteq> padding (length body) then None
         else Option.bind (all_sextets std_alphabet body) octets)"

definition EncodeToString :: "string \<Rightarrow> string" where
  "EncodeToString s = StdEncode (map of_char s)"

section \<open>Round trips\<close>

lemma alphabet_inv:
  assumes "distinct alpha" and "length alpha = 64" and "x < 64"
  shows "sextet_of alpha (alpha ! x) = Some x"
  using assms by (simp add: sextet_of_def map_of_zip_nth)

lemma all_sextets_map:
  assumes "distinct alpha" and "length alpha = 64"
  shows "\<forall>x\<in>set xs. x < 64 \<Longrightarrow> all_sextets alpha (map ((!) alpha) xs) = Some xs"
  by (induction xs) (simp_all add: alphabet_inv assms)

lemma std_alphabet_ok: "distinct std_alphabet" "length std_alphabet = 64"
  "CHR ''='' \<notin> set std_alphabet" "CHR 0x0A \<notin> set std_alphabet" "CHR 0x0D \<notin> set std_alphabet"
  by code_simp+

lemma url_alphabet_ok: "distinct url_alphabet" "length url_alphabet = 64"
  "CHR 0x0A \<notin> set url_alphabet" "CHR 0x0D \<notin> set url_alphabet"
  by code_simp+

lemma skip_breaks_id: "CHR 0x0A \<notin> set s \<Longrightarrow> CHR 0x0D \<notin> set s \<Longrightarrow> skip_breaks s = s"
  unfolding skip_breaks_def by (rule filter_True) blast

lemma chars_in_alphabet:
  assumes "length alpha = 64" and "\<forall>x\<in>set xs. x < 64"
  shows "set (map ((!) alpha) xs) \<subseteq> set alpha"
  using assms by (auto intro!: nth_mem)

lemma RawURL_roundtrip: "\<forall>b\<in>set bs. b < 256 \<Longrightarrow> RawURLDecode (RawURLEncode bs) = Some bs"
proof -
  assume b: "\<forall>b\<in>set bs. b < 256"
  then have s: "\<forall>x\<in>set (sextets bs). x < 64" by (metis sextets_bound)
  have "skip_breaks (RawURLEncode bs) = RawURLEncode bs"
    unfolding RawURLEncode_def using chars_in_alphabet [OF url_alphabet_ok(2) s] url_alphabet_ok(3,4)
    by (intro skip_breaks_id) blast+
  then show ?thesis using b s
    by (simp add: RawURLDecode_def RawURLEncode_def all_sextets_map url_alphabet_ok octets_sextets)
qed

lemma Std_roundtrip: "\<forall>b\<in>set bs. b < 256 \<Longrightarrow> StdDecode (StdEncode bs) = Some bs"
proof -
  assume b: "\<forall>b\<in>set bs. b < 256"
  let ?body = "map ((!) std_alphabet) (sextets bs)"
  let ?pad = "padding (length (sextets bs))"
  have s: "\<forall>x\<in>set (sextets bs). x < 64" using b by (metis sextets_bound)
  note sub = chars_in_alphabet [OF std_alphabet_ok(2) s]
  have pad: "set ?pad \<subseteq> {CHR ''=''}" by (auto simp: padding_def)
  have skip: "skip_breaks (?body @ ?pad) = ?body @ ?pad"
    using sub pad std_alphabet_ok(4,5) by (intro skip_breaks_id) auto
  have body: "\<And>c. c \<in> set ?body \<Longrightarrow> c \<noteq> CHR ''=''" using sub std_alphabet_ok(3) by blast
  have "takeWhile (\<lambda>c. c \<noteq> CHR ''='') ?pad = []" "dropWhile (\<lambda>c. c \<noteq> CHR ''='') ?pad = ?pad"
    by (simp_all add: padding_def)
  then have "takeWhile (\<lambda>c. c \<noteq> CHR ''='') (?body @ ?pad) = ?body"
    "dropWhile (\<lambda>c. c \<noteq> CHR ''='') (?body @ ?pad) = ?pad"
    using takeWhile_append2 [where P = "\<lambda>c. c \<noteq> CHR ''=''" and xs = ?body and ys = ?pad, OF body]
      dropWhile_append2 [where P = "\<lambda>c. c \<noteq> CHR ''=''" and xs = ?body and ys = ?pad, OF body]
    by (simp_all only: append_Nil2)
  then show ?thesis using b s skip
    by (simp add: StdDecode_def StdEncode_def Let_def all_sextets_map std_alphabet_ok octets_sextets)
qed

lemma EncodeToString_roundtrip:
  "map_option (map char_of) (StdDecode (EncodeToString s)) = Some s"
  by (simp add: EncodeToString_def Std_roundtrip comp_def)

end
