(* ===== verification/Generator.thy ===== *)
theory Generator
  imports Parser Base64
begin

text \<open>
  \<^verbatim>\<open>internal/xray/generator.go\<close>: the client configuration of a user, built from the stored
  clients. The elliptic-curve multiplication of \<^verbatim>\<open>golang.org/x/crypto/curve25519\<close> is the
  argument \<open>x25519\<close> (the public key of a private key, or \<open>None\<close> for an error). Log lines are
  left out.
\<close>

section \<open>Routing rules\<close>

definition zero_rule :: RoutingRule where
  "zero_rule = \<lparr>rl_Type = [], rl_InboundTag = [], rl_OutboundTag = [], rl_BalancerTag = [],
     rl_Domain = [], rl_IP = [], rl_Network = [], rl_Port = [], rl_Protocol = []\<rparr>"

definition field_rule :: "string \<Rightarrow> RoutingRule" where
  "field_rule outbound = zero_rule\<lparr>rl_Type := ''field'', rl_OutboundTag := outbound\<rparr>"

definition defaultRouting :: Routing where
  "defaultRouting = \<lparr>rt_DomainStrategy = ''IPOnDemand'', rt_Balancers = [], rt_Rules =
     [(field_rule ''direct'')\<lparr>rl_Protocol := [''bittorrent'']\<rparr>,
      (field_rule ''block'')\<lparr>rl_Domain := [''geosite:category-ads-all'', ''geosite:category-ads'',
         ''geosite:category-public-tracker'']\<rparr>,
      (field_rule ''direct'')\<lparr>rl_IP := [''geoip:private'']\<rparr>,
      (field_rule ''direct'')\<lparr>rl_Domain := [''geosite:private'']\<rparr>,
      (field_rule ''proxy'')\<lparr>rl_Domain := [''geosite:ru-blocked'']\<rparr>,
      (field_rule ''proxy'')\<lparr>rl_IP := [''geoip:ru-blocked'']\<rparr>,
      (field_rule ''direct'')\<lparr>rl_Domain := [''geosite:category-ru'']\<rparr>,
      (field_rule ''direct'')\<lparr>rl_IP := [''geoip:ru'']\<rparr>]\<rparr>"

definition isAllowedOutboundTag :: "string \<Rightarrow> bool" where
  "isAllowedOutboundTag tag \<longleftrightarrow> ToLower (TrimSpace tag) \<in> set [''direct'', ''proxy'', ''block'']"

definition custom_rule :: "user_route_rule \<Rightarrow> RoutingRule option" where
  "custom_rule r =
     (if \<not> isAllowedOutboundTag (rr_OutboundTag r) then None
      else
        (let rr = \<lparr>rl_Type = firstNonEmpty [TrimSpace (rr_Type r), ''field''],
                   rl_InboundTag = rr_InboundTag r, rl_OutboundTag = TrimSpace (rr_OutboundTag r),
                   rl_BalancerTag = [], rl_Domain = rr_Domain r, rl_IP = rr_IP r,
                   rl_Network = rr_Network r, rl_Port = rr_Port r, rl_Protocol = rr_Protocol r\<rparr>
         in if rl_Domain rr = [] \<and> rl_IP rr = [] \<and> rl_Network rr = [] \<and> rl_Port rr = [] \<and>
               rl_Protocol rr = [] \<and> rl_InboundTag rr = [] then None
            else Some rr))"

definition applyUserRoutes :: "Routing \<Rightarrow> jtext \<Rightarrow> Routing" where
  "applyUserRoutes r routesJSON =
     (if blank_text routesJSON \<or> routesJSON = Doc JNull then r
      else case unmarshal dec_route_rules [] routesJSON of
        None \<Rightarrow> r
      | Some userRules \<Rightarrow> r\<lparr>rt_Rules := List.map_filter custom_rule userRules @ rt_Rules r\<rparr>)"

definition resolve_rule :: "bool \<Rightarrow> string \<Rightarrow> RoutingRule \<Rightarrow> RoutingRule" where
  "resolve_rule useBalancer target r =
     (if ToLower (TrimSpace (rl_OutboundTag r)) \<noteq> ''proxy'' then r
      else if useBalancer then r\<lparr>rl_OutboundTag := [], rl_BalancerTag := target\<rparr>
      else r\<lparr>rl_OutboundTag := target, rl_BalancerTag := []\<rparr>)"

definition resolveProxyRouteTargets :: "Routing \<Rightarrow> bool \<Rightarrow> string \<Rightarrow> Routing" where
  "resolveProxyRouteTargets r useBalancer target =
     (if target = [] then r
      else r\<lparr>rt_Rules := map (resolve_rule useBalancer target) (rt_Rules r)\<rparr>)"

definition normalizeBalancerStrategy_gen :: "string \<Rightarrow> string" where
  "normalizeBalancerStrategy_gen v =
     (let s = ToLower (TrimSpace v)
      in if s = ''random'' then ''random''
         else if s = ''roundrobin'' then ''roundRobin''
         else if s = ''leastping'' then ''leastPing''
         else if s = ''leastload'' then ''leastLoad''
         else [])"

section \<open>Protocol settings\<close>

definition buildVMessSettings :: "string \<Rightarrow> int \<Rightarrow> StoredClientConfig \<Rightarrow> json" where
  "buildVMessSettings host port cred = enc_VMessOutboundSettings
     \<lparr>vmo_Vnext = [\<lparr>vms_Address = host, vms_Port = port,
        vms_Users = [\<lparr>vmu_ID = st_ID cred, vmu_AlterId = st_AlterId cred,
                      vmu_Security = ''auto'', vmu_Level = 0\<rparr>]\<rparr>]\<rparr>"

definition buildVLESSSettings :: "string \<Rightarrow> int \<Rightarrow> StoredClientConfig \<Rightarrow> json" where
  "buildVLESSSettings host port cred =
     (let encryption = TrimSpace (st_Encryption cred);
          encryption = (if encryption = [] then ''none'' else encryption)
      in enc_VLESSOutboundSettings
        \<lparr>vlo_Vnext = [\<lparr>vls_Address = host, vls_Port = port,
           vls_Users = [\<lparr>vlu_ID = st_ID cred, vlu_Flow = st_Flow cred, vlu_Encryption = encryption,
                         vlu_Email = st_Email cred, vlu_Level = 0, vlu_Testpre = st_Testpre cred\<rparr>]\<rparr>]\<rparr>)"

definition buildTrojanSettings :: "string \<Rightarrow> int \<Rightarrow> StoredClientConfig \<Rightarrow> json" where
  "buildTrojanSettings host port cred = enc_TrojanOutboundSettings
     \<lparr>tjo_Servers = [\<lparr>tjs_Address = host, tjs_Port = port, tjs_Password = st_Password cred,
                      tjs_Level = 0\<rparr>]\<rparr>"

definition buildShadowsocksSettings :: "string \<Rightarrow> int \<Rightarrow> StoredClientConfig \<Rightarrow> json" where
  "buildShadowsocksSettings host port cred = enc_ShadowsocksOutboundSettings
     \<lparr>sco_Servers = [\<lparr>scs_Address = host, scs_Port = port,
        scs_Method = (if st_Method cred = [] then ''aes-256-gcm'' else st_Method cred),
        scs_Password = st_Password cred, scs_Level = 0, scs_UoT = False\<rparr>]\<rparr>"

definition buildSOCKSSettings :: "string \<Rightarrow> int \<Rightarrow> StoredClientConfig \<Rightarrow> json" where
  "buildSOCKSSettings host port cred = enc_SOCKSOutboundSettings
     \<lparr>sao_Servers = [\<lparr>sas_Address = host, sas_Port = port,
        sas_Users = (if st_User cred \<noteq> [] then [\<lparr>sau_User = st_User cred, sau_Pass = st_Password cred\<rparr>]
                     else [])\<rparr>]\<rparr>"

section \<open>Stream settings\<close>

datatype gen_err =
    BadStoredConfig
  | BadInboundRaw
  | UnsupportedProtocol string
  | BadXHTTP
  | RealityMissing
  | BadPrivateKey
  | NoOutbounds

definition convertTLS :: "TLSSettings option \<Rightarrow> string \<Rightarrow> TLSSettings" where
  "convertTLS tls serverHost = (case tls of
     None \<Rightarrow> zero_TLSSettings\<lparr>ts_ServerName := serverHost\<rparr>
   | Some t \<Rightarrow> zero_TLSSettings\<lparr>ts_ServerName := ts_ServerName t,
       ts_Fingerprint := firstNonEmpty [ts_Fingerprint t, ''chrome''], ts_ALPN := ts_ALPN t,
       ts_PinnedPeerCertSha256 := ts_PinnedPeerCertSha256 t,
       ts_VerifyPeerCertByName := ts_VerifyPeerCertByName t\<rparr>)"

definition derivePublicKey :: "(nat list \<Rightarrow> nat list option) \<Rightarrow> string \<Rightarrow> string option" where
  "derivePublicKey x25519 privateKeyB64 =
     (case (case RawURLDecode privateKeyB64 of Some b \<Rightarrow> Some b | None \<Rightarrow> StdDecode privateKeyB64) of
        None \<Rightarrow> None
      | Some privBytes \<Rightarrow>
          (if length privBytes \<noteq> 32 then None else map_option RawURLEncode (x25519 privBytes)))"

definition convertReality ::
  "(nat list \<Rightarrow> nat list option) \<Rightarrow> RealitySettings option \<Rightarrow> gen_err + RealitySettings" where
  "convertReality x25519 rs = (case rs of
     None \<Rightarrow> Inl RealityMissing
   | Some rs \<Rightarrow>
       (case (if rs_PublicKey rs = [] \<and> rs_PrivateKey rs \<noteq> []
              then derivePublicKey x25519 (rs_PrivateKey rs) else Some (rs_PublicKey rs)) of
          None \<Rightarrow> Inl BadPrivateKey
        | Some publicKey \<Rightarrow>
            Inr (zero_RealitySettings\<lparr>
              rs_ServerName := (if rs_ServerName rs = [] \<and> rs_ServerNames rs \<noteq> []
                                then hd (rs_ServerNames rs) else rs_ServerName rs),
              rs_Fingerprint := firstNonEmpty [rs_Fingerprint rs, ''chrome''],
              rs_PublicKey := publicKey,
              rs_ShortId := (if rs_ShortId rs = [] \<and> rs_ShortIds rs \<noteq> []
                             then hd (rs_ShortIds rs) else rs_ShortId rs),
              rs_SpiderX := rs_SpiderX rs,
              rs_MLDSA65Verify := TrimSpace (rs_MLDSA65Verify rs)\<rparr>)))"

definition defaultXHTTPPadding :: string where
  "defaultXHTTPPadding = ''100-1000''"

definition defaultXHTTPXMux :: json where
  "defaultXHTTPXMux = JObj [(''maxConcurrency'', JStr ''16-32''), (''maxConnections'', JInt 0),
     (''cMaxReuseTimes'', JStr ''64-128''), (''hMaxRequestTimes'', JStr ''600-900''),
     (''hMaxReusableSecs'', JStr ''1800-3000''), (''hKeepAlivePeriod'', JInt 0)]"

text \<open>\<open>if v, ok := m[k]; ok { out[k] = v }\<close>.\<close>

definition copy_key :: "string \<Rightarrow> (string \<times> json) list \<Rightarrow> (string \<times> json) list \<Rightarrow> (string \<times> json) list" where
  "copy_key k m out = (case obj_get k m of None \<Rightarrow> out | Some v \<Rightarrow> obj_set k v out)"

definition xhttp_host :: "(string \<times> json) list \<Rightarrow> RealitySettings option \<Rightarrow> (string \<times> json) list \<Rightarrow> (string \<times> json) list" where
  "xhttp_host serverSettings rs out =
     (case obj_get ''host'' serverSettings of
        Some host \<Rightarrow> obj_set ''host'' host out
      | None \<Rightarrow> (case rs of
          None \<Rightarrow> out
        | Some rs \<Rightarrow> if rs_ServerName rs \<noteq> [] then obj_set ''host'' (JStr (rs_ServerName rs)) out
                    else if rs_ServerNames rs \<noteq> []
                    then obj_set ''host'' (JStr (hd (rs_ServerNames rs))) out
                    else out))"

definition xhttp_extra :: "(string \<times> json) list \<Rightarrow> (string \<times> json) list" where
  "xhttp_extra serverSettings =
     (let extra = (case as_obj (obj_get ''extra'' serverSettings) of
                     None \<Rightarrow> [] | Some se \<Rightarrow> fold (\<lambda>(k, v). obj_set k v) se []);
          extra = fold (\<lambda>k. copy_key k serverSettings)
                    [''headers'', ''xPaddingBytes'', ''scMaxEachPostBytes'', ''scMinPostsIntervalMs''] extra;
          extra = (case obj_get ''xmux'' serverSettings of
                     Some xmux \<Rightarrow> obj_set ''xmux'' xmux extra
                   | None \<Rightarrow> if obj_get ''xmux'' extra = None
                            then obj_set ''xmux'' defaultXHTTPXMux extra else extra)
      in if obj_get ''xPaddingBytes'' extra = None
         then obj_set ''xPaddingBytes'' (JStr defaultXHTTPPadding) extra else extra)"

definition convertXHTTPSettings :: "json option \<Rightarrow> RealitySettings option \<Rightarrow> gen_err + json option" where
  "convertXHTTPSettings raw rs =
     (case raw of
        None \<Rightarrow> Inr None
      | Some j \<Rightarrow>
          (case (case j of JObj o' \<Rightarrow> Some o' | JNull \<Rightarrow> Some [] | _ \<Rightarrow> None) of
             None \<Rightarrow> Inl BadXHTTP
           | Some serverSettings \<Rightarrow>
               (let client = copy_key ''path'' serverSettings [];
                    client = xhttp_host serverSettings rs client;
                    client = copy_key ''mode'' serverSettings client
                in Inr (Some (JObj (obj_set ''extra'' (JObj (xhttp_extra serverSettings)) client))))))"

definition convertStreamSettings ::
  "(nat list \<Rightarrow> nat list option) \<Rightarrow> StreamSettings option \<Rightarrow> string \<Rightarrow> gen_err + StreamSettings option" where
  "convertStreamSettings x25519 ss serverHost =
     (case ss of
        None \<Rightarrow> Inr None
      | Some ss \<Rightarrow>
          (case (if ss_XHTTPSettings ss \<noteq> None
                 then convertXHTTPSettings (ss_XHTTPSettings ss) (ss_RealitySettings ss) else Inr None) of
             Inl e \<Rightarrow> Inl e
           | Inr xhttp \<Rightarrow>
               (let client = zero_StreamSettings\<lparr>ss_Network := ss_Network ss, ss_Security := ss_Security ss,
                      ss_WSSettings := ss_WSSettings ss, ss_GRPCSettings := ss_GRPCSettings ss,
                      ss_HTTPUpgradeSettings := ss_HTTPUpgradeSettings ss, ss_XHTTPSettings := xhttp,
                      ss_KCPSettings := ss_KCPSettings ss, ss_QUICSettings := ss_QUICSettings ss,
                      ss_TCPSettings := ss_TCPSettings ss, ss_HTTPSettings := ss_HTTPSettings ss\<rparr>;
                    security = ToLower (ss_Security ss)
                in if security = ''tls''
                   then Inr (Some (client\<lparr>ss_TLSSettings := Some (convertTLS (ss_TLSSettings ss) serverHost)\<rparr>))
                   else if security = ''reality''
                   then (case convertReality x25519 (ss_RealitySettings ss) of
                           Inl e \<Rightarrow> Inl e
                         | Inr rs \<Rightarrow> Inr (Some (client\<lparr>ss_RealitySettings := Some rs\<rparr>)))
                   else Inr (Some client))))"

definition shouldUseMux :: "string \<Rightarrow> string \<Rightarrow> string \<Rightarrow> StreamSettings option \<Rightarrow> bool" where
  "shouldUseMux proto flow encryption ss =
     (if flow = ''xtls-rprx-vision'' then False
      else if TrimSpace encryption \<noteq> [] \<and> TrimSpace encryption \<noteq> ''none'' then False
      else if (proto = ''vless'' \<or> proto = ''trojan'') \<and>
              (case ss of None \<Rightarrow> False | Some s \<Rightarrow> ss_Security s = ''reality'') then False
      else if (case ss of None \<Rightarrow> False
               | Some s \<Rightarrow> ss_Network s \<in> set [''quic'', ''kcp'', ''xhttp'']) then False
      else proto = ''vmess'' \<or> proto = ''vless'')"

section \<open>Outbounds\<close>

definition sanitizeTag :: "string \<Rightarrow> string" where
  "sanitizeTag = Replacer [('' '', ''-''), (''/'', ''-''), ([CHR 0x5C], ''-'')]"

definition outbound_tag :: "string \<Rightarrow> nat \<Rightarrow> string" where
  "outbound_tag inboundTag index = sanitizeTag inboundTag @ ''-'' @ utoa index"

definition protocol_settings :: "string \<Rightarrow> string \<Rightarrow> int \<Rightarrow> StoredClientConfig \<Rightarrow> gen_err + json" where
  "protocol_settings proto host port cred =
     (if proto = ''vmess'' then Inr (buildVMessSettings host port cred)
      else if proto = ''vless'' then Inr (buildVLESSSettings host port cred)
      else if proto = ''trojan'' then Inr (buildTrojanSettings host port cred)
      else if proto = ''shadowsocks'' then Inr (buildShadowsocksSettings host port cred)
      else if proto = ''socks'' then Inr (buildSOCKSSettings host port cred)
      else Inl (UnsupportedProtocol proto))"

definition buildOutbound ::
  "(nat list \<Rightarrow> nat list option) \<Rightarrow> string \<Rightarrow> user_client_full \<Rightarrow> nat \<Rightarrow> gen_err + Outbound" where
  "buildOutbound x25519 serverHost uc index =
     (case unmarshal dec_StoredClientConfig zero_StoredClientConfig (uc_ClientConfig uc) of
        None \<Rightarrow> Inl BadStoredConfig
      | Some cred \<Rightarrow>
          (case unmarshal dec_ServerInbound zero_ServerInbound (f_InboundRaw uc) of
             None \<Rightarrow> Inl BadInboundRaw
           | Some si \<Rightarrow>
               (let proto = ToLower (f_InboundProtocol uc)
                in case protocol_settings proto serverHost (f_InboundPort uc) cred of
                     Inl e \<Rightarrow> Inl e
                   | Inr settings \<Rightarrow>
                       (case convertStreamSettings x25519 (si_StreamSettings si) serverHost of
                          Inl e \<Rightarrow> Inl e
                        | Inr clientStream \<Rightarrow>
                            Inr \<lparr>ob_Tag = outbound_tag (f_InboundTag uc) index, ob_Protocol = proto,
                                 ob_Settings = settings, ob_StreamSettings = clientStream,
                                 ob_Mux = (if shouldUseMux proto (st_Flow cred) (st_Encryption cred) clientStream
                                           then Some \<lparr>mx_Enabled = True, mx_Concurrency = 8\<rparr> else None)\<rparr>))))"

definition freedomOutbound :: Outbound where
  "freedomOutbound = \<lparr>ob_Tag = ''direct'', ob_Protocol = ''freedom'',
     ob_Settings = JObj [(''domainStrategy'', JStr ''UseIPv4'')], ob_StreamSettings = None, ob_Mux = None\<rparr>"

definition blackholeOutbound :: "string \<Rightarrow> Outbound" where
  "blackholeOutbound responseType = \<lparr>ob_Tag = ''block'', ob_Protocol = ''blackhole'',
     ob_Settings = JObj [(''response'', JObj [(''type'', JStr responseType)])],
     ob_StreamSettings = None, ob_Mux = None\<rparr>"

section \<open>XHTTP first\<close>

definition dec_probe :: "string decoder" where
  "dec_probe = dec_struct (\<lambda>p o'. fld ''streamSettings''
     (dec_struct (\<lambda>p o'. fld ''network'' dec_string o' p)) o' p)"

definition isXHTTPInbound :: "user_client_full \<Rightarrow> bool" where
  "isXHTTPInbound uc =
     (let by_tag = Contains (ToLower (f_InboundTag uc)) ''xhttp''
      in if blank_text (f_InboundRaw uc) then by_tag
         else case unmarshal dec_probe [] (f_InboundRaw uc) of
           None \<Rightarrow> by_tag
         | Some network \<Rightarrow>
             (let net = ToLower (TrimSpace network)
              in if net = ''xhttp'' \<or> net = ''splithttp'' then True
                 else if net \<noteq> [] then False
                 else by_tag))"

definition inboundPriority :: "user_client_full \<Rightarrow> int" where
  "inboundPriority uc = (if isXHTTPInbound uc then 0 else 1)"

definition sortClientsXHTTPFirst :: "user_client_full list \<Rightarrow> user_client_full list" where
  "sortClientsXHTTPFirst clients = sort_key inboundPriority clients"

section \<open>The configuration\<close>

definition localSOCKS :: "int \<Rightarrow> ClientInbound" where
  "localSOCKS port = \<lparr>in_Tag = ''socks'', in_Port = port, in_Listen = ''127.0.0.1'', in_Protocol = ''socks'',
     in_Settings = JObj [(''auth'', JStr ''noauth''), (''udp'', JBool True)],
     in_Sniffing = Some \<lparr>sn_Enabled = True, sn_DestOverride = [''http'', ''tls'', ''quic'']\<rparr>\<rparr>"

definition localHTTP :: "int \<Rightarrow> ClientInbound" where
  "localHTTP port = \<lparr>in_Tag = ''http'', in_Port = port, in_Listen = ''127.0.0.1'', in_Protocol = ''http'',
     in_Settings = JObj [], in_Sniffing = None\<rparr>"

definition defaultDNS :: DNSConfig where
  "defaultDNS = \<lparr>dns_Servers = [JStr ''1.1.1.1'', JStr ''8.8.8.8'', JStr ''8.8.4.4'']\<rparr>"

text \<open>Where the outbound of a client points: the node wins over the per-inbound overrides, which
  win over the server host and the port of the inbound.\<close>

definition client_host :: "string \<Rightarrow> (string \<times> string) list \<Rightarrow> user_client_full \<Rightarrow> string" where
  "client_host serverHost inboundHosts uc =
     (let host = (case map_of inboundHosts (f_InboundTag uc) of
                    Some h \<Rightarrow> if TrimSpace h \<noteq> [] then h else serverHost
                  | None \<Rightarrow> serverHost)
      in if TrimSpace (f_NodeHost uc) \<noteq> [] then f_NodeHost uc else host)"

definition client_port :: "(string \<times> int) list \<Rightarrow> user_client_full \<Rightarrow> int" where
  "client_port inboundPorts uc =
     (let port = (case map_of inboundPorts (f_InboundTag uc) of
                    Some p \<Rightarrow> if p > 0 then p else f_InboundPort uc
                  | None \<Rightarrow> f_InboundPort uc)
      in if f_NodePort uc > 0 then f_NodePort uc else port)"

text \<open>The loop over the sorted clients: the outbounds that could be built, each with whether it
  is an XHTTP outbound. The index counts the clients that failed, too.\<close>

fun build_outbounds ::
  "(nat list \<Rightarrow> nat list option) \<Rightarrow> string \<Rightarrow> (string \<times> string) list \<Rightarrow> (string \<times> int) list \<Rightarrow> nat \<Rightarrow>
   user_client_full list \<Rightarrow> (Outbound \<times> bool) list" where
  "build_outbounds x25519 serverHost inboundHosts inboundPorts i [] = []"
| "build_outbounds x25519 serverHost inboundHosts inboundPorts i (uc # ucs) =
     (let uc' = uc\<lparr>f_InboundPort := client_port inboundPorts uc\<rparr>
      in (case buildOutbound x25519 (client_host serverHost inboundHosts uc) uc' i of
            Inl _ \<Rightarrow> []
          | Inr ob \<Rightarrow> [(ob, isXHTTPInbound uc')]) @
         build_outbounds x25519 serverHost inboundHosts inboundPorts (Suc i) ucs)"

definition balancer_targets :: "(Outbound \<times> bool) list \<Rightarrow> string list \<times> string" where
  "balancer_targets obs =
     (let proxyTags = map (ob_Tag \<circ> fst) obs;
          xhttpTags = map (ob_Tag \<circ> fst) (filter snd obs);
          nonXHTTPTags = map (ob_Tag \<circ> fst) (filter (Not \<circ> snd) obs)
      in if xhttpTags \<noteq> []
         then (xhttpTags, if nonXHTTPTags \<noteq> [] then hd nonXHTTPTags else hd xhttpTags)
         else (proxyTags, hd proxyTags))"

definition add_balancer ::
  "(Outbound \<times> bool) list \<Rightarrow> string \<Rightarrow> string \<Rightarrow> string \<Rightarrow> Routing \<Rightarrow> Routing \<times> ObservatoryConfig option" where
  "add_balancer obs balancerStrategy balancerProbeURL balancerProbeInterval routing =
     (let strategy = normalizeBalancerStrategy_gen balancerStrategy;
          strategy = (if strategy = [] then ''leastPing'' else strategy);
          (selector, fallbackTag) = balancer_targets obs;
          routing = routing\<lparr>rt_Balancers := rt_Balancers routing @
             [\<lparr>bal_Tag = ''proxy-balance'', bal_Selector = selector,
               bal_Strategy = Some \<lparr>bs_Type = strategy\<rparr>, bal_FallbackTag = fallbackTag\<rparr>]\<rparr>;
          observatory =
            (if strategy = ''leastPing'' \<or> strategy = ''leastLoad''
             then Some \<lparr>obs_SubjectSelector = selector,
                    obs_ProbeURL = firstNonEmpty [TrimSpace balancerProbeURL, ''https://www.gstatic.com/generate_204''],
                    obs_ProbeInterval = firstNonEmpty [TrimSpace balancerProbeInterval, ''30s''],
                    obs_EnableConcurrency = False\<rparr>
             else None);
          routing = resolveProxyRouteTargets routing True ''proxy-balance''
      in (routing\<lparr>rt_Rules := rt_Rules routing @
            [zero_rule\<lparr>rl_Type := ''field'', rl_BalancerTag := ''proxy-balance'', rl_Port := ''0-65535''\<rparr>]\<rparr>,
          observatory))"

definition add_single :: "string \<Rightarrow> Routing \<Rightarrow> Routing" where
  "add_single tag routing =
     (let routing = resolveProxyRouteTargets routing False tag
      in routing\<lparr>rt_Rules := rt_Rules routing @
           [zero_rule\<lparr>rl_Type := ''field'', rl_OutboundTag := tag, rl_Port := ''0-65535''\<rparr>]\<rparr>)"

definition GenerateClientConfig ::
  "(nat list \<Rightarrow> nat list option) \<Rightarrow> string \<Rightarrow> (string \<times> string) list \<Rightarrow> (string \<times> int) list \<Rightarrow> user \<Rightarrow>
   user_client_full list \<Rightarrow> jtext \<Rightarrow> string \<Rightarrow> string \<Rightarrow> string \<Rightarrow> int \<Rightarrow> int \<Rightarrow> json list \<Rightarrow> string \<Rightarrow>
   gen_err + ClientConfig" where
  "GenerateClientConfig x25519 serverHost inboundHosts inboundPorts user clients globalRoutesJSON
     balancerStrategy balancerProbeURL balancerProbeInterval socksPort httpPort dnsServers blackholeResponse =
     (let socksPort = (if socksPort \<le> 0 then 2080 else socksPort);
          httpPort = (if httpPort \<le> 0 then 1081 else httpPort);
          dns = (if dnsServers \<noteq> [] then \<lparr>dns_Servers = dnsServers\<rparr> else defaultDNS);
          blackholeResp = ToLower (TrimSpace blackholeResponse);
          blackholeResp = (if blackholeResp \<noteq> ''none'' then ''http'' else blackholeResp);
          routing = applyUserRoutes (applyUserRoutes defaultRouting globalRoutesJSON) (u_ClientRoutes user);
          obs = build_outbounds x25519 serverHost inboundHosts inboundPorts 0 (sortClientsXHTTPFirst clients)
      in if obs = [] then Inl NoOutbounds
         else
           (let (routing, observatory) =
              (if length obs > 1
               then add_balancer obs balancerStrategy balancerProbeURL balancerProbeInterval routing
               else (add_single (ob_Tag (fst (hd obs))) routing, None))
            in Inr \<lparr>cc_Log = \<lparr>lg_LogLevel = ''warning''\<rparr>, cc_DNS = dns,
                    cc_Inbounds = [localSOCKS socksPort, localHTTP httpPort],
                    cc_Outbounds = map fst obs @ [freedomOutbound, blackholeOutbound blackholeResp],
                    cc_Observatory = observatory, cc_Routing = routing\<rparr>))"

end
