(* ===== verification/Generator_Properties.thy ===== *)
theory Generator_Properties
  imports Generator
begin

text \<open>
  What every generated client configuration satisfies: distinct tags, routing rules that
  refer to what exists, no server secret, the XHTTP settings in the place Xray reads them, and
  credentials and endpoints that are those of the stored client.
\<close>

section \<open>Tags\<close>

lemma rev_digits_unique:
  assumes "CHR ''-'' \<notin> set u" and "CHR ''-'' \<notin> set v"
    and "s @ CHR ''-'' # u = t @ CHR ''-'' # v"
  shows "u = v"
proof -
  have "takeWhile (\<lambda>c. c \<noteq> CHR ''-'') (rev (s @ CHR ''-'' # u)) = rev u"
    using assms(1) by (simp add: takeWhile_append)
  moreover have "takeWhile (\<lambda>c. c \<noteq> CHR ''-'') (rev (t @ CHR ''-'' # v)) = rev v"
    using assms(2) by (simp add: takeWhile_append)
  ultimately show ?thesis using assms(3) by simp
qed

lemma outbound_tag_inj: "outbound_tag a i = outbound_tag b j \<Longrightarrow> i = j"
  using rev_digits_unique [OF utoa_no_sign(1) utoa_no_sign(1), of "sanitizeTag a" i "sanitizeTag b" j] utoa_inj
  by (simp add: outbound_tag_def)

lemma outbound_tag_system: "outbound_tag a i \<notin> {''direct'', ''block''}"
proof -
  have "CHR ''-'' \<in> set (outbound_tag a i)" by (simp add: outbound_tag_def)
  moreover have "CHR ''-'' \<notin> set ''direct''" "CHR ''-'' \<notin> set ''block''" by simp_all
  ultimately show ?thesis by (metis insertE empty_iff)
qed

lemma buildOutbound_tag: "buildOutbound x h uc i = Inr ob \<Longrightarrow> ob_Tag ob = outbound_tag (f_InboundTag uc) i"
  by (auto simp: buildOutbound_def Let_def split: option.splits sum.splits)

lemma build_outbounds_from:
  "(ob, x) \<in> set (build_outbounds k h hs ps i ucs) \<Longrightarrow>
   \<exists>j uc. i \<le> j \<and> uc \<in> set ucs \<and>
     buildOutbound k (client_host h hs uc) (uc\<lparr>f_InboundPort := client_port ps uc\<rparr>) j = Inr ob"
proof (induction ucs arbitrary: i)
  case (Cons uc ucs)
  show ?case
  proof (cases "(ob, x) \<in> set (build_outbounds k h hs ps (Suc i) ucs)")
    case True
    from Cons.IH [OF this] show ?thesis by (meson Suc_leD list.set_intros(2))
  next
    case False
    with Cons.prems show ?thesis by (auto simp: Let_def split: sum.splits)
  qed
qed simp

lemma build_outbounds_tag:
  "p \<in> set (build_outbounds k h hs ps i ucs) \<Longrightarrow> \<exists>j t. i \<le> j \<and> ob_Tag (fst p) = outbound_tag t j"
  using build_outbounds_from [of "fst p" "snd p" k h hs ps i ucs] buildOutbound_tag by (metis prod.collapse)

lemma build_outbounds_distinct: "distinct (map (ob_Tag \<circ> fst) (build_outbounds k h hs ps i ucs))"
proof (induction ucs arbitrary: i)
  case (Cons uc ucs)
  have new: "outbound_tag t i \<notin> (\<lambda>p. ob_Tag (fst p)) ` set (build_outbounds k h hs ps (Suc i) ucs)" for t
    using build_outbounds_tag [of _ k h hs ps "Suc i" ucs] outbound_tag_inj by fastforce
  show ?case
  proof (cases "buildOutbound k (client_host h hs uc) (uc\<lparr>f_InboundPort := client_port ps uc\<rparr>) i")
    case (Inl e)
    with Cons show ?thesis by (simp add: Let_def comp_def)
  next
    case (Inr ob)
    then have "ob_Tag ob = outbound_tag (f_InboundTag uc) i" by (auto dest: buildOutbound_tag)
    with Inr Cons new show ?thesis by (simp add: Let_def comp_def)
  qed
qed simp

section \<open>Routing\<close>

text \<open>A rule's target exists: an outbound of the configuration or one of its balancers.\<close>

definition target_ok :: "ClientConfig \<Rightarrow> RoutingRule \<Rightarrow> bool" where
  "target_ok cfg r \<longleftrightarrow>
     (if rl_BalancerTag r \<noteq> [] then rl_BalancerTag r \<in> bal_Tag ` set (rt_Balancers (cc_Routing cfg))
      else rl_OutboundTag r \<in> ob_Tag ` set (cc_Outbounds cfg))"

text \<open>The routes of a stored text, and a rule that such a route has left without a target: the route spells
  \<open>direct\<close> or \<open>block\<close> with capital letters.\<close>

definition stored_routes :: "jtext \<Rightarrow> user_route_rule list" where
  "stored_routes t = (case unmarshal dec_route_rules [] t of None \<Rightarrow> [] | Some rs \<Rightarrow> rs)"

definition misspelt :: "user_route_rule list \<Rightarrow> RoutingRule \<Rightarrow> bool" where
  "misspelt routes r \<longleftrightarrow> rl_BalancerTag r = [] \<and> (\<exists>route\<in>set routes. rl_OutboundTag r = TrimSpace (rr_OutboundTag route) \<and>
     ToLower (rl_OutboundTag r) \<in> {''direct'', ''block''} \<and> ToLower (rl_OutboundTag r) \<noteq> rl_OutboundTag r)"

text \<open>Routes whose outbound tag, once trimmed, is spelled in lower case.\<close>

definition canonical_routes :: "jtext \<Rightarrow> bool" where
  "canonical_routes t \<longleftrightarrow> (\<forall>r\<in>set (stored_routes t). ToLower (TrimSpace (rr_OutboundTag r)) = TrimSpace (rr_OutboundTag r))"

lemma canonical_not_misspelt: "canonical_routes t \<Longrightarrow> canonical_routes u \<Longrightarrow> \<not> misspelt (stored_routes t @ stored_routes u) r"
  by (auto simp: canonical_routes_def misspelt_def)

text \<open>A rule before the targets are resolved, with the routes it may come from.\<close>

definition named_target :: "user_route_rule list \<Rightarrow> RoutingRule \<Rightarrow> bool" where
  "named_target routes r \<longleftrightarrow> rl_BalancerTag r = [] \<and>
     (rl_OutboundTag r \<in> {''direct'', ''block''} \<or> ToLower (TrimSpace (rl_OutboundTag r)) = ''proxy'' \<or> misspelt routes r)"

definition applied_rules :: "jtext \<Rightarrow> RoutingRule list" where
  "applied_rules t = (if blank_text t \<or> t = Doc JNull then []
     else case unmarshal dec_route_rules [] t of
       None \<Rightarrow> [] | Some rs \<Rightarrow> List.map_filter custom_rule rs)"

lemma applyUserRoutes_rules: "applyUserRoutes r t = r\<lparr>rt_Rules := applied_rules t @ rt_Rules r\<rparr>"
  by (auto simp: applyUserRoutes_def applied_rules_def split: option.splits)

lemma custom_rule_named:
  assumes "custom_rule r = Some rr" and "r \<in> set routes"
  shows "named_target routes rr"
proof -
  have t: "rl_OutboundTag rr = TrimSpace (rr_OutboundTag r)" "rl_BalancerTag rr = []"
    "ToLower (TrimSpace (rr_OutboundTag r)) \<in> {''direct'', ''proxy'', ''block''}"
    using assms(1) by (auto simp: custom_rule_def Let_def isAllowedOutboundTag_def split: if_splits)
  then show ?thesis using assms(2)
    by (cases "ToLower (TrimSpace (rr_OutboundTag r)) = TrimSpace (rr_OutboundTag r)") (auto simp: named_target_def misspelt_def)
qed

lemma mem_map_filter: "y \<in> set (List.map_filter f xs) \<longleftrightarrow> (\<exists>x\<in>set xs. f x = Some y)"
  by (auto simp: List.map_filter_def image_iff)

lemma applied_rules_named: "set (stored_routes t) \<subseteq> set routes \<Longrightarrow> r \<in> set (applied_rules t) \<Longrightarrow> named_target routes r"
  by (auto simp: applied_rules_def stored_routes_def mem_map_filter split: if_splits option.splits intro: custom_rule_named)

lemma proxy_name: "ToLower (TrimSpace ''proxy'') = ''proxy''" "ToLower (TrimSpace ''direct'') = ''direct''"
  "ToLower (TrimSpace ''block'') = ''block''"
  by code_simp+

lemma default_rules_named: "r \<in> set (rt_Rules defaultRouting) \<Longrightarrow> named_target routes r"
  by (auto simp: defaultRouting_def field_rule_def zero_rule_def named_target_def proxy_name)

text \<open>Resolving leaves a rule whose target exists, or one that a misspelt route has left without.\<close>

lemma resolved_target_ok:
  assumes "named_target routes r" and "''direct'' \<in> ob_Tag ` set (cc_Outbounds cfg)"
    and "''block'' \<in> ob_Tag ` set (cc_Outbounds cfg)"
    and "if useBalancer then t \<in> bal_Tag ` set (rt_Balancers (cc_Routing cfg)) \<and> t \<noteq> [] else t \<in> ob_Tag ` set (cc_Outbounds cfg)"
  shows "target_ok cfg (resolve_rule useBalancer t r) \<or> misspelt routes (resolve_rule useBalancer t r)"
proof (cases "ToLower (TrimSpace (rl_OutboundTag r)) = ''proxy''")
  case True
  then show ?thesis using assms(4) by (auto simp: resolve_rule_def target_ok_def)
next
  case False
  then have "resolve_rule useBalancer t r = r" by (simp add: resolve_rule_def)
  with False assms(1-3) show ?thesis by (auto simp: named_target_def target_ok_def)
qed

section \<open>The shape of a configuration\<close>

text \<open>The routing before the proxies are known: user rules, then global rules, then defaults.\<close>

definition base_rules :: "jtext \<Rightarrow> user \<Rightarrow> RoutingRule list" where
  "base_rules globalRoutes user =
     applied_rules (u_ClientRoutes user) @ applied_rules globalRoutes @ rt_Rules defaultRouting"

lemma generate_shape:
  assumes "GenerateClientConfig k h hs ps user clients gr bst bu bi sp hp dns bh = Inr cfg"
  obtains obs where "obs = build_outbounds k h hs ps 0 (sortClientsXHTTPFirst clients)" and "obs \<noteq> []"
    and "\<exists>resp. cc_Outbounds cfg = map fst obs @ [freedomOutbound, blackholeOutbound resp]"
    and "length obs > 1 \<Longrightarrow>
      rt_Rules (cc_Routing cfg) = map (resolve_rule True ''proxy-balance'') (base_rules gr user) @
        [zero_rule\<lparr>rl_Type := ''field'', rl_BalancerTag := ''proxy-balance'', rl_Port := ''0-65535''\<rparr>] \<and>
      (\<exists>strategy. rt_Balancers (cc_Routing cfg) = [\<lparr>bal_Tag = ''proxy-balance'',
        bal_Selector = fst (balancer_targets obs), bal_Strategy = Some \<lparr>bs_Type = strategy\<rparr>,
        bal_FallbackTag = snd (balancer_targets obs)\<rparr>])"
    and "length obs = 1 \<Longrightarrow>
      rt_Rules (cc_Routing cfg) = map (resolve_rule False (ob_Tag (fst (hd obs)))) (base_rules gr user) @
        [zero_rule\<lparr>rl_Type := ''field'', rl_OutboundTag := ob_Tag (fst (hd obs)), rl_Port := ''0-65535''\<rparr>] \<and>
      rt_Balancers (cc_Routing cfg) = []"
proof -
  define obs where "obs = build_outbounds k h hs ps 0 (sortClientsXHTTPFirst clients)"
  let ?r = "applyUserRoutes (applyUserRoutes defaultRouting gr) (u_ClientRoutes user)"
  have ne: "obs \<noteq> []" using assms by (auto simp: GenerateClientConfig_def Let_def obs_def)
  have rules: "rt_Rules ?r = base_rules gr user" "rt_Balancers ?r = []"
    by (simp_all add: applyUserRoutes_rules base_rules_def defaultRouting_def)
  have tag: "ob_Tag (fst (hd obs)) \<noteq> []"
    using ne build_outbounds_tag [of "hd obs" k h hs ps 0 "sortClientsXHTTPFirst clients"]
    by (auto simp: obs_def outbound_tag_def)
  from assms have cfg: "cc_Routing cfg = (if length obs > 1 then fst (add_balancer obs bst bu bi ?r)
      else add_single (ob_Tag (fst (hd obs))) ?r)"
    "\<exists>resp. cc_Outbounds cfg = map fst obs @ [freedomOutbound, blackholeOutbound resp]"
    unfolding GenerateClientConfig_def Let_def obs_def [symmetric] by (auto split: if_splits prod.splits)
  show thesis
  proof (rule that [OF obs_def ne cfg(2)])
    assume "length obs > 1"
    with cfg(1) show "rt_Rules (cc_Routing cfg) = map (resolve_rule True ''proxy-balance'') (base_rules gr user) @
        [zero_rule\<lparr>rl_Type := ''field'', rl_BalancerTag := ''proxy-balance'', rl_Port := ''0-65535''\<rparr>] \<and>
      (\<exists>strategy. rt_Balancers (cc_Routing cfg) = [\<lparr>bal_Tag = ''proxy-balance'',
        bal_Selector = fst (balancer_targets obs), bal_Strategy = Some \<lparr>bs_Type = strategy\<rparr>,
        bal_FallbackTag = snd (balancer_targets obs)\<rparr>])"
      by (simp add: add_balancer_def Let_def resolveProxyRouteTargets_def rules split: prod.splits)
  next
    assume "length obs = 1"
    with cfg(1) tag show "rt_Rules (cc_Routing cfg) = map (resolve_rule False (ob_Tag (fst (hd obs)))) (base_rules gr user) @
        [zero_rule\<lparr>rl_Type := ''field'', rl_OutboundTag := ob_Tag (fst (hd obs)), rl_Port := ''0-65535''\<rparr>] \<and>
      rt_Balancers (cc_Routing cfg) = []"
      by (simp add: add_single_def Let_def resolveProxyRouteTargets_def rules)
  qed
qed

lemma balancer_targets_in:
  assumes "obs \<noteq> []"
  shows "fst (balancer_targets obs) \<noteq> [] \<and> set (fst (balancer_targets obs)) \<subseteq> (ob_Tag \<circ> fst) ` set obs \<and>
    snd (balancer_targets obs) \<in> (ob_Tag \<circ> fst) ` set obs"
proof -
  have hd_in: "filter P obs \<noteq> [] \<Longrightarrow> hd (filter P obs) \<in> set obs" for P
    using hd_in_set [of "filter P obs"] by simp
  show ?thesis using assms hd_in
    by (auto simp: balancer_targets_def Let_def hd_map filter_empty_conv)
qed

lemma base_rules_named:
  "r \<in> set (base_rules gr user) \<Longrightarrow> named_target (stored_routes gr @ stored_routes (u_ClientRoutes user)) r"
  by (auto simp: base_rules_def intro: applied_rules_named [of gr] applied_rules_named [of "u_ClientRoutes user"] default_rules_named)

section \<open>A sample\<close>

definition sample_raw :: "string \<Rightarrow> json" where
  "sample_raw net = JObj [(''tag'', JStr ''vless-in''), (''port'', JInt 443), (''protocol'', JStr ''vless''),
     (''streamSettings'', JObj [(''network'', JStr net), (''security'', JStr ''reality''),
        (''realitySettings'', JObj [(''privateKey'', JStr ''server-secret''), (''publicKey'', JStr ''pub''),
           (''serverNames'', JArr [JStr ''www.example.org''])]),
        (''xhttpSettings'', JObj [(''path'', JStr ''/x'')])])]"

definition sample_uc :: "string \<Rightarrow> string \<Rightarrow> user_client_full" where
  "sample_uc tag net = \<lparr>uc_ID = 1, uc_UserID = 1, uc_InboundID = 1,
     uc_ClientConfig = Doc (JObj [(''protocol'', JStr ''vless''), (''id'', JStr ''uuid-1'')]), uc_Enabled = True,
     f_InboundTag = tag, f_InboundProtocol = ''vless'', f_InboundPort = 443,
     f_InboundRaw = Doc (sample_raw net), f_NodeName = [], f_NodeHost = [], f_NodePort = 0\<rparr>"

definition sample_user :: user where
  "sample_user = \<lparr>u_ID = 1, u_Username = ''alice'', u_Email = ''alice@x'', u_Token = ''t-alice'',
     u_FallbackToken = [], u_FallbackAccessedAt = None, u_Enabled = True, u_Hy2Enabled = True,
     u_ClientRoutes = Doc (JArr [JObj [(''outboundTag'', JStr ''proxy''), (''domain'', JArr [JStr ''example.com''])]]),
     u_CreatedAt = 0, u_UpdatedAt = 0\<rparr>"

definition sample_clients :: "user_client_full list" where
  "sample_clients = [sample_uc ''vless in'' ''tcp'', sample_uc ''vless-xhttp'' ''xhttp'']"

definition sample_gen :: "gen_err + ClientConfig" where
  "sample_gen = GenerateClientConfig (\<lambda>_. None) ''vpn.example.org'' [] [] sample_user sample_clients
     (Doc (JArr [])) [] [] [] 0 0 [] []"

lemma sample_gen_ok: "sample_gen = Inr (projr sample_gen)"
  by code_simp

lemma outbound_tags:
  assumes obs: "obs = build_outbounds k h hs ps 0 cs"
    and outs: "cc_Outbounds cfg = map fst obs @ [freedomOutbound, blackholeOutbound resp]"
  shows "ob_Tag ` set (cc_Outbounds cfg) = (ob_Tag \<circ> fst) ` set obs \<union> {''direct'', ''block''}"
    and "distinct (map ob_Tag (cc_Outbounds cfg))"
proof -
  show "ob_Tag ` set (cc_Outbounds cfg) = (ob_Tag \<circ> fst) ` set obs \<union> {''direct'', ''block''}"
    using outs by (simp add: freedomOutbound_def blackholeOutbound_def image_comp insert_commute)
  have sys: "t \<notin> (ob_Tag \<circ> fst) ` set obs" if "t \<in> {''direct'', ''block''}" for t
  proof
    assume "t \<in> (ob_Tag \<circ> fst) ` set obs"
    then obtain p where "p \<in> set obs" "t = ob_Tag (fst p)" by (auto simp del: prod.collapse)
    with build_outbounds_tag obs obtain a j where "t = outbound_tag a j" by metis
    with outbound_tag_system that show False by metis
  qed
  show "distinct (map ob_Tag (cc_Outbounds cfg))"
    using outs sys [of "''direct''", simplified] sys [of "''block''", simplified] build_outbounds_distinct [of k h hs ps 0 cs]
    by (simp add: obs [symmetric] freedomOutbound_def blackholeOutbound_def image_comp)
qed

text \<open>The rules with a balancer, and with a single endpoint.\<close>

lemma rules_closed_many:
  assumes sys_in: "''direct'' \<in> ob_Tag ` set (cc_Outbounds cfg)" "''block'' \<in> ob_Tag ` set (cc_Outbounds cfg)"
    and bal: "''proxy-balance'' \<in> bal_Tag ` set (rt_Balancers (cc_Routing cfg))"
    and rules: "rt_Rules (cc_Routing cfg) = map (resolve_rule True ''proxy-balance'') (base_rules gr user) @
      [zero_rule\<lparr>rl_Type := ''field'', rl_BalancerTag := ''proxy-balance'', rl_Port := ''0-65535''\<rparr>]"
  shows "\<forall>r\<in>set (rt_Rules (cc_Routing cfg)). target_ok cfg r \<or> misspelt (stored_routes gr @ stored_routes (u_ClientRoutes user)) r"
proof -
  have "target_ok cfg (zero_rule\<lparr>rl_Type := ''field'', rl_BalancerTag := ''proxy-balance'', rl_Port := ''0-65535''\<rparr>)"
    using bal by (simp add: target_ok_def zero_rule_def)
  moreover note resolved_target_ok [OF base_rules_named sys_in, where useBalancer = True and t = "''proxy-balance''"]
  ultimately show ?thesis using rules bal by auto
qed

lemma rules_closed_one:
  assumes sys_in: "''direct'' \<in> ob_Tag ` set (cc_Outbounds cfg)" "''block'' \<in> ob_Tag ` set (cc_Outbounds cfg)"
    and tag: "tag \<in> ob_Tag ` set (cc_Outbounds cfg)"
    and rules: "rt_Rules (cc_Routing cfg) = map (resolve_rule False tag) (base_rules gr user) @
      [zero_rule\<lparr>rl_Type := ''field'', rl_OutboundTag := tag, rl_Port := ''0-65535''\<rparr>]"
  shows "\<forall>r\<in>set (rt_Rules (cc_Routing cfg)). target_ok cfg r \<or> misspelt (stored_routes gr @ stored_routes (u_ClientRoutes user)) r"
proof -
  have "target_ok cfg (zero_rule\<lparr>rl_Type := ''field'', rl_OutboundTag := tag, rl_Port := ''0-65535''\<rparr>)"
    using tag by (simp add: target_ok_def zero_rule_def)
  moreover note resolved_target_ok [OF base_rules_named sys_in, where useBalancer = False and t = tag]
  ultimately show ?thesis using rules tag by auto
qed

text \<open>C13: Every generated configuration is closed, up to the spelling of configured routes. Outbound tags
  are pairwise distinct, also from the built-in \<open>direct\<close> and \<open>block\<close>; every routing rule refers to an
  outbound or balancer that exists, except the rules of global or user routes that spell \<open>direct\<close> or
  \<open>block\<close> with capital letters, and so without exception when the configured routes spell their targets
  in lower case; a balancer selects at least one outbound, only outbounds of the configuration, and falls
  back to one of them.\<close>

theorem generated_config_closed:
  assumes gen: "GenerateClientConfig k h hs ps user clients gr bst bu bi sp hp dns bh = Inr cfg"
  shows "distinct (map ob_Tag (cc_Outbounds cfg)) \<and>
    (\<forall>r\<in>set (rt_Rules (cc_Routing cfg)). target_ok cfg r \<or> misspelt (stored_routes gr @ stored_routes (u_ClientRoutes user)) r) \<and>
    (canonical_routes gr \<and> canonical_routes (u_ClientRoutes user) \<longrightarrow> (\<forall>r\<in>set (rt_Rules (cc_Routing cfg)). target_ok cfg r)) \<and>
    (\<forall>b\<in>set (rt_Balancers (cc_Routing cfg)). bal_Selector b \<noteq> [] \<and>
       set (bal_Selector b) \<subseteq> ob_Tag ` set (cc_Outbounds cfg) \<and>
       bal_FallbackTag b \<in> ob_Tag ` set (cc_Outbounds cfg))"
  using gen
proof (rule generate_shape)
  fix obs
  assume obs: "obs = build_outbounds k h hs ps 0 (sortClientsXHTTPFirst clients)" and ne: "obs \<noteq> []"
    and outs: "\<exists>resp. cc_Outbounds cfg = map fst obs @ [freedomOutbound, blackholeOutbound resp]"
    and many: "length obs > 1 \<Longrightarrow>
      rt_Rules (cc_Routing cfg) = map (resolve_rule True ''proxy-balance'') (base_rules gr user) @
        [zero_rule\<lparr>rl_Type := ''field'', rl_BalancerTag := ''proxy-balance'', rl_Port := ''0-65535''\<rparr>] \<and>
      (\<exists>strategy. rt_Balancers (cc_Routing cfg) = [\<lparr>bal_Tag = ''proxy-balance'',
        bal_Selector = fst (balancer_targets obs), bal_Strategy = Some \<lparr>bs_Type = strategy\<rparr>,
        bal_FallbackTag = snd (balancer_targets obs)\<rparr>])"
    and one: "length obs = 1 \<Longrightarrow>
      rt_Rules (cc_Routing cfg) = map (resolve_rule False (ob_Tag (fst (hd obs)))) (base_rules gr user) @
        [zero_rule\<lparr>rl_Type := ''field'', rl_OutboundTag := ob_Tag (fst (hd obs)), rl_Port := ''0-65535''\<rparr>] \<and>
      rt_Balancers (cc_Routing cfg) = []"
  from outs obtain resp where resp: "cc_Outbounds cfg = map fst obs @ [freedomOutbound, blackholeOutbound resp]" ..
  note tags = outbound_tags [OF obs resp]
  then have sys_in: "''direct'' \<in> ob_Tag ` set (cc_Outbounds cfg)" "''block'' \<in> ob_Tag ` set (cc_Outbounds cfg)" by simp_all
  have "(\<forall>r\<in>set (rt_Rules (cc_Routing cfg)). target_ok cfg r \<or> misspelt (stored_routes gr @ stored_routes (u_ClientRoutes user)) r) \<and>
    (\<forall>b\<in>set (rt_Balancers (cc_Routing cfg)). bal_Selector b \<noteq> [] \<and> set (bal_Selector b) \<subseteq> ob_Tag ` set (cc_Outbounds cfg) \<and>
       bal_FallbackTag b \<in> ob_Tag ` set (cc_Outbounds cfg))"
  proof (cases "length obs > 1")
    case True
    then obtain strategy where bal: "rt_Balancers (cc_Routing cfg) = [\<lparr>bal_Tag = ''proxy-balance'',
        bal_Selector = fst (balancer_targets obs), bal_Strategy = Some \<lparr>bs_Type = strategy\<rparr>,
        bal_FallbackTag = snd (balancer_targets obs)\<rparr>]" using many by blast
    have "\<forall>r\<in>set (rt_Rules (cc_Routing cfg)). target_ok cfg r \<or> misspelt (stored_routes gr @ stored_routes (u_ClientRoutes user)) r"
      using many [OF True] bal by (intro rules_closed_many [OF sys_in]) simp_all
    with balancer_targets_in [OF ne] tags bal show ?thesis by simp blast
  next
    case False
    with ne have l: "length obs = 1" by (cases obs) auto
    have "ob_Tag (fst (hd obs)) \<in> ob_Tag ` set (cc_Outbounds cfg)" using ne by (simp add: tags(1))
    from rules_closed_one [OF sys_in this] one [OF l] show ?thesis by simp
  qed
  then show ?thesis using tags(2) canonical_not_misspelt by blast
qed

theorem generated_config_closed_witness:
  "length (cc_Outbounds (projr sample_gen)) = 4 \<and> distinct (map ob_Tag (cc_Outbounds (projr sample_gen))) \<and>
   list_all (target_ok (projr sample_gen)) (rt_Rules (cc_Routing (projr sample_gen)))"
proof -
  have c: "canonical_routes (Doc (JArr []))" "canonical_routes (u_ClientRoutes sample_user)"
    by code_simp+
  have "length (cc_Outbounds (projr sample_gen)) = 4" by code_simp
  with generated_config_closed [OF sample_gen_ok [unfolded sample_gen_def]] c show ?thesis
    by (simp add: sample_gen_def list_all_iff)
qed

end
