(* ===== verification/Generator_Safety.thy ===== *)
theory Generator_Safety
  imports Generator_Properties
begin

text \<open>
  What a generated configuration does not contain (server secrets, multiplexing where it is
  not allowed) and what it must contain (the XHTTP dialer settings, the stored credential).
\<close>

section \<open>Server secrets\<close>

definition no_server_secret :: "StreamSettings \<Rightarrow> bool" where
  "no_server_secret ss \<longleftrightarrow>
     (\<forall>rs. ss_RealitySettings ss = Some rs \<longrightarrow> rs_PrivateKey rs = [] \<and> rs_MLDSA65Seed rs = [] \<and>
        rs_ShortIds rs = [] \<and> rs_ServerNames rs = [] \<and> rs_Dest rs = []) \<and>
     (\<forall>t. ss_TLSSettings ss = Some t \<longrightarrow> ts_Certificates t = None \<and> \<not> ts_AllowInsecure t)"

lemma convertReality_secret:
  "convertReality k rs = Inr rs' \<Longrightarrow> rs_PrivateKey rs' = [] \<and> rs_MLDSA65Seed rs' = [] \<and>
     rs_ShortIds rs' = [] \<and> rs_ServerNames rs' = [] \<and> rs_Dest rs' = []"
  by (auto simp: convertReality_def zero_RealitySettings_def split: option.splits)

lemma convertTLS_secret: "ts_Certificates (convertTLS t h) = None \<and> \<not> ts_AllowInsecure (convertTLS t h)"
  by (simp add: convertTLS_def zero_TLSSettings_def split: option.splits)

lemma convertStreamSettings_secret:
  "convertStreamSettings k ss h = Inr (Some ss') \<Longrightarrow> no_server_secret ss'"
  by (auto simp: convertStreamSettings_def no_server_secret_def Let_def zero_StreamSettings_def convertTLS_secret
      split: option.splits sum.splits if_splits dest: convertReality_secret)

lemma buildOutbound_stream:
  "buildOutbound k h uc i = Inr ob \<Longrightarrow> \<exists>ss. convertStreamSettings k ss h = Inr (ob_StreamSettings ob)"
  by (auto simp: buildOutbound_def Let_def split: option.splits sum.splits)

lemma generated_outbound:
  assumes "GenerateClientConfig k h hs ps user clients gr bst bu bi sp hp dns bh = Inr cfg"
    and "ob \<in> set (cc_Outbounds cfg)"
  shows "ob \<in> {freedomOutbound} \<union> range blackholeOutbound \<or>
    (\<exists>uc\<in>set clients. \<exists>j. buildOutbound k (client_host h hs uc) (uc\<lparr>f_InboundPort := client_port ps uc\<rparr>) j = Inr ob)"
  using assms(1)
proof (rule generate_shape)
  fix obs
  assume obs: "obs = build_outbounds k h hs ps 0 (sortClientsXHTTPFirst clients)"
    and outs: "\<exists>resp. cc_Outbounds cfg = map fst obs @ [freedomOutbound, blackholeOutbound resp]"
  with assms(2) consider "ob \<in> {freedomOutbound} \<union> range blackholeOutbound" | x where "(ob, x) \<in> set obs"
    by auto
  then show ?thesis
  proof cases
    case 2
    from build_outbounds_from [OF this [unfolded obs]] show ?thesis
      by (auto simp: sortClientsXHTTPFirst_def)
  qed simp
qed

text \<open>C14: No server secret leaves. In no outbound of a generated configuration do the stream
  settings carry a REALITY private key, ML-DSA seed, list of short ids or server names or
  destination, nor TLS certificates or \<open>allowInsecure\<close>, whatever the stored inbounds hold.\<close>

theorem no_secret_in_config:
  assumes "GenerateClientConfig k h hs ps user clients gr bst bu bi sp hp dns bh = Inr cfg"
    and "ob \<in> set (cc_Outbounds cfg)" and "ob_StreamSettings ob = Some ss"
  shows "no_server_secret ss"
  using generated_outbound [OF assms(1,2)]
proof
  assume "ob \<in> {freedomOutbound} \<union> range blackholeOutbound"
  with assms(3) show ?thesis by (auto simp: freedomOutbound_def blackholeOutbound_def)
next
  assume "\<exists>uc\<in>set clients. \<exists>j. buildOutbound k (client_host h hs uc) (uc\<lparr>f_InboundPort := client_port ps uc\<rparr>) j = Inr ob"
  then obtain ss0 h0 where "convertStreamSettings k ss0 h0 = Inr (ob_StreamSettings ob)"
    using buildOutbound_stream by meson
  with assms(3) show ?thesis using convertStreamSettings_secret by simp
qed

theorem no_secret_in_config_witness:
  "\<exists>ss. ob_StreamSettings (hd (cc_Outbounds (projr sample_gen))) = Some ss \<and>
     map_option rs_PublicKey (ss_RealitySettings ss) = Some ''pub'' \<and> no_server_secret ss"
proof -
  define ss where "ss = the (ob_StreamSettings (hd (cc_Outbounds (projr sample_gen))))"
  have ss: "ob_StreamSettings (hd (cc_Outbounds (projr sample_gen))) = Some ss"
    "map_option rs_PublicKey (ss_RealitySettings ss) = Some ''pub''"
    "cc_Outbounds (projr sample_gen) \<noteq> []"
    unfolding ss_def by code_simp+
  have "no_server_secret ss"
    using no_secret_in_config [OF sample_gen_ok [unfolded sample_gen_def] _ ss(1) [unfolded sample_gen_def]] ss(3)
    by (simp add: sample_gen_def)
  with ss show ?thesis by blast
qed

section \<open>XHTTP\<close>

lemma obj_get_copy_key:
  "obj_get k (copy_key k' m out) = (if k = k' \<and> obj_get k' m \<noteq> None then obj_get k' m else obj_get k out)"
  by (auto simp: copy_key_def split: option.splits)

lemma keys_copy_key: "fst ` set (copy_key k m out) \<subseteq> insert k (fst ` set out)"
  by (auto simp: copy_key_def split: option.splits)

lemma keys_xhttp_host: "fst ` set (xhttp_host m rs out) \<subseteq> insert ''host'' (fst ` set out)"
  by (auto simp: xhttp_host_def split: option.splits)

lemma extra_xmux:
  "obj_get ''xmux'' (xhttp_extra m) = (case obj_get ''xmux'' m of Some v \<Rightarrow> Some v
     | None \<Rightarrow> (case as_obj (obj_get ''extra'' m) of
         Some se \<Rightarrow> (case obj_get ''xmux'' (fold (\<lambda>(k, v). obj_set k v) se []) of
                     Some v \<Rightarrow> Some v | None \<Rightarrow> Some defaultXHTTPXMux)
       | None \<Rightarrow> Some defaultXHTTPXMux))"
  by (auto simp: xhttp_extra_def Let_def obj_get_copy_key split: option.splits)

lemma obj_get_fold_set:
  "obj_get k (fold (\<lambda>(k, v). obj_set k v) se out) =
     (case obj_get k se of Some v \<Rightarrow> Some v | None \<Rightarrow> obj_get k out)"
proof (induction se arbitrary: out)
  case (Cons kv se)
  then show ?case by (cases kv) (auto split: option.splits)
qed simp

lemma extra_padding:
  "obj_get ''xPaddingBytes'' (xhttp_extra m) = (case obj_get ''xPaddingBytes'' m of Some v \<Rightarrow> Some v
     | None \<Rightarrow> (case as_obj (obj_get ''extra'' m) of
         Some se \<Rightarrow> (case obj_get ''xPaddingBytes'' se of
                     Some v \<Rightarrow> Some v | None \<Rightarrow> Some (JStr defaultXHTTPPadding))
       | None \<Rightarrow> Some (JStr defaultXHTTPPadding)))"
  by (auto simp: xhttp_extra_def Let_def obj_get_copy_key obj_get_fold_set split: option.splits)

text \<open>C15: The XHTTP settings are where Xray reads them. For every server setting that is an
  object, the client setting has no key besides path, host, mode and extra, keeps path and mode,
  and its \<open>extra\<close> always has \<open>xmux\<close> and \<open>xPaddingBytes\<close>, with the precedence: server top level,
  then the server's own \<open>extra\<close>, then the tuned default.\<close>

theorem xhttp_settings_placed:
  "\<exists>c ex. convertXHTTPSettings (Some (JObj m)) rs = Inr (Some (JObj c)) \<and>
     fst ` set c \<subseteq> {''path'', ''host'', ''mode'', ''extra''} \<and>
     obj_get ''path'' c = obj_get ''path'' m \<and> obj_get ''mode'' c = obj_get ''mode'' m \<and>
     obj_get ''extra'' c = Some (JObj ex) \<and>
     obj_get ''xmux'' ex = (case obj_get ''xmux'' m of Some v \<Rightarrow> Some v
       | None \<Rightarrow> (case as_obj (obj_get ''extra'' m) of
           Some se \<Rightarrow> (case obj_get ''xmux'' se of Some v \<Rightarrow> Some v | None \<Rightarrow> Some defaultXHTTPXMux)
         | None \<Rightarrow> Some defaultXHTTPXMux)) \<and>
     obj_get ''xPaddingBytes'' ex = (case obj_get ''xPaddingBytes'' m of Some v \<Rightarrow> Some v
       | None \<Rightarrow> (case as_obj (obj_get ''extra'' m) of
           Some se \<Rightarrow> (case obj_get ''xPaddingBytes'' se of
                       Some v \<Rightarrow> Some v | None \<Rightarrow> Some (JStr defaultXHTTPPadding))
         | None \<Rightarrow> Some (JStr defaultXHTTPPadding)))"
proof -
  let ?p = "copy_key ''path'' m []"
  let ?h = "xhttp_host m rs ?p"
  let ?m = "copy_key ''mode'' m ?h"
  let ?c = "obj_set ''extra'' (JObj (xhttp_extra m)) ?m"
  have "fst ` set ?p \<subseteq> {''path''}" using keys_copy_key [of "''path''" m "[]"] by simp
  then have "fst ` set ?h \<subseteq> {''path'', ''host''}" using keys_xhttp_host [of m rs ?p] by blast
  then have "fst ` set ?m \<subseteq> {''path'', ''host'', ''mode''}" using keys_copy_key [of "''mode''" m ?h] by blast
  then have keys: "fst ` set ?c \<subseteq> {''path'', ''host'', ''mode'', ''extra''}" by auto
  have host: "obj_get k ?h = obj_get k ?p" if "k \<noteq> ''host''" for k
    using that by (auto simp: xhttp_host_def split: option.splits)
  have "obj_get ''path'' ?c = obj_get ''path'' m" "obj_get ''mode'' ?c = obj_get ''mode'' m"
    using host by (simp_all add: obj_get_copy_key)
  moreover have "convertXHTTPSettings (Some (JObj m)) rs = Inr (Some (JObj ?c))"
    by (simp add: convertXHTTPSettings_def Let_def)
  moreover have "obj_get ''extra'' ?c = Some (JObj (xhttp_extra m))" by simp
  ultimately show ?thesis
    using keys extra_xmux [of m] extra_padding [of m]
    by (intro exI [of _ ?c] exI [of _ "xhttp_extra m"]) (simp add: obj_get_fold_set split: option.splits)
qed

section \<open>Credentials and endpoints\<close>

text \<open>What a client reads out of an outbound: address, port and secret, with the decoders that
  the share links use.\<close>

definition outbound_endpoint :: "Outbound \<Rightarrow> (string \<times> int \<times> string) option" where
  "outbound_endpoint ob =
     (if ob_Protocol ob = ''vmess''
      then (case dec_VMessOutboundSettings zero_VMessOutboundSettings (ob_Settings ob) of
              Some s \<Rightarrow> (case vmo_Vnext s of
                  v # _ \<Rightarrow> (case vms_Users v of u # _ \<Rightarrow> Some (vms_Address v, vms_Port v, vmu_ID u) | [] \<Rightarrow> None)
                | [] \<Rightarrow> None)
            | None \<Rightarrow> None)
      else if ob_Protocol ob = ''vless''
      then (case dec_VLESSOutboundSettings zero_VLESSOutboundSettings (ob_Settings ob) of
              Some s \<Rightarrow> (case vlo_Vnext s of
                  v # _ \<Rightarrow> (case vls_Users v of u # _ \<Rightarrow> Some (vls_Address v, vls_Port v, vlu_ID u) | [] \<Rightarrow> None)
                | [] \<Rightarrow> None)
            | None \<Rightarrow> None)
      else if ob_Protocol ob = ''trojan''
      then (case dec_TrojanOutboundSettings zero_TrojanOutboundSettings (ob_Settings ob) of
              Some s \<Rightarrow> (case tjo_Servers s of
                  v # _ \<Rightarrow> Some (tjs_Address v, tjs_Port v, tjs_Password v) | [] \<Rightarrow> None)
            | None \<Rightarrow> None)
      else if ob_Protocol ob = ''shadowsocks''
      then (case dec_ShadowsocksOutboundSettings zero_ShadowsocksOutboundSettings (ob_Settings ob) of
              Some s \<Rightarrow> (case sco_Servers s of
                  v # _ \<Rightarrow> Some (scs_Address v, scs_Port v, scs_Password v) | [] \<Rightarrow> None)
            | None \<Rightarrow> None)
      else None)"

definition secret_of :: "string \<Rightarrow> StoredClientConfig \<Rightarrow> string" where
  "secret_of proto c = (if proto = ''vmess'' \<or> proto = ''vless'' then st_ID c else st_Password c)"

lemma vmess_settings_read:
  assumes "stored_ok c" and "int64_min \<le> port" and "port \<le> int64_max"
  shows "dec_VMessOutboundSettings zero_VMessOutboundSettings (buildVMessSettings h port c) =
    Some \<lparr>vmo_Vnext = [\<lparr>vms_Address = h, vms_Port = port,
      vms_Users = [\<lparr>vmu_ID = st_ID c, vmu_AlterId = st_AlterId c, vmu_Security = ''auto'', vmu_Level = 0\<rparr>]\<rparr>]\<rparr>"
  using assms
  by (simp add: stored_ok_def buildVMessSettings_def enc_VMessOutboundSettings_def enc_VMessServer_def enc_VMessUser_def
      dec_VMessOutboundSettings_def dec_VMessServer_def dec_VMessUser_def zero_VMessOutboundSettings_def
      zero_VMessServer_def zero_VMessUser_def omit_str_def omit_int_def EqualFold_def lower_name)

lemma vless_settings_read:
  assumes "stored_ok c" and "int64_min \<le> port" and "port \<le> int64_max"
  shows "dec_VLESSOutboundSettings zero_VLESSOutboundSettings (buildVLESSSettings h port c) =
    Some \<lparr>vlo_Vnext = [\<lparr>vls_Address = h, vls_Port = port,
      vls_Users = [\<lparr>vlu_ID = st_ID c, vlu_Flow = st_Flow c,
        vlu_Encryption = (if TrimSpace (st_Encryption c) = [] then ''none'' else TrimSpace (st_Encryption c)), vlu_Email = st_Email c,
        vlu_Level = 0, vlu_Testpre = st_Testpre c\<rparr>]\<rparr>]\<rparr>"
  using assms
  by (simp add: stored_ok_def buildVLESSSettings_def Let_def enc_VLESSOutboundSettings_def enc_VLESSServer_def enc_VLESSUser_def
      dec_VLESSOutboundSettings_def dec_VLESSServer_def dec_VLESSUser_def zero_VLESSOutboundSettings_def
      zero_VLESSServer_def zero_VLESSUser_def fld_append fld_omit EqualFold_def lower_name)

lemma trojan_settings_read:
  assumes "int64_min \<le> port" and "port \<le> int64_max"
  shows "dec_TrojanOutboundSettings zero_TrojanOutboundSettings (buildTrojanSettings h port c) =
    Some \<lparr>tjo_Servers = [\<lparr>tjs_Address = h, tjs_Port = port, tjs_Password = st_Password c, tjs_Level = 0\<rparr>]\<rparr>"
  using assms
  by (simp add: buildTrojanSettings_def enc_TrojanOutboundSettings_def enc_TrojanServer_def dec_TrojanOutboundSettings_def
      dec_TrojanServer_def zero_TrojanOutboundSettings_def zero_TrojanServer_def omit_int_def EqualFold_def lower_name)

lemma ss_settings_read:
  assumes "int64_min \<le> port" and "port \<le> int64_max"
  shows "dec_ShadowsocksOutboundSettings zero_ShadowsocksOutboundSettings (buildShadowsocksSettings h port c) =
    Some \<lparr>sco_Servers = [\<lparr>scs_Address = h, scs_Port = port,
      scs_Method = (if st_Method c = [] then ''aes-256-gcm'' else st_Method c), scs_Password = st_Password c,
      scs_Level = 0, scs_UoT = False\<rparr>]\<rparr>"
  using assms
  by (simp add: buildShadowsocksSettings_def enc_ShadowsocksOutboundSettings_def enc_ShadowsocksServer_def
      dec_ShadowsocksOutboundSettings_def dec_ShadowsocksServer_def zero_ShadowsocksOutboundSettings_def
      zero_ShadowsocksServer_def omit_int_def EqualFold_def lower_name)

text \<open>C16: A client reaches its server with its own credential. For every protocol that has share
  links, the outbound built from what the parser stored for a client reads back (through JSON)
  as the requested host and port with exactly that client's id or password.\<close>

theorem outbound_carries_credential:
  assumes "uc_ClientConfig uc = pc_ConfigJSON (stored cred identity)" and "stored_ok cred"
    and "int64_min \<le> f_InboundPort uc" and "f_InboundPort uc \<le> int64_max"
    and "ToLower (f_InboundProtocol uc) \<in> {''vmess'', ''vless'', ''trojan'', ''shadowsocks''}"
    and "buildOutbound k h uc i = Inr ob"
  shows "outbound_endpoint ob = Some (h, f_InboundPort uc, secret_of (ToLower (f_InboundProtocol uc)) cred)"
proof -
  have cred: "unmarshal dec_StoredClientConfig zero_StoredClientConfig (uc_ClientConfig uc) = Some cred"
    using assms(1,2) by (simp add: stored_def dec_enc_stored)
  with assms(6) have ob: "ob_Protocol ob = ToLower (f_InboundProtocol uc)"
    "protocol_settings (ToLower (f_InboundProtocol uc)) h (f_InboundPort uc) cred = Inr (ob_Settings ob)"
    by (auto simp: buildOutbound_def Let_def split: option.splits sum.splits)
  from assms(5) consider "ToLower (f_InboundProtocol uc) = ''vmess''" | "ToLower (f_InboundProtocol uc) = ''vless''"
    | "ToLower (f_InboundProtocol uc) = ''trojan''" | "ToLower (f_InboundProtocol uc) = ''shadowsocks''"
    by blast
  then show ?thesis
  proof cases
    case 1
    with ob vmess_settings_read [OF assms(2-4), of h] show ?thesis
      by (simp add: outbound_endpoint_def protocol_settings_def secret_of_def)
  next
    case 2
    with ob vless_settings_read [OF assms(2-4), of h] show ?thesis
      by (auto simp: outbound_endpoint_def protocol_settings_def secret_of_def)
  next
    case 3
    with ob trojan_settings_read [OF assms(3,4), of h cred] show ?thesis
      by (auto simp: outbound_endpoint_def protocol_settings_def secret_of_def)
  next
    case 4
    with ob ss_settings_read [OF assms(3,4), of h cred] show ?thesis
      by (auto simp: outbound_endpoint_def protocol_settings_def secret_of_def)
  qed
qed

lemma sample_stored: "stored_ok (zero_StoredClientConfig\<lparr>st_Protocol := ''vless'', st_ID := ''uuid-1''\<rparr>)"
  by (simp add: stored_ok_def zero_StoredClientConfig_def)

theorem outbound_carries_credential_witness:
  "\<exists>ob. buildOutbound (\<lambda>_. None) ''h'' (sample_uc ''vless-in'' ''tcp'') 0 = Inr ob \<and>
     outbound_endpoint ob = Some (''h'', 443, ''uuid-1'')"
proof -
  let ?uc = "sample_uc ''vless-in'' ''tcp''"
  have c: "uc_ClientConfig ?uc = pc_ConfigJSON (stored (zero_StoredClientConfig\<lparr>st_Protocol := ''vless'', st_ID := ''uuid-1''\<rparr>) ''a'')"
    by code_simp
  have b: "buildOutbound (\<lambda>_. None) ''h'' ?uc 0 = Inr (projr (buildOutbound (\<lambda>_. None) ''h'' ?uc 0))"
    by code_simp
  have t: "ToLower (f_InboundProtocol ?uc) = ''vless''" by code_simp
  have p: "f_InboundPort ?uc = 443" by (simp add: sample_uc_def)
  from outbound_carries_credential [OF c sample_stored _ _ _ b] t p
  have "outbound_endpoint (projr (buildOutbound (\<lambda>_. None) ''h'' ?uc 0)) = Some (''h'', 443, ''uuid-1'')"
    by (simp add: secret_of_def)
  with b show ?thesis by blast
qed

section \<open>Order\<close>

lemma sort_key_two_classes:
  "sort_key (\<lambda>x. if P x then 0 else (1 :: int)) xs = filter P xs @ filter (\<lambda>x. \<not> P x) xs"
proof (induction xs)
  case (Cons x xs)
  have front: "insort_key (\<lambda>x. if P x then 0 else (1 :: int)) x ys = x # ys" if "P x" for ys
    using that by (cases ys) auto
  have later: "insort_key (\<lambda>x. if P x then 0 else (1 :: int)) x (filter P ys @ zs) = filter P ys @ x # zs"
    if "\<not> P x" "\<forall>z\<in>set zs. \<not> P z" for ys zs
    using that by (induction ys) (auto, cases zs, auto)
  show ?case using Cons front later [of "filter (\<lambda>x. \<not> P x) xs" xs] by (cases "P x") auto
qed simp

text \<open>XHTTP first, otherwise as stored. The sort that decides which outbound comes first is a
  stable partition: the XHTTP clients in their order, then the others in theirs.\<close>

lemma xhttp_first_stable:
  "sortClientsXHTTPFirst cs = filter isXHTTPInbound cs @ filter (\<lambda>c. \<not> isXHTTPInbound c) cs"
  unfolding sortClientsXHTTPFirst_def inboundPriority_def [abs_def] by (rule sort_key_two_classes)

text \<open>C18: Precedence of routing rules. The rules of a generated configuration are the user's own
  rules, then the global ones, then the built-in ones, each in the order given and with the
  target \<open>proxy\<close> replaced by the balancer or the only proxy, and a final catch-all to the same
  target.\<close>

theorem rule_precedence:
  assumes "GenerateClientConfig k h hs ps user clients gr bst bu bi sp hp dns bh = Inr cfg"
  shows "\<exists>useBalancer target last. rt_Rules (cc_Routing cfg) =
      map (resolve_rule useBalancer target)
        (applied_rules (u_ClientRoutes user) @ applied_rules gr @ rt_Rules defaultRouting) @ [last] \<and>
    rl_Port last = ''0-65535'' \<and> rl_Domain last = [] \<and> rl_IP last = [] \<and> target \<noteq> [] \<and>
    (if useBalancer then rl_BalancerTag last = target else rl_OutboundTag last = target)"
  using assms
proof (rule generate_shape)
  fix obs
  assume obs: "obs = build_outbounds k h hs ps 0 (sortClientsXHTTPFirst clients)" and ne: "obs \<noteq> []"
    and many: "length obs > 1 \<Longrightarrow>
      rt_Rules (cc_Routing cfg) = map (resolve_rule True ''proxy-balance'') (base_rules gr user) @
        [zero_rule\<lparr>rl_Type := ''field'', rl_BalancerTag := ''proxy-balance'', rl_Port := ''0-65535''\<rparr>] \<and>
      (\<exists>strategy. rt_Balancers (cc_Routing cfg) = [\<lparr>bal_Tag = ''proxy-balance'',
        bal_Selector = fst (balancer_targets obs), bal_Strategy = Some \<lparr>bs_Type = strategy\<rparr>,
        bal_FallbackTag = snd (balancer_targets obs)\<rparr>])"
    and one: "length obs = 1 \<Longrightarrow>
      rt_Rules (cc_Routing cfg) = map (resolve_rule False (ob_Tag (fst (hd obs)))) (base_rules gr user) @
        [zero_rule\<lparr>rl_Type := ''field'', rl_OutboundTag := ob_Tag (fst (hd obs)), rl_Port := ''0-65535''\<rparr>] \<and>
      rt_Balancers (cc_Routing cfg) = []"
  show ?thesis
  proof (cases "length obs > 1")
    case True
    with many show ?thesis unfolding base_rules_def
      by (intro exI [of _ True] exI [of _ "''proxy-balance''"] exI) (auto simp: zero_rule_def)
  next
    case False
    with ne have l: "length obs = 1" by (cases obs) auto
    have "ob_Tag (fst (hd obs)) \<noteq> []"
      using ne build_outbounds_tag [of "hd obs" k h hs ps 0 "sortClientsXHTTPFirst clients"]
      by (auto simp: obs outbound_tag_def)
    with one [OF l] show ?thesis unfolding base_rules_def
      by (intro exI [of _ False] exI [of _ "ob_Tag (fst (hd obs))"] exI) (auto simp: zero_rule_def)
  qed
qed

theorem rule_precedence_witness:
  "\<exists>useBalancer target last. rt_Rules (cc_Routing (projr sample_gen)) =
      map (resolve_rule useBalancer target)
        (applied_rules (u_ClientRoutes sample_user) @ applied_rules (Doc (JArr [])) @ rt_Rules defaultRouting) @ [last]"
  using rule_precedence [OF sample_gen_ok [unfolded sample_gen_def]] unfolding sample_gen_def by blast

section \<open>Multiplexing\<close>

text \<open>Multiplexing is only switched on where it can work: for VMess and VLESS, without the
  Vision flow, without VLESS encryption, not over QUIC, mKCP or XHTTP, and for VLESS not with
  security \<open>reality\<close>.\<close>

lemma mux_only_where_allowed:
  assumes "buildOutbound k h uc i = Inr ob" and "ob_Mux ob \<noteq> None"
    and "unmarshal dec_StoredClientConfig zero_StoredClientConfig (uc_ClientConfig uc) = Some cred"
  shows "ob_Protocol ob \<in> {''vmess'', ''vless''} \<and> st_Flow cred \<noteq> ''xtls-rprx-vision'' \<and>
    TrimSpace (st_Encryption cred) \<in> {[], ''none''} \<and>
    (\<forall>ss. ob_StreamSettings ob = Some ss \<longrightarrow> ss_Network ss \<notin> {''quic'', ''kcp'', ''xhttp''} \<and>
      (ob_Protocol ob = ''vless'' \<longrightarrow> ss_Security ss \<noteq> ''reality''))"
proof -
  from assms have "shouldUseMux (ob_Protocol ob) (st_Flow cred) (st_Encryption cred) (ob_StreamSettings ob)"
    by (auto simp: buildOutbound_def Let_def split: option.splits sum.splits if_splits)
  then show ?thesis by (auto simp: shouldUseMux_def split: if_splits option.splits)
qed

section \<open>Where spelling matters\<close>

text \<open>A route whose target is spelled \<open>Direct\<close> passes the filter, but stays as it is: no outbound
  has that tag.\<close>

lemma mixed_case_route_dangles:
  "\<exists>cfg. GenerateClientConfig (\<lambda>_. None) ''h'' [] []
       (sample_user\<lparr>u_ClientRoutes := Doc (JArr [JObj [(''outboundTag'', JStr ''Direct''), (''port'', JStr ''25'')]])\<rparr>)
       sample_clients (Doc (JArr [])) [] [] [] 0 0 [] [] = Inr cfg \<and>
     \<not> target_ok cfg (hd (rt_Rules (cc_Routing cfg)))"
proof -
  let ?g = "GenerateClientConfig (\<lambda>_. None) ''h'' [] []
       (sample_user\<lparr>u_ClientRoutes := Doc (JArr [JObj [(''outboundTag'', JStr ''Direct''), (''port'', JStr ''25'')]])\<rparr>)
       sample_clients (Doc (JArr [])) [] [] [] 0 0 [] []"
  have "?g = Inr (projr ?g) \<and> \<not> target_ok (projr ?g) (hd (rt_Rules (cc_Routing (projr ?g))))"
    by code_simp
  then show ?thesis by blast
qed

text \<open>Security \<open>REALITY\<close> in capitals is converted like \<open>reality\<close>, and the transport name
  \<open>splithttp\<close> counts as XHTTP, but multiplexing is switched on for both.\<close>

lemma mux_on_capital_reality:
  "\<exists>ss. convertStreamSettings (\<lambda>_. None) (Some (zero_StreamSettings\<lparr>ss_Network := ''tcp'', ss_Security := ''REALITY'',
        ss_RealitySettings := Some (zero_RealitySettings\<lparr>rs_PublicKey := ''pub''\<rparr>)\<rparr>)) ''h'' = Inr (Some ss) \<and>
     ss_RealitySettings ss \<noteq> None \<and> shouldUseMux ''vless'' [] [] (Some ss)"
proof -
  let ?r = "convertStreamSettings (\<lambda>_. None) (Some (zero_StreamSettings\<lparr>ss_Network := ''tcp'', ss_Security := ''REALITY'',
        ss_RealitySettings := Some (zero_RealitySettings\<lparr>rs_PublicKey := ''pub''\<rparr>)\<rparr>)) ''h''"
  have "?r = Inr (Some (the (projr ?r))) \<and> ss_RealitySettings (the (projr ?r)) \<noteq> None \<and>
      shouldUseMux ''vless'' [] [] (Some (the (projr ?r)))"
    by code_simp
  then show ?thesis by blast
qed

lemma mux_on_splithttp:
  "isXHTTPInbound (sample_uc ''in'' ''splithttp'') \<and>
   shouldUseMux ''vless'' [] [] (Some (zero_StreamSettings\<lparr>ss_Network := ''splithttp''\<rparr>))"
  by code_simp

end
