(* ===== verification/Config_Writer.thy ===== *)
theory Config_Writer
  imports Parser Base64
begin

text \<open>
  \<^verbatim>\<open>internal/xray/configwriter.go\<close>: adding clients to and removing them from the inbounds in the
  Xray configuration files. The configuration directory is a listing with the contents of the
  files; writing a file replaces its contents or fails (argument \<open>wr\<close>: whether the temporary
  file can be written and renamed). Random bytes are arguments. A file that is read into a
  \<open>map[string]interface{}\<close> and written back keeps its content; the layout of the text and the
  rounding of numbers beyond 53 bits are not represented.
\<close>

section \<open>Random credentials\<close>

definition hex_chars :: string where
  "hex_chars = ''0123456789abcdef''"

definition hex_byte :: "nat \<Rightarrow> string" where
  "hex_byte b = [hex_chars ! (b div 16), hex_chars ! (b mod 16)]"

definition hex_string :: "nat list \<Rightarrow> string" where
  "hex_string bs = concat (map hex_byte bs)"

text \<open>16 random bytes as a version 4 UUID: \<open>b[6] = (b[6] & 0x0f) | 0x40\<close>,
  \<open>b[8] = (b[8] & 0x3f) | 0x80\<close>.\<close>

definition generateUUID :: "nat list \<Rightarrow> string" where
  "generateUUID rnd =
     (let b = rnd[6 := rnd ! 6 mod 16 + 64];
          b = b[8 := b ! 8 mod 64 + 128]
      in hex_string (take 4 b) @ ''-'' @ hex_string (take 2 (drop 4 b)) @ ''-'' @
         hex_string (take 2 (drop 6 b)) @ ''-'' @ hex_string (take 2 (drop 8 b)) @ ''-'' @
         hex_string (take 6 (drop 10 b)))"

definition generatePassword :: "nat \<Rightarrow> nat list \<Rightarrow> string" where
  "generatePassword byteLen rnd = take (byteLen * 2) (hex_string rnd)"

section \<open>Client maps\<close>

text \<open>The values of a client map built in memory keep their Go type: an \<open>int\<close> is not a
  \<open>float64\<close>.\<close>

datatype go_value = GoString string | GoInt int | GoFloat int

type_synonym client_map = "(string \<times> go_value) list"

definition str_of :: "client_map \<Rightarrow> string \<Rightarrow> string" where
  "str_of m k = (case map_of m k of Some (GoString s) \<Rightarrow> s | _ \<Rightarrow> [])"

fun go_json :: "go_value \<Rightarrow> json" where
  "go_json (GoString s) = JStr s"
| "go_json (GoInt i) = JInt i"
| "go_json (GoFloat i) = JInt i"

definition client_json :: "client_map \<Rightarrow> json" where
  "client_json m = JObj (map (\<lambda>(k, v). (k, go_json v)) m)"

text \<open>\<open>_ = json.Unmarshal(...)\<close>: members of the wrong type are skipped.\<close>

type_synonym 'a lax = "'a \<Rightarrow> json \<Rightarrow> 'a"

fun fld_lax :: "string \<Rightarrow> 'a lax \<Rightarrow> (string \<times> json) list \<Rightarrow> 'a \<Rightarrow> 'a" where
  "fld_lax n d [] p = p"
| "fld_lax n d ((k, v) # o') p = fld_lax n d o' (if EqualFold k n then d p v else p)"

definition lax_string :: "string lax" where
  "lax_string p j = (case j of JStr s \<Rightarrow> s | _ \<Rightarrow> p)"

definition lax_int :: "int lax" where
  "lax_int p j = (case dec_int p j of Some i \<Rightarrow> i | None \<Rightarrow> p)"

definition lax_list :: "'a lax \<Rightarrow> 'a \<Rightarrow> 'a list lax" where
  "lax_list d z p j = (case j of JArr js \<Rightarrow> map (d z) js | JNull \<Rightarrow> [] | _ \<Rightarrow> p)"

definition lax_struct :: "('a \<Rightarrow> (string \<times> json) list \<Rightarrow> 'a) \<Rightarrow> 'a lax" where
  "lax_struct f p j = (case j of JObj o' \<Rightarrow> f p o' | _ \<Rightarrow> p)"

definition lax_clients :: "string \<Rightarrow> 'a lax \<Rightarrow> 'a \<Rightarrow> json option \<Rightarrow> 'a list" where
  "lax_clients name d z settingsRaw = (case settingsRaw of None \<Rightarrow> []
     | Some j \<Rightarrow> lax_struct (\<lambda>p o'. fld_lax ''clients''
         (lax_list (lax_struct (\<lambda>p o'. fld_lax name d o' p)) z) o' p) [] j)"

definition buildVLESSClient :: "nat list \<Rightarrow> string \<Rightarrow> json option \<Rightarrow> client_map" where
  "buildVLESSClient rnd username settingsRaw =
     (let flow = (case lax_clients ''flow'' lax_string [] settingsRaw of [] \<Rightarrow> [] | f # _ \<Rightarrow> f)
      in [(''id'', GoString (generateUUID rnd)), (''flow'', GoString flow), (''email'', GoString username)])"

definition buildVMessClient :: "nat list \<Rightarrow> string \<Rightarrow> json option \<Rightarrow> client_map" where
  "buildVMessClient rnd username settingsRaw =
     (let alterID = (case lax_clients ''alterId'' lax_int 0 settingsRaw of [] \<Rightarrow> 0 | a # _ \<Rightarrow> a)
      in [(''id'', GoString (generateUUID rnd)), (''alterId'', GoInt alterID), (''email'', GoString username)])"

definition buildTrojanClient :: "nat list \<Rightarrow> string \<Rightarrow> client_map" where
  "buildTrojanClient rnd username =
     [(''password'', GoString (generatePassword 16 (take 16 rnd))), (''email'', GoString username)]"

definition buildShadowsocksClient :: "nat list \<Rightarrow> string \<Rightarrow> json option \<Rightarrow> client_map" where
  "buildShadowsocksClient rnd username settingsRaw =
     (let top = (case settingsRaw of None \<Rightarrow> []
                 | Some j \<Rightarrow> lax_struct (\<lambda>p o'. fld_lax ''method'' lax_string o' p) [] j);
          first = (case lax_clients ''method'' lax_string [] settingsRaw of [] \<Rightarrow> [] | m # _ \<Rightarrow> m);
          method = (if top \<noteq> [] then top else if first \<noteq> [] then first else ''2022-blake3-aes-256-gcm'');
          password = (if HasPrefix method ''2022'' then StdEncode (take 32 (drop 16 rnd))
                      else generatePassword 16 (take 16 rnd))
      in [(''password'', GoString password), (''method'', GoString method), (''email'', GoString username)])"

datatype wr_err =
    UsernameRequired
  | EmailRequired
  | ReadConfigDir
  | InboundNotFound string
  | SocksUnsupported
  | ProtocolUnsupported string
  | BadStored
  | ReadFile
  | ParseConfig
  | NoSettings string
  | WriteFile

definition clientToStoredConfig :: "string \<Rightarrow> client_map \<Rightarrow> string \<Rightarrow> wr_err + jtext" where
  "clientToStoredConfig protocol client clientEncStr =
     (let proto = ToLower protocol;
          out = (\<lambda>c. Inr (Doc (enc_StoredClientConfig c)))
      in if proto = ''vless''
         then out (zero_StoredClientConfig\<lparr>st_Protocol := ''vless'', st_ID := str_of client ''id'',
                     st_Flow := str_of client ''flow'',
                     st_Encryption := (if clientEncStr \<noteq> [] then clientEncStr else ''none'')\<rparr>)
         else if proto = ''vmess''
         then out (zero_StoredClientConfig\<lparr>st_Protocol := ''vmess'', st_ID := str_of client ''id'',
                     st_AlterId := (case map_of client ''alterId'' of Some (GoFloat a) \<Rightarrow> a | _ \<Rightarrow> 0)\<rparr>)
         else if proto = ''trojan''
         then out (zero_StoredClientConfig\<lparr>st_Protocol := ''trojan'', st_Password := str_of client ''password''\<rparr>)
         else if proto = ''shadowsocks''
         then out (zero_StoredClientConfig\<lparr>st_Protocol := ''shadowsocks'', st_Password := str_of client ''password'',
                     st_Method := str_of client ''method''\<rparr>)
         else Inl (ProtocolUnsupported protocol))"

definition storedConfigToClientMap :: "jtext \<Rightarrow> string \<Rightarrow> wr_err + client_map" where
  "storedConfigToClientMap storedJSON email =
     (case unmarshal dec_StoredClientConfig zero_StoredClientConfig storedJSON of
        None \<Rightarrow> Inl BadStored
      | Some sc \<Rightarrow>
          (let proto = ToLower (st_Protocol sc)
           in if proto = ''vless''
              then Inr [(''id'', GoString (st_ID sc)), (''flow'', GoString (firstNonEmpty [st_Flow sc, []])),
                        (''email'', GoString email)]
              else if proto = ''vmess''
              then Inr [(''id'', GoString (st_ID sc)), (''alterId'', GoInt (st_AlterId sc)),
                        (''email'', GoString email)]
              else if proto = ''trojan''
              then Inr [(''password'', GoString (st_Password sc)), (''email'', GoString email)]
              else if proto = ''shadowsocks''
              then Inr [(''password'', GoString (st_Password sc)),
                        (''method'', GoString (firstNonEmpty [st_Method sc, ''2022-blake3-aes-256-gcm''])),
                        (''email'', GoString email)]
              else Inl (ProtocolUnsupported (st_Protocol sc))))"

section \<open>Finding the inbound\<close>

record inbound_head =
  ih_Tag :: string
  ih_Protocol :: string
  ih_Settings :: "json option"

definition dec_inbound_head :: "inbound_head decoder" where
  "dec_inbound_head = dec_struct (\<lambda>p o'.
     Option.bind (fld ''tag'' dec_string o' (ih_Tag p)) (\<lambda>t.
     Option.bind (fld ''protocol'' dec_string o' (ih_Protocol p)) (\<lambda>pr.
     Option.bind (fld ''settings'' dec_raw o' (ih_Settings p)) (\<lambda>s.
     Some \<lparr>ih_Tag = t, ih_Protocol = pr, ih_Settings = s\<rparr>))))"

definition heads_of_file :: "file_read \<Rightarrow> inbound_head list" where
  "heads_of_file data = (case data of
     FileData t \<Rightarrow> (case inbounds_of_file t of
         Some raws \<Rightarrow> List.map_filter (dec_inbound_head \<lparr>ih_Tag = [], ih_Protocol = [], ih_Settings = None\<rparr>) raws
       | None \<Rightarrow> [])
   | _ \<Rightarrow> [])"

fun find_in_entries :: "string \<Rightarrow> dir_entry list \<Rightarrow> (string \<times> inbound_head) option" where
  "find_in_entries tag [] = None"
| "find_in_entries tag ((name, isDir, data) # es) =
     (if isDir \<or> \<not> HasSuffix name ''.json'' then find_in_entries tag es
      else case find (\<lambda>h. TrimSpace (ih_Tag h) = tag) (heads_of_file data) of
        Some h \<Rightarrow> Some (name, h)
      | None \<Rightarrow> find_in_entries tag es)"

definition findInboundSettings :: "dir_read \<Rightarrow> string \<Rightarrow> wr_err + (string \<times> inbound_head)" where
  "findInboundSettings listing tag =
     (case listing of
        DirEntries es \<Rightarrow> (case find_in_entries tag es of
            Some r \<Rightarrow> Inr r | None \<Rightarrow> Inl (InboundNotFound tag))
      | _ \<Rightarrow> Inl ReadConfigDir)"

section \<open>Editing a file\<close>

text \<open>The inbounds of a file as generic values, and the document around them. An object without
  a non-empty array \<open>inbounds\<close> has to be an array itself.\<close>

definition file_inbounds :: "jtext \<Rightarrow> ((string \<times> json) list \<times> json list) option" where
  "file_inbounds t = (case t of
     Plain _ \<Rightarrow> None
   | Doc j \<Rightarrow>
       (let root = (case j of JObj o' \<Rightarrow> o' | _ \<Rightarrow> []);
            ibs = (case as_arr (obj_get ''inbounds'' root) of Some arr \<Rightarrow> arr | None \<Rightarrow> [])
        in if ibs \<noteq> [] then Some (root, ibs)
           else (case j of
                   JArr arr \<Rightarrow> Some ([(''inbounds'', JArr arr)], arr)
                 | JNull \<Rightarrow> Some ([(''inbounds'', JNull)], [])
                 | _ \<Rightarrow> None)))"

definition is_inbound :: "string \<Rightarrow> json \<Rightarrow> bool" where
  "is_inbound inboundTag j = (case j of
     JObj o' \<Rightarrow> TrimSpace (as_str (obj_get ''tag'' o')) = inboundTag | _ \<Rightarrow> False)"

text \<open>What an edit of the first inbound with the tag gives: an error, nothing to do, or the new
  inbounds.\<close>

datatype 'a edit = Fail wr_err | Keep | Change 'a

fun edit_first :: "string \<Rightarrow> ((string \<times> json) list \<Rightarrow> (string \<times> json) list edit) \<Rightarrow> json list \<Rightarrow> json list edit option" where
  "edit_first tag f [] = None"
| "edit_first tag f (j # js) =
     (if is_inbound tag j
      then (case j of
              JObj ib \<Rightarrow>
                (case as_obj (obj_get ''settings'' ib) of
                   None \<Rightarrow> Some (Fail (NoSettings tag))
                 | Some settings \<Rightarrow> (case f settings of
                     Fail e \<Rightarrow> Some (Fail e)
                   | Keep \<Rightarrow> Some Keep
                   | Change s \<Rightarrow> Some (Change (JObj (obj_set ''settings'' (JObj s) ib) # js))))
            | _ \<Rightarrow> None)
      else (case edit_first tag f js of
              None \<Rightarrow> None
            | Some (Fail e) \<Rightarrow> Some (Fail e)
            | Some Keep \<Rightarrow> Some Keep
            | Some (Change js') \<Rightarrow> Some (Change (j # js'))))"

definition add_to_settings :: "json \<Rightarrow> (string \<times> json) list \<Rightarrow> (string \<times> json) list edit" where
  "add_to_settings newClient settings =
     (let clients = (case as_arr (obj_get ''clients'' settings) of Some cs \<Rightarrow> cs | None \<Rightarrow> [])
      in Change (obj_set ''clients'' (JArr (clients @ [newClient])) settings))"

definition has_email :: "string \<Rightarrow> json \<Rightarrow> bool" where
  "has_email email c = (case c of
     JObj cm \<Rightarrow> TrimSpace (as_str (obj_get ''email'' cm)) = email | _ \<Rightarrow> False)"

text \<open>A Go slice that was never appended to is \<open>nil\<close> and is written as \<open>null\<close>.\<close>

definition remove_from_settings :: "string \<Rightarrow> (string \<times> json) list \<Rightarrow> (string \<times> json) list edit" where
  "remove_from_settings email settings =
     (case as_arr (obj_get ''clients'' settings) of
        None \<Rightarrow> Keep
      | Some clients \<Rightarrow>
          (let filtered = filter (\<lambda>c. \<not> has_email email c) clients
           in if filtered = clients then Keep
              else Change (obj_set ''clients'' (if filtered = [] then JNull else JArr filtered) settings)))"

definition edit_file ::
  "string \<Rightarrow> ((string \<times> json) list \<Rightarrow> (string \<times> json) list edit) \<Rightarrow> file_read \<Rightarrow> wr_err + jtext option option" where
  "edit_file tag f data = (case data of
     FileData t \<Rightarrow>
       (case file_inbounds t of
          None \<Rightarrow> Inl ParseConfig
        | Some (root, ibs) \<Rightarrow>
            (case edit_first tag f ibs of
               None \<Rightarrow> Inr None
             | Some (Fail e) \<Rightarrow> Inl e
             | Some Keep \<Rightarrow> Inr (Some None)
             | Some (Change ibs') \<Rightarrow> Inr (Some (Some (Doc (JObj (obj_set ''inbounds'' (JArr ibs') root)))))))
   | _ \<Rightarrow> Inl ReadFile)"

definition read_entry :: "string \<Rightarrow> dir_entry list \<Rightarrow> file_read" where
  "read_entry name es = (case map_of es name of Some (_, d) \<Rightarrow> d | None \<Rightarrow> FileNotFound)"

definition write_entry :: "string \<Rightarrow> jtext \<Rightarrow> dir_entry list \<Rightarrow> dir_entry list" where
  "write_entry name t es = map (\<lambda>(n, d, f). if n = name then (n, d, FileData t) else (n, d, f)) es"

definition writeConfigFile :: "bool \<Rightarrow> string \<Rightarrow> jtext \<Rightarrow> dir_read \<Rightarrow> wr_err option \<times> dir_read" where
  "writeConfigFile wr name out listing =
     (if \<not> wr then (Some WriteFile, listing)
      else case listing of
        DirEntries es \<Rightarrow> (None, DirEntries (write_entry name out es))
      | _ \<Rightarrow> (Some WriteFile, listing))"

definition read_file :: "string \<Rightarrow> dir_read \<Rightarrow> file_read" where
  "read_file name listing = (case listing of DirEntries es \<Rightarrow> read_entry name es | _ \<Rightarrow> FileNotFound)"

definition addClientToFile :: "bool \<Rightarrow> string \<Rightarrow> string \<Rightarrow> client_map \<Rightarrow> dir_read \<Rightarrow> wr_err option \<times> dir_read" where
  "addClientToFile wr name inboundTag newClient listing =
     (case edit_file inboundTag (add_to_settings (client_json newClient)) (read_file name listing) of
        Inl e \<Rightarrow> (Some e, listing)
      | Inr None \<Rightarrow> (Some (InboundNotFound inboundTag), listing)
      | Inr (Some None) \<Rightarrow> (None, listing)
      | Inr (Some (Some out)) \<Rightarrow> writeConfigFile wr name out listing)"

definition removeClientFromFile :: "bool \<Rightarrow> string \<Rightarrow> string \<Rightarrow> string \<Rightarrow> dir_read \<Rightarrow> wr_err option \<times> dir_read" where
  "removeClientFromFile wr name inboundTag email listing =
     (case edit_file inboundTag (remove_from_settings email) (read_file name listing) of
        Inl e \<Rightarrow> (Some e, listing)
      | Inr None \<Rightarrow> (None, listing)
      | Inr (Some None) \<Rightarrow> (None, listing)
      | Inr (Some (Some out)) \<Rightarrow> writeConfigFile wr name out listing)"

section \<open>The operations\<close>

definition build_client :: "nat list \<Rightarrow> string \<Rightarrow> string \<Rightarrow> json option \<Rightarrow> wr_err + client_map" where
  "build_client rnd protocol username settingsRaw =
     (let proto = ToLower protocol
      in if proto = ''vless'' then Inr (buildVLESSClient rnd username settingsRaw)
         else if proto = ''vmess'' then Inr (buildVMessClient rnd username settingsRaw)
         else if proto = ''trojan'' then Inr (buildTrojanClient rnd username)
         else if proto = ''shadowsocks'' then Inr (buildShadowsocksClient rnd username settingsRaw)
         else if proto = ''socks'' then Inl SocksUnsupported
         else Inl (ProtocolUnsupported protocol))"

definition AddClientToInbound ::
  "nat list \<Rightarrow> bool \<Rightarrow> string \<Rightarrow> string \<Rightarrow> string \<Rightarrow> dir_read \<Rightarrow> (wr_err + jtext) \<times> dir_read" where
  "AddClientToInbound rnd wr inboundTag username clientEncStr listing =
     (let username = TrimSpace username
      in if username = [] then (Inl UsernameRequired, listing)
         else case findInboundSettings listing inboundTag of
           Inl e \<Rightarrow> (Inl e, listing)
         | Inr (file, h) \<Rightarrow>
             (case build_client rnd (ih_Protocol h) username (ih_Settings h) of
                Inl e \<Rightarrow> (Inl e, listing)
              | Inr newClient \<Rightarrow>
                  (case clientToStoredConfig (ih_Protocol h) newClient clientEncStr of
                     Inl e \<Rightarrow> (Inl e, listing)
                   | Inr storedJSON \<Rightarrow>
                       (case addClientToFile wr file inboundTag newClient listing of
                          (Some e, listing') \<Rightarrow> (Inl e, listing')
                        | (None, listing') \<Rightarrow> (Inr storedJSON, listing')))))"

definition AddExistingClientToInbound ::
  "bool \<Rightarrow> string \<Rightarrow> string \<Rightarrow> jtext \<Rightarrow> dir_read \<Rightarrow> wr_err option \<times> dir_read" where
  "AddExistingClientToInbound wr inboundTag username storedConfigJSON listing =
     (let username = TrimSpace username
      in if username = [] then (Some UsernameRequired, listing)
         else case findInboundSettings listing inboundTag of
           Inl e \<Rightarrow> (Some e, listing)
         | Inr (file, h) \<Rightarrow>
             (case storedConfigToClientMap storedConfigJSON username of
                Inl e \<Rightarrow> (Some e, listing)
              | Inr clientMap \<Rightarrow> addClientToFile wr file inboundTag clientMap listing))"

definition RemoveUserFromInbound :: "bool \<Rightarrow> string \<Rightarrow> string \<Rightarrow> dir_read \<Rightarrow> wr_err option \<times> dir_read" where
  "RemoveUserFromInbound wr inboundTag email listing =
     (let email = TrimSpace email
      in if email = [] then (Some EmailRequired, listing)
         else case findInboundSettings listing inboundTag of
           Inl e \<Rightarrow> (Some e, listing)
         | Inr (file, h) \<Rightarrow> removeClientFromFile wr file inboundTag email listing)"

end
