(* ===== verification/Writer_Properties.thy ===== *)
theory Writer_Properties
  imports Config_Writer
begin

text \<open>
  What editing the configuration files does to the clients of an inbound, that a failed edit
  leaves the files alone, that generated identifiers are version 4 UUIDs, and that a client
  written from the database is parsed back as the same client.
\<close>

section \<open>The clients of an inbound in a file\<close>

definition settings_clients :: "(string \<times> json) list \<Rightarrow> json list" where
  "settings_clients s = (case as_arr (obj_get ''clients'' s) of Some cs \<Rightarrow> cs | None \<Rightarrow> [])"

definition file_clients :: "string \<Rightarrow> jtext \<Rightarrow> json list option" where
  "file_clients tag t = (case file_inbounds t of
     None \<Rightarrow> None
   | Some (root, ibs) \<Rightarrow>
       (case find (is_inbound tag) ibs of
          Some (JObj ib) \<Rightarrow> map_option settings_clients (as_obj (obj_get ''settings'' ib))
        | _ \<Rightarrow> None))"

text \<open>The other inbounds of a file, in order.\<close>

definition other_inbounds :: "string \<Rightarrow> jtext \<Rightarrow> json list" where
  "other_inbounds tag t = (case file_inbounds t of
     None \<Rightarrow> [] | Some (root, ibs) \<Rightarrow> filter (\<lambda>j. \<not> is_inbound tag j) ibs)"

lemma is_inbound_set [simp]: "k \<noteq> ''tag'' \<Longrightarrow> is_inbound tag (JObj (obj_set k v ib)) = is_inbound tag (JObj ib)"
  by (simp add: is_inbound_def)

lemma edit_first_Change:
  "edit_first tag f js = Some (Change js') \<Longrightarrow>
   \<exists>ib s s'. find (is_inbound tag) js = Some (JObj ib) \<and> as_obj (obj_get ''settings'' ib) = Some s \<and>
     f s = Change s' \<and> find (is_inbound tag) js' = Some (JObj (obj_set ''settings'' (JObj s') ib)) \<and>
     filter (\<lambda>j. \<not> is_inbound tag j) js' = filter (\<lambda>j. \<not> is_inbound tag j) js \<and> js' \<noteq> []"
proof (induction js arbitrary: js')
  case (Cons j js)
  show ?case
  proof (cases "is_inbound tag j")
    case True
    then obtain ib where "j = JObj ib" by (auto simp: is_inbound_def split: json.splits)
    with True Cons.prems show ?thesis by (auto split: option.splits edit.splits)
  next
    case False
    with Cons.prems obtain js1 where "edit_first tag f js = Some (Change js1)" "js' = j # js1"
      by (auto split: option.splits edit.splits)
    with Cons.IH [of js1] False show ?thesis by auto
  qed
qed simp

lemma file_inbounds_set:
  "js \<noteq> [] \<Longrightarrow> file_inbounds (Doc (JObj (obj_set ''inbounds'' (JArr js) root))) =
     Some (obj_set ''inbounds'' (JArr js) root, js)"
  by (simp add: file_inbounds_def as_arr_def)

lemma edit_file_Change:
  assumes "edit_file tag f (FileData t) = Inr (Some (Some t'))"
  shows "\<exists>s s'. file_clients tag t = Some (settings_clients s) \<and> f s = Change s' \<and>
    file_clients tag t' = Some (settings_clients s') \<and> other_inbounds tag t' = other_inbounds tag t"
proof -
  from assms obtain root ibs ibs' where ib: "file_inbounds t = Some (root, ibs)"
    "edit_first tag f ibs = Some (Change ibs')" "t' = Doc (JObj (obj_set ''inbounds'' (JArr ibs') root))"
    by (auto simp: edit_file_def split: option.splits edit.splits)
  from edit_first_Change [OF ib(2)] obtain o' s s' where
    "find (is_inbound tag) ibs = Some (JObj o')" "as_obj (obj_get ''settings'' o') = Some s" "f s = Change s'"
    "find (is_inbound tag) ibs' = Some (JObj (obj_set ''settings'' (JObj s') o'))"
    "filter (\<lambda>j. \<not> is_inbound tag j) ibs' = filter (\<lambda>j. \<not> is_inbound tag j) ibs" "ibs' \<noteq> []"
    by blast
  with ib show ?thesis
    by (intro exI [of _ s] exI [of _ s'])
       (simp add: file_clients_def other_inbounds_def file_inbounds_set as_obj_def)
qed

lemma edit_first_Keep:
  "edit_first tag f js = Some Keep \<Longrightarrow>
   \<exists>ib s. find (is_inbound tag) js = Some (JObj ib) \<and> as_obj (obj_get ''settings'' ib) = Some s \<and> f s = Keep"
proof (induction js)
  case (Cons j js)
  show ?case
  proof (cases "is_inbound tag j")
    case True
    then obtain ib where "j = JObj ib" by (auto simp: is_inbound_def split: json.splits)
    with True Cons.prems show ?thesis by (auto split: option.splits edit.splits)
  next
    case False
    with Cons show ?thesis by (auto split: option.splits edit.splits)
  qed
qed simp

lemma edit_first_None: "edit_first tag f js = None \<Longrightarrow> find (is_inbound tag) js = None"
proof (induction js)
  case (Cons j js)
  then show ?case
    by (cases "is_inbound tag j") (auto simp: is_inbound_def split: option.splits edit.splits json.splits)
qed simp

lemma read_write:
  "read_file name listing = FileData t \<Longrightarrow> writeConfigFile True name t' listing = (None, listing') \<Longrightarrow>
   read_file name listing' = FileData t' \<and>
   (\<forall>n. n \<noteq> name \<longrightarrow> read_file n listing' = read_file n listing)"
proof -
  have upd: "map_of (write_entry name t' es) n =
      (if n = name then map_option (\<lambda>(d, f). (d, FileData t')) (map_of es n) else map_of es n)" for es n
    by (induction es) (auto simp: write_entry_def)
  assume "read_file name listing = FileData t" "writeConfigFile True name t' listing = (None, listing')"
  then show ?thesis
    by (auto simp: writeConfigFile_def read_file_def read_entry_def upd split: dir_read.splits option.splits)
qed

section \<open>Properties\<close>

text \<open>C20: Adding a client to a configuration file appends exactly that client. When
  \<open>addClientToFile\<close> succeeds, the clients of the inbound are the former ones followed by the new
  one, the other inbounds of the file are unchanged and so is every other file; when it fails,
  nothing is written.\<close>

theorem add_client_exact:
  assumes "addClientToFile wr file tag new listing = (e, listing')"
  shows "(e \<noteq> None \<longrightarrow> listing' = listing) \<and>
    (e = None \<longrightarrow> (\<exists>t t' cs. read_file file listing = FileData t \<and> read_file file listing' = FileData t' \<and>
       file_clients tag t = Some cs \<and> file_clients tag t' = Some (cs @ [client_json new]) \<and>
       other_inbounds tag t' = other_inbounds tag t \<and>
       (\<forall>n. n \<noteq> file \<longrightarrow> read_file n listing' = read_file n listing)))"
proof (cases e)
  case (Some err)
  with assms show ?thesis
    by (auto simp: addClientToFile_def writeConfigFile_def split: sum.splits option.splits if_splits dir_read.splits)
next
  case None
  have nk: "add_to_settings j s \<noteq> Keep" for j s by (simp add: add_to_settings_def Let_def)
  from assms None obtain t out where rd: "read_file file listing = FileData t"
    and ed: "edit_file tag (add_to_settings (client_json new)) (FileData t) = Inr (Some (Some out))"
    and w: "wr" "writeConfigFile True file out listing = (None, listing')"
    using edit_first_Keep [of tag "add_to_settings (client_json new)"] nk
    by (fastforce simp: addClientToFile_def edit_file_def writeConfigFile_def
        split: sum.splits option.splits if_splits file_read.splits edit.splits)
  from edit_file_Change [OF ed] read_write [OF rd w(2)] rd show ?thesis
    by (auto simp: None add_to_settings_def Let_def settings_clients_def as_arr_def split: option.splits)
qed


definition sample_dir :: dir_read where
  "sample_dir = DirEntries [(''a.json'', False, FileData (Doc (JObj [(''inbounds'', JArr
     [JObj [(''tag'', JStr ''in''), (''protocol'', JStr ''trojan''), (''settings'', JObj [(''clients'', JArr
        [JObj [(''password'', JStr ''p''), (''email'', JStr ''alice'')]])])]])])))]"

definition sample_new :: client_map where
  "sample_new = [(''password'', GoString ''q''), (''email'', GoString ''bob'')]"

theorem add_client_exact_witness:
  "\<exists>listing' t'. addClientToFile True ''a.json'' ''in'' sample_new sample_dir = (None, listing') \<and>
     read_file ''a.json'' listing' = FileData t' \<and> map_option length (file_clients ''in'' t') = Some 2"
proof -
  define r where "r = addClientToFile True ''a.json'' ''in'' sample_new sample_dir"
  have r: "r = (None, snd r)" "read_file ''a.json'' sample_dir = FileData (Doc (JObj [(''inbounds'', JArr
     [JObj [(''tag'', JStr ''in''), (''protocol'', JStr ''trojan''), (''settings'', JObj [(''clients'', JArr
        [JObj [(''password'', JStr ''p''), (''email'', JStr ''alice'')]])])]])]))"
    unfolding r_def by code_simp+
  have "map_option length (file_clients ''in'' (Doc (JObj [(''inbounds'', JArr
     [JObj [(''tag'', JStr ''in''), (''protocol'', JStr ''trojan''), (''settings'', JObj [(''clients'', JArr
        [JObj [(''password'', JStr ''p''), (''email'', JStr ''alice'')]])])]])]))) = Some 1"
    by code_simp
  with add_client_exact [of True "''a.json''" "''in''" sample_new sample_dir None "snd r"] r show ?thesis
    unfolding r_def by auto
qed

text \<open>Removing a user with an edit that changes nothing, and with one that changes the file.\<close>

lemma remove_kept:
  assumes "edit_file tag (remove_from_settings email) (FileData t) = Inr (Some None)" and "file_clients tag t = Some cs"
  shows "filter (\<lambda>c. \<not> has_email email c) cs = cs"
proof -
  obtain root ibs ib s where ibs: "file_inbounds t = Some (root, ibs)" "find (is_inbound tag) ibs = Some (JObj ib)"
    "as_obj (obj_get ''settings'' ib) = Some s" "cs = settings_clients s"
    using assms(2) by (auto simp: file_clients_def split: option.splits json.splits)
  with assms(1) have "edit_first tag (remove_from_settings email) ibs = Some Keep"
    by (auto simp: edit_file_def split: option.splits edit.splits)
  from edit_first_Keep [OF this] ibs(2,3) have "remove_from_settings email s = Keep" by auto
  then show ?thesis
    unfolding ibs(4) by (auto simp: remove_from_settings_def settings_clients_def Let_def split: option.splits if_splits)
qed

lemma remove_changed:
  assumes "edit_file tag (remove_from_settings email) (FileData t) = Inr (Some (Some t'))" and "file_clients tag t = Some cs"
  shows "file_clients tag t' = Some (filter (\<lambda>c. \<not> has_email email c) cs) \<and> other_inbounds tag t' = other_inbounds tag t"
  using edit_file_Change [OF assms(1)] assms(2)
  by (auto simp: remove_from_settings_def settings_clients_def Let_def as_arr_def split: option.splits if_splits)

lemma remove_finds:
  assumes "file_clients tag t = Some cs" shows "edit_file tag f (FileData t) \<noteq> Inr None"
  using assms edit_first_None [of tag f] by (auto simp: file_clients_def edit_file_def split: option.splits edit.splits)

text \<open>C21: Removing a user from a configuration file removes exactly that user. When the file has
  clients for the inbound and \<open>removeClientFromFile\<close> succeeds, the clients left are the former
  ones without those whose email is the given one, in order; the other inbounds and files are
  unchanged; when it fails, nothing is written.\<close>

theorem remove_client_exact:
  assumes "removeClientFromFile wr file tag email listing = (e, listing')"
    and "read_file file listing = FileData t" and "file_clients tag t = Some cs"
  shows "(e \<noteq> None \<longrightarrow> listing' = listing) \<and>
    (e = None \<longrightarrow> (\<exists>t'. read_file file listing' = FileData t' \<and>
       file_clients tag t' = Some (filter (\<lambda>c. \<not> has_email email c) cs) \<and>
       other_inbounds tag t' = other_inbounds tag t \<and>
       (\<forall>n. n \<noteq> file \<longrightarrow> read_file n listing' = read_file n listing)))"
proof (cases "edit_file tag (remove_from_settings email) (FileData t)")
  case (Inl err)
  with assms show ?thesis by (auto simp: removeClientFromFile_def)
next
  case (Inr r)
  with remove_finds [OF assms(3)] consider "r = Some None" | out where "r = Some (Some out)" by (cases r) force+
  then show ?thesis
  proof cases
    case 1
    with Inr remove_kept [OF _ assms(3)] assms show ?thesis by (auto simp: removeClientFromFile_def)
  next
    case 2
    with Inr have ed: "edit_file tag (remove_from_settings email) (FileData t) = Inr (Some (Some out))" by simp
    with assms(1,2) have w: "writeConfigFile wr file out listing = (e, listing')" by (simp add: removeClientFromFile_def)
    then have "e \<noteq> None \<Longrightarrow> listing' = listing" "e = None \<Longrightarrow> wr"
      by (auto simp: writeConfigFile_def split: if_splits dir_read.splits)
    with w remove_changed [OF ed assms(3)] read_write [OF assms(2)] show ?thesis by (metis (full_types))
  qed
qed

theorem remove_client_exact_witness:
  "\<exists>listing' t'. removeClientFromFile True ''a.json'' ''in'' ''alice'' sample_dir = (None, listing') \<and>
     read_file ''a.json'' listing' = FileData t' \<and> file_clients ''in'' t' = Some []"
proof -
  define t where "t = (case read_file ''a.json'' sample_dir of FileData t \<Rightarrow> t)"
  define r where "r = removeClientFromFile True ''a.json'' ''in'' ''alice'' sample_dir"
  have r: "r = (None, snd r)" "read_file ''a.json'' sample_dir = FileData t"
    "file_clients ''in'' t = Some (the (file_clients ''in'' t))"
    "filter (\<lambda>c. \<not> has_email ''alice'' c) (the (file_clients ''in'' t)) = []"
    unfolding r_def t_def by code_simp+
  from remove_client_exact [OF r(1) [unfolded r_def] r(2,3)] r show ?thesis unfolding r_def by auto
qed

section \<open>Identifiers\<close>

lemma length_hex_string: "length (hex_string bs) = 2 * length bs"
  by (induction bs) (simp_all add: hex_string_def hex_byte_def)

text \<open>Generated ids are version 4 UUIDs: from 16 random bytes, 36 characters with dashes at
  positions 8, 13, 18 and 23, the version digit 4 and a variant digit 8, 9, a or b.\<close>

lemma uuid_v4_format:
  assumes "length rnd = 16" and "\<forall>b\<in>set rnd. b < 256"
  shows "length (generateUUID rnd) = 36 \<and> (\<forall>i\<in>{8, 13, 18, 23}. generateUUID rnd ! i = CHR ''-'') \<and>
    generateUUID rnd ! 14 = CHR ''4'' \<and> generateUUID rnd ! 19 \<in> set ''89ab''"
proof -
  obtain b0 b1 b2 b3 b4 b5 b6 b7 b8 b9 b10 b11 b12 b13 b14 b15 where
    rnd: "rnd = [b0, b1, b2, b3, b4, b5, b6, b7, b8, b9, b10, b11, b12, b13, b14, b15]"
    using assms(1) by (auto simp: length_Suc_conv numeral_eq_Suc)
  have "b8 mod 64 div 16 < 4" by (simp add: less_mult_imp_div_less)
  moreover have "(b8 mod 64 + 128) div 16 = b8 mod 64 div 16 + 8"
    using div_mult_self1 [of 16 "b8 mod 64" 8] by simp
  ultimately have "(b8 mod 64 + 128) div 16 \<in> {8, 9, 10, 11}" by auto
  then have "hex_chars ! ((b8 mod 64 + 128) div 16) \<in> set ''89ab''" by (auto simp: hex_chars_def)
  moreover have "hex_chars ! ((b6 mod 16 + 64) div 16) = CHR ''4''" by (simp add: hex_chars_def)
  ultimately show ?thesis by (simp add: rnd generateUUID_def Let_def hex_string_def hex_byte_def)
qed

section \<open>Written clients are parsed back\<close>

text \<open>The credential the parser would store for a client entry of the given protocol.\<close>

definition parsed_credential :: "string \<Rightarrow> json \<Rightarrow> ParsedClient option" where
  "parsed_credential proto client =
     (let si = zero_ServerInbound\<lparr>si_Protocol := proto, si_Settings := Some (JObj [(''clients'', JArr [client])])\<rparr>
      in case extractClients [] si of Some [pc] \<Rightarrow> Some pc | _ \<Rightarrow> None)"

lemma file_vless_back:
  assumes "email \<noteq> []"
  shows "parsed_credential ''vless'' (client_json [(''id'', GoString i), (''flow'', GoString f), (''email'', GoString email)]) =
    Some (stored (zero_StoredClientConfig\<lparr>st_Protocol := ''vless'', st_ID := i, st_Flow := f, st_Email := email,
      st_Encryption := ''none''\<rparr>) email)"
proof -
  have "ToLower ''vless'' = ''vless''" by code_simp
  then show ?thesis using assms
    by (simp add: parsed_credential_def Let_def extractClients_def extractVLESS_def dec_settings_def client_json_def
        dec_VLESSInboundSettings_def zero_VLESSInboundSettings_def dec_VLESSClient_def zero_VLESSClient_def
        zero_StoredClientConfig_def EqualFold_def lower_name)
qed

lemma file_trojan_back:
  assumes "email \<noteq> []"
  shows "parsed_credential ''trojan'' (client_json [(''password'', GoString p), (''email'', GoString email)]) =
    Some (stored (zero_StoredClientConfig\<lparr>st_Protocol := ''trojan'', st_Password := p, st_Email := email\<rparr>) email)"
proof -
  have "ToLower ''trojan'' = ''trojan''" by code_simp
  then show ?thesis using assms
    by (simp add: parsed_credential_def Let_def extractClients_def extractTrojan_def dec_settings_def client_json_def
        dec_TrojanInboundSettings_def zero_TrojanInboundSettings_def dec_TrojanClient_def zero_TrojanClient_def
        EqualFold_def lower_name)
qed

lemma file_vmess_back:
  assumes "email \<noteq> []" and "int64_min \<le> a" and "a \<le> int64_max"
  shows "parsed_credential ''vmess'' (client_json [(''id'', GoString i), (''alterId'', GoInt a), (''email'', GoString email)]) =
    Some (stored (zero_StoredClientConfig\<lparr>st_Protocol := ''vmess'', st_ID := i, st_AlterId := a\<rparr>) email)"
proof -
  have "ToLower ''vmess'' = ''vmess''" by code_simp
  then show ?thesis using assms
    by (simp add: parsed_credential_def Let_def extractClients_def extractVMess_def dec_settings_def client_json_def
        dec_VMessInboundSettings_def zero_VMessInboundSettings_def dec_VMessClient_def zero_VMessClient_def
        EqualFold_def lower_name)
qed

lemma file_ss_back:
  assumes "email \<noteq> []" and "m \<noteq> []"
  shows "parsed_credential ''shadowsocks'' (client_json [(''password'', GoString p), (''method'', GoString m), (''email'', GoString email)]) =
    Some (stored (zero_StoredClientConfig\<lparr>st_Protocol := ''shadowsocks'', st_Password := p, st_Method := m, st_Email := email\<rparr>) email)"
proof -
  have "ToLower ''shadowsocks'' = ''shadowsocks''" by code_simp
  then show ?thesis using assms
    by (simp add: parsed_credential_def Let_def extractClients_def extractShadowsocks_def dec_settings_def client_json_def
        dec_ShadowsocksInboundSettings_def zero_ShadowsocksInboundSettings_def dec_ShadowsocksClient_def
        zero_ShadowsocksClient_def EqualFold_def lower_name)
qed

text \<open>C23: A client written back from the database is the same client. When \<open>storedConfigToClientMap\<close>
  turns a stored credential into an entry of a configuration file, the parser reads that entry
  under the user's email as identity, with the same id, flow, alterId, password, and (when one
  was stored) method.\<close>

theorem db_to_file_roundtrip:
  assumes "storedConfigToClientMap (Doc (enc_StoredClientConfig c)) email = Inr m" and "stored_ok c"
    and "email \<noteq> []" and "st_Protocol c = ToLower (st_Protocol c)"
  shows "\<exists>c'. parsed_credential (st_Protocol c) (client_json m) = Some (stored c' email) \<and>
    st_Protocol c' = st_Protocol c \<and>
    (st_Protocol c \<in> {''vless'', ''vmess''} \<longrightarrow> st_ID c' = st_ID c) \<and>
    (st_Protocol c = ''vless'' \<longrightarrow> st_Flow c' = st_Flow c) \<and>
    (st_Protocol c = ''vmess'' \<longrightarrow> st_AlterId c' = st_AlterId c) \<and>
    (st_Protocol c \<in> {''trojan'', ''shadowsocks''} \<longrightarrow> st_Password c' = st_Password c) \<and>
    (st_Protocol c = ''shadowsocks'' \<and> st_Method c \<noteq> [] \<longrightarrow> st_Method c' = st_Method c)"
proof -
  have rd: "unmarshal dec_StoredClientConfig zero_StoredClientConfig (Doc (enc_StoredClientConfig c)) = Some c"
    using assms(2) by (simp add: dec_enc_stored)
  have fne: "firstNonEmpty [f, []] = f" for f by simp
  show ?thesis using assms(1) unfolding storedConfigToClientMap_def rd
    using assms(2,3) assms(4) [symmetric]
    by (auto simp: Let_def fne stored_ok_def file_vless_back file_vmess_back file_trojan_back file_ss_back
        split: if_splits)
qed

definition sample_trojan :: StoredClientConfig where
  "sample_trojan = zero_StoredClientConfig\<lparr>st_Protocol := ''trojan'', st_Password := ''pw''\<rparr>"

theorem db_to_file_roundtrip_witness:
  "\<exists>m c'. storedConfigToClientMap (Doc (enc_StoredClientConfig sample_trojan)) ''bob'' = Inr m \<and>
     parsed_credential ''trojan'' (client_json m) = Some (stored c' ''bob'') \<and> st_Password c' = ''pw''"
proof -
  have m: "storedConfigToClientMap (Doc (enc_StoredClientConfig sample_trojan)) ''bob'' =
      Inr (projr (storedConfigToClientMap (Doc (enc_StoredClientConfig sample_trojan)) ''bob''))"
    "st_Protocol sample_trojan = ToLower (st_Protocol sample_trojan)"
    by code_simp+
  have ok: "stored_ok sample_trojan" by (simp add: stored_ok_def sample_trojan_def zero_StoredClientConfig_def)
  have f: "st_Protocol sample_trojan = ''trojan''" "st_Password sample_trojan = ''pw''"
    by (simp_all add: sample_trojan_def)
  from db_to_file_roundtrip [OF m(1) ok _ m(2)] f m(1) show ?thesis by auto
qed

end
