(* ===== verification/Admin.thy ===== *)
theory Admin
  imports Config_Writer Config
begin

text \<open>
  \<^verbatim>\<open>internal/xray/apiclient.go\<close>, \<^verbatim>\<open>impl.go\<close>, \<^verbatim>\<open>fanout.go\<close> and \<^verbatim>\<open>restore.go\<close>: provisioning clients over
  Xray's gRPC API, the two implementations of \<open>core.AdminAPI\<close>, the fan-out to several nodes, and
  restoring users from the database. Xray itself is not part of the repository: its
  HandlerService is the argument \<open>h\<close>, a record of functions on a state \<open>'x\<close> of the Xray
  processes that return the error text of a failed call.
\<close>

section \<open>The world\<close>

datatype cipher = AES_128_GCM | AES_256_GCM | CHACHA20_POLY1305 | XCHACHA20_POLY1305

datatype account =
    VLESSAccount string string
  | VMessAccount string
  | TrojanAccount string
  | SS2022Account string
  | SSAccount string cipher

record proto_user =
  pu_Email :: string
  pu_Account :: account

datatype alter_op = AddUserOperation proto_user | RemoveUserOperation string

record 'x handler =
  h_AlterInbound :: "string \<Rightarrow> string \<Rightarrow> alter_op \<Rightarrow> 'x \<Rightarrow> string option \<times> 'x"
  h_LoadInbounds :: "jtext \<Rightarrow> string + json list"
  h_AddInbound :: "string \<Rightarrow> json \<Rightarrow> 'x \<Rightarrow> string option \<times> 'x"
  h_RemoveInbound :: "string \<Rightarrow> string \<Rightarrow> 'x \<Rightarrow> string option \<times> 'x"
  h_GetInboundUsers :: "string \<Rightarrow> string \<Rightarrow> 'x \<Rightarrow> string + string list"

text \<open>What the operations act on: the random source (a sequence of draws), the configuration
  directory of this host, whether files can be written, and the Xray processes.\<close>

record 'x world =
  w_rand :: "nat \<Rightarrow> nat list"
  w_draws :: nat
  w_dir :: dir_read
  w_writable :: bool
  w_xray :: 'x

definition draw :: "'x world \<Rightarrow> nat list \<times> 'x world" where
  "draw w = (w_rand w (w_draws w), w\<lparr>w_draws := Suc (w_draws w)\<rparr>)"

definition on_xray :: "('x \<Rightarrow> string option \<times> 'x) \<Rightarrow> string \<Rightarrow> 'x world \<Rightarrow> string option \<times> 'x world" where
  "on_xray f label w = (case f (w_xray w) of
     (e, x) \<Rightarrow> (map_option (\<lambda>t. label @ t) e, w\<lparr>w_xray := x\<rparr>))"

text \<open>The error texts of the file backend.\<close>

fun wr_text :: "wr_err \<Rightarrow> string" where
  "wr_text UsernameRequired = ''username required''"
| "wr_text EmailRequired = ''email required''"
| "wr_text ReadConfigDir = ''read config dir: no such file or directory''"
| "wr_text (InboundNotFound t) = ''inbound '' @ t @ '' not found''"
| "wr_text SocksUnsupported = ''socks inbound does not support API user creation''"
| "wr_text (ProtocolUnsupported p) = ''unsupported protocol '' @ p"
| "wr_text BadStored = ''parse stored config''"
| "wr_text ReadFile = ''read file''"
| "wr_text ParseConfig = ''parse config''"
| "wr_text (NoSettings t) = ''inbound '' @ t @ '' has no settings''"
| "wr_text WriteFile = ''write temp''"

section \<open>The gRPC client\<close>

definition ss_account :: "string \<Rightarrow> string \<Rightarrow> string + account" where
  "ss_account method pwd =
     (if HasPrefix method ''2022'' then Inr (SS2022Account pwd)
      else if method = ''aes-128-gcm'' then Inr (SSAccount pwd AES_128_GCM)
      else if method = ''aes-256-gcm'' then Inr (SSAccount pwd AES_256_GCM)
      else if method = ''chacha20-poly1305'' then Inr (SSAccount pwd CHACHA20_POLY1305)
      else if method = ''xchacha20-poly1305'' then Inr (SSAccount pwd XCHACHA20_POLY1305)
      else if method = ''none'' then Inl ''shadowsocks method \"none\" is no longer supported''
      else Inr (SSAccount pwd CHACHA20_POLY1305))"

definition storedConfigToProtocolUser :: "jtext \<Rightarrow> string \<Rightarrow> string + proto_user" where
  "storedConfigToProtocolUser storedJSON email =
     (case unmarshal dec_StoredClientConfig zero_StoredClientConfig storedJSON of
        None \<Rightarrow> Inl ''parse stored config''
      | Some sc \<Rightarrow>
          (let proto = ToLower (st_Protocol sc);
               user = (\<lambda>a. \<lparr>pu_Email = email, pu_Account = a\<rparr>)
           in if proto = ''vless'' then Inr (user (VLESSAccount (st_ID sc) (firstNonEmpty [st_Flow sc, []])))
              else if proto = ''vmess'' then Inr (user (VMessAccount (st_ID sc)))
              else if proto = ''trojan'' then Inr (user (TrojanAccount (st_Password sc)))
              else if proto = ''shadowsocks''
              then map_sum id user (ss_account (st_Method sc) (st_Password sc))
              else Inl (''unsupported protocol '' @ st_Protocol sc)))"

definition clientMapToProtocolUser :: "string \<Rightarrow> client_map \<Rightarrow> string \<Rightarrow> string + proto_user" where
  "clientMapToProtocolUser protocolName client email =
     (let proto = ToLower protocolName;
          user = (\<lambda>a. \<lparr>pu_Email = email, pu_Account = a\<rparr>)
      in if proto = ''vless'' then Inr (user (VLESSAccount (str_of client ''id'') (str_of client ''flow'')))
         else if proto = ''vmess'' then Inr (user (VMessAccount (str_of client ''id'')))
         else if proto = ''trojan'' then Inr (user (TrojanAccount (str_of client ''password'')))
         else if proto = ''shadowsocks''
         then map_sum id user (ss_account (str_of client ''method'') (str_of client ''password''))
         else Inl (''unsupported protocol '' @ protocolName))"

definition AddExistingClientToInboundViaAPI ::
  "'x handler \<Rightarrow> string \<Rightarrow> string \<Rightarrow> string \<Rightarrow> jtext \<Rightarrow> 'x world \<Rightarrow> string option \<times> 'x world" where
  "AddExistingClientToInboundViaAPI h apiAddr inboundTag username storedConfigJSON w =
     (let username = TrimSpace username
      in if username = [] then (Some ''username required'', w)
         else if apiAddr = [] then (Some ''xray_api_addr required'', w)
         else case storedConfigToProtocolUser storedConfigJSON username of
           Inl e \<Rightarrow> (Some (''build protocol user: '' @ e), w)
         | Inr user \<Rightarrow>
             on_xray (h_AlterInbound h apiAddr inboundTag (AddUserOperation user)) ''alter inbound: '' w)"

definition RemoveUserFromInboundViaAPI ::
  "'x handler \<Rightarrow> string \<Rightarrow> string \<Rightarrow> string \<Rightarrow> 'x world \<Rightarrow> string option \<times> 'x world" where
  "RemoveUserFromInboundViaAPI h apiAddr inboundTag email w =
     (let email = TrimSpace email
      in if email = [] then (Some ''email required'', w)
         else if apiAddr = [] then (Some ''xray_api_addr required'', w)
         else on_xray (h_AlterInbound h apiAddr inboundTag (RemoveUserOperation email)) ''alter inbound: '' w)"

text \<open>\<open>mirror\<close> says whether the admin has a configuration directory on this host; without one,
  reading it is an error.\<close>

definition AddClientToInboundViaAPI ::
  "'x handler \<Rightarrow> string \<Rightarrow> bool \<Rightarrow> string \<Rightarrow> string \<Rightarrow> string \<Rightarrow> string \<Rightarrow> 'x world \<Rightarrow> (string + jtext) \<times> 'x world" where
  "AddClientToInboundViaAPI h apiAddr mirror inboundTag username protocolFallback clientEncStr w =
     (let username = TrimSpace username
      in if username = [] then (Inl ''username required'', w)
         else if apiAddr = [] then (Inl ''xray_api_addr required'', w)
         else
           (let found = findInboundSettings (if mirror then w_dir w else DirMissing) inboundTag;
                target = (case found of
                    Inr (_, ih) \<Rightarrow> Inr (ih_Protocol ih, ih_Settings ih)
                  | Inl e \<Rightarrow> if protocolFallback \<noteq> [] then Inr (ToLower (TrimSpace protocolFallback), None)
                            else Inl (wr_text e))
            in case target of
                 Inl e \<Rightarrow> (Inl e, w)
               | Inr (protocolName, settingsRaw) \<Rightarrow>
                   (let (rnd, w) = draw w
                    in case build_client rnd protocolName username settingsRaw of
                         Inl e \<Rightarrow> (Inl (wr_text e), w)
                       | Inr newClient \<Rightarrow>
                           (case clientMapToProtocolUser protocolName newClient username of
                              Inl e \<Rightarrow> (Inl (''build protocol user: '' @ e), w)
                            | Inr user \<Rightarrow>
                                (case on_xray (h_AlterInbound h apiAddr inboundTag (AddUserOperation user))
                                        ''alter inbound: '' w of
                                   (Some e, w') \<Rightarrow> (Inl e, w')
                                 | (None, w') \<Rightarrow>
                                     (case clientToStoredConfig protocolName newClient clientEncStr of
                                        Inl e \<Rightarrow> (Inl (''client config: '' @ wr_text e), w')
                                      | Inr storedJSON \<Rightarrow> (Inr storedJSON, w')))))))"

definition AddInboundFromJSONViaAPI :: "'x handler \<Rightarrow> string \<Rightarrow> jtext \<Rightarrow> 'x world \<Rightarrow> string option \<times> 'x world" where
  "AddInboundFromJSONViaAPI h apiAddr inboundJSON w =
     (if apiAddr = [] then (Some ''xray_api_addr required'', w)
      else if blank_text inboundJSON then (Some ''inbound JSON required'', w)
      else case h_LoadInbounds h inboundJSON of
        Inl e \<Rightarrow> (Some (''parse inbound JSON: '' @ e), w)
      | Inr [] \<Rightarrow> (Some ''no inbound parsed from JSON'', w)
      | Inr (ib # _) \<Rightarrow> on_xray (h_AddInbound h apiAddr ib) ''add inbound: '' w)"

definition RemoveInboundViaAPI :: "'x handler \<Rightarrow> string \<Rightarrow> string \<Rightarrow> 'x world \<Rightarrow> string option \<times> 'x world" where
  "RemoveInboundViaAPI h apiAddr tag w =
     (if apiAddr = [] then (Some ''xray_api_addr required'', w)
      else if TrimSpace tag = [] then (Some ''tag required'', w)
      else on_xray (h_RemoveInbound h apiAddr tag) ''remove inbound: '' w)"

definition GetInboundUsersViaAPI :: "'x handler \<Rightarrow> string \<Rightarrow> string \<Rightarrow> 'x world \<Rightarrow> string + string list" where
  "GetInboundUsersViaAPI h apiAddr tag w =
     (if apiAddr = [] then Inl ''xray_api_addr required''
      else if TrimSpace tag = [] then Inl ''tag required''
      else case h_GetInboundUsers h apiAddr tag (w_xray w) of
        Inl e \<Rightarrow> Inl (''get inbound users: '' @ e)
      | Inr us \<Rightarrow> Inr (filter (\<lambda>e. e \<noteq> []) (map TrimSpace us)))"

section \<open>Implementations of \<open>core.AdminAPI\<close>\<close>

record AddClientHint =
  hint_ProtocolFallback :: string
  hint_ClientEncryption :: string

record 'w AdminAPI =
  ad_AddClient :: "string \<Rightarrow> string \<Rightarrow> AddClientHint \<Rightarrow> 'w \<Rightarrow> (string + jtext) \<times> 'w"
  ad_AddExistingClient :: "string \<Rightarrow> string \<Rightarrow> jtext \<Rightarrow> 'w \<Rightarrow> string option \<times> 'w"
  ad_RemoveClient :: "string \<Rightarrow> string \<Rightarrow> 'w \<Rightarrow> string option \<times> 'w"
  ad_AddInboundFromJSON :: "jtext \<Rightarrow> 'w \<Rightarrow> string option \<times> 'w"
  ad_RemoveInbound :: "string \<Rightarrow> 'w \<Rightarrow> string option \<times> 'w"

definition in_dir :: "(dir_read \<Rightarrow> wr_err option \<times> dir_read) \<Rightarrow> 'x world \<Rightarrow> string option \<times> 'x world" where
  "in_dir f w = (case f (w_dir w) of (e, d) \<Rightarrow> (map_option wr_text e, w\<lparr>w_dir := d\<rparr>))"

text \<open>\<open>errors.Join\<close>: nil when both are nil.\<close>

fun join_err :: "string option \<Rightarrow> string option \<Rightarrow> string option" where
  "join_err None b = b"
| "join_err (Some a) None = Some a"
| "join_err (Some a) (Some b) = Some (a @ [CHR 0x0A] @ b)"

definition grpcAdmin :: "'x handler \<Rightarrow> string \<Rightarrow> bool \<Rightarrow> 'x world AdminAPI" where
  "grpcAdmin h apiAddr mirror = \<lparr>
     ad_AddClient = (\<lambda>tag identity hint. AddClientToInboundViaAPI h apiAddr mirror tag identity
        (hint_ProtocolFallback hint) (hint_ClientEncryption hint)),
     ad_AddExistingClient = AddExistingClientToInboundViaAPI h apiAddr,
     ad_RemoveClient = (\<lambda>tag identity w.
        case RemoveUserFromInboundViaAPI h apiAddr tag identity w of
          (apiErr, w) \<Rightarrow>
            if \<not> mirror then (apiErr, w)
            else (case in_dir (RemoveUserFromInbound (w_writable w) tag identity) w of
                    (fileErr, w) \<Rightarrow> (join_err apiErr fileErr, w))),
     ad_AddInboundFromJSON = AddInboundFromJSONViaAPI h apiAddr,
     ad_RemoveInbound = RemoveInboundViaAPI h apiAddr\<rparr>"

definition fileAdmin :: "'x world AdminAPI" where
  "fileAdmin = \<lparr>
     ad_AddClient = (\<lambda>tag identity hint w.
        let (rnd, w) = draw w
        in case AddClientToInbound rnd (w_writable w) tag identity (hint_ClientEncryption hint) (w_dir w) of
             (r, d) \<Rightarrow> (map_sum wr_text id r, w\<lparr>w_dir := d\<rparr>)),
     ad_AddExistingClient = (\<lambda>tag identity storedJSON w.
        in_dir (AddExistingClientToInbound (w_writable w) tag identity storedJSON) w),
     ad_RemoveClient = (\<lambda>tag identity w. in_dir (RemoveUserFromInbound (w_writable w) tag identity) w),
     ad_AddInboundFromJSON = (\<lambda>_ w. (Some ''xray: AddInboundFromJSON requires xray_api_addr (gRPC); file-only mode cannot add runtime inbounds'', w)),
     ad_RemoveInbound = (\<lambda>_ w. (Some ''xray: RemoveInbound requires xray_api_addr (gRPC); file-only mode cannot remove runtime inbounds'', w))\<rparr>"

section \<open>Fan-out\<close>

definition isBenignExists :: "string \<Rightarrow> bool" where
  "isBenignExists e = Contains (ToLower e) ''exist''"

definition isBenignAbsent :: "string \<Rightarrow> bool" where
  "isBenignAbsent e = (let lower = ToLower e in
     Contains lower ''not found'' \<or> Contains lower ''no such'' \<or> Contains lower ''not enough information'')"

type_synonym 'w named_admin = "string \<times> 'w AdminAPI"

text \<open>The loop that every fan-out operation runs: each target in turn, whatever the others
  replied; \<open>benign\<close> errors count as success. The result lists, for each target, the failure.\<close>

fun run_targets ::
  "(string \<Rightarrow> bool) \<Rightarrow> ('w AdminAPI \<Rightarrow> 'w \<Rightarrow> string option \<times> 'w) \<Rightarrow> 'w named_admin list \<Rightarrow> 'w \<Rightarrow>
   string option list \<times> 'w" where
  "run_targets benign op [] w = ([], w)"
| "run_targets benign op ((name, a) # ts) w =
     (case op a w of
        (e, w1) \<Rightarrow>
          (case run_targets benign op ts w1 of
             (rs, w2) \<Rightarrow>
               ((case e of
                   None \<Rightarrow> None
                 | Some t \<Rightarrow> if benign t then None else Some (name @ '': '' @ t)) # rs, w2)))"

definition failures_of :: "string option list \<Rightarrow> string list" where
  "failures_of rs = List.map_filter id rs"

text \<open>The error of an additive operation, which fails when no node applied it, and the error of a
  removal, which fails when some node did not confirm it.\<close>

definition all_failed :: "string \<Rightarrow> string option list \<Rightarrow> string option" where
  "all_failed label rs = (if None \<in> set rs then None
     else Some (label @ '' failed on all '' @ Itoa (int (length rs)) @ '' nodes: '' @ Join (failures_of rs) ''; ''))"

definition any_failed :: "string \<Rightarrow> string option list \<Rightarrow> string option" where
  "any_failed label rs = (if failures_of rs = [] then None
     else Some (label @ '' failed on '' @ Itoa (int (length (failures_of rs))) @ '' node(s): '' @ Join (failures_of rs) ''; ''))"

fun add_targets ::
  "string \<Rightarrow> string \<Rightarrow> AddClientHint \<Rightarrow> 'w named_admin list \<Rightarrow> 'w \<Rightarrow> (string + jtext) list \<times> 'w" where
  "add_targets tag identity hint [] w = ([], w)"
| "add_targets tag identity hint ((name, a) # ts) w =
     (case ad_AddClient a tag identity hint w of
        (r, w1) \<Rightarrow>
          (case add_targets tag identity hint ts w1 of
             (rs, w2) \<Rightarrow> (map_sum (\<lambda>e. name @ '': '' @ e) id r # rs, w2)))"

definition first_stored :: "string \<Rightarrow> (string + jtext) list \<Rightarrow> string + jtext" where
  "first_stored label rs = (case List.map_filter (\<lambda>r. case r of Inr s \<Rightarrow> Some s | Inl _ \<Rightarrow> None) rs of
     s # _ \<Rightarrow> Inr s
   | [] \<Rightarrow> Inl (label @ '' failed on all '' @ Itoa (int (length rs)) @ '' nodes: '' @
       Join (List.map_filter (\<lambda>r. case r of Inl e \<Rightarrow> Some e | Inr _ \<Rightarrow> None) rs) ''; ''))"

definition fanoutAdmin :: "'w named_admin list \<Rightarrow> 'w AdminAPI" where
  "fanoutAdmin targets = \<lparr>
     ad_AddClient = (\<lambda>tag identity hint w.
        case add_targets tag identity hint targets w of (rs, w') \<Rightarrow> (first_stored (''AddClient '' @ identity @ ''@'' @ tag) rs, w')),
     ad_AddExistingClient = (\<lambda>tag identity storedJSON w.
        case run_targets isBenignExists (\<lambda>a. ad_AddExistingClient a tag identity storedJSON) targets w of
          (rs, w') \<Rightarrow> (all_failed (''AddExistingClient '' @ identity @ ''@'' @ tag) rs, w')),
     ad_RemoveClient = (\<lambda>tag identity w.
        case run_targets isBenignAbsent (\<lambda>a. ad_RemoveClient a tag identity) targets w of
          (rs, w') \<Rightarrow> (any_failed (''RemoveClient '' @ identity @ ''@'' @ tag) rs, w')),
     ad_AddInboundFromJSON = (\<lambda>raw w.
        case run_targets isBenignExists (\<lambda>a. ad_AddInboundFromJSON a raw) targets w of
          (rs, w') \<Rightarrow> (all_failed ''AddInboundFromJSON'' rs, w')),
     ad_RemoveInbound = (\<lambda>tag w.
        case run_targets isBenignAbsent (\<lambda>a. ad_RemoveInbound a tag) targets w of
          (rs, w') \<Rightarrow> (any_failed (''RemoveInbound '' @ tag) rs, w'))\<rparr>"

text \<open>The choice of the backend (\<^verbatim>\<open>internal/api/server.go\<close>): one gRPC backend per enabled node without
  a configuration directory, or the single local backend.\<close>

definition node_targets :: "'x handler \<Rightarrow> NodeConfig list \<Rightarrow> 'x world named_admin list" where
  "node_targets h nodes = map (\<lambda>n. (nc_Name n, grpcAdmin h (nc_APIAddr n) False)) (filter IsEnabled nodes)"

definition buildAdmin :: "'x handler \<Rightarrow> Config \<Rightarrow> 'x world AdminAPI" where
  "buildAdmin h cfg =
     (if c_Nodes cfg \<noteq> [] then fanoutAdmin (node_targets h (c_Nodes cfg))
      else let apiAddr = TrimSpace (c_XrayAPIAddr cfg)
           in if apiAddr \<noteq> [] then grpcAdmin h apiAddr (c_ConfigDir cfg \<noteq> []) else fileAdmin)"

section \<open>Restoring users\<close>

text \<open>A user as the callers pass it: name and stored credential.\<close>

type_synonym stored_user = "string \<times> jtext"

fun restore_loop :: "'x handler \<Rightarrow> string \<Rightarrow> string \<Rightarrow> stored_user list \<Rightarrow> nat \<Rightarrow> 'x world \<Rightarrow> nat \<times> 'x world" where
  "restore_loop h apiAddr inboundTag [] n w = (n, w)"
| "restore_loop h apiAddr inboundTag ((name, cc) # us) n w =
     (let username = TrimSpace name
      in if username = [] then restore_loop h apiAddr inboundTag us n w
         else case AddExistingClientToInboundViaAPI h apiAddr inboundTag username cc w of
           (Some _, w') \<Rightarrow> restore_loop h apiAddr inboundTag us n w'
         | (None, w') \<Rightarrow> restore_loop h apiAddr inboundTag us (Suc n) w')"

definition RestoreUsersToXray :: "'x handler \<Rightarrow> string \<Rightarrow> string \<Rightarrow> stored_user list \<Rightarrow> 'x world \<Rightarrow> nat \<times> 'x world" where
  "RestoreUsersToXray h apiAddr inboundTag us w =
     (if apiAddr = [] \<or> inboundTag = [] \<or> us = [] then (0, w)
      else restore_loop h apiAddr inboundTag us 0 w)"

record SyncResult =
  sr_Added :: nat
  sr_FailedUsers :: "string list"
  sr_FirstError :: string

fun sync_loop ::
  "bool \<Rightarrow> string \<Rightarrow> stored_user list \<Rightarrow> string list \<Rightarrow> SyncResult \<Rightarrow> dir_read \<Rightarrow> SyncResult \<times> string list \<times> dir_read" where
  "sync_loop wr inboundTag [] existing res d = (res, existing, d)"
| "sync_loop wr inboundTag ((name, cc) # us) existing res d =
     (let username = TrimSpace name
      in if username = [] \<or> username \<in> set existing then sync_loop wr inboundTag us existing res d
         else case AddExistingClientToInbound wr inboundTag username cc d of
           (Some e, d') \<Rightarrow> sync_loop wr inboundTag us existing
              (res\<lparr>sr_FailedUsers := sr_FailedUsers res @ [username],
                   sr_FirstError := (if sr_FirstError res = [] then wr_text e else sr_FirstError res)\<rparr>) d'
         | (None, d') \<Rightarrow> sync_loop wr inboundTag us (username # existing)
              (res\<lparr>sr_Added := Suc (sr_Added res)\<rparr>) d')"

definition SyncDBToConfig ::
  "bool \<Rightarrow> string \<Rightarrow> string \<Rightarrow> stored_user list \<Rightarrow> string list \<Rightarrow> dir_read \<Rightarrow> SyncResult \<times> string list \<times> dir_read" where
  "SyncDBToConfig wr configDir inboundTag us existing d =
     (let res = \<lparr>sr_Added = 0, sr_FailedUsers = [], sr_FirstError = []\<rparr>
      in if configDir = [] \<or> inboundTag = [] then (res, existing, d)
         else sync_loop wr inboundTag us existing res d)"

definition GetExistingIdentitiesInInbound ::
  "(parsed_dir \<Rightarrow> parsed_dir) \<Rightarrow> string \<Rightarrow> string \<Rightarrow> dir_read \<Rightarrow> string + string list" where
  "GetExistingIdentitiesInInbound order dir tag listing =
     (case ParseConfigDir dir listing of
        Inl _ \<Rightarrow> Inl ''parse config''
      | Inr parsed \<Rightarrow>
          (case find (\<lambda>ib. TrimSpace (pi_Tag ib) = tag) (concat (map snd (order parsed))) of
             Some ib \<Rightarrow> Inr (filter (\<lambda>i. i \<noteq> []) (map pc_Identity (pi_Clients ib)))
           | None \<Rightarrow> Inl (''inbound '' @ tag @ '' not found'')))"

end
