(* ===== verification/Admin_Properties.thy ===== *)
theory Admin_Properties
  imports Admin Writer_Properties "HOL-Library.Sublist"
begin

text \<open>
  Provisioning: what is stored for a client re-creates the same account, the two backends store
  the same credential, the fan-out tries every node and reports by its failure policy, and the
  write-back of users accounts for every user.
\<close>

section \<open>Stored credentials re-create the account\<close>

lemma stored_ok_simple:
  "stored_ok (zero_StoredClientConfig\<lparr>st_Protocol := p, st_ID := i, st_Flow := f, st_Encryption := e\<rparr>)"
  "stored_ok (zero_StoredClientConfig\<lparr>st_Protocol := p, st_ID := i, st_AlterId := 0\<rparr>)"
  "stored_ok (zero_StoredClientConfig\<lparr>st_Protocol := p, st_Password := w\<rparr>)"
  "stored_ok (zero_StoredClientConfig\<lparr>st_Protocol := p, st_Password := w, st_Method := m\<rparr>)"
  by (simp_all add: stored_ok_def zero_StoredClientConfig_def)

lemma lower_protocols:
  "ToLower ''vless'' = ''vless''" "ToLower ''vmess'' = ''vmess''" "ToLower ''trojan'' = ''trojan''"
  "ToLower ''shadowsocks'' = ''shadowsocks''" "ToLower ''socks'' = ''socks''"
  by code_simp+

lemma vmess_no_float: "map_of (buildVMessClient rnd u s) ''alterId'' \<noteq> Some (GoFloat a)"
  by (simp add: buildVMessClient_def Let_def)

lemma vmess_alter_zero: "(case map_of (buildVMessClient rnd u s) ''alterId'' of Some (GoFloat a) \<Rightarrow> a | _ \<Rightarrow> 0) = 0"
  using vmess_no_float [of rnd u s] by (auto split: option.splits go_value.splits)

lemmas account_defs = clientToStoredConfig_def clientMapToProtocolUser_def storedConfigToProtocolUser_def Let_def
  dec_enc_stored stored_ok_simple lower_protocols

text \<open>C24: A restored client is the client that was created. For every protocol, the account that
  \<open>storedConfigToProtocolUser\<close> builds from the stored credential (on restore, reconcile or
  re-enable) equals the account that was sent to Xray when the client was created.\<close>

theorem restored_account_same:
  assumes "build_client rnd proto username settings = Inr client"
    and "clientToStoredConfig proto client enc = Inr storedJSON"
    and "clientMapToProtocolUser proto client email = Inr user"
  shows "storedConfigToProtocolUser storedJSON email = Inr user"
proof -
  let ?p = "ToLower proto"
  from assms(1) consider "?p = ''vless''" | "?p = ''vmess''" "client = buildVMessClient rnd username settings"
    | "?p = ''trojan''" | "?p = ''shadowsocks''"
    by (auto simp: build_client_def Let_def split: if_splits)
  then show ?thesis
  proof cases
    case 2
    with assms(2,3) vmess_alter_zero [of rnd username settings] show ?thesis by (auto simp: account_defs)
  qed (use assms(2,3) in \<open>auto simp: account_defs\<close>)
qed

definition sample_rnd :: "nat list" where
  "sample_rnd = [0..<16]"

theorem restored_account_same_witness:
  "\<exists>client storedJSON user. build_client sample_rnd ''vless'' ''bob'' None = Inr client \<and>
     clientToStoredConfig ''vless'' client [] = Inr storedJSON \<and>
     clientMapToProtocolUser ''vless'' client ''bob'' = Inr user \<and> storedConfigToProtocolUser storedJSON ''bob'' = Inr user"
proof -
  let ?c = "projr (build_client sample_rnd ''vless'' ''bob'' None)"
  let ?s = "projr (clientToStoredConfig ''vless'' ?c [])"
  let ?u = "projr (clientMapToProtocolUser ''vless'' ?c ''bob'')"
  have "build_client sample_rnd ''vless'' ''bob'' None = Inr ?c" "clientToStoredConfig ''vless'' ?c [] = Inr ?s"
    "clientMapToProtocolUser ''vless'' ?c ''bob'' = Inr ?u"
    by code_simp+
  with restored_account_same [of sample_rnd "''vless''" "''bob''" None ?c "[]" ?s "''bob''" ?u] show ?thesis by blast
qed

text \<open>A VMess client keeps its alterId in the configuration file, but not in the database: the
  assertion to \<open>float64\<close> fails on the \<open>int\<close> that was just stored.\<close>

lemma vmess_alter_id_lost:
  "map_of (buildVMessClient sample_rnd ''bob'' (Some (JObj [(''clients'', JArr [JObj [(''alterId'', JInt 64)]])]))) ''alterId''
     = Some (GoInt 64) \<and>
   clientToStoredConfig ''vmess'' (buildVMessClient rnd u s) enc = Inr (Doc (enc_StoredClientConfig
     (zero_StoredClientConfig\<lparr>st_Protocol := ''vmess'', st_ID := str_of (buildVMessClient rnd u s) ''id'', st_AlterId := 0\<rparr>)))"
proof
  show "map_of (buildVMessClient sample_rnd ''bob'' (Some (JObj [(''clients'', JArr [JObj [(''alterId'', JInt 64)]])]))) ''alterId''
     = Some (GoInt 64)" by code_simp
  show "clientToStoredConfig ''vmess'' (buildVMessClient rnd u s) enc = Inr (Doc (enc_StoredClientConfig
     (zero_StoredClientConfig\<lparr>st_Protocol := ''vmess'', st_ID := str_of (buildVMessClient rnd u s) ''id'', st_AlterId := 0\<rparr>)))"
    by (simp add: clientToStoredConfig_def Let_def lower_protocols vmess_alter_zero)
qed

section \<open>The two backends\<close>

text \<open>C25: The backends agree. When both the file backend and the gRPC backend (with the same
  configuration directory and the same random bytes) create a client, they return the same
  stored credential.\<close>

theorem backends_agree:
  assumes "AddClientToInbound (w_rand w (w_draws w)) wr tag username enc (w_dir w) = (Inr s1, d')"
    and "AddClientToInboundViaAPI h addr True tag username fallback enc w = (Inr s2, w')"
  shows "s1 = s2"
proof -
  from assms(1) obtain fname ih client where f: "findInboundSettings (w_dir w) tag = Inr (fname, ih)"
    "build_client (w_rand w (w_draws w)) (ih_Protocol ih) (TrimSpace username) (ih_Settings ih) = Inr client"
    "clientToStoredConfig (ih_Protocol ih) client enc = Inr s1"
    by (auto simp: AddClientToInbound_def Let_def split: if_splits sum.splits prod.splits option.splits)
  with assms(2) show ?thesis
    by (auto simp: AddClientToInboundViaAPI_def Let_def draw_def split: if_splits sum.splits prod.splits option.splits)
qed

section \<open>Fan-out\<close>

text \<open>One attempt on each target in turn: what each replied, and the world afterwards.\<close>

fun attempts :: "('w AdminAPI \<Rightarrow> 'w \<Rightarrow> 'r \<times> 'w) \<Rightarrow> 'w named_admin list \<Rightarrow> 'w \<Rightarrow> 'r list \<times> 'w" where
  "attempts op [] w = ([], w)"
| "attempts op (t # ts) w =
     (case op (snd t) w of (e, w1) \<Rightarrow> (case attempts op ts w1 of (es, w2) \<Rightarrow> (e # es, w2)))"

text \<open>Whether a reply counts as applied: the node accepted, or its error text reads as benign (for the code
  that is a search for words in the text: isBenignExists, isBenignAbsent).\<close>

definition applied :: "(string \<Rightarrow> bool) \<Rightarrow> string option \<Rightarrow> bool" where
  "applied benign e = (case e of None \<Rightarrow> True | Some t \<Rightarrow> benign t)"

text \<open>What each node that did not apply the operation is reported with.\<close>

definition refusal :: "(string \<Rightarrow> bool) \<Rightarrow> 'w named_admin \<Rightarrow> string option \<Rightarrow> string option" where
  "refusal benign t e = (if applied benign e then None else Some (fst t @ '': '' @ the e))"

lemma run_targets_attempts:
  "run_targets benign op ts w = (map2 (refusal benign) ts (fst (attempts op ts w)), snd (attempts op ts w))"
proof (induction ts arbitrary: w)
  case (Cons t ts)
  obtain name a where t: "t = (name, a)" by force
  obtain e w1 where o: "op a w = (e, w1)" by force
  with Cons.IH [of w1] show ?case
    by (cases e) (simp_all add: t applied_def refusal_def split: prod.splits)
qed simp

lemma length_attempts [simp]: "length (fst (attempts op ts w)) = length ts"
  by (induction ts arbitrary: w) (simp_all split: prod.splits, metis fst_conv)

lemma refusals_None:
  "length ts = length es \<Longrightarrow> None \<in> set (map2 (refusal benign) ts es) \<longleftrightarrow> (\<exists>e\<in>set es. applied benign e)"
  "length ts = length es \<Longrightarrow> (\<forall>r\<in>set (map2 (refusal benign) ts es). r = None) \<longleftrightarrow> (\<forall>e\<in>set es. applied benign e)"
  by (induction ts es rule: list_induct2) (auto simp: refusal_def)

lemma add_targets_attempts:
  "add_targets tag identity hint ts w =
     (map2 (\<lambda>t. map_sum (\<lambda>e. fst t @ '': '' @ e) id) ts (fst (attempts (\<lambda>a. ad_AddClient a tag identity hint) ts w)),
      snd (attempts (\<lambda>a. ad_AddClient a tag identity hint) ts w))"
  by (induction ts arbitrary: w) (auto split: prod.splits)

lemma first_stored_find:
  "length ts = length rs \<Longrightarrow>
   first_stored label (map2 (\<lambda>t. map_sum (f t) id) ts rs) =
     (case find (\<lambda>r. \<not> isl r) rs of Some r \<Rightarrow> Inr (projr r)
      | None \<Rightarrow> Inl (label @ '' failed on all '' @ Itoa (int (length ts)) @ '' nodes: '' @
          Join (map2 (\<lambda>t r. f t (projl r)) ts rs) ''; ''))"
proof (cases "find (\<lambda>r. \<not> isl r) rs")
  case None
  assume l: "length ts = length rs"
  from None have "\<forall>r\<in>set rs. isl r" by (auto simp: find_None_iff)
  with l have "List.map_filter (\<lambda>r. case r of Inr s \<Rightarrow> Some s | Inl _ \<Rightarrow> None) (map2 (\<lambda>t. map_sum (f t) id) ts rs) = [] \<and>
      List.map_filter (\<lambda>r. case r of Inl e \<Rightarrow> Some e | Inr _ \<Rightarrow> None) (map2 (\<lambda>t. map_sum (f t) id) ts rs) = map2 (\<lambda>t r. f t (projl r)) ts rs"
    by (induction ts rs rule: list_induct2) (auto simp: List.map_filter_def isl_def)
  with None l show ?thesis by (simp add: first_stored_def)
next
  case (Some r)
  assume l: "length ts = length rs"
  from l Some have "\<exists>ss. List.map_filter (\<lambda>r. case r of Inr s \<Rightarrow> Some s | Inl _ \<Rightarrow> None) (map2 (\<lambda>t. map_sum (f t) id) ts rs) = projr r # ss"
  proof (induction ts rs rule: list_induct2)
    case (Cons t ts s rs)
    then show ?case by (cases s) (auto simp: map_filter_simps)
  qed simp
  with Some show ?thesis by (auto simp: first_stored_def)
qed

lemma all_failed_None: "all_failed label rs = None \<longleftrightarrow> None \<in> set rs"
  by (simp add: all_failed_def)

lemma any_failed_None: "any_failed label rs = None \<longleftrightarrow> (\<forall>r\<in>set rs. r = None)"
proof -
  have "failures_of rs = [] \<longleftrightarrow> (\<forall>r\<in>set rs. r = None)"
    by (induction rs) (auto simp: failures_of_def List.map_filter_def)
  then show ?thesis by (simp add: any_failed_def)
qed

text \<open>The result of an addition, which needs one node, and of a removal, which needs all; on failure the
  error text ends with what the nodes that did not apply it are reported with.\<close>

definition addition_policy :: "('w AdminAPI \<Rightarrow> 'w \<Rightarrow> string option \<times> 'w) \<Rightarrow> 'w named_admin list \<Rightarrow> 'w \<Rightarrow> string option \<times> 'w \<Rightarrow> bool" where
  "addition_policy op targets w result \<longleftrightarrow>
     (case attempts op targets w of (es, w') \<Rightarrow>
        snd result = w' \<and> (fst result = None \<longleftrightarrow> (\<exists>e\<in>set es. applied isBenignExists e)) \<and>
        (\<forall>text. fst result = Some text \<longrightarrow> suffix (Join (failures_of (map2 (refusal isBenignExists) targets es)) ''; '') text))"

definition removal_policy :: "('w AdminAPI \<Rightarrow> 'w \<Rightarrow> string option \<times> 'w) \<Rightarrow> 'w named_admin list \<Rightarrow> 'w \<Rightarrow> string option \<times> 'w \<Rightarrow> bool" where
  "removal_policy op targets w result \<longleftrightarrow>
     (case attempts op targets w of (es, w') \<Rightarrow>
        snd result = w' \<and> (fst result = None \<longleftrightarrow> (\<forall>e\<in>set es. applied isBenignAbsent e)) \<and>
        (\<forall>text. fst result = Some text \<longrightarrow> suffix (Join (failures_of (map2 (refusal isBenignAbsent) targets es)) ''; '') text))"

lemma all_failed_policy:
  "addition_policy op ts w (case run_targets isBenignExists op ts w of (rs, w') \<Rightarrow> (all_failed label rs, w'))"
  using refusals_None(1) [of ts "fst (attempts op ts w)" isBenignExists]
  by (auto simp: addition_policy_def run_targets_attempts all_failed_None split: prod.splits)
     (auto simp: all_failed_def suffix_def split: if_splits)

lemma any_failed_policy:
  "removal_policy op ts w (case run_targets isBenignAbsent op ts w of (rs, w') \<Rightarrow> (any_failed label rs, w'))"
  using refusals_None(2) [of ts "fst (attempts op ts w)" isBenignAbsent]
  by (auto simp: removal_policy_def run_targets_attempts any_failed_None split: prod.splits)
     (auto simp: any_failed_def suffix_def split: if_splits)

lemma fanout_policies:
  "addition_policy (\<lambda>a. ad_AddExistingClient a tag identity cred) ts w (ad_AddExistingClient (fanoutAdmin ts) tag identity cred w)"
  "addition_policy (\<lambda>a. ad_AddInboundFromJSON a raw) ts w (ad_AddInboundFromJSON (fanoutAdmin ts) raw w)"
  "removal_policy (\<lambda>a. ad_RemoveClient a tag identity) ts w (ad_RemoveClient (fanoutAdmin ts) tag identity w)"
  "removal_policy (\<lambda>a. ad_RemoveInbound a tag) ts w (ad_RemoveInbound (fanoutAdmin ts) tag w)"
  by (simp_all add: fanoutAdmin_def all_failed_policy any_failed_policy)

lemma fanout_created:
  "ad_AddClient (fanoutAdmin ts) tag identity hint w =
     (case attempts (\<lambda>a. ad_AddClient a tag identity hint) ts w of (rs, w') \<Rightarrow>
        (case find (\<lambda>r. \<not> isl r) rs of
           Some r \<Rightarrow> Inr (projr r)
         | None \<Rightarrow> Inl ((''AddClient '' @ identity @ ''@'' @ tag) @ '' failed on all '' @ Itoa (int (length ts)) @ '' nodes: '' @
             Join (map2 (\<lambda>t r. fst t @ '': '' @ projl r) ts rs) ''; ''), w'))"
proof -
  obtain rs w' where a: "attempts (\<lambda>a. ad_AddClient a tag identity hint) ts w = (rs, w')" by force
  then have "length ts = length rs" by (metis fst_conv length_attempts)
  from first_stored_find [OF this, of "''AddClient '' @ identity @ ''@'' @ tag" "\<lambda>t e. fst t @ '': '' @ e"] show ?thesis
    by (simp add: fanoutAdmin_def add_targets_attempts a)
qed


text \<open>A concrete Xray for examples: it accepts every user and remembers what it was sent.\<close>

type_synonym xray_log = "(string \<times> string \<times> alter_op) list"

definition sample_xray :: "xray_log handler" where
  "sample_xray = \<lparr>
     h_AlterInbound = (\<lambda>addr tag op x. (None, (addr, tag, op) # x)),
     h_LoadInbounds = (\<lambda>t. Inl ''syntax''),
     h_AddInbound = (\<lambda>addr ib x. (None, x)),
     h_RemoveInbound = (\<lambda>addr tag x. (Some ''handler not found'', x)),
     h_GetInboundUsers = (\<lambda>addr tag x. Inr [])\<rparr>"

definition sample_world :: "xray_log world" where
  "sample_world = \<lparr>w_rand = (\<lambda>n. replicate 32 n), w_draws = 0, w_dir = sample_dir, w_writable = True, w_xray = []\<rparr>"


definition sample_stored :: jtext where
  "sample_stored = Doc (enc_StoredClientConfig sample_trojan)"

theorem backends_agree_witness:
  "\<exists>s d' w'. AddClientToInbound (w_rand sample_world (w_draws sample_world)) True ''in'' ''bob'' [] (w_dir sample_world) = (Inr s, d') \<and>
     AddClientToInboundViaAPI sample_xray ''10.0.0.1:8080'' True ''in'' ''bob'' [] [] sample_world = (Inr s, w')"
proof -
  define p q where "p = AddClientToInbound (w_rand sample_world (w_draws sample_world)) True ''in'' ''bob'' [] (w_dir sample_world)"
    and "q = AddClientToInboundViaAPI sample_xray ''10.0.0.1:8080'' True ''in'' ''bob'' [] [] sample_world"
  have "isl (fst p) = False" "isl (fst q) = False" unfolding p_def q_def by code_simp+
  then obtain s1 s2 where pq: "p = (Inr s1, snd p)" "q = (Inr s2, snd q)"
    by (metis isl_def prod.collapse sum.exhaust)
  with backends_agree [of sample_world True "''in''" "''bob''" "[]" s1 "snd p" sample_xray "''10.0.0.1:8080''" "[]" s2 "snd q"]
  show ?thesis unfolding p_def q_def by metis
qed


text \<open>Every node generates its own credential: with two nodes that both accept the client, the
  stored credential is the first node's and the second node holds another one.\<close>

definition sample_pair :: "xray_log world named_admin list" where
  "sample_pair = [(''eu'', grpcAdmin sample_xray ''10.0.0.1:8080'' False), (''us'', grpcAdmin sample_xray ''10.0.0.2:8080'' False)]"

definition sample_hint :: AddClientHint where
  "sample_hint = \<lparr>hint_ProtocolFallback = ''vless'', hint_ClientEncryption = []\<rparr>"

definition sent_user :: "(string \<times> string \<times> alter_op) \<Rightarrow> proto_user option" where
  "sent_user e = (case snd (snd e) of AddUserOperation u \<Rightarrow> Some u | RemoveUserOperation _ \<Rightarrow> None)"

lemma fanout_AddClient:
  "ad_AddClient (fanoutAdmin ts) tag identity hint w = (case add_targets tag identity hint ts w of
     (rs, w') \<Rightarrow> (first_stored (''AddClient '' @ identity @ ''@'' @ tag) rs, w'))"
  by (simp add: fanoutAdmin_def)

lemma fanout_credentials_diverge:
  "let (r, w') = ad_AddClient (fanoutAdmin sample_pair) ''in'' ''bob'' sample_hint sample_world
   in length (w_xray w') = 2 \<and>
      map_option Inr (sent_user (w_xray w' ! 1)) = Some (storedConfigToProtocolUser (projr r) ''bob'') \<and>
      sent_user (w_xray w' ! 0) \<noteq> sent_user (w_xray w' ! 1)"
  unfolding fanout_AddClient by code_simp

section \<open>Write-back to the configuration\<close>

definition user_name :: "stored_user \<Rightarrow> string" where
  "user_name u = TrimSpace (fst u)"

text \<open>Writing users one after the other: what each write answered at the directory that the writes before
  it had left, and the directory afterwards.\<close>

fun write_outcomes :: "bool \<Rightarrow> string \<Rightarrow> stored_user list \<Rightarrow> dir_read \<Rightarrow> wr_err option list \<times> dir_read" where
  "write_outcomes wr tag [] d = ([], d)"
| "write_outcomes wr tag ((name, cc) # us) d =
     (case AddExistingClientToInbound wr tag (TrimSpace name) cc d of
        (e, d1) \<Rightarrow> (case write_outcomes wr tag us d1 of (es, d2) \<Rightarrow> (e # es, d2)))"

text \<open>The users whose write succeeded, and those whose write failed with their error.\<close>

definition succeeded :: "stored_user list \<Rightarrow> wr_err option list \<Rightarrow> stored_user list" where
  "succeeded us es = List.map_filter (\<lambda>(u, e). if e = None then Some u else None) (zip us es)"

definition refused :: "stored_user list \<Rightarrow> wr_err option list \<Rightarrow> (stored_user \<times> wr_err) list" where
  "refused us es = List.map_filter (\<lambda>(u, e). map_option (Pair u) e) (zip us es)"

lemma outcome_simps [simp]:
  "succeeded [] [] = []" "succeeded (u # us) (None # es) = u # succeeded us es" "succeeded (u # us) (Some e # es) = succeeded us es"
  "refused [] [] = []" "refused (u # us) (None # es) = refused us es" "refused (u # us) (Some e # es) = (u, e) # refused us es"
  by (simp_all add: succeeded_def refused_def List.map_filter_def)

fun first_error :: "(stored_user \<times> wr_err) list \<Rightarrow> string" where
  "first_error [] = []"
| "first_error ((u, e) # _) = wr_text e"

lemma failed_add_keeps: "AddExistingClientToInbound wr tag u cc d = (Some e, d') \<Longrightarrow> d' = d"
  by (auto simp: AddExistingClientToInbound_def addClientToFile_def writeConfigFile_def Let_def
      split: if_splits sum.splits option.splits dir_read.splits prod.splits)

lemma wr_text_nonempty: "wr_text e \<noteq> []"
  by (cases e) simp_all

text \<open>A write that fails leaves the directory, so that the directory is also what the successful writes
  alone make of it.\<close>

lemma only_successes_write:
  "write_outcomes wr tag us d = (es, d') \<Longrightarrow> \<exists>n. write_outcomes wr tag (succeeded us es) d = (replicate n None, d')"
proof (induction us arbitrary: d es)
  case (Cons u us)
  obtain name cc where u: "u = (name, cc)" by force
  obtain e d1 where a: "AddExistingClientToInbound wr tag (TrimSpace name) cc d = (e, d1)" by force
  with Cons.prems u obtain es1 where r: "write_outcomes wr tag us d1 = (es1, d')" "es = e # es1" by (auto split: prod.splits)
  from Cons.IH [OF r(1)] obtain n where n: "write_outcomes wr tag (succeeded us es1) d1 = (replicate n None, d')" ..
  show ?case
  proof (cases e)
    case None
    with a n r(2) u show ?thesis by (intro exI [of _ "Suc n"]) simp
  next
    case (Some x)
    with a failed_add_keeps have "d1 = d" by blast
    with Some n r(2) show ?thesis by auto
  qed
qed (auto intro: exI [of _ 0])

text \<open>The account of a run: which users were tried, and where each of them and of the others went.\<close>

definition accounted :: "bool \<Rightarrow> string \<Rightarrow> stored_user list \<Rightarrow> string list \<Rightarrow> dir_read \<Rightarrow> stored_user list \<Rightarrow> wr_err option list \<Rightarrow>
    string list \<Rightarrow> dir_read \<Rightarrow> bool" where
  "accounted wr tag us existing d tried es existing' d' \<longleftrightarrow>
     subseq tried us \<and> write_outcomes wr tag tried d = (es, d') \<and>
     existing' = rev (map user_name (succeeded tried es)) @ existing \<and>
     distinct (map user_name (succeeded tried es)) \<and>
     (\<forall>u\<in>set tried. user_name u \<noteq> [] \<and> user_name u \<notin> set existing) \<and>
     (\<forall>u\<in>set us. user_name u \<noteq> [] \<longrightarrow> user_name u \<in> set existing' \<union> set (map (\<lambda>f. user_name (fst f)) (refused tried es)))"

lemma succeeded_tried: "length us = length es \<Longrightarrow> set (succeeded us es) \<subseteq> set us"
proof (induction us es rule: list_induct2)
  case (Cons u us e es)
  then show ?case by (cases e) auto
qed simp

lemma length_outcomes: "write_outcomes wr tag us d = (es, d') \<Longrightarrow> length us = length es"
  by (induction us arbitrary: d es) (auto split: prod.splits)

lemma sync_loop_accounts:
  assumes "sync_loop wr tag us existing res d = (res', existing', d')"
  shows "\<exists>tried es. accounted wr tag us existing d tried es existing' d' \<and>
    sr_Added res' = sr_Added res + length (succeeded tried es) \<and>
    sr_FailedUsers res' = sr_FailedUsers res @ map (\<lambda>f. user_name (fst f)) (refused tried es) \<and>
    sr_FirstError res' = (if sr_FirstError res \<noteq> [] then sr_FirstError res else first_error (refused tried es))"
  using assms
proof (induction us arbitrary: existing res d)
  case Nil
  then show ?case by (intro exI [of _ "[]"]) (simp add: accounted_def)
next
  case (Cons u us)
  obtain name cc where u: "u = (name, cc)" by force
  let ?n = "TrimSpace name"
  have n: "user_name u = ?n" by (simp add: u user_name_def)
  show ?case
  proof (cases "?n = [] \<or> ?n \<in> set existing")
    case True
    with Cons.prems u have "sync_loop wr tag us existing res d = (res', existing', d')" by (auto simp: Let_def)
    from Cons.IH [OF this] obtain tried es where "accounted wr tag us existing d tried es existing' d' \<and>
      sr_Added res' = sr_Added res + length (succeeded tried es) \<and>
      sr_FailedUsers res' = sr_FailedUsers res @ map (\<lambda>f. user_name (fst f)) (refused tried es) \<and>
      sr_FirstError res' = (if sr_FirstError res \<noteq> [] then sr_FirstError res else first_error (refused tried es))" by blast
    with True n show ?thesis by (intro exI [of _ tried] exI [of _ es]) (auto simp: accounted_def)
  next
    case False
    obtain e d1 where a: "AddExistingClientToInbound wr tag ?n cc d = (e, d1)" by force
    show ?thesis
    proof (cases e)
      case None
      with False a u Cons.prems have "sync_loop wr tag us (?n # existing) (res\<lparr>sr_Added := Suc (sr_Added res)\<rparr>) d1 = (res', existing', d')"
        by (auto simp: Let_def)
      from Cons.IH [OF this] obtain tried es where t: "accounted wr tag us (?n # existing) d1 tried es existing' d'"
        "sr_Added res' = Suc (sr_Added res) + length (succeeded tried es)"
        "sr_FailedUsers res' = sr_FailedUsers res @ map (\<lambda>f. user_name (fst f)) (refused tried es)"
        "sr_FirstError res' = (if sr_FirstError res \<noteq> [] then sr_FirstError res else first_error (refused tried es))" by auto
      have "?n \<notin> set (map user_name (succeeded tried es))"
        using t(1) succeeded_tried length_outcomes by (fastforce simp: accounted_def)
      then have "accounted wr tag (u # us) existing d (u # tried) (None # es) existing' d'"
        using t(1) False None a n by (auto simp: accounted_def u)
      with t show ?thesis by (intro exI [of _ "u # tried"] exI [of _ "None # es"]) simp
    next
      case (Some err)
      let ?res = "res\<lparr>sr_FailedUsers := sr_FailedUsers res @ [?n],
        sr_FirstError := (if sr_FirstError res = [] then wr_text err else sr_FirstError res)\<rparr>"
      from Some False a u Cons.prems have "sync_loop wr tag us existing ?res d1 = (res', existing', d')" by (auto simp: Let_def)
      from Cons.IH [OF this] obtain tried es where t: "accounted wr tag us existing d1 tried es existing' d'"
        "sr_Added res' = sr_Added res + length (succeeded tried es)"
        "sr_FailedUsers res' = sr_FailedUsers res @ ?n # map (\<lambda>f. user_name (fst f)) (refused tried es)"
        "sr_FirstError res' = (if sr_FirstError res \<noteq> [] then sr_FirstError res else wr_text err)"
        using wr_text_nonempty [of err] by auto
      have "accounted wr tag (u # us) existing d (u # tried) (Some err # es) existing' d'"
        using t(1) False Some a n by (auto simp: accounted_def u)
      with t n show ?thesis by (intro exI [of _ "u # tried"] exI [of _ "Some err # es"]) (simp add: u)
    qed
  qed
qed

text \<open>C27: The write-back of database users accounts for every user. The users that are tried are a
  subsequence of the users given, with a name that is not blank and was not known before; each is written
  once, to the directory that the earlier writes left, and the directory at the end is what these writes
  (and so the successful ones alone) made of it. \<open>Added\<close> counts exactly the users whose write returned no
  error; exactly these become known, under pairwise distinct names. \<open>FailedUsers\<close> lists exactly the
  users whose write returned an error, in order, and \<open>FirstError\<close> is the text of the first of these
  errors, empty iff none failed. Every given user with a non-blank name ends up known or in
  \<open>FailedUsers\<close>.\<close>

theorem sync_db_to_config_accounts:
  assumes "SyncDBToConfig wr configDir tag us existing d = (res, existing', d')"
    and "configDir \<noteq> []" and "tag \<noteq> []"
  shows "\<exists>tried es. subseq tried us \<and> write_outcomes wr tag tried d = (es, d') \<and>
    (\<exists>n. write_outcomes wr tag (succeeded tried es) d = (replicate n None, d')) \<and>
    (\<forall>u\<in>set tried. user_name u \<noteq> [] \<and> user_name u \<notin> set existing) \<and>
    sr_Added res = length (succeeded tried es) \<and>
    existing' = rev (map user_name (succeeded tried es)) @ existing \<and> distinct (map user_name (succeeded tried es)) \<and>
    sr_FailedUsers res = map (\<lambda>f. user_name (fst f)) (refused tried es) \<and>
    sr_FirstError res = first_error (refused tried es) \<and> (sr_FirstError res = [] \<longleftrightarrow> sr_FailedUsers res = []) \<and>
    (\<forall>u\<in>set us. user_name u \<noteq> [] \<longrightarrow> user_name u \<in> set existing' \<union> set (sr_FailedUsers res))"
proof -
  from assms have "sync_loop wr tag us existing \<lparr>sr_Added = 0, sr_FailedUsers = [], sr_FirstError = []\<rparr> d = (res, existing', d')"
    by (simp add: SyncDBToConfig_def Let_def)
  from sync_loop_accounts [OF this] obtain tried es where t: "accounted wr tag us existing d tried es existing' d'"
    "sr_Added res = length (succeeded tried es)" "sr_FailedUsers res = map (\<lambda>f. user_name (fst f)) (refused tried es)"
    "sr_FirstError res = first_error (refused tried es)" by auto
  have "first_error xs = [] \<longleftrightarrow> xs = []" for xs using wr_text_nonempty by (cases xs) auto
  with t only_successes_write [of wr tag tried d es d'] show ?thesis unfolding accounted_def
    by (intro exI [of _ tried] exI [of _ es]) auto
qed

text \<open>Two users with credentials that can be written, one of them twice and with blanks, one with a
  credential that cannot be read.\<close>

definition sample_users :: "stored_user list" where
  "sample_users = [(''bob'', sample_stored), (''carol'', Plain ''broken''), ('' bob '', sample_stored), (''alice'', sample_stored)]"

theorem sync_db_to_config_accounts_witness:
  "\<exists>res existing' d'. SyncDBToConfig True ''/etc'' ''in'' sample_users [''alice''] sample_dir = (res, existing', d') \<and>
     existing' = [''bob'', ''alice''] \<and> sr_FailedUsers res = [''carol''] \<and> sr_FirstError res \<noteq> []"
proof -
  define p where "p = SyncDBToConfig True ''/etc'' ''in'' sample_users [''alice''] sample_dir"
  obtain res e d' where r: "p = (res, e, d')" by (metis prod.exhaust)
  have t: "fst (snd p) = [''bob'', ''alice'']" "sr_FailedUsers (fst p) = [''carol'']" unfolding p_def by code_simp+
  from sync_db_to_config_accounts [OF r [unfolded p_def]] have "sr_FirstError res = [] \<longleftrightarrow> sr_FailedUsers res = []" by auto
  with r t show ?thesis unfolding p_def by simp
qed

section \<open>The contract of a backend\<close>

text \<open>What the fan-out relies on from the backend of one node: a blank identity is refused with an error
  that does not read as one of the benign replies, and neither an Xray process nor a file is touched.\<close>

definition nodes_unchanged :: "'x world \<Rightarrow> 'x world \<Rightarrow> bool" where
  "nodes_unchanged w w' = (w_xray w' = w_xray w \<and> w_dir w' = w_dir w)"

lemma nodes_unchanged_refl [simp]: "nodes_unchanged w w"
  by (simp add: nodes_unchanged_def)

lemma nodes_unchanged_trans: "nodes_unchanged w w1 \<Longrightarrow> nodes_unchanged w1 w2 \<Longrightarrow> nodes_unchanged w w2"
  by (simp add: nodes_unchanged_def)

definition not_benign :: "string option \<Rightarrow> bool" where
  "not_benign e = (case e of None \<Rightarrow> False | Some t \<Rightarrow> \<not> isBenignExists t \<and> \<not> isBenignAbsent t)"

lemma not_benign_applied:
  "not_benign e \<Longrightarrow> \<not> applied isBenignExists e" "not_benign e \<Longrightarrow> \<not> applied isBenignAbsent e" "not_benign e \<Longrightarrow> e \<noteq> None"
  by (auto simp: not_benign_def applied_def split: option.splits)

locale admin_node =
  fixes a :: "'x world AdminAPI"
  assumes blank_add: "TrimSpace identity = [] \<Longrightarrow> ad_AddClient a tag identity hint w = (r, w') \<Longrightarrow> isl r \<and> nodes_unchanged w w'"
    and blank_existing: "TrimSpace identity = [] \<Longrightarrow> ad_AddExistingClient a tag identity cred w = (e, w') \<Longrightarrow> not_benign e \<and> nodes_unchanged w w'"
    and blank_remove: "TrimSpace identity = [] \<Longrightarrow> ad_RemoveClient a tag identity w = (e, w') \<Longrightarrow> not_benign e \<and> nodes_unchanged w w'"
begin

text \<open>So the fan-out never counts such a node as one that applied the operation.\<close>

lemma existing_not_applied:
  "TrimSpace identity = [] \<Longrightarrow> ad_AddExistingClient a tag identity cred w = (e, w') \<Longrightarrow> \<not> applied isBenignExists e \<and> nodes_unchanged w w'"
  using blank_existing not_benign_applied(1) by blast

lemma remove_not_applied:
  "TrimSpace identity = [] \<Longrightarrow> ad_RemoveClient a tag identity w = (e, w') \<Longrightarrow> \<not> applied isBenignAbsent e \<and> nodes_unchanged w w'"
  using blank_remove not_benign_applied(2) by blast

end

text \<open>Attempts that all end in a reply with a property and leave the world, do so together.\<close>

lemma attempts_all:
  assumes "\<And>t w e w'. t \<in> set ts \<Longrightarrow> op (snd t) w = (e, w') \<Longrightarrow> P e \<and> nodes_unchanged w w'"
  shows "attempts op ts w = (es, w') \<Longrightarrow> (\<forall>e\<in>set es. P e) \<and> nodes_unchanged w w' \<and> length es = length ts"
  using assms
proof (induction ts arbitrary: w es)
  case (Cons t ts)
  obtain e w1 where o: "op (snd t) w = (e, w1)" by force
  with Cons.prems(1) obtain es1 where r: "attempts op ts w1 = (es1, w')" "es = e # es1" by (auto split: prod.splits)
  have "P e \<and> nodes_unchanged w w1" by (rule Cons.prems(2) [OF _ o]) simp
  moreover have "(\<forall>e\<in>set es1. P e) \<and> nodes_unchanged w1 w' \<and> length es1 = length ts" by (rule Cons.IH [OF r(1)]) (rule Cons.prems(2), simp_all)
  ultimately show ?case using r(2) nodes_unchanged_trans by auto
qed simp

text \<open>The nodes of a fan-out, each with that contract. The fan-out over them refuses a blank identity as
  well; a removal does so as soon as there is a node.\<close>

locale admin_nodes =
  fixes ts :: "'x world named_admin list"
  assumes node: "t \<in> set ts \<Longrightarrow> admin_node (snd t)"
begin

lemma fanout_blank_add:
  assumes "TrimSpace identity = []" and run: "ad_AddClient (fanoutAdmin ts) tag identity hint w = (r, w')"
  shows "isl r \<and> nodes_unchanged w w'"
proof -
  obtain rs w1 where a: "attempts (\<lambda>a. ad_AddClient a tag identity hint) ts w = (rs, w1)" by force
  have "(\<forall>r\<in>set rs. isl r) \<and> nodes_unchanged w w1 \<and> length rs = length ts"
    by (rule attempts_all [OF _ a]) (rule admin_node.blank_add [OF node assms(1)])
  moreover from this have "find (\<lambda>r. \<not> isl r) rs = None" by (simp add: find_None_iff)
  ultimately show ?thesis using run by (auto simp: fanout_created a)
qed

lemma fanout_blank_existing:
  assumes "TrimSpace identity = []" and run: "ad_AddExistingClient (fanoutAdmin ts) tag identity cred w = (e, w')"
  shows "e \<noteq> None \<and> nodes_unchanged w w'"
proof -
  obtain es w1 where a: "attempts (\<lambda>a. ad_AddExistingClient a tag identity cred) ts w = (es, w1)" by force
  have "(\<forall>e\<in>set es. \<not> applied isBenignExists e) \<and> nodes_unchanged w w1 \<and> length es = length ts"
    by (rule attempts_all [OF _ a]) (rule admin_node.existing_not_applied [OF node assms(1)])
  with fanout_policies(1) [of tag identity cred ts w] run show ?thesis
    unfolding addition_policy_def by (auto simp: a)
qed

lemma fanout_blank_remove:
  assumes "TrimSpace identity = []" and run: "ad_RemoveClient (fanoutAdmin ts) tag identity w = (e, w')"
  shows "(e = None \<longleftrightarrow> ts = []) \<and> nodes_unchanged w w'"
proof -
  obtain es w1 where a: "attempts (\<lambda>a. ad_RemoveClient a tag identity) ts w = (es, w1)" by force
  have es: "(\<forall>e\<in>set es. \<not> applied isBenignAbsent e) \<and> nodes_unchanged w w1 \<and> length es = length ts"
    by (rule attempts_all [OF _ a]) (rule admin_node.remove_not_applied [OF node assms(1)])
  then have "(\<forall>e\<in>set es. applied isBenignAbsent e) \<longleftrightarrow> ts = []" by (cases es) auto
  with es fanout_policies(3) [of tag identity ts w] run show ?thesis
    unfolding removal_policy_def by (simp add: a)
qed

end

lemma required_not_benign:
  "not_benign (Some ''username required'')" "not_benign (Some ''email required'')"
  "not_benign (Some (''email required'' @ [CHR 0x0A] @ ''email required''))"
  by code_simp+

interpretation file_node: admin_node fileAdmin
  using required_not_benign
  by unfold_locales
     (auto simp: fileAdmin_def in_dir_def draw_def nodes_unchanged_def AddClientToInbound_def AddExistingClientToInbound_def
       RemoveUserFromInbound_def)

interpretation grpc_node: admin_node "grpcAdmin h addr mirror" for h addr mirror
  using required_not_benign
  by unfold_locales
     (auto simp: grpcAdmin_def in_dir_def nodes_unchanged_def AddClientToInboundViaAPI_def AddExistingClientToInboundViaAPI_def
       RemoveUserFromInboundViaAPI_def RemoveUserFromInbound_def split: if_splits)

interpretation enabled_nodes: admin_nodes "node_targets h nodes" for h nodes
  by (rule admin_nodes.intro) (auto simp: node_targets_def intro: grpc_node.admin_node_axioms)

text \<open>C28: A blank identity reaches no Xray process and no file, whatever backend the configuration selects:
  files, one node over gRPC, or the fan-out to the enabled nodes of a topology. Creating and re-adding a
  client with a blank identity is an error under every configuration. Removing one is an error as well,
  except under a topology whose nodes are all disabled: there the fan-out has no node to ask and the
  removal answers success.\<close>

theorem blank_identity_refused:
  assumes "TrimSpace identity = []"
  shows "isl (fst (ad_AddClient (buildAdmin h cfg) tag identity hint w)) \<and>
    fst (ad_AddExistingClient (buildAdmin h cfg) tag identity cred w) \<noteq> None \<and>
    (fst (ad_RemoveClient (buildAdmin h cfg) tag identity w) = None \<longleftrightarrow> c_Nodes cfg \<noteq> [] \<and> filter IsEnabled (c_Nodes cfg) = []) \<and>
    nodes_unchanged w (snd (ad_AddClient (buildAdmin h cfg) tag identity hint w)) \<and>
    nodes_unchanged w (snd (ad_AddExistingClient (buildAdmin h cfg) tag identity cred w)) \<and>
    nodes_unchanged w (snd (ad_RemoveClient (buildAdmin h cfg) tag identity w))"
proof (cases "c_Nodes cfg = []")
  case True
  then have "admin_node (buildAdmin h cfg)"
    by (simp add: buildAdmin_def Let_def file_node.admin_node_axioms grpc_node.admin_node_axioms)
  note node = admin_node.blank_add [OF this assms] admin_node.blank_existing [OF this assms] admin_node.blank_remove [OF this assms]
  show ?thesis using True node [OF prod.collapse [symmetric]] not_benign_applied(3) by blast
next
  case False
  then have fan: "buildAdmin h cfg = fanoutAdmin (node_targets h (c_Nodes cfg))" by (simp add: buildAdmin_def)
  note nodes = enabled_nodes.fanout_blank_add [OF assms] enabled_nodes.fanout_blank_existing [OF assms] enabled_nodes.fanout_blank_remove [OF assms]
  have "node_targets h (c_Nodes cfg) = [] \<longleftrightarrow> filter IsEnabled (c_Nodes cfg) = []" by (simp add: node_targets_def)
  with False show ?thesis unfolding fan using nodes [OF prod.collapse [symmetric]] by blast
qed

definition sample_two_nodes :: Config where
  "sample_two_nodes = default_config\<lparr>c_Nodes := [zero_node\<lparr>nc_Name := ''eu'', nc_APIAddr := ''10.0.0.1:8080''\<rparr>,
     zero_node\<lparr>nc_Name := ''us'', nc_APIAddr := ''10.0.0.2:8080'', nc_Enabled := Some False\<rparr>]\<rparr>"

theorem blank_identity_refused_witness:
  "isl (fst (ad_AddClient (buildAdmin sample_xray sample_two_nodes) ''in'' ''  '' sample_hint sample_world)) \<and>
   fst (ad_RemoveClient (buildAdmin sample_xray sample_two_nodes) ''in'' ''  '' sample_world) \<noteq> None"
proof -
  have "TrimSpace ''  '' = []" by code_simp
  moreover have "filter IsEnabled (c_Nodes sample_two_nodes) \<noteq> []"
    by (simp add: sample_two_nodes_def IsEnabled_def zero_node_def)
  ultimately show ?thesis using blank_identity_refused by blast
qed

end
