(* ===== verification/Syncer.thy ===== *)
theory Syncer
  imports Admin Db_Invariant
begin

text \<open>
  \<^verbatim>\<open>internal/syncer\<close>: reading the configuration directory into the database, writing database users
  back to the configuration files, restoring them to a restarted Xray, and the health status.
  The state of the service is a record of the database, the outside world and the status. The
  order in which Go ranges over the map of parsed files is the argument \<open>order\<close>, a function that
  permutes its argument. Log output is left out; the loops that call \<open>Sync\<close> are in \<open>Watcher\<close>.
\<close>

section \<open>Status\<close>

record DriftEntry =
  de_Username :: string
  de_InboundTag :: string

record SyncStatus =
  ys_LastSyncAt :: time
  ys_LastSyncOK :: bool
  ys_LastError :: string
  ys_ErrorsLastHour :: nat
  ys_DBUsers :: nat
  ys_ConfigUsers :: nat
  ys_Drift :: "DriftEntry list"
  ys_ProbeOK :: bool
  ys_ProbeError :: string

definition errorRingSize :: nat where
  "errorRingSize = 12"

type_synonym errorRing = "time list"

text \<open>\<open>idx\<close> is the first position whose time stamp is after the cutoff, or 0.\<close>

fun first_after :: "time \<Rightarrow> nat \<Rightarrow> time list \<Rightarrow> nat" where
  "first_after cutoff i [] = 0"
| "first_after cutoff i (ts # r) = (if ts > cutoff then i else first_after cutoff (Suc i) r)"

definition push :: "time \<Rightarrow> errorRing \<Rightarrow> errorRing" where
  "push t r =
     (let timestamps = r @ [t];
          cutoff = t - Hour;
          idx = first_after cutoff 0 timestamps;
          timestamps = (if idx > 0 then drop idx timestamps else timestamps)
      in if length timestamps > errorRingSize * 4
         then drop (length timestamps - errorRingSize * 4) timestamps else timestamps)"

definition countSince :: "time \<Rightarrow> errorRing \<Rightarrow> nat" where
  "countSince cutoff r = length (filter (\<lambda>t. t > cutoff) r)"

record statusState =
  st_probeOK :: bool
  st_probeErr :: string
  st_lastAt :: time
  st_lastOK :: bool
  st_lastErr :: string
  st_errors :: errorRing
  st_dbUsers :: nat
  st_confUsers :: nat
  st_drift :: "DriftEntry list"

definition snapshot :: "time \<Rightarrow> statusState \<Rightarrow> SyncStatus" where
  "snapshot now s = \<lparr>ys_LastSyncAt = st_lastAt s, ys_LastSyncOK = st_lastOK s, ys_LastError = st_lastErr s,
     ys_ErrorsLastHour = countSince (now - Hour) (st_errors s), ys_DBUsers = st_dbUsers s,
     ys_ConfigUsers = st_confUsers s, ys_Drift = st_drift s, ys_ProbeOK = st_probeOK s,
     ys_ProbeError = st_probeErr s\<rparr>"

definition record_sync :: "time \<Rightarrow> bool \<Rightarrow> string \<Rightarrow> nat \<Rightarrow> nat \<Rightarrow> DriftEntry list \<Rightarrow> statusState \<Rightarrow> statusState" where
  "record_sync at' ok errMsg dbUsers confUsers drift s =
     s\<lparr>st_lastAt := at', st_lastOK := ok, st_lastErr := errMsg, st_dbUsers := dbUsers,
       st_confUsers := confUsers, st_drift := drift,
       st_errors := (if ok then st_errors s else push at' (st_errors s))\<rparr>"

definition setProbe :: "bool \<Rightarrow> string \<Rightarrow> statusState \<Rightarrow> statusState" where
  "setProbe ok errMsg s = s\<lparr>st_probeOK := ok, st_probeErr := errMsg\<rparr>"

section \<open>State\<close>

record 'x service =
  sv_db :: db
  sv_world :: "'x world"
  sv_status :: statusState

definition Probe :: "Config \<Rightarrow> 'x service \<Rightarrow> 'x service" where
  "Probe cfg s = s\<lparr>sv_status :=
     (if c_ConfigDir cfg = [] \<or> w_writable (sv_world s) then setProbe True [] (sv_status s)
      else setProbe False ''permission denied'' (sv_status s))\<rparr>"

definition Status :: "time \<Rightarrow> 'x service \<Rightarrow> SyncStatus" where
  "Status now s = snapshot now (sv_status s)"

section \<open>Users of the configuration\<close>

definition sanitizeUsername :: "string \<Rightarrow> string" where
  "sanitizeUsername s = take 64 (Replacer
     [('' '', ''_''), ([CHR 0x09], ''_''), ([CHR 0x0A], []), ([CHR 0x0D], []),
      ([CHR 0x27], []), ([CHR 0x22], []), ('';'', []), (''--'', [])] (TrimSpace s))"

definition generateToken :: "nat list \<Rightarrow> string" where
  "generateToken rnd = hex_string (take 32 rnd)"

definition link_client :: "int \<Rightarrow> int \<Rightarrow> jtext \<Rightarrow> 'x service \<Rightarrow> string option \<times> 'x service" where
  "link_client userID inboundID cc s = (case UpsertUserClient userID inboundID cc (sv_db s) of
     Inl _ \<Rightarrow> (Some ''upsert user client'', s)
   | Inr db' \<Rightarrow> (None, s\<lparr>sv_db := db'\<rparr>))"

definition syncClient :: "time \<Rightarrow> int \<Rightarrow> ParsedClient \<Rightarrow> 'x service \<Rightarrow> string option \<times> 'x service" where
  "syncClient now inboundID client s =
     (let identity = sanitizeUsername (pc_Identity client)
      in if identity = [] then (Some ''empty client identity'', s)
         else case GetUserByUsername identity (sv_db s) of
           Inl _ \<Rightarrow> (Some ''lookup user'', s)
         | Inr (Some user) \<Rightarrow> link_client (u_ID user) inboundID (pc_ConfigJSON client) s
         | Inr None \<Rightarrow>
             (let (r1, w) = draw (sv_world s); (r2, w) = draw w; s = s\<lparr>sv_world := w\<rparr>
              in case CreateUser now identity identity (generateToken r1) (generateToken r2) (sv_db s) of
                   Inl _ \<Rightarrow> (Some (''create user '' @ identity), s)
                 | Inr (db', user) \<Rightarrow> link_client (u_ID user) inboundID (pc_ConfigJSON client) (s\<lparr>sv_db := db'\<rparr>)))"

section \<open>Inbounds of the configuration\<close>

definition delete_stale :: "string \<Rightarrow> string list \<Rightarrow> db \<Rightarrow> db" where
  "delete_stale file presentTags db =
     (case GetInboundTagsNotInFile file presentTags db of
        Inl _ \<Rightarrow> db
      | Inr removedTags \<Rightarrow>
          fold (\<lambda>tag d. case DeleteInboundByTag tag d of Inl _ \<Rightarrow> d | Inr d' \<Rightarrow> d') removedTags db)"

definition sync_inbound :: "time \<Rightarrow> string \<Rightarrow> ParsedInbound \<Rightarrow> 'x service \<Rightarrow> 'x service" where
  "sync_inbound now file ib s =
     (case UpsertInbound now (pi_Tag ib) (pi_Protocol ib) (pi_Port ib) file (pi_RawJSON ib) (sv_db s) of
        Inl _ \<Rightarrow> s
      | Inr (db', ibID) \<Rightarrow> fold (\<lambda>client s. snd (syncClient now ibID client s)) (pi_Clients ib) (s\<lparr>sv_db := db'\<rparr>))"

definition sync_file :: "time \<Rightarrow> string \<times> ParsedInbound list \<Rightarrow> 'x service \<Rightarrow> 'x service" where
  "sync_file now entry s =
     (let (file, inbounds) = entry
      in fold (sync_inbound now file) inbounds
           (s\<lparr>sv_db := delete_stale file (map pi_Tag inbounds) (sv_db s)\<rparr>))"

section \<open>Write-back\<close>

record write_back =
  wb_drift :: "DriftEntry list"
  wb_firstErr :: string
  wb_dbUsers :: nat
  wb_confUsers :: nat
  wb_dir :: dir_read

definition to_stored :: "user_client_for_inbound list \<Rightarrow> stored_user list" where
  "to_stored us = map (\<lambda>u. (XrayClientEmail u, ci_ClientConfig u)) us"

definition write_back_inbound :: "(parsed_dir \<Rightarrow> parsed_dir) \<Rightarrow> Config \<Rightarrow> bool \<Rightarrow> db \<Rightarrow> inbound \<Rightarrow> write_back \<Rightarrow> write_back" where
  "write_back_inbound order cfg wr db ib b =
     (let us = (case ListUserClientsByInboundTag (ib_Tag ib) db of Inl _ \<Rightarrow> [] | Inr us \<Rightarrow> us)
      in if us = [] then b
         else
           (let b = b\<lparr>wb_dbUsers := wb_dbUsers b + length us\<rparr>
            in case GetExistingIdentitiesInInbound order (c_ConfigDir cfg) (ib_Tag ib) (wb_dir b) of
                 Inl e \<Rightarrow> if wb_firstErr b = []
                   then b\<lparr>wb_firstErr := ''inbound '' @ ib_Tag ib @ '': '' @ e\<rparr> else b
               | Inr idents \<Rightarrow>
                   (case SyncDBToConfig wr (c_ConfigDir cfg) (ib_Tag ib) (to_stored us) idents (wb_dir b) of
                      (res, _, d') \<Rightarrow>
                        b\<lparr>wb_confUsers := wb_confUsers b + length (remdups idents),
                          wb_drift := wb_drift b @ map (\<lambda>u. \<lparr>de_Username = u, de_InboundTag = ib_Tag ib\<rparr>) (sr_FailedUsers res),
                          wb_firstErr := (if sr_FirstError res \<noteq> [] \<and> wb_firstErr b = []
                            then ''inbound '' @ ib_Tag ib @ '': '' @ sr_FirstError res else wb_firstErr b),
                          wb_dir := d'\<rparr>)))"

definition write_back_all :: "(parsed_dir \<Rightarrow> parsed_dir) \<Rightarrow> Config \<Rightarrow> bool \<Rightarrow> db \<Rightarrow> dir_read \<Rightarrow> write_back" where
  "write_back_all order cfg wr db d =
     (let b = \<lparr>wb_drift = [], wb_firstErr = [], wb_dbUsers = 0, wb_confUsers = 0, wb_dir = d\<rparr>
      in if TrimSpace (c_XrayAPIAddr cfg) = [] then b
         else fold (write_back_inbound order cfg wr db) (case ListInbounds db of Inl _ \<Rightarrow> [] | Inr ibs \<Rightarrow> ibs) b)"

section \<open>Synchronisation\<close>

definition syncXray ::
  "(parsed_dir \<Rightarrow> parsed_dir) \<Rightarrow> Config \<Rightarrow> time \<Rightarrow> 'x service \<Rightarrow> string option \<times> 'x service" where
  "syncXray order cfg now s =
     (case ParseConfigDirWith (c_ConfigDir cfg) (c_VLESSClientEncryption cfg) (w_dir (sv_world s)) of
        Inl _ \<Rightarrow> (Some ''parse config dir'', s)
      | Inr parsed \<Rightarrow>
          (let s = fold (sync_file now) (order parsed) s;
               b = write_back_all order cfg (w_writable (sv_world s)) (sv_db s) (w_dir (sv_world s));
               ok = (wb_firstErr b = [] \<and> wb_drift b = [])
           in (None, s\<lparr>sv_world := (sv_world s)\<lparr>w_dir := wb_dir b\<rparr>,
                sv_status := record_sync now ok (wb_firstErr b) (wb_dbUsers b) (wb_confUsers b) (wb_drift b) (sv_status s)\<rparr>)))"

text \<open>The stored text of the inbound made from the configuration. The source prints the tag into
  JSON text without escaping: a tag with a quotation mark, a backslash or a control character
  does not give the document meant.\<close>

definition fallback_raw :: "string \<Rightarrow> string \<Rightarrow> int \<Rightarrow> jtext" where
  "fallback_raw tag protocol port =
     (if list_ex (\<lambda>c. c = CHR 0x22 \<or> c = CHR 0x5C \<or> c < CHR 0x20) tag
      then Plain (''{\"tag\":\"'' @ tag @ ''\",\"protocol\":\"'' @ protocol @ ''\",\"port\":'' @ Itoa port @ ''}'')
      else Doc (JObj [(''tag'', JStr tag), (''protocol'', JStr protocol), (''port'', JInt port)]))"

definition ensure_api_inbound :: "Config \<Rightarrow> time \<Rightarrow> db \<Rightarrow> db" where
  "ensure_api_inbound cfg now db =
     (let tag = TrimSpace (c_APIUserInboundTag cfg)
      in if tag = [] \<or> TrimSpace (c_APIUserInboundProtocol cfg) = [] then db
         else if list_ex (\<lambda>ib. ib_Tag ib = tag) (case ListInbounds db of Inl _ \<Rightarrow> [] | Inr ibs \<Rightarrow> ibs) then db
         else
           (let protocol = ToLower (TrimSpace (c_APIUserInboundProtocol cfg));
                port = (if c_APIUserInboundPort cfg \<le> 0 then 443 else c_APIUserInboundPort cfg)
            in if protocol \<in> {''vless'', ''vmess'', ''trojan'', ''shadowsocks''}
               then (case UpsertInbound now tag protocol port ''api-managed'' (fallback_raw tag protocol port) db of
                       Inl _ \<Rightarrow> db | Inr (db', _) \<Rightarrow> db')
               else db))"

definition Sync :: "(parsed_dir \<Rightarrow> parsed_dir) \<Rightarrow> Config \<Rightarrow> time \<Rightarrow> 'x service \<Rightarrow> string option \<times> 'x service" where
  "Sync order cfg now s =
     (let s = s\<lparr>sv_db := ensure_api_inbound cfg now (sv_db s)\<rparr>
      in if IsXrayEnabled cfg then syncXray order cfg now s else (None, s))"

definition restore_inbound :: "'x handler \<Rightarrow> string \<Rightarrow> db \<Rightarrow> inbound \<Rightarrow> 'x world \<Rightarrow> 'x world" where
  "restore_inbound h apiAddr db ib w =
     (case ListUserClientsByInboundTag (ib_Tag ib) db of
        Inl _ \<Rightarrow> w
      | Inr us \<Rightarrow> if us = [] then w else snd (RestoreUsersToXray h apiAddr (ib_Tag ib) (to_stored us) w))"

definition RestoreOnStartup :: "'x handler \<Rightarrow> Config \<Rightarrow> 'x service \<Rightarrow> 'x service" where
  "RestoreOnStartup h cfg s =
     (let apiAddr = TrimSpace (c_XrayAPIAddr cfg)
      in if apiAddr = [] then s
         else case ListInbounds (sv_db s) of
           Inl _ \<Rightarrow> s
         | Inr ibs \<Rightarrow> s\<lparr>sv_world := fold (restore_inbound h apiAddr (sv_db s)) ibs (sv_world s)\<rparr>)"

end
