(* ===== verification/Syncer_Properties.thy ===== *)
theory Syncer_Properties
  imports Syncer Samples Admin_Properties "HOL-Library.Multiset"
begin

text \<open>
  Synchronisation performs database steps only, makes the inbounds of the database those of the
  configuration files, creates users with harmless names only, and its error window counts the
  failures of the last hour.
\<close>

section \<open>Synchronisation is a sequence of database operations\<close>

text \<open>What a synchronisation does to the database is a sequence of four operations: a property of
  databases that these keep is kept, whatever the configuration directory holds, in whatever order
  its files are visited and wherever an operation fails. \<open>K\<close> is what the property asks of the
  credentials that are stored.\<close>

definition clients_ok :: "(jtext \<Rightarrow> bool) \<Rightarrow> ParsedInbound \<Rightarrow> bool" where
  "clients_ok K ib = list_all (\<lambda>pc. K (pc_ConfigJSON pc)) (pi_Clients ib)"

definition entries_ok :: "(jtext \<Rightarrow> bool) \<Rightarrow> parsed_dir \<Rightarrow> bool" where
  "entries_ok K es = list_all (\<lambda>e. list_all (clients_ok K) (snd e)) es"

lemma entries_ok_True [simp]: "clients_ok (\<lambda>_. True) ib" "entries_ok (\<lambda>_. True) es"
  by (simp_all add: entries_ok_def clients_ok_def list_all_iff)

locale sync_stable =
  fixes P :: "db \<Rightarrow> bool" and K :: "jtext \<Rightarrow> bool"
  assumes client: "P db \<Longrightarrow> K cc \<Longrightarrow> UpsertUserClient u i cc db = Inr db' \<Longrightarrow> P db'"
    and create: "P db \<Longrightarrow> CreateUser now n e t f db = Inr (db', user) \<Longrightarrow> P db'"
    and inbound: "P db \<Longrightarrow> UpsertInbound now tag proto port cf raw db = Inr (db', ib) \<Longrightarrow> P db'"
    and delete_tag: "P db \<Longrightarrow> DeleteInboundByTag tag db = Inr db' \<Longrightarrow> P db'"
begin

lemma fold_stable:
  "(\<And>x s. x \<in> set xs \<Longrightarrow> P (h s) \<Longrightarrow> P (h (f x s))) \<Longrightarrow> P (h s) \<Longrightarrow> P (h (fold f xs s))"
  by (induction xs arbitrary: s) auto

lemma link_client_stable: "K cc \<Longrightarrow> P (sv_db s) \<Longrightarrow> P (sv_db (snd (link_client u i cc s)))"
  by (auto simp: link_client_def split: sum.splits intro: client)

lemma syncClient_stable: "K (pc_ConfigJSON c) \<Longrightarrow> P (sv_db s) \<Longrightarrow> P (sv_db (snd (syncClient now i c s)))"
  by (auto simp: syncClient_def Let_def split: sum.splits option.splits prod.splits
      intro!: link_client_stable intro: create)

lemma fold_clients_stable:
  "list_all (\<lambda>pc. K (pc_ConfigJSON pc)) cs \<Longrightarrow> P (sv_db s) \<Longrightarrow> P (sv_db (fold (\<lambda>c s. snd (syncClient now i c s)) cs s))"
  by (rule fold_stable [of _ sv_db]) (auto simp: list_all_iff intro: syncClient_stable)

lemma sync_inbound_stable: "clients_ok K ib \<Longrightarrow> P (sv_db s) \<Longrightarrow> P (sv_db (sync_inbound now cf ib s))"
  by (auto simp: sync_inbound_def clients_ok_def split: sum.splits prod.splits intro!: fold_clients_stable intro: inbound)

lemma fold_delete_stable: "P db \<Longrightarrow> P (fold (\<lambda>tag d. case DeleteInboundByTag tag d of Inl _ \<Rightarrow> d | Inr d' \<Rightarrow> d') tags db)"
  by (rule fold_stable [of _ "\<lambda>d. d"]) (auto split: sum.splits intro: delete_tag)

lemma delete_stale_stable: "P db \<Longrightarrow> P (delete_stale cf tags db)"
  by (auto simp: delete_stale_def split: sum.splits intro!: fold_delete_stable)

lemma fold_inbounds_stable:
  "list_all (clients_ok K) ibs \<Longrightarrow> P (sv_db s) \<Longrightarrow> P (sv_db (fold (sync_inbound now cf) ibs s))"
  by (rule fold_stable [of _ sv_db]) (auto simp: list_all_iff intro: sync_inbound_stable)

lemma sync_file_stable: "list_all (clients_ok K) (snd e) \<Longrightarrow> P (sv_db s) \<Longrightarrow> P (sv_db (sync_file now e s))"
  by (auto simp: sync_file_def Let_def split: prod.splits intro!: fold_inbounds_stable delete_stale_stable)

lemma fold_files_stable: "entries_ok K es \<Longrightarrow> P (sv_db s) \<Longrightarrow> P (sv_db (fold (sync_file now) es s))"
  by (rule fold_stable [of _ sv_db]) (auto simp: entries_ok_def list_all_iff [of _ es] intro: sync_file_stable)

lemma upsert_stable: "P db \<Longrightarrow> P (case UpsertInbound now tag proto port cf raw db of Inl _ \<Rightarrow> db | Inr (db', _) \<Rightarrow> db')"
  by (auto split: sum.splits intro: inbound)

lemma ensure_stable: "P db \<Longrightarrow> P (ensure_api_inbound cfg now db)"
  unfolding ensure_api_inbound_def Let_def by (simp add: upsert_stable)

lemma Sync_stable:
  assumes "\<And>parsed. ParseConfigDirWith (c_ConfigDir cfg) (c_VLESSClientEncryption cfg) (w_dir (sv_world s)) = Inr parsed \<Longrightarrow>
      entries_ok K (order parsed)"
    and "P (sv_db s)"
  shows "P (sv_db (snd (Sync order cfg now s)))"
  using assms by (auto simp: Sync_def syncXray_def Let_def split: sum.splits intro!: fold_files_stable ensure_stable)

end

text \<open>Ranging over a Go map visits every entry once, in any order.\<close>

definition visits_all :: "(parsed_dir \<Rightarrow> parsed_dir) \<Rightarrow> bool" where
  "visits_all order \<longleftrightarrow> (\<forall>parsed. mset (order parsed) = mset parsed)"

lemma visits_all_id [simp]: "visits_all id"
  by (simp add: visits_all_def)

text \<open>So what is visited holds the encodings of credentials only.\<close>

lemma visited_credentials:
  assumes "ParseConfigDirWith dir m listing = Inr parsed" and "visits_all order"
  shows "entries_ok is_credential (order parsed)"
proof -
  have "set (order parsed) = set parsed" using assms(2) by (metis visits_all_def set_mset_mset)
  then show ?thesis using dir_credentials [OF assms(1)] by (fastforce simp: entries_ok_def clients_ok_def list_all_iff)
qed

interpretation synced: sync_stable db_reachable "\<lambda>_. True"
  by unfold_locales (blast intro: reach_step step_client step_create step_inbound step_delete_tag)+

lemmas fold_files_reachable = synced.fold_files_stable [simplified]

lemmas ensure_reachable = synced.ensure_stable

lemmas Sync_reachable = synced.Sync_stable [simplified]

section \<open>The inbounds follow the files\<close>

text \<open>What the database holds for a tag: protocol, port, file and raw configuration.\<close>

definition entry_of :: "string \<Rightarrow> ParsedInbound \<Rightarrow> string \<times> int \<times> string \<times> jtext" where
  "entry_of file ib = (pi_Protocol ib, pi_Port ib, file, pi_RawJSON ib)"

definition view :: "db \<Rightarrow> string \<rightharpoonup> string \<times> int \<times> string \<times> jtext" where
  "view db t = map_option (\<lambda>ib. (ib_Protocol ib, ib_Port ib, ib_ConfigFile ib, ib_RawConfig ib))
     (find (\<lambda>ib. ib_Tag ib = t) (inbounds db))"

abbreviation file_of :: "string \<times> int \<times> string \<times> jtext \<Rightarrow> string" where
  "file_of e \<equiv> fst (snd (snd e))"

lemma find_filter_tag:
  "find (\<lambda>ib. ib_Tag ib = t) (filter (\<lambda>ib. ib_Tag ib \<noteq> u) ibs) =
     (if t = u then None else find (\<lambda>ib. ib_Tag ib = t) ibs)"
  by (induction ibs) auto

lemma find_update_tag:
  assumes "\<And>ib. ib_Tag (f ib) = ib_Tag ib"
  shows "find (\<lambda>ib. ib_Tag ib = t) (update_where (\<lambda>ib. ib_Tag ib = u) f ibs) =
     (if t = u then map_option f (find (\<lambda>ib. ib_Tag ib = t) ibs) else find (\<lambda>ib. ib_Tag ib = t) ibs)"
  by (induction ibs) (auto simp: update_where_def assms)

lemma find_append: "find P (xs @ ys) = (case find P xs of None \<Rightarrow> find P ys | Some x \<Rightarrow> Some x)"
  by (induction xs) auto

lemma find_tag_None: "find (\<lambda>ib. ib_Tag ib = t) ibs = None \<longleftrightarrow> \<not> list_ex (\<lambda>ib. ib_Tag ib = t) ibs"
  by (induction ibs) auto

lemma DeleteInboundByTag_view:
  assumes "conn_ok db"
  shows "\<exists>db'. DeleteInboundByTag u db = Inr db' \<and> conn_ok db' \<and> view db' = (view db)(u := None)"
  using assms by (auto simp: DeleteInboundByTag_def with_conn_def delete_inbounds_def delete_where_def view_def
      find_filter_tag fun_eq_iff)

lemma fold_delete_view:
  "conn_ok db \<Longrightarrow> conn_ok (fold (\<lambda>tag d. case DeleteInboundByTag tag d of Inl _ \<Rightarrow> d | Inr d' \<Rightarrow> d') ts db) \<and>
    view (fold (\<lambda>tag d. case DeleteInboundByTag tag d of Inl _ \<Rightarrow> d | Inr d' \<Rightarrow> d') ts db) =
      (\<lambda>t. if t \<in> set ts then None else view db t)"
proof (induction ts arbitrary: db)
  case (Cons u ts)
  obtain db' where d: "DeleteInboundByTag u db = Inr db'" "conn_ok db'" "view db' = (view db)(u := None)"
    using DeleteInboundByTag_view [OF Cons.prems] by blast
  with Cons.IH [of db'] show ?case by (auto simp: fun_eq_iff)
qed simp

lemma find_distinct:
  assumes "distinct (map ib_Tag ibs)" and "ib \<in> set ibs"
  shows "find (\<lambda>x. ib_Tag x = ib_Tag ib) ibs = Some ib"
  using assms by (induction ibs) (auto simp: image_iff)

lemma delete_stale_view:
  assumes "conn_ok db" and "distinct (map ib_Tag (inbounds db))"
  shows "conn_ok (delete_stale file tags db) \<and>
    view (delete_stale file tags db) t = (case view db t of None \<Rightarrow> None
      | Some e \<Rightarrow> if file_of e = file \<and> t \<notin> set tags then None else Some e)"
proof -
  let ?rem = "map ib_Tag (filter (\<lambda>ib. ib_ConfigFile ib = file \<and> ib_Tag ib \<notin> set tags) (inbounds db))"
  have g: "GetInboundTagsNotInFile file tags db = Inr ?rem"
    using assms(1) by (simp add: GetInboundTagsNotInFile_def with_conn_def)
  have "t \<in> set ?rem \<longleftrightarrow> (\<exists>e. view db t = Some e \<and> file_of e = file \<and> t \<notin> set tags)"
  proof
    assume "t \<in> set ?rem"
    then obtain ib where ib: "ib \<in> set (inbounds db)" "ib_ConfigFile ib = file" "ib_Tag ib \<notin> set tags" "t = ib_Tag ib" by auto
    with find_distinct [OF assms(2) ib(1)] show "\<exists>e. view db t = Some e \<and> file_of e = file \<and> t \<notin> set tags"
      by (simp add: view_def)
  next
    assume "\<exists>e. view db t = Some e \<and> file_of e = file \<and> t \<notin> set tags"
    then obtain ib where f: "find (\<lambda>ib. ib_Tag ib = t) (inbounds db) = Some ib" "ib_ConfigFile ib = file" "t \<notin> set tags"
      by (auto simp: view_def)
    then have "ib \<in> set (inbounds db)" "ib_Tag ib = t" by (auto simp: find_Some_iff in_set_conv_nth)
    with f show "t \<in> set ?rem" by auto
  qed
  with fold_delete_view [OF assms(1), of ?rem] g show ?thesis
    by (auto simp: delete_stale_def split: option.splits)
qed

lemma UpsertInbound_view:
  assumes "conn_ok db"
  shows "\<exists>db' i. UpsertInbound now tag proto port cf raw db = Inr (db', i) \<and> conn_ok db' \<and>
    view db' = (view db)(tag \<mapsto> (proto, port, cf, raw))"
proof (cases "list_ex (\<lambda>ib. ib_Tag ib = tag) (inbounds db)")
  case True
  then obtain ib where "find (\<lambda>ib. ib_Tag ib = tag) (inbounds db) = Some ib"
    using find_tag_None [of tag "inbounds db"] by auto
  with True assms show ?thesis
    by (auto simp: UpsertInbound_def Let_def view_def find_update_tag fun_eq_iff)
next
  case False
  then have "find (\<lambda>ib. ib_Tag ib = tag) (inbounds db) = None" by (simp add: find_tag_None)
  with False assms show ?thesis
    by (auto simp: UpsertInbound_def Let_def view_def find_append fun_eq_iff map_option_case split: option.split)
qed

lemma link_client_view:
  "view (sv_db (snd (link_client u i cc s))) = view (sv_db s) \<and> conn_ok (sv_db (snd (link_client u i cc s))) = conn_ok (sv_db s)"
  by (auto simp: link_client_def UpsertUserClient_def view_def split: sum.splits if_splits)

lemma CreateUser_view: "CreateUser now n e t f db = Inr (db', u) \<Longrightarrow> view db' = view db \<and> conn_ok db' = conn_ok db"
  by (auto simp: CreateUser_def Let_def view_def split: if_splits)

lemma syncClient_view:
  "view (sv_db (snd (syncClient now i c s))) = view (sv_db s) \<and> conn_ok (sv_db (snd (syncClient now i c s))) = conn_ok (sv_db s)"
  by (auto simp: syncClient_def link_client_view Let_def draw_def dest: CreateUser_view split: sum.split option.split)

lemma fold_clients_view:
  "view (sv_db (fold (\<lambda>c s. snd (syncClient now i c s)) cs s)) = view (sv_db s) \<and>
   conn_ok (sv_db (fold (\<lambda>c s. snd (syncClient now i c s)) cs s)) = conn_ok (sv_db s)"
  by (induction cs arbitrary: s) (simp_all add: syncClient_view)

lemma sync_inbound_view:
  assumes "conn_ok (sv_db s)"
  shows "conn_ok (sv_db (sync_inbound now file ib s)) \<and>
    view (sv_db (sync_inbound now file ib s)) = (view (sv_db s))(pi_Tag ib \<mapsto> entry_of file ib)"
  using UpsertInbound_view [OF assms, of now "pi_Tag ib" "pi_Protocol ib" "pi_Port ib" "file" "pi_RawJSON ib"]
  by (auto simp: sync_inbound_def fold_clients_view entry_of_def)

lemma fold_inbounds_view:
  "conn_ok (sv_db s) \<Longrightarrow> distinct (map pi_Tag ibs) \<Longrightarrow> conn_ok (sv_db (fold (sync_inbound now file) ibs s)) \<and>
    view (sv_db (fold (sync_inbound now file) ibs s)) t =
      (case find (\<lambda>ib. pi_Tag ib = t) ibs of Some ib \<Rightarrow> Some (entry_of file ib) | None \<Rightarrow> view (sv_db s) t)"
proof (induction ibs arbitrary: s)
  case (Cons ib ibs)
  have "find (\<lambda>x. pi_Tag x = pi_Tag ib) ibs = None" using Cons.prems(2) by (auto simp: find_None_iff image_iff)
  with Cons.IH [of "sync_inbound now file ib s"] sync_inbound_view [OF Cons.prems(1), of now "file" ib] Cons.prems(2)
  show ?case by (auto split: option.splits)
qed simp

lemma reachable_tags: "db_reachable db \<Longrightarrow> distinct (map ib_Tag (inbounds db))"
  using reachable_inv by (auto simp: inv_defs)

lemma find_tag_iff: "find (\<lambda>ib. pi_Tag ib = t) ibs = None \<longleftrightarrow> t \<notin> set (map pi_Tag ibs)"
  by (auto simp: find_None_iff)

lemma sync_file_view:
  assumes "conn_ok (sv_db s)" and "db_reachable (sv_db s)" and "distinct (map pi_Tag ibs)"
  shows "conn_ok (sv_db (sync_file now (cf, ibs) s)) \<and>
    view (sv_db (sync_file now (cf, ibs) s)) t =
      (case find (\<lambda>ib. pi_Tag ib = t) ibs of
         Some ib \<Rightarrow> Some (entry_of cf ib)
       | None \<Rightarrow> (case view (sv_db s) t of None \<Rightarrow> None | Some e \<Rightarrow> if file_of e = cf then None else Some e))"
proof -
  let ?s = "s\<lparr>sv_db := delete_stale cf (map pi_Tag ibs) (sv_db s)\<rparr>"
  have d: "conn_ok (sv_db ?s)" "view (sv_db ?s) t = (case view (sv_db s) t of None \<Rightarrow> None
      | Some e \<Rightarrow> if file_of e = cf \<and> t \<notin> set (map pi_Tag ibs) then None else Some e)" for t
    using delete_stale_view [OF assms(1) reachable_tags [OF assms(2)]] by simp_all
  have "sync_file now (cf, ibs) s = fold (sync_inbound now cf) ibs ?s" by (simp add: sync_file_def)
  with fold_inbounds_view [OF d(1) assms(3), of now cf t] d(2) [of t] find_tag_iff [of t ibs] show ?thesis
    by (auto split: option.splits)
qed

definition tags_of :: "parsed_dir \<Rightarrow> string list" where
  "tags_of es = concat (map (\<lambda>e. map pi_Tag (snd e)) es)"

definition mirrored :: "db \<Rightarrow> string \<times> ParsedInbound list \<Rightarrow> bool" where
  "mirrored db e = (\<forall>t v. view db t = Some v \<and> file_of v = fst e \<longleftrightarrow>
     (\<exists>ib\<in>set (snd e). pi_Tag ib = t \<and> v = entry_of (fst e) ib))"

lemma mirroredD:
  "mirrored db e \<Longrightarrow> (view db t = Some v \<and> file_of v = fst e) = (\<exists>ib\<in>set (snd e). pi_Tag ib = t \<and> v = entry_of (fst e) ib)"
  unfolding mirrored_def by blast

lemma find_tag_Some: "distinct (map pi_Tag ibs) \<Longrightarrow> find (\<lambda>ib. pi_Tag ib = t) ibs = Some ib \<longleftrightarrow> ib \<in> set ibs \<and> pi_Tag ib = t"
  by (induction ibs) (auto simp: image_iff)

lemma sync_file_mirrors:
  assumes "conn_ok (sv_db s)" and "db_reachable (sv_db s)" and "distinct (map pi_Tag ibs)"
  shows "mirrored (sv_db (sync_file now (cf, ibs) s)) (cf, ibs)"
proof -
  have "view (sv_db (sync_file now (cf, ibs) s)) t = Some v \<and> file_of v = cf \<longleftrightarrow>
      (\<exists>ib\<in>set ibs. pi_Tag ib = t \<and> v = entry_of cf ib)" for t v
  proof (cases "find (\<lambda>ib. pi_Tag ib = t) ibs")
    case None
    then have "t \<notin> set (map pi_Tag ibs)" by (simp add: find_tag_iff)
    with None show ?thesis using sync_file_view [OF assms, of now cf t] by (auto split: option.splits if_splits)
  next
    case (Some ib)
    then have "view (sv_db (sync_file now (cf, ibs) s)) t = Some (entry_of cf ib)"
      using sync_file_view [OF assms, of now cf t] by simp
    moreover have "ib' = ib" if "ib' \<in> set ibs" "pi_Tag ib' = t" for ib'
      using Some that find_tag_Some [OF assms(3), of t ib'] by simp
    ultimately show ?thesis using Some find_tag_Some [OF assms(3), of t ib] by (auto simp: entry_of_def)
  qed
  then show ?thesis by (simp add: mirrored_def)
qed

lemma sync_file_keeps_mirrored:
  assumes "conn_ok (sv_db s)" and "db_reachable (sv_db s)" and "distinct (map pi_Tag ibs)"
    and "mirrored (sv_db s) e" and "fst e \<noteq> cf" and "set (map pi_Tag (snd e)) \<inter> set (map pi_Tag ibs) = {}"
  shows "mirrored (sv_db (sync_file now (cf, ibs) s)) e"
proof -
  have f: "file_of (entry_of cf ib) = cf" for ib by (simp add: entry_of_def)
  have "view (sv_db (sync_file now (cf, ibs) s)) t = Some v \<and> file_of v = fst e \<longleftrightarrow>
      view (sv_db s) t = Some v \<and> file_of v = fst e" for t v
  proof (cases "find (\<lambda>ib. pi_Tag ib = t) ibs")
    case None
    then show ?thesis using sync_file_view [OF assms(1-3), of now cf t] assms(5) by (auto split: option.splits)
  next
    case (Some ib)
    then have "t \<notin> set (map pi_Tag (snd e))" using assms(6) find_tag_Some [OF assms(3)] by auto
    then have "\<not> (view (sv_db s) t = Some v \<and> file_of v = fst e)" 
      unfolding mirroredD [OF assms(4)] by auto
    moreover have "view (sv_db (sync_file now (cf, ibs) s)) t = Some (entry_of cf ib)"
      using sync_file_view [OF assms(1-3), of now cf t] Some by simp
    ultimately show ?thesis using f [of ib] assms(5) by auto
  qed
  with assms(4) show ?thesis by (simp add: mirrored_def)
qed

lemma sync_files_mirror:
  "conn_ok (sv_db s) \<Longrightarrow> db_reachable (sv_db s) \<Longrightarrow> distinct (map fst es) \<Longrightarrow> distinct (tags_of es) \<Longrightarrow>
   conn_ok (sv_db (fold (sync_file now) es s)) \<and> (\<forall>e\<in>set es. mirrored (sv_db (fold (sync_file now) es s)) e)"
proof (induction es rule: rev_induct)
  case (snoc x es)
  obtain cf ibs where x: "x = (cf, ibs)" by force
  let ?s = "fold (sync_file now) es s"
  from snoc have IH: "conn_ok (sv_db ?s)" "\<forall>e\<in>set es. mirrored (sv_db ?s) e" and ibs: "distinct (map pi_Tag ibs)"
    by (auto simp: tags_of_def x)
  note r = IH(1) fold_files_reachable [OF snoc.prems(2)] ibs
  have "mirrored (sv_db (sync_file now (cf, ibs) ?s)) e" if "e \<in> set es" for e
  proof (rule sync_file_keeps_mirrored [OF r])
    show "mirrored (sv_db ?s) e" using IH(2) that by blast
    show "fst e \<noteq> cf" using snoc.prems(3) that x by force
    show "set (map pi_Tag (snd e)) \<inter> set (map pi_Tag ibs) = {}" using snoc.prems(4) that x by (fastforce simp: tags_of_def)
  qed
  with sync_file_mirrors [OF r] sync_file_view [OF r] x show ?case by auto
qed simp

lemma mirrored_rows:
  assumes "mirrored db (cf, ibs)" and "distinct (map ib_Tag (inbounds db))"
  shows "(\<lambda>r. (ib_Tag r, ib_Protocol r, ib_Port r, ib_RawConfig r)) ` {r \<in> set (inbounds db). ib_ConfigFile r = cf} =
    (\<lambda>ib. (pi_Tag ib, pi_Protocol ib, pi_Port ib, pi_RawJSON ib)) ` set ibs" (is "?L = ?R")
proof (intro set_eqI iffI)
  fix v assume "v \<in> ?L"
  then obtain r where r: "r \<in> set (inbounds db)" "ib_ConfigFile r = cf" "v = (ib_Tag r, ib_Protocol r, ib_Port r, ib_RawConfig r)" by blast
  with find_distinct [OF assms(2) r(1)] have "view db (ib_Tag r) = Some (ib_Protocol r, ib_Port r, cf, ib_RawConfig r)"
    by (simp add: view_def)
  with assms(1) have "\<exists>ib\<in>set ibs. pi_Tag ib = ib_Tag r \<and> (ib_Protocol r, ib_Port r, cf, ib_RawConfig r) = entry_of cf ib"
    using mirroredD [OF assms(1), of "ib_Tag r" "(ib_Protocol r, ib_Port r, cf, ib_RawConfig r)"] by simp
  then obtain ib where "ib \<in> set ibs" "pi_Tag ib = ib_Tag r" "(ib_Protocol r, ib_Port r, cf, ib_RawConfig r) = entry_of cf ib"
    by blast
  with r(3) have "v = (pi_Tag ib, pi_Protocol ib, pi_Port ib, pi_RawJSON ib)" by (simp add: entry_of_def)
  then show "v \<in> ?R" using \<open>ib \<in> set ibs\<close> by (rule image_eqI)
next
  fix v assume "v \<in> ?R"
  then obtain ib where ib: "ib \<in> set ibs" "v = (pi_Tag ib, pi_Protocol ib, pi_Port ib, pi_RawJSON ib)" by blast
  with mirroredD [OF assms(1), of "pi_Tag ib" "entry_of cf ib"] have "view db (pi_Tag ib) = Some (entry_of cf ib)" by auto
  then obtain r where f: "find (\<lambda>r. ib_Tag r = pi_Tag ib) (inbounds db) = Some r"
    "(ib_Protocol r, ib_Port r, ib_ConfigFile r, ib_RawConfig r) = entry_of cf ib" by (auto simp: view_def)
  then have r: "r \<in> set (inbounds db)" "ib_Tag r = pi_Tag ib" by (auto simp: find_Some_iff in_set_conv_nth)
  with f(2) ib(2) have "v = (ib_Tag r, ib_Protocol r, ib_Port r, ib_RawConfig r)" "ib_ConfigFile r = cf"
    by (simp_all add: entry_of_def)
  then show "v \<in> ?L" using r(1) by (intro image_eqI [of _ _ r]) simp_all
qed

lemma mset_tags_of: "mset (tags_of es) = (\<Sum>e\<in>#mset es. mset (map pi_Tag (snd e)))"
  by (induction es) (simp_all add: tags_of_def)

lemma upsert_conn: "conn_ok (case UpsertInbound now t p n f raw db of Inl _ \<Rightarrow> db | Inr (db', _) \<Rightarrow> db') = conn_ok db"
  by (simp add: UpsertInbound_def Let_def split: option.split)

lemma ensure_conn: "conn_ok (ensure_api_inbound cfg now db) = conn_ok db"
  unfolding ensure_api_inbound_def Let_def by (simp add: upsert_conn)

text \<open>C30: After a synchronisation the database mirrors the configuration files. When the directory
  is parsed, no tag occurs twice in it and the database works, then for every parsed file the
  inbound rows of that file are exactly the inbounds of the file, with the same tag, protocol,
  port and raw configuration, in whatever order the files are visited; an inbound that was
  dropped from its file is gone.\<close>

theorem sync_mirrors_config:
  assumes "Sync order cfg now s = (None, s')" and "IsXrayEnabled cfg"
    and "ParseConfigDirWith (c_ConfigDir cfg) (c_VLESSClientEncryption cfg) (w_dir (sv_world s)) = Inr parsed"
    and "distinct (map fst parsed)" and "distinct (tags_of parsed)"
    and "mset (order parsed) = mset parsed"
    and "conn_ok (sv_db s)" and "db_reachable (sv_db s)"
  shows "\<forall>(cf, ibs)\<in>set parsed.
    (\<lambda>r. (ib_Tag r, ib_Protocol r, ib_Port r, ib_RawConfig r)) ` {r \<in> set (inbounds (sv_db s')). ib_ConfigFile r = cf} =
    (\<lambda>ib. (pi_Tag ib, pi_Protocol ib, pi_Port ib, pi_RawJSON ib)) ` set ibs"
proof -
  let ?s = "s\<lparr>sv_db := ensure_api_inbound cfg now (sv_db s)\<rparr>"
  let ?f = "fold (sync_file now) (order parsed) ?s"
  have db: "sv_db s' = sv_db ?f"
    using assms(1,2,3) by (auto simp: Sync_def syncXray_def Let_def)
  have set: "set (order parsed) = set parsed" using assms(6) by (metis set_mset_mset)
  have r: "conn_ok (sv_db ?s)" "db_reachable (sv_db ?s)"
    using assms(7,8) by (simp_all add: ensure_conn ensure_reachable)
  have "mset (map fst (order parsed)) = mset (map fst parsed)" "mset (tags_of (order parsed)) = mset (tags_of parsed)"
    using assms(6) by (simp_all add: mset_tags_of)
  then have d: "distinct (map fst (order parsed))" "distinct (tags_of (order parsed))"
    using assms(4,5) mset_eq_imp_distinct_iff by blast+
  from sync_files_mirror [OF r d] have m: "\<forall>e\<in>set parsed. mirrored (sv_db s') e" by (simp add: set db)
  have "distinct (map ib_Tag (inbounds (sv_db s')))"
    using fold_files_reachable [OF r(2)] reachable_tags by (simp add: db)
  with m mirrored_rows show ?thesis by fast
qed

definition sample_sync_dir :: dir_read where
  "sample_sync_dir = DirEntries [(''a.json'', False, FileData (Doc (JObj [(''inbounds'', JArr
     [JObj [(''tag'', JStr ''in''), (''port'', JInt 443), (''protocol'', JStr ''trojan''), (''settings'', JObj [(''clients'', JArr
        [JObj [(''password'', JStr ''p''), (''email'', JStr ''alice'')]])])]])])))]"

definition sample_service :: "xray_log service" where
  "sample_service = \<lparr>sv_db = sample_db, sv_world = sample_world\<lparr>w_dir := sample_sync_dir\<rparr>,
     sv_status = \<lparr>st_probeOK = True, st_probeErr = [], st_lastAt = 0, st_lastOK = False, st_lastErr = [],
       st_errors = [], st_dbUsers = 0, st_confUsers = 0, st_drift = []\<rparr>\<rparr>"

definition sample_sync_config :: Config where
  "sample_sync_config = default_config\<lparr>c_ConfigDir := ''/d''\<rparr>"

theorem sync_mirrors_config_witness:
  "\<exists>s'. Sync id sample_sync_config 0 sample_service = (None, s') \<and>
    ib_Tag ` {r \<in> set (inbounds (sv_db s')). ib_ConfigFile r = ''/d/a.json''} = {''in''}"
proof -
  define parsed where "parsed = projr (ParseConfigDirWith ''/d'' (c_VLESSClientEncryption sample_sync_config) sample_sync_dir)"
  have en: "IsXrayEnabled sample_sync_config" "c_ConfigDir sample_sync_config = ''/d''" by code_simp+
  have p: "ParseConfigDirWith ''/d'' (c_VLESSClientEncryption sample_sync_config) sample_sync_dir = Inr parsed"
    "distinct (map fst parsed)" "distinct (tags_of parsed)" "map (\<lambda>(f, ibs). (f, map pi_Tag ibs)) parsed = [(''/d/a.json'', [''in''])]"
    unfolding parsed_def by code_simp+
  obtain s' where s': "Sync id sample_sync_config 0 sample_service = (None, s')"
    using p(1) en by (auto simp: Sync_def syncXray_def Let_def sample_service_def sample_world_def)
  from p(4) obtain ibs where ibs: "parsed = [(''/d/a.json'', ibs)]" "map pi_Tag ibs = [''in'']"
    by (auto simp: map_eq_Cons_conv)
  from sync_mirrors_config [OF s' en(1), of parsed] p en(2) sample_reachable sample_conn
  have "\<forall>(cf, ibs)\<in>set parsed. (\<lambda>r. (ib_Tag r, ib_Protocol r, ib_Port r, ib_RawConfig r)) ` {r \<in> set (inbounds (sv_db s')). ib_ConfigFile r = cf} =
    (\<lambda>ib. (pi_Tag ib, pi_Protocol ib, pi_Port ib, pi_RawJSON ib)) ` set ibs"
    by (simp add: sample_service_def sample_world_def)
  then have "fst ` (\<lambda>r. (ib_Tag r, ib_Protocol r, ib_Port r, ib_RawConfig r)) ` {r \<in> set (inbounds (sv_db s')). ib_ConfigFile r = ''/d/a.json''} =
    fst ` (\<lambda>ib. (pi_Tag ib, pi_Protocol ib, pi_Port ib, pi_RawJSON ib)) ` set ibs"
    by (simp add: ibs(1))
  then have "ib_Tag ` {r \<in> set (inbounds (sv_db s')). ib_ConfigFile r = ''/d/a.json''} = set (map pi_Tag ibs)"
    by (simp add: image_image)
  with s' ibs(2) show ?thesis by auto
qed

text \<open>A configuration directory that cannot be read is an error of \<open>Sync\<close> that the status does not show.\<close>

lemma parse_error_not_in_status:
  "w_dir (sv_world s) = DirError \<Longrightarrow> IsXrayEnabled cfg \<Longrightarrow>
   fst (Sync order cfg now s) \<noteq> None \<and> Status t (snd (Sync order cfg now s)) = Status t s"
  by (simp add: Sync_def syncXray_def Let_def ParseConfigDirWith_def parseConfigDirWith_def Status_def)

section \<open>Names of users from the configuration\<close>

definition unsafe_chars :: string where
  "unsafe_chars = [CHR '' '', CHR 0x09, CHR 0x0A, CHR 0x0D, CHR 0x27, CHR 0x22, CHR '';'']"

text \<open>A user name taken from the configuration is harmless: at most 64 bytes, without spaces, tabs,
  line breaks, quotation marks or semicolons, whatever the configuration calls the client.\<close>

lemma sanitized_username_safe:
  "length (sanitizeUsername s) \<le> 64 \<and> (\<forall>c. c \<in> set unsafe_chars \<longrightarrow> c \<notin> set (sanitizeUsername s))"
proof -
  let ?ps = "[('' '', ''_''), ([CHR 0x09], ''_''), ([CHR 0x0A], []), ([CHR 0x0D], []),
      ([CHR 0x27], []), ([CHR 0x22], []), ('';'', []), (''--'', [])]"
  have "\<exists>v. ([c], v) \<in> set ?ps \<and> (\<forall>p\<in>set ?ps. c \<notin> set (snd p))" if "c \<in> set unsafe_chars" for c
    using that unfolding unsafe_chars_def by auto
  then have "c \<notin> set (Replacer ?ps t)" if "c \<in> set unsafe_chars" for c t
    using that Replacer_removes by blast
  then show ?thesis unfolding sanitizeUsername_def by (auto dest: in_set_takeD)
qed

text \<open>The replacement of double dashes is not repeated: removing what stands between two dashes
  joins them.\<close>

lemma double_dash_survives: "sanitizeUsername [CHR ''a'', CHR ''-'', CHR 0x27, CHR ''-'', CHR ''b''] = ''a--b''"
  by code_simp

section \<open>The window of errors\<close>

lemma first_after_eq:
  "\<exists>x\<in>set xs. x > c \<Longrightarrow> first_after c i xs = i + length (takeWhile (\<lambda>t. \<not> t > c) xs)"
proof (induction xs arbitrary: i)
  case (Cons a xs)
  show ?case
  proof (cases "a > c")
    case False
    with Cons.prems have "\<exists>x\<in>set xs. x > c" by auto
    with Cons.IH [of "Suc i"] False show ?thesis by simp
  qed simp
qed simp

lemma push_eq: "push t r = (let ts = dropWhile (\<lambda>x. \<not> x > t - Hour) (r @ [t]) in drop (length ts - 48) ts)"
proof -
  have "first_after (t - Hour) 0 (r @ [t]) = length (takeWhile (\<lambda>x. \<not> x > t - Hour) (r @ [t]))"
    using first_after_eq [of "r @ [t]" "t - Hour" 0] by simp
  then show ?thesis by (simp add: push_def Let_def errorRingSize_def dropWhile_eq_drop)
qed

lemma sorted_count_suffix:
  "sorted xs \<Longrightarrow> length (filter (\<lambda>t. t > c) (drop j xs)) = min (length (drop j xs)) (length (filter (\<lambda>t. t > (c::int)) xs))"
proof (induction xs arbitrary: j)
  case (Cons x xs)
  show ?case
  proof (cases j)
    case 0
    show ?thesis unfolding 0 drop_0 by (rule min.absorb2 [symmetric], rule length_filter_le)
  next
    case (Suc i)
    have "x > c \<Longrightarrow> filter (\<lambda>t. t > c) xs = xs" using Cons.prems by (auto simp: filter_id_conv)
    with Suc Cons show ?thesis by auto
  qed
qed simp

text \<open>The ring is a suffix of all failures; what it lost is older than an hour, or it is full.\<close>

lemma ring_suffix:
  "sorted ts \<Longrightarrow> \<exists>j. fold push ts [] = drop j ts \<and> length ts - j \<le> 48 \<and>
     (length ts - j = 48 \<or> (\<forall>t\<in>set (take j ts). t \<le> last ts - Hour))"
proof (induction ts rule: rev_induct)
  case (snoc t ts)
  then obtain j0 where j0: "fold push ts [] = drop j0 ts" "length ts - j0 \<le> 48"
    "length ts - j0 = 48 \<or> (\<forall>t\<in>set (take j0 ts). t \<le> last ts - Hour)" by (auto simp: sorted_append)
  define j where "j = min j0 (length ts)"
  have j: "fold push ts [] = drop j ts" "j \<le> length ts"
    "length ts - j = 48 \<or> (\<forall>t\<in>set (take j ts). t \<le> last ts - Hour)"
    using j0 by (auto simp: j_def min_def split: if_splits)
  let ?xs = "ts @ [t]" and ?old = "\<lambda>x. \<not> x > t - Hour"
  define n where "n = length (takeWhile ?old (drop j ?xs))"
  define m where "m = length ?xs - (j + n) - 48"
  have r: "fold push ?xs [] = drop (j + n + m) ?xs"
  proof -
    have "fold push ?xs [] = push t (drop j ts)" using j(1) by simp
    also have "drop j ts @ [t] = drop j ?xs" using j(2) by simp
    then have "push t (drop j ts) = (let l = drop n (drop j ?xs) in drop (length l - 48) l)"
      unfolding push_eq n_def dropWhile_eq_drop by simp
    also have "\<dots> = drop (j + n + m) ?xs" by (simp add: Let_def m_def add.commute del: drop_append)
    finally show ?thesis .
  qed
  have "\<forall>x\<in>set (take (j + n) ?xs). x \<le> t - Hour" if m: "length ?xs - (j + n) < 48"
  proof -
    have "\<forall>x\<in>set (take n (drop j ?xs)). x \<le> t - Hour"
      unfolding n_def takeWhile_eq_take [symmetric] by (auto dest: set_takeWhileD)
    moreover have "\<forall>x\<in>set (take j ?xs). x \<le> t - Hour"
    proof (cases n)
      case 0
      with m j have "\<forall>x\<in>set (take j ts). x \<le> last ts - Hour" by auto
      moreover have "last ts \<le> t" if "ts \<noteq> []" using snoc.prems that by (simp add: sorted_append)
      ultimately show ?thesis using j(2) by (cases "ts = []") force+
    next
      case (Suc k)
      then have "drop j ?xs \<noteq> []" "hd (drop j ?xs) \<le> t - Hour"
        by (cases "drop j ?xs"; auto simp: n_def split: if_splits)+
      moreover have "sorted (take j ?xs @ drop j ?xs)" unfolding append_take_drop_id by (rule snoc.prems)
      ultimately show ?thesis by (metis sorted_append hd_in_set order_trans)
    qed
    ultimately show ?thesis unfolding take_add set_append by blast
  qed
  moreover have "m = 0" if "length ?xs - (j + n) < 48" using that by (simp add: m_def)
  moreover have "length ?xs - (j + n + m) = 48" if "\<not> length ?xs - (j + n) < 48" using that by (simp add: m_def)
  ultimately have "length ?xs - (j + n + m) = 48 \<or> (\<forall>x\<in>set (take (j + n + m) ?xs). x \<le> t - Hour)"
    by (metis add.right_neutral)
  moreover have "length ?xs - (j + n + m) \<le> 48" by (simp add: m_def)
  moreover have "last ?xs = t" by simp
  ultimately show ?case using r by metis
qed simp

text \<open>What a sequence of recorded outcomes leaves: time, success, message, counts and drift of each.\<close>

type_synonym outcome = "time \<times> bool \<times> string \<times> nat \<times> nat \<times> DriftEntry list"

definition record_all :: "outcome list \<Rightarrow> statusState \<Rightarrow> statusState" where
  "record_all = fold (\<lambda>(at', ok, msg, n, m, d). record_sync at' ok msg n m d)"

definition failures :: "outcome list \<Rightarrow> time list" where
  "failures os = map fst (filter (\<lambda>u. \<not> fst (snd u)) os)"

lemma record_all_errors: "st_errors (record_all os st) = fold push (failures os) (st_errors st)"
  by (induction os arbitrary: st) (auto simp: record_all_def failures_def record_sync_def)

text \<open>C32: The error count of the status is the number of failed synchronisations of the last hour,
  up to 48. For outcomes recorded in the order of time since the start and a later query, the
  ring with its dropping and cutting reports the same as counting all failures ever recorded.\<close>

theorem error_ring_counts:
  assumes "sorted (failures os)" and "\<forall>t\<in>set (failures os). t \<le> now" and "st_errors st = []"
  shows "ys_ErrorsLastHour (snapshot now (record_all os st)) =
    min 48 (length (filter (\<lambda>t. t > now - Hour) (failures os)))"
proof -
  let ?ts = "failures os"
  obtain j where j: "fold push ?ts [] = drop j ?ts" "length ?ts - j \<le> 48"
    "length ?ts - j = 48 \<or> (\<forall>t\<in>set (take j ?ts). t \<le> last ?ts - Hour)"
    using ring_suffix [OF assms(1)] by blast
  have c: "length (filter (\<lambda>t. t > now - Hour) (drop j ?ts)) =
      min (length ?ts - j) (length (filter (\<lambda>t. t > now - Hour) ?ts))"
    using sorted_count_suffix [OF assms(1)] by simp
  have "length (filter (\<lambda>t. t > now - Hour) ?ts) \<le> length ?ts - j" if "\<forall>t\<in>set (take j ?ts). t \<le> last ?ts - Hour"
  proof (cases "?ts = []")
    case False
    with assms(2) have "last ?ts \<le> now" by simp
    with that have "filter (\<lambda>t. t > now - Hour) (take j ?ts) = []" by (force simp: filter_empty_conv)
    then have "filter (\<lambda>t. t > now - Hour) ?ts = filter (\<lambda>t. t > now - Hour) (drop j ?ts)"
      by (metis append_Nil append_take_drop_id filter_append)
    then show ?thesis by (metis length_drop length_filter_le)
  qed simp
  then show ?thesis using j c assms(3)
    by (auto simp: snapshot_def countSince_def record_all_errors)
qed

theorem error_ring_counts_witness:
  "ys_ErrorsLastHour (snapshot (2 * Hour) (record_all [(0, False, ''x'', 0, 0, []), (2 * Hour - 1, False, ''x'', 0, 0, [])]
     (sv_status sample_service))) = 1"
proof -
  let ?os = "[(0, False, ''x'', 0, 0, []), (2 * Hour - 1, False, ''x'', 0, 0, [])] :: outcome list"
  have "failures ?os = [0, 2 * Hour - 1]" by (simp add: failures_def)
  with error_ring_counts [of ?os "2 * Hour" "sv_status sample_service"] show ?thesis
    by (simp add: sample_service_def)
qed

end
