(* ===== verification/Api_Base.thy ===== *)
theory Api_Base
  imports Syncer Generator
begin

text \<open>
  What the HTTP handlers of \<^verbatim>\<open>internal/api\<close> share (\<^verbatim>\<open>server.go\<close>): requests as the router hands them
  over, replies, the state of the server, the administrator check, and the helpers that read
  path and query parameters. A handler is a function from a request and the state to a reply
  and the new state. A goroutine that a handler starts is a job in the state, which runs at any
  later time. Log output is left out; the router itself (\<^verbatim>\<open>gorilla/mux\<close>) is not part of the
  repository, its result is the list of path variables of the request.
\<close>

section \<open>Requests and replies\<close>

text \<open>The body of a request, cut after 512 KB: it cannot be read, it does not start with a JSON
  value, or it starts with one, and then there may be more than white space after it.
  \<open>json.NewDecoder\<close> reads the first value, \<open>json.Unmarshal\<close> wants nothing else.\<close>

datatype http_body = ReadError | NotJson | JsonBody json bool

record request =
  rq_path :: string
  rq_vars :: "(string \<times> string) list"
  rq_query :: "(string \<times> string) list"
  rq_headers :: "(string \<times> string) list"
  rq_remote :: string
  rq_tls :: bool
  rq_host :: string
  rq_body :: http_body
  rq_fallback :: bool

definition lookup :: "(string \<times> string) list \<Rightarrow> string \<Rightarrow> string" where
  "lookup m k = (case map_of m k of Some v \<Rightarrow> v | None \<Rightarrow> [])"

abbreviation var :: "request \<Rightarrow> string \<Rightarrow> string" where
  "var r k \<equiv> lookup (rq_vars r) k"

abbreviation query :: "request \<Rightarrow> string \<Rightarrow> string" where
  "query r k \<equiv> lookup (rq_query r) k"

definition set_query :: "string \<Rightarrow> string \<Rightarrow> request \<Rightarrow> request" where
  "set_query k v r = r\<lparr>rq_query := (k, v) # filter (\<lambda>kv. fst kv \<noteq> k) (rq_query r)\<rparr>"

definition decode_body :: "'a decoder \<Rightarrow> 'a \<Rightarrow> request \<Rightarrow> 'a option" where
  "decode_body d z r = (case rq_body r of JsonBody j _ \<Rightarrow> d z j | _ \<Rightarrow> None)"

definition unmarshal_body :: "'a decoder \<Rightarrow> 'a \<Rightarrow> request \<Rightarrow> 'a option" where
  "unmarshal_body d z r = (case rq_body r of JsonBody j False \<Rightarrow> d z j | _ \<Rightarrow> None)"

text \<open>\<open>jsonError(w, msg, code)\<close>, or another reply with its status.\<close>

datatype 'a reply = JsonError nat string | Reply nat 'a

fun reply_status :: "'a reply \<Rightarrow> nat" where
  "reply_status (JsonError code _) = code"
| "reply_status (Reply code _) = code"

abbreviation jsonOK :: "'a \<Rightarrow> 'a reply" where
  "jsonOK v \<equiv> Reply 200 v"

fun db_text :: "db_err \<Rightarrow> string" where
  "db_text DBUnavailable = ''database is unavailable''"
| "db_text (UniqueConstraint c) = ''UNIQUE constraint failed: '' @ c"
| "db_text ForeignKeyConstraint = ''FOREIGN KEY constraint failed''"
| "db_text NoRows = ''sql: no rows in result set''"
| "db_text BadJSON = ''invalid JSON''"

abbreviation db_error :: "db_err \<Rightarrow> 'a reply" where
  "db_error e \<equiv> JsonError 500 (db_text e)"

section \<open>State of the server\<close>

datatype job = SyncJob | AccessedJob int time

record nodeSyncStatus =
  ns_Reachable :: bool
  ns_LastApplyOK :: bool
  ns_UsersTarget :: nat
  ns_UsersPresent :: nat
  ns_ApplyErrors :: nat
  ns_LastReconcileAt :: time
  ns_LastError :: string

record fetchKey =
  fk_token :: string
  fk_fallback :: bool
  fk_client :: string

record 'x server =
  srv_service :: "'x service"
  srv_denied :: nat
  srv_nodeStatus :: "(string \<times> nodeSyncStatus) list"
  srv_fetches :: "(fetchKey \<times> time) list"
  srv_jobs :: "job list"

text \<open>What a handler reads and never changes: the configuration, the time of the request, Xray's
  API, the order in which Go ranges over a map, and the key agreement function.\<close>

record 'x env =
  e_cfg :: Config
  e_now :: time
  e_xray :: "'x handler"
  e_order :: "parsed_dir \<Rightarrow> parsed_dir"
  e_x25519 :: "nat list \<Rightarrow> nat list option"

definition db_of :: "'x server \<Rightarrow> db" where
  "db_of s = sv_db (srv_service s)"

definition set_db :: "db \<Rightarrow> 'x server \<Rightarrow> 'x server" where
  "set_db db s = s\<lparr>srv_service := (srv_service s)\<lparr>sv_db := db\<rparr>\<rparr>"

definition world_of :: "'x server \<Rightarrow> 'x world" where
  "world_of s = sv_world (srv_service s)"

definition set_world :: "'x world \<Rightarrow> 'x server \<Rightarrow> 'x server" where
  "set_world w s = s\<lparr>srv_service := (srv_service s)\<lparr>sv_world := w\<rparr>\<rparr>"

definition add_job :: "job \<Rightarrow> 'x server \<Rightarrow> 'x server" where
  "add_job j s = s\<lparr>srv_jobs := srv_jobs s @ [j]\<rparr>"

definition admin_of :: "'x env \<Rightarrow> 'x world AdminAPI" where
  "admin_of env = buildAdmin (e_xray env) (e_cfg env)"

definition on_world :: "('x world \<Rightarrow> 'a \<times> 'x world) \<Rightarrow> 'x server \<Rightarrow> 'a \<times> 'x server" where
  "on_world f s = (case f (world_of s) of (r, w) \<Rightarrow> (r, set_world w s))"

definition sync_now :: "'x env \<Rightarrow> 'x server \<Rightarrow> 'x server" where
  "sync_now env s = s\<lparr>srv_service := snd (Sync (e_order env) (e_cfg env) (e_now env) (srv_service s))\<rparr>"

definition run_job :: "'x env \<Rightarrow> job \<Rightarrow> 'x server \<Rightarrow> 'x server" where
  "run_job env j s = (case j of
     SyncJob \<Rightarrow> sync_now env s
   | AccessedJob uid t \<Rightarrow> (case SetFallbackAccessedAt uid t (db_of s) of Inl _ \<Rightarrow> s | Inr db \<Rightarrow> set_db db s))"

lemma server_access [simp]:
  "db_of (set_db db s) = db" "world_of (set_db db s) = world_of s"
  "world_of (set_world w s) = w" "db_of (set_world w s) = db_of s"
  "db_of (add_job j s) = db_of s" "world_of (add_job j s) = world_of s"
  "set_db db (set_db db' s) = set_db db s" "set_db (db_of s) s = s"
  by (simp_all add: db_of_def set_db_def world_of_def set_world_def add_job_def)

section \<open>Checks and parameters\<close>

definition adminAuth :: "'x env \<Rightarrow> (request \<Rightarrow> 'x server \<Rightarrow> 'a reply \<times> 'x server) \<Rightarrow> request \<Rightarrow> 'x server \<Rightarrow> 'a reply \<times> 'x server" where
  "adminAuth env next' r s =
     (if c_AdminToken (e_cfg env) = [] then (JsonError 503 ''admin API disabled: admin_token not configured'', s)
      else if lookup (rq_headers r) ''X-Admin-Token'' \<noteq> c_AdminToken (e_cfg env) then (JsonError 401 ''unauthorized'', s)
      else next' r s)"

definition username_char :: "char \<Rightarrow> bool" where
  "username_char c = (c \<in> set (upper_letters @ lower_letters @ digit_chars @ ''_.@-''))"

definition validateUsername :: "string \<Rightarrow> string option" where
  "validateUsername s =
     (let s = TrimSpace s
      in if s = [] then Some ''username required''
         else if length s \<le> 64 \<and> list_all username_char s then None
         else Some (''username must be 1'' @ [CHR 0xE2, CHR 0x80, CHR 0x93] @ ''64 chars: letters, digits, underscore, hyphen, at, dot''))"

definition parsePagination :: "request \<Rightarrow> (int \<times> int) option" where
  "parsePagination r =
     (let limitStr = query r ''limit''; offsetStr = query r ''offset''
      in if limitStr = [] \<and> offsetStr = [] then None
         else Some
           (case ParseInt limitStr of
              Some n \<Rightarrow> if n > 0 then min n 100 else 50
            | None \<Rightarrow> 50,
            case ParseInt offsetStr of
              Some n \<Rightarrow> if n \<ge> 0 then n else 0
            | None \<Rightarrow> 0))"

definition getByID :: "request \<Rightarrow> db \<Rightarrow> (nat \<times> string) + user" where
  "getByID r db =
     (let idStr = TrimSpace (var r ''id'')
      in if idStr = [] then Inl (400, ''invalid id'')
         else case (case ParseInt idStr of
                      Some i \<Rightarrow> GetUserByID i db
                    | None \<Rightarrow> GetUserByUsername idStr db) of
           Inl e \<Rightarrow> Inl (500, db_text e)
         | Inr None \<Rightarrow> Inl (404, ''user not found'')
         | Inr (Some u) \<Rightarrow> Inr u)"

definition with_user :: "request \<Rightarrow> (user \<Rightarrow> 'x server \<Rightarrow> 'a reply \<times> 'x server) \<Rightarrow> 'x server \<Rightarrow> 'a reply \<times> 'x server" where
  "with_user r k s = (case getByID r (db_of s) of
     Inl (code, msg) \<Rightarrow> (JsonError code msg, s)
   | Inr u \<Rightarrow> k u s)"

text \<open>\<open>generateToken\<close> of this package is the same function as the one of the syncer.\<close>

definition draw_token :: "'x server \<Rightarrow> string \<times> 'x server" where
  "draw_token s = (case draw (world_of s) of (rnd, w) \<Rightarrow> (generateToken rnd, set_world w s))"

definition generateRouteID :: "nat list \<Rightarrow> string" where
  "generateRouteID rnd = hex_string (take 8 rnd)"

text \<open>What is written to the log in place of a string from outside.\<close>

definition sanitizeLogField :: "string \<Rightarrow> string" where
  "sanitizeLogField = Replacer [([CHR 0x0D], []), ([CHR 0x0A], []), ([CHR 0x09], '' '')]"

definition user_agent :: "request \<Rightarrow> string" where
  "user_agent r = lookup (rq_headers r) ''User-Agent''"

record UserResponse =
  ur_User :: user
  ur_SubURL :: string
  ur_SubURLs :: SubURLs

definition user_response :: "Config \<Rightarrow> user \<Rightarrow> UserResponse" where
  "user_response cfg u = \<lparr>ur_User = u, ur_SubURL = SubURL cfg (u_Token u),
     ur_SubURLs = SubURLsWithFallback cfg (u_Token u) (u_FallbackToken u)\<rparr>"

definition getEffectiveBalancerConfig :: "Config \<Rightarrow> db \<Rightarrow> db_err + (string \<times> string \<times> string)" where
  "getEffectiveBalancerConfig cfg db = (case GetBalancerRuntimeConfig db of
     Inl e \<Rightarrow> Inl e
   | Inr None \<Rightarrow> Inr (c_BalancerStrategy cfg, c_BalancerProbeURL cfg, c_BalancerProbeFreq cfg)
   | Inr (Some o') \<Rightarrow> Inr
       (firstNonEmptyString [TrimSpace (brc_Strategy o'), c_BalancerStrategy cfg],
        firstNonEmptyString [TrimSpace (brc_ProbeURL o'), c_BalancerProbeURL cfg],
        firstNonEmptyString [TrimSpace (brc_ProbeInterval o'), c_BalancerProbeFreq cfg]))"

end
