(* ===== verification/Routes_Api.thy ===== *)
theory Routes_Api
  imports Api_Base
begin

text \<open>
  The routing rules of users and the global ones (\<^verbatim>\<open>internal/api/server.go\<close>): validation, ids, and
  the handlers that read, replace, add, change and delete rules, and the balancer settings.
\<close>

section \<open>Rules\<close>

definition parseUserRoutes :: "jtext \<Rightarrow> user_route_rule list option" where
  "parseUserRoutes raw =
     (if blank_text raw then Some [] else unmarshal dec_route_rules [] raw)"

datatype route_err =
    DuplicateID nat
  | BadOutboundTag nat
  | NoEffectiveFields nat
  | BadType nat
  | GeoIPInDomain nat string
  | GeositeInIP nat string
  | InvalidSelector nat string

text \<open>The verb \<open>%q\<close>, for printable text without quotes and backslashes.\<close>

definition quoted :: "string \<Rightarrow> string" where
  "quoted s = [CHR 0x22] @ s @ [CHR 0x22]"

definition at_rule :: "nat \<Rightarrow> string \<Rightarrow> string" where
  "at_rule i msg = ''rules['' @ Itoa (int i) @ '']'' @ msg"

fun route_text :: "route_err \<Rightarrow> string" where
  "route_text (DuplicateID i) = at_rule i ''.id must be unique''"
| "route_text (BadOutboundTag i) = at_rule i ''.outboundTag must be one of: direct, proxy, block''"
| "route_text (NoEffectiveFields i) = at_rule i '' has no effective fields''"
| "route_text (BadType i) = at_rule i (''.type must be '' @ [CHR 0x27] @ ''field'' @ [CHR 0x27] @ '' or empty'')"
| "route_text (GeoIPInDomain i d) = at_rule i ('' domain contains geoip selector '' @ quoted d @
     ''; use ip:['' @ quoted ''geoip:...'' @ '']'')"
| "route_text (GeositeInIP i d) = at_rule i ('' ip contains geosite selector '' @ quoted d @
     ''; use domain:['' @ quoted ''geosite:...'' @ '']'')"
| "route_text (InvalidSelector i d) = at_rule i ('' invalid selector '' @ quoted d @
     ''; use geosite:... in domain or geoip:... in ip'')"

definition has_effective_field :: "user_route_rule \<Rightarrow> bool" where
  "has_effective_field r = (rr_Domain r \<noteq> [] \<or> rr_IP r \<noteq> [] \<or> TrimSpace (rr_Network r) \<noteq> [] \<or>
     TrimSpace (rr_Port r) \<noteq> [] \<or> rr_Protocol r \<noteq> [] \<or> rr_InboundTag r \<noteq> [])"

fun check_selectors :: "string \<Rightarrow> (string \<Rightarrow> route_err) \<Rightarrow> (string \<Rightarrow> route_err) \<Rightarrow> string list \<Rightarrow> route_err option" where
  "check_selectors wrong e1 e2 [] = None"
| "check_selectors wrong e1 e2 (d # ds) =
     (let v = TrimSpace (ToLower d)
      in if HasPrefix v wrong then Some (e1 d)
         else if HasPrefix v ''geositeip:'' then Some (e2 d)
         else check_selectors wrong e1 e2 ds)"

definition validateRouteSelectors :: "nat \<Rightarrow> user_route_rule \<Rightarrow> route_err option" where
  "validateRouteSelectors i rule =
     (case check_selectors ''geoip:'' (GeoIPInDomain i) (InvalidSelector i) (rr_Domain rule) of
        Some e \<Rightarrow> Some e
      | None \<Rightarrow> check_selectors ''geosite:'' (GeositeInIP i) (InvalidSelector i) (rr_IP rule))"

fun validate_from :: "nat \<Rightarrow> string list \<Rightarrow> user_route_rule list \<Rightarrow> route_err option" where
  "validate_from i seen [] = None"
| "validate_from i seen (rule # rules) =
     (if TrimSpace (rr_ID rule) \<noteq> [] \<and> rr_ID rule \<in> set seen then Some (DuplicateID i)
      else
        (let seen = (if TrimSpace (rr_ID rule) \<noteq> [] then rr_ID rule # seen else seen);
             tag = ToLower (TrimSpace (rr_OutboundTag rule))
         in if tag \<noteq> ''direct'' \<and> tag \<noteq> ''proxy'' \<and> tag \<noteq> ''block'' then Some (BadOutboundTag i)
            else if \<not> has_effective_field rule then Some (NoEffectiveFields i)
            else if rr_Type rule \<noteq> [] \<and> ToLower (TrimSpace (rr_Type rule)) \<noteq> ''field'' then Some (BadType i)
            else case validateRouteSelectors i rule of
              Some e \<Rightarrow> Some e
            | None \<Rightarrow> validate_from (Suc i) seen rules))"

definition validateUserRoutes :: "user_route_rule list \<Rightarrow> route_err option" where
  "validateUserRoutes rules = validate_from 0 [] rules"

text \<open>Ids are drawn in the order of the rules; the flag tells whether one was missing.\<close>

fun assignRouteIDs :: "user_route_rule list \<Rightarrow> 'x world \<Rightarrow> (user_route_rule list \<times> bool) \<times> 'x world" where
  "assignRouteIDs [] w = (([], False), w)"
| "assignRouteIDs (r # rs) w =
     (let ((r', c), w) = (if TrimSpace (rr_ID r) = []
            then (let (rnd, w) = draw w in ((r\<lparr>rr_ID := generateRouteID rnd\<rparr>, True), w))
            else ((r, False), w));
          ((rs', c'), w) = assignRouteIDs rs w
      in ((r' # rs', c \<or> c'), w))"

fun findRouteIndexByID :: "user_route_rule list \<Rightarrow> string \<Rightarrow> nat option" where
  "findRouteIndexByID [] routeID = None"
| "findRouteIndexByID (r # rs) routeID =
     (if TrimSpace (rr_ID r) = routeID then Some 0 else map_option Suc (findRouteIndexByID rs routeID))"

section \<open>Bodies\<close>

definition bare_rule :: "request \<Rightarrow> user_route_rule option" where
  "bare_rule r =
     (case unmarshal_body dec_route_rule zero_route_rule r of
        Some rule \<Rightarrow>
          if rr_OutboundTag rule \<noteq> [] \<or> rr_Type rule \<noteq> [] \<or> rr_Domain rule \<noteq> [] \<or> rr_IP rule \<noteq> [] \<or>
             rr_Protocol rule \<noteq> [] \<or> rr_InboundTag rule \<noteq> [] \<or> rr_Network rule \<noteq> [] \<or> rr_Port rule \<noteq> []
          then Some rule else None
      | None \<Rightarrow> None)"

definition wrapped_rule :: "request \<Rightarrow> user_route_rule option" where
  "wrapped_rule r =
     (case unmarshal_body (dec_struct (\<lambda>p o'. fld ''rule'' dec_route_rule o' p)) zero_route_rule r of
        Some rule \<Rightarrow> if rr_OutboundTag rule \<noteq> [] then Some rule else None
      | None \<Rightarrow> None)"

definition decodeUserRouteFromBody :: "request \<Rightarrow> string + user_route_rule" where
  "decodeUserRouteFromBody r =
     (if rq_body r = ReadError then Inl ''failed to read body''
      else case bare_rule r of
        Some rule \<Rightarrow> Inr rule
      | None \<Rightarrow> (case wrapped_rule r of Some rule \<Rightarrow> Inr rule | None \<Rightarrow> Inl ''invalid json body''))"

text \<open>The rules of a \<open>PUT\<close>: an object with a member \<open>rules\<close>, or else a bare array. The inner
  option tells a nil slice, which is stored as \<open>null\<close>.\<close>

definition rules_of_body :: "request \<Rightarrow> user_route_rule list option option" where
  "rules_of_body r =
     (case unmarshal_body (dec_struct (\<lambda>p o'. fld ''rules'' (dec_ptr dec_route_rules []) o' p)) None r of
        Some (Some rules) \<Rightarrow> Some (Some rules)
      | _ \<Rightarrow> unmarshal_body (dec_ptr dec_route_rules []) None r)"

definition routes_text :: "user_route_rule list option \<Rightarrow> jtext" where
  "routes_text rules = (case rules of None \<Rightarrow> Doc JNull | Some rs \<Rightarrow> Doc (enc_route_rules rs))"

section \<open>Rules of a user\<close>

record route_reply =
  rt_user :: "int option"
  rt_index :: "nat option"
  rt_rule :: "user_route_rule option"
  rt_rules :: "user_route_rule list"

definition saveUserRoutes :: "'x env \<Rightarrow> int \<Rightarrow> user_route_rule list option \<Rightarrow> 'x server \<Rightarrow> db_err option \<times> 'x server" where
  "saveUserRoutes env userID rules s =
     (case UpdateUserClientRoutes (e_now env) userID (routes_text rules) (db_of s) of
        Inl e \<Rightarrow> (Some e, s)
      | Inr db \<Rightarrow> (None, set_db db s))"

text \<open>Every handler that changes stored rules first parses them and gives ids to rules that have
  none, saving them when it did; \<open>k\<close> is the rest of the handler.\<close>

definition with_stored_rules ::
  "'x env \<Rightarrow> user \<Rightarrow> (user_route_rule list \<Rightarrow> 'x server \<Rightarrow> route_reply reply \<times> 'x server) \<Rightarrow> 'x server \<Rightarrow> route_reply reply \<times> 'x server" where
  "with_stored_rules env user k s =
     (case parseUserRoutes (u_ClientRoutes user) of
        None \<Rightarrow> (JsonError 500 ''invalid stored routes'', s)
      | Some rules \<Rightarrow>
          (case on_world (assignRouteIDs rules) s of
             ((rules, changed), s) \<Rightarrow>
               if changed
               then (case saveUserRoutes env (u_ID user) (Some rules) s of
                       (Some e, s) \<Rightarrow> (db_error e, s)
                     | (None, s) \<Rightarrow> k rules s)
               else k rules s))"

definition save_and_reply ::
  "'x env \<Rightarrow> user \<Rightarrow> nat option \<Rightarrow> user_route_rule option \<Rightarrow> user_route_rule list \<Rightarrow> 'x server \<Rightarrow> route_reply reply \<times> 'x server" where
  "save_and_reply env user idx rule rules s =
     (case saveUserRoutes env (u_ID user) (Some rules) s of
        (Some e, s) \<Rightarrow> (db_error e, s)
      | (None, s) \<Rightarrow> (jsonOK \<lparr>rt_user = Some (u_ID user), rt_index = idx, rt_rule = rule, rt_rules = rules\<rparr>, s))"

definition getUserRoutes :: "'x env \<Rightarrow> request \<Rightarrow> 'x server \<Rightarrow> route_reply reply \<times> 'x server" where
  "getUserRoutes env r = with_user r (\<lambda>user. with_stored_rules env user (\<lambda>rules s.
     (jsonOK \<lparr>rt_user = Some (u_ID user), rt_index = None, rt_rule = None, rt_rules = rules\<rparr>, s)))"

definition setUserRoutes :: "'x env \<Rightarrow> request \<Rightarrow> 'x server \<Rightarrow> route_reply reply \<times> 'x server" where
  "setUserRoutes env r = with_user r (\<lambda>user s.
     case rq_body r of
       ReadError \<Rightarrow> (JsonError 400 ''failed to read body'', s)
     | _ \<Rightarrow>
       (case rules_of_body r of
          None \<Rightarrow> (JsonError 400 ''invalid json body'', s)
        | Some payload \<Rightarrow>
            (let rules = (case payload of None \<Rightarrow> [] | Some rs \<Rightarrow> rs)
             in case validateUserRoutes rules of
                  Some e \<Rightarrow> (JsonError 400 (route_text e), s)
                | None \<Rightarrow>
                    (let ((rules', _), s) = on_world (assignRouteIDs rules) s
                     in case saveUserRoutes env (u_ID user) (map_option (\<lambda>_. rules') payload) s of
                          (Some e, s) \<Rightarrow> (db_error e, s)
                        | (None, s) \<Rightarrow>
                            (jsonOK \<lparr>rt_user = Some (u_ID user), rt_index = None, rt_rule = None, rt_rules = rules'\<rparr>, s)))))"

definition parseRouteIndex :: "request \<Rightarrow> int option" where
  [simp]: "parseRouteIndex r = ParseInt (var r ''index'')"

text \<open>A rule without an id gets a random one.\<close>

definition ensure_id :: "user_route_rule \<Rightarrow> 'x server \<Rightarrow> user_route_rule \<times> 'x server" where
  "ensure_id rule s =
     (if TrimSpace (rr_ID rule) = []
      then (case draw (world_of s) of (rnd, w) \<Rightarrow> (rule\<lparr>rr_ID := generateRouteID rnd\<rparr>, set_world w s))
      else (rule, s))"

definition addUserRoute :: "'x env \<Rightarrow> request \<Rightarrow> 'x server \<Rightarrow> route_reply reply \<times> 'x server" where
  "addUserRoute env r = with_user r (\<lambda>user s.
     case decodeUserRouteFromBody r of
       Inl msg \<Rightarrow> (JsonError 400 msg, s)
     | Inr rule \<Rightarrow>
         (case validateUserRoutes [rule] of
            Some e \<Rightarrow> (JsonError 400 (route_text e), s)
          | None \<Rightarrow>
              (let (rule, s) = ensure_id rule s
               in with_stored_rules env user (\<lambda>rules s.
                    save_and_reply env user (Some (length rules)) (Some rule) (rules @ [rule]) s) s)))"

definition updateUserRoute :: "'x env \<Rightarrow> request \<Rightarrow> 'x server \<Rightarrow> route_reply reply \<times> 'x server" where
  "updateUserRoute env r = with_user r (\<lambda>user s.
     case parseRouteIndex r of
       None \<Rightarrow> (JsonError 400 ''invalid route index'', s)
     | Some index \<Rightarrow>
       (case decodeUserRouteFromBody r of
          Inl msg \<Rightarrow> (JsonError 400 msg, s)
        | Inr rule \<Rightarrow>
          (case validateUserRoutes [rule] of
             Some e \<Rightarrow> (JsonError 400 (route_text e), s)
           | None \<Rightarrow> with_stored_rules env user (\<lambda>rules s.
               if index < 0 \<or> index \<ge> int (length rules) then (JsonError 404 ''route index out of range'', s)
               else
                 (let i = nat index;
                      rule = (if TrimSpace (rr_ID rule) = [] then rule\<lparr>rr_ID := rr_ID (rules ! i)\<rparr> else rule);
                      (rule, s) = ensure_id rule s
                  in save_and_reply env user (Some i) (Some rule) (rules[i := rule]) s)) s)))"

definition updateUserRouteByID :: "'x env \<Rightarrow> request \<Rightarrow> 'x server \<Rightarrow> route_reply reply \<times> 'x server" where
  "updateUserRouteByID env r = with_user r (\<lambda>user s.
     let routeID = TrimSpace (var r ''routeId'')
     in if routeID = [] then (JsonError 400 ''missing route id'', s)
        else case decodeUserRouteFromBody r of
          Inl msg \<Rightarrow> (JsonError 400 msg, s)
        | Inr rule \<Rightarrow>
            (let rule = (if TrimSpace (rr_ID rule) = [] then rule\<lparr>rr_ID := routeID\<rparr> else rule)
             in if TrimSpace (rr_ID rule) \<noteq> routeID then (JsonError 400 ''route id mismatch'', s)
                else case validateUserRoutes [rule] of
                  Some e \<Rightarrow> (JsonError 400 (route_text e), s)
                | None \<Rightarrow> with_stored_rules env user (\<lambda>rules s.
                    case findRouteIndexByID rules routeID of
                      None \<Rightarrow> (JsonError 404 ''route id not found'', s)
                    | Some i \<Rightarrow> save_and_reply env user (Some i) (Some rule) (rules[i := rule]) s) s))"

definition remove_at :: "nat \<Rightarrow> 'a list \<Rightarrow> 'a list" where
  "remove_at i xs = take i xs @ drop (Suc i) xs"

definition deleteUserRoute :: "'x env \<Rightarrow> request \<Rightarrow> 'x server \<Rightarrow> route_reply reply \<times> 'x server" where
  "deleteUserRoute env r = with_user r (\<lambda>user s.
     case parseRouteIndex r of
       None \<Rightarrow> (JsonError 400 ''invalid route index'', s)
     | Some index \<Rightarrow> with_stored_rules env user (\<lambda>rules s.
         if index < 0 \<or> index \<ge> int (length rules) then (JsonError 404 ''route index out of range'', s)
         else save_and_reply env user (Some (nat index)) (Some (rules ! nat index)) (remove_at (nat index) rules) s) s)"

definition deleteUserRouteByID :: "'x env \<Rightarrow> request \<Rightarrow> 'x server \<Rightarrow> route_reply reply \<times> 'x server" where
  "deleteUserRouteByID env r = with_user r (\<lambda>user s.
     let routeID = TrimSpace (var r ''routeId'')
     in if routeID = [] then (JsonError 400 ''missing route id'', s)
        else with_stored_rules env user (\<lambda>rules s.
          case findRouteIndexByID rules routeID of
            None \<Rightarrow> (JsonError 404 ''route id not found'', s)
          | Some i \<Rightarrow> save_and_reply env user (Some i) (Some (rules ! i)) (remove_at i rules) s) s)"

section \<open>Global rules\<close>

definition save_global :: "user_route_rule list option \<Rightarrow> 'x server \<Rightarrow> db_err option \<times> 'x server" where
  "save_global rules s = (case UpdateGlobalClientRoutes (routes_text rules) (db_of s) of
     Inl e \<Rightarrow> (Some e, s) | Inr db \<Rightarrow> (None, set_db db s))"

definition with_global_rules ::
  "(user_route_rule list \<Rightarrow> 'x server \<Rightarrow> route_reply reply \<times> 'x server) \<Rightarrow> 'x server \<Rightarrow> route_reply reply \<times> 'x server" where
  "with_global_rules k s =
     (case GetGlobalClientRoutes (db_of s) of
        Inl e \<Rightarrow> (db_error e, s)
      | Inr raw \<Rightarrow>
          (case parseUserRoutes raw of
             None \<Rightarrow> (JsonError 500 ''invalid stored global routes'', s)
           | Some rules \<Rightarrow>
               (case on_world (assignRouteIDs rules) s of
                  ((rules, changed), s) \<Rightarrow>
                    if changed
                    then (case save_global (Some rules) s of
                            (Some e, s) \<Rightarrow> (db_error e, s)
                          | (None, s) \<Rightarrow> k rules s)
                    else k rules s)))"

definition getGlobalRoutes :: "'x server \<Rightarrow> route_reply reply \<times> 'x server" where
  "getGlobalRoutes = with_global_rules (\<lambda>rules s.
     (jsonOK \<lparr>rt_user = None, rt_index = None, rt_rule = None, rt_rules = rules\<rparr>, s))"

definition setGlobalRoutes :: "request \<Rightarrow> 'x server \<Rightarrow> route_reply reply \<times> 'x server" where
  "setGlobalRoutes r s =
     (case rq_body r of
        ReadError \<Rightarrow> (JsonError 400 ''failed to read body'', s)
      | _ \<Rightarrow>
        (case rules_of_body r of
           None \<Rightarrow> (JsonError 400 ''invalid json body'', s)
         | Some payload \<Rightarrow>
             (let rules = (case payload of None \<Rightarrow> [] | Some rs \<Rightarrow> rs)
              in case validateUserRoutes rules of
                   Some e \<Rightarrow> (JsonError 400 (route_text e), s)
                 | None \<Rightarrow>
                     (let ((rules', _), s) = on_world (assignRouteIDs rules) s
                      in case save_global (map_option (\<lambda>_. rules') payload) s of
                           (Some e, s) \<Rightarrow> (db_error e, s)
                         | (None, s) \<Rightarrow>
                             (jsonOK \<lparr>rt_user = None, rt_index = None, rt_rule = None, rt_rules = rules'\<rparr>, s)))))"

definition addGlobalRoute :: "request \<Rightarrow> 'x server \<Rightarrow> route_reply reply \<times> 'x server" where
  "addGlobalRoute r s =
     (case decodeUserRouteFromBody r of
        Inl msg \<Rightarrow> (JsonError 400 msg, s)
      | Inr rule \<Rightarrow>
          (let (rule, s) = ensure_id rule s
           in case validateUserRoutes [rule] of
                Some e \<Rightarrow> (JsonError 400 (route_text e), s)
              | None \<Rightarrow> with_global_rules (\<lambda>rules s.
                  case validateUserRoutes (rules @ [rule]) of
                    Some e \<Rightarrow> (JsonError 400 (route_text e), s)
                  | None \<Rightarrow>
                      (case save_global (Some (rules @ [rule])) s of
                         (Some e, s) \<Rightarrow> (db_error e, s)
                       | (None, s) \<Rightarrow>
                           (jsonOK \<lparr>rt_user = None, rt_index = Some (length rules), rt_rule = Some rule,
                              rt_rules = rules @ [rule]\<rparr>, s))) s))"

definition deleteGlobalRoutes :: "'x server \<Rightarrow> route_reply reply \<times> 'x server" where
  "deleteGlobalRoutes s =
     (case save_global (Some []) s of
        (Some e, s) \<Rightarrow> (db_error e, s)
      | (None, s) \<Rightarrow> (jsonOK \<lparr>rt_user = None, rt_index = None, rt_rule = None, rt_rules = []\<rparr>, s))"

section \<open>Balancer settings\<close>

definition normalizeBalancerStrategyInput :: "string \<Rightarrow> string" where
  "normalizeBalancerStrategyInput v =
     (let t = ToLower (TrimSpace v)
      in if t = ''random'' then ''random''
         else if t = ''roundrobin'' then ''roundRobin''
         else if t = ''leastping'' then ''leastPing''
         else if t = ''leastload'' then ''leastLoad''
         else [])"

record balancer_reply =
  br_runtime :: bool
  br_effective :: "string \<times> string \<times> string"
  br_override :: "balancer_runtime_config option"

definition getBalancerConfig :: "'x env \<Rightarrow> 'x server \<Rightarrow> balancer_reply reply \<times> 'x server" where
  "getBalancerConfig env s =
     (case getEffectiveBalancerConfig (e_cfg env) (db_of s) of
        Inl e \<Rightarrow> (db_error e, s)
      | Inr eff \<Rightarrow>
          (case GetBalancerRuntimeConfig (db_of s) of
             Inl e \<Rightarrow> (db_error e, s)
           | Inr o' \<Rightarrow> (jsonOK \<lparr>br_runtime = (o' \<noteq> None), br_effective = eff, br_override = o'\<rparr>, s)))"

record balancer_request =
  bq_Strategy :: string
  bq_ProbeURL :: string
  bq_ProbeInterval :: string
  bq_Reset :: bool

definition dec_balancer_request :: "balancer_request decoder" where
  "dec_balancer_request = dec_struct (\<lambda>p o'.
     Option.bind (fld ''strategy'' dec_string o' (bq_Strategy p)) (\<lambda>a.
     Option.bind (fld ''probe_url'' dec_string o' (bq_ProbeURL p)) (\<lambda>b.
     Option.bind (fld ''probe_interval'' dec_string o' (bq_ProbeInterval p)) (\<lambda>c.
     Option.bind (fld ''reset'' dec_bool o' (bq_Reset p)) (\<lambda>d.
     Some \<lparr>bq_Strategy = a, bq_ProbeURL = b, bq_ProbeInterval = c, bq_Reset = d\<rparr>)))))"

definition setBalancerConfig :: "'x env \<Rightarrow> request \<Rightarrow> 'x server \<Rightarrow> balancer_runtime_config option reply \<times> 'x server" where
  "setBalancerConfig env r s =
     (case decode_body dec_balancer_request \<lparr>bq_Strategy = [], bq_ProbeURL = [], bq_ProbeInterval = [], bq_Reset = False\<rparr> r of
        None \<Rightarrow> (JsonError 400 ''invalid json body'', s)
      | Some req \<Rightarrow>
          if bq_Reset req
          then (case DeleteBalancerRuntimeConfig (db_of s) of
                  Inl e \<Rightarrow> (db_error e, s)
                | Inr db \<Rightarrow> (jsonOK None, set_db db s))
          else
            (let strategy = normalizeBalancerStrategyInput (bq_Strategy req)
             in if strategy = []
                then (JsonError 400 ''strategy must be one of: random, roundRobin, leastPing, leastLoad'', s)
                else
                  (let probeURL = (if TrimSpace (bq_ProbeURL req) = [] then c_BalancerProbeURL (e_cfg env)
                                   else TrimSpace (bq_ProbeURL req));
                       probeInterval = (if TrimSpace (bq_ProbeInterval req) = [] then c_BalancerProbeFreq (e_cfg env)
                                        else TrimSpace (bq_ProbeInterval req));
                       o' = \<lparr>brc_Strategy = strategy, brc_ProbeURL = probeURL, brc_ProbeInterval = probeInterval\<rparr>
                   in case SetBalancerRuntimeConfig o' (db_of s) of
                        Inl e \<Rightarrow> (db_error e, s)
                      | Inr db \<Rightarrow> (jsonOK (Some o'), set_db db s))))"

end
