(* ===== verification/Nodes_Api.thy ===== *)
theory Nodes_Api
  imports Api_Base
begin

text \<open>
  \<^verbatim>\<open>internal/api/nodes.go\<close>: placing users on nodes, the endpoints a user's clients get, and the
  loop that brings the users of every node back after the node lost them.
\<close>

section \<open>Endpoints of a user\<close>

definition at_node :: "user_client_full \<Rightarrow> node \<Rightarrow> user_client_full" where
  "at_node c n = c\<lparr>f_NodeName := n_Name n, f_NodeHost := n_PublicHost n, f_NodePort := n_PublicPort n\<rparr>"

definition expandClientsForNodes :: "Config \<Rightarrow> db \<Rightarrow> int \<Rightarrow> user_client_full list \<Rightarrow> user_client_full list" where
  "expandClientsForNodes cfg db userID clients =
     (if c_Nodes cfg = [] then clients
      else case ListNodeIDsForUser userID db of
        Inl _ \<Rightarrow> clients
      | Inr nodeIDs \<Rightarrow>
          if nodeIDs = [] then clients
          else case ListNodes db of
            Inl _ \<Rightarrow> clients
          | Inr allNodes \<Rightarrow>
              (let byTag = (\<lambda>tag. filter (\<lambda>n. n_Enabled n \<and> n_ID n \<in> set nodeIDs \<and> n_InboundTag n = tag) allNodes)
               in concat (map (\<lambda>c. map (at_node c) (byTag (f_InboundTag c))) clients)))"

section \<open>Placement\<close>

definition listNodes :: "'x server \<Rightarrow> node list reply \<times> 'x server" where
  "listNodes s = (case ListNodes (db_of s) of Inl e \<Rightarrow> (db_error e, s) | Inr ns \<Rightarrow> (jsonOK ns, s))"

definition getUserNodes :: "request \<Rightarrow> 'x server \<Rightarrow> node list reply \<times> 'x server" where
  "getUserNodes r = with_user r (\<lambda>user s.
     case ListNodesForUser (u_ID user) (db_of s) of Inl e \<Rightarrow> (db_error e, s) | Inr ns \<Rightarrow> (jsonOK ns, s))"

text \<open>The ids of the known names and the unknown names; an error of the database ends the loop.\<close>

fun resolveNodeNames :: "db \<Rightarrow> string list \<Rightarrow> db_err + (int list \<times> string list)" where
  "resolveNodeNames db [] = Inr ([], [])"
| "resolveNodeNames db (name # names) =
     (let name = TrimSpace name
      in if name = [] then resolveNodeNames db names
         else case GetNodeByName name db of
           Inl e \<Rightarrow> Inl e
         | Inr found \<Rightarrow>
             (case resolveNodeNames db names of
                Inl e \<Rightarrow> Inl e
              | Inr (ids, bad) \<Rightarrow>
                  (case found of
                     None \<Rightarrow> Inr (ids, name # bad)
                   | Some n \<Rightarrow> Inr (n_ID n # ids, bad))))"

definition dec_node_names :: "string list decoder" where
  "dec_node_names = dec_struct (\<lambda>p o'. fld ''nodes'' dec_strings o' p)"

definition setUserNodes :: "'x env \<Rightarrow> request \<Rightarrow> 'x server \<Rightarrow> node list reply \<times> 'x server" where
  "setUserNodes env r s =
     (if c_Nodes (e_cfg env) = [] then (JsonError 400 ''multi-node not configured'', s)
      else with_user r (\<lambda>user s.
        case decode_body dec_node_names [] r of
          None \<Rightarrow> (JsonError 400 ''invalid json body'', s)
        | Some names \<Rightarrow>
            (case resolveNodeNames (db_of s) names of
               Inl e \<Rightarrow> (db_error e, s)
             | Inr (ids, bad) \<Rightarrow>
                 if bad \<noteq> [] then (JsonError 400 (''unknown node(s): '' @ Join bad '', ''), s)
                 else case SetUserNodes (u_ID user) ids (db_of s) of
                   Inl e \<Rightarrow> (db_error e, s)
                 | Inr db \<Rightarrow>
                     (jsonOK (case ListNodesForUser (u_ID user) db of Inl _ \<Rightarrow> [] | Inr ns \<Rightarrow> ns), set_db db s))) s)"

definition deleteUserNode :: "'x env \<Rightarrow> request \<Rightarrow> 'x server \<Rightarrow> string reply \<times> 'x server" where
  "deleteUserNode env r s =
     (if c_Nodes (e_cfg env) = [] then (JsonError 400 ''multi-node not configured'', s)
      else with_user r (\<lambda>user s.
        let name = TrimSpace (var r ''nodeName'')
        in case GetNodeByName name (db_of s) of
             Inl e \<Rightarrow> (db_error e, s)
           | Inr None \<Rightarrow> (JsonError 404 ''node not found'', s)
           | Inr (Some n) \<Rightarrow>
               (case RemoveUserFromNode (u_ID user) (n_ID n) (db_of s) of
                  Inl e \<Rightarrow> (db_error e, s)
                | Inr db \<Rightarrow> (jsonOK name, set_db db s))) s)"

definition placeUserOnNodes :: "Config \<Rightarrow> int \<Rightarrow> string list \<Rightarrow> db \<Rightarrow> string option \<times> db" where
  "placeUserOnNodes cfg userID names db =
     (if c_Nodes cfg = [] then (None, db)
      else case (if names \<noteq> []
                 then (case resolveNodeNames db names of
                         Inl e \<Rightarrow> Inl (db_text e)
                       | Inr (ids, bad) \<Rightarrow>
                           if bad \<noteq> [] then Inl (''unknown node(s): '' @ Join bad '', '') else Inr ids)
                 else (case EnabledNodeIDs db of Inl e \<Rightarrow> Inl (db_text e) | Inr ids \<Rightarrow> Inr ids)) of
        Inl e \<Rightarrow> (Some e, db)
      | Inr ids \<Rightarrow>
          (case SetUserNodes userID ids db of
             Inl e \<Rightarrow> (Some (db_text e), db)
           | Inr db' \<Rightarrow> (None, db')))"

section \<open>Reconciling the nodes\<close>

definition isBenignAddExists :: "string \<Rightarrow> bool" where
  "isBenignAddExists e = Contains (ToLower e) ''exist''"

definition clientsToAdd :: "wanted_client list \<Rightarrow> string list \<Rightarrow> wanted_client list" where
  "clientsToAdd want have' = filter (\<lambda>w. w_Email w \<notin> set have') want"

fun add_wanted :: "'x handler \<Rightarrow> node \<Rightarrow> wanted_client list \<Rightarrow> 'x world \<Rightarrow> nat \<times> 'x world" where
  "add_wanted h n [] w = (0, w)"
| "add_wanted h n (c # cs) w =
     (case AddExistingClientToInboundViaAPI h (n_APIAddr n) (n_InboundTag n) (w_Email c) (w_ClientConfig c) w of
        (e, w) \<Rightarrow>
          (case add_wanted h n cs w of
             (errs, w) \<Rightarrow>
               ((case e of None \<Rightarrow> 0 | Some t \<Rightarrow> if isBenignAddExists t then 0 else 1) + errs, w)))"

definition storeNodeStatus :: "string \<Rightarrow> nodeSyncStatus \<Rightarrow> 'x server \<Rightarrow> 'x server" where
  "storeNodeStatus name st s = s\<lparr>srv_nodeStatus := map_put name st (srv_nodeStatus s)\<rparr>"

definition reconcileOneNode :: "'x env \<Rightarrow> node \<Rightarrow> 'x server \<Rightarrow> 'x server" where
  "reconcileOneNode env n s =
     (let st = \<lparr>ns_Reachable = False, ns_LastApplyOK = False, ns_UsersTarget = 0, ns_UsersPresent = 0,
                ns_ApplyErrors = 0, ns_LastReconcileAt = e_now env, ns_LastError = []\<rparr>
      in case ListWantedClientsForNode (n_ID n) (n_InboundTag n) (db_of s) of
           Inl e \<Rightarrow> storeNodeStatus (n_Name n) (st\<lparr>ns_LastError := ''list wanted: '' @ db_text e\<rparr>) s
         | Inr want \<Rightarrow>
             (let st = st\<lparr>ns_UsersTarget := length want\<rparr>
              in case GetInboundUsersViaAPI (e_xray env) (n_APIAddr n) (n_InboundTag n) (world_of s) of
                   Inl e \<Rightarrow> storeNodeStatus (n_Name n) (st\<lparr>ns_LastError := e\<rparr>) s
                 | Inr have' \<Rightarrow>
                     (case on_world (add_wanted (e_xray env) n (clientsToAdd want have')) s of
                        (errs, s) \<Rightarrow> storeNodeStatus (n_Name n)
                          (st\<lparr>ns_Reachable := True, ns_UsersPresent := length have', ns_ApplyErrors := errs,
                              ns_LastApplyOK := (errs = 0)\<rparr>) s)))"

definition reconcileNodesOnce :: "'x env \<Rightarrow> 'x server \<Rightarrow> 'x server" where
  "reconcileNodesOnce env s =
     (case ListNodes (db_of s) of
        Inl _ \<Rightarrow> s
      | Inr ns \<Rightarrow> fold (reconcileOneNode env) (filter n_Enabled ns) s)"

text \<open>One pass of the loop: the immediate one and that of each tick. In single-node mode, and with an
  interval that is not positive, there is none.\<close>

definition ReconcileNodesLoop :: "'x env \<Rightarrow> int \<Rightarrow> 'x server \<Rightarrow> 'x server" where
  "ReconcileNodesLoop env interval s =
     (if c_Nodes (e_cfg env) = [] \<or> interval \<le> 0 then s else reconcileNodesOnce env s)"

definition snapshotNodeStatus :: "Config \<Rightarrow> 'x server \<Rightarrow> (string \<times> nodeSyncStatus) list option" where
  "snapshotNodeStatus cfg s =
     (if c_Nodes cfg = [] \<or> srv_nodeStatus s = [] then None else Some (srv_nodeStatus s))"

end
