(* ===== verification/Users_Api.thy ===== *)
theory Users_Api
  imports Nodes_Api
begin

text \<open>
  The user handlers of \<^verbatim>\<open>internal/api/server.go\<close>: listing, creating, deleting, enabling and disabling
  users and their clients, with the provisioning of Xray that goes with them, and the handlers
  for inbounds and synchronisation.
\<close>

section \<open>Provisioning\<close>

definition find_tag :: "string \<Rightarrow> db \<Rightarrow> inbound option" where
  "find_tag tag db = (case ListInbounds db of Inl _ \<Rightarrow> None | Inr ibs \<Rightarrow> find (\<lambda>ib. ib_Tag ib = tag) ibs)"

definition upsert_client :: "int \<Rightarrow> int \<Rightarrow> jtext \<Rightarrow> db \<Rightarrow> db" where
  "upsert_client userID ibID cc db = (case UpsertUserClient userID ibID cc db of Inl _ \<Rightarrow> db | Inr db' \<Rightarrow> db')"

definition api_protocol :: "string \<Rightarrow> bool" where
  "api_protocol p = (p = ''vless'' \<or> p = ''vmess'' \<or> p = ''trojan'' \<or> p = ''shadowsocks'')"

text \<open>Storing the credential of a client that Xray has accepted: the row of the inbound is looked
  up, looked up again after a synchronisation, made from the configuration files, or made from
  the protocol that the caller gives.\<close>

definition store_credential :: "'x env \<Rightarrow> int \<Rightarrow> string \<Rightarrow> string \<Rightarrow> jtext \<Rightarrow> 'x server \<Rightarrow> 'x server" where
  "store_credential env userID tag protocolFallback clientConfig s =
     (case find_tag tag (db_of s) of
        Some ib \<Rightarrow> set_db (upsert_client userID (ib_ID ib) clientConfig (db_of s)) s
      | None \<Rightarrow>
          (let s = sync_now env s
           in case find_tag tag (db_of s) of
                Some ib \<Rightarrow> set_db (upsert_client userID (ib_ID ib) clientConfig (db_of s)) s
              | None \<Rightarrow>
                  (case (case GetInboundByTag_dir (e_order env) (c_ConfigDir (e_cfg env)) tag (w_dir (world_of s)) of
                           Inr (Some (ib, cf)) \<Rightarrow>
                             (case UpsertInbound (e_now env) (pi_Tag ib) (pi_Protocol ib) (pi_Port ib) cf (pi_RawJSON ib) (db_of s) of
                                Inr r \<Rightarrow> Some r | Inl _ \<Rightarrow> None)
                         | _ \<Rightarrow> None) of
                     Some (db, ibID) \<Rightarrow> set_db (upsert_client userID ibID clientConfig db) s
                   | None \<Rightarrow>
                       (let protocol = ToLower (TrimSpace protocolFallback);
                            port = (if c_APIUserInboundPort (e_cfg env) \<le> 0 then 443 else c_APIUserInboundPort (e_cfg env))
                        in if protocolFallback = [] \<or> \<not> api_protocol protocol then s
                           else case UpsertInbound (e_now env) tag protocol port ''api-managed''
                                       (fallback_raw tag protocol port) (db_of s) of
                             Inl _ \<Rightarrow> s
                           | Inr (db, ibID) \<Rightarrow> set_db (upsert_client userID ibID clientConfig db) s))))"

definition addUserToInbound :: "'x env \<Rightarrow> user \<Rightarrow> string \<Rightarrow> string \<Rightarrow> 'x server \<Rightarrow> 'x server" where
  "addUserToInbound env user tag protocolFallback s =
     (let hint = \<lparr>hint_ProtocolFallback = protocolFallback,
                  hint_ClientEncryption = lookup (c_VLESSClientEncryption (e_cfg env)) tag\<rparr>
      in case on_world (ad_AddClient (admin_of env) tag (ClientIdentity (Some user)) hint) s of
           (Inl _, s) \<Rightarrow> s
         | (Inr clientConfig, s) \<Rightarrow> store_credential env (u_ID user) tag protocolFallback clientConfig s)"

definition removeUserFromXray :: "'x env \<Rightarrow> int \<Rightarrow> string \<Rightarrow> 'x server \<Rightarrow> 'x server" where
  "removeUserFromXray env userID username s =
     (let username = TrimSpace username
      in if username = [] then s
         else case GetUserClients userID (db_of s) of
           Inl _ \<Rightarrow> s
         | Inr clients \<Rightarrow>
             (let s = fold (\<lambda>c s. snd (on_world (ad_RemoveClient (admin_of env) (f_InboundTag c) username) s)) clients s
              in if clients \<noteq> [] then add_job SyncJob s else s))"

definition addClientToXray :: "'x env \<Rightarrow> string \<Rightarrow> string \<Rightarrow> jtext \<Rightarrow> 'x server \<Rightarrow> 'x server" where
  "addClientToXray env username tag clientConfig s =
     (let username = TrimSpace username
      in if username = [] \<or> tag = [] then s
         else
           (let s = snd (on_world (ad_AddExistingClient (admin_of env) tag username clientConfig) s)
            in if TrimSpace (c_XrayAPIAddr (e_cfg env)) = [] then add_job SyncJob s else s))"

definition removeClientFromXray :: "'x env \<Rightarrow> string \<Rightarrow> string \<Rightarrow> 'x server \<Rightarrow> 'x server" where
  "removeClientFromXray env username tag s =
     (let username = TrimSpace username
      in if username = [] \<or> tag = [] then s
         else add_job SyncJob (snd (on_world (ad_RemoveClient (admin_of env) tag username) s)))"

definition addUserToXray :: "'x env \<Rightarrow> int \<Rightarrow> string \<Rightarrow> 'x server \<Rightarrow> 'x server" where
  "addUserToXray env userID username s =
     (let username = TrimSpace username
      in if username = [] then s
         else case GetUserClients userID (db_of s) of
           Inl _ \<Rightarrow> s
         | Inr clients \<Rightarrow>
             (let s = fold (\<lambda>c s. snd (on_world
                        (ad_AddExistingClient (admin_of env) (f_InboundTag c) username (uc_ClientConfig c)) s)) clients s
              in if TrimSpace (c_XrayAPIAddr (e_cfg env)) = [] \<and> clients \<noteq> [] then add_job SyncJob s else s))"

section \<open>Users\<close>

record user_list =
  ul_items :: "UserResponse list"
  ul_page :: "(nat \<times> int \<times> int) option"

definition listUsers :: "'x env \<Rightarrow> request \<Rightarrow> 'x server \<Rightarrow> user_list reply \<times> 'x server" where
  "listUsers env r s =
     (case parsePagination r of
        None \<Rightarrow>
          (case ListUsers (db_of s) of
             Inl e \<Rightarrow> (db_error e, s)
           | Inr us \<Rightarrow> (jsonOK \<lparr>ul_items = map (user_response (e_cfg env)) us, ul_page = None\<rparr>, s))
      | Some (limit, offset) \<Rightarrow>
          (case ListUsersPaginated limit offset (db_of s) of
             Inl e \<Rightarrow> (db_error e, s)
           | Inr us \<Rightarrow>
               (case CountUsers (db_of s) of
                  Inl e \<Rightarrow> (db_error e, s)
                | Inr count \<Rightarrow> (jsonOK \<lparr>ul_items = map (user_response (e_cfg env)) us,
                    ul_page = Some (count, limit, offset)\<rparr>, s))))"

record CreateUserRequest =
  cr_Username :: string
  cr_Inbounds :: "inbound_spec list"
  cr_Nodes :: "string list"

definition dec_inbound_spec :: "inbound_spec decoder" where
  "dec_inbound_spec = dec_struct (\<lambda>p o'.
     Option.bind (fld ''tag'' dec_string o' (is_Tag p)) (\<lambda>t.
     Option.bind (fld ''protocol'' dec_string o' (is_Protocol p)) (\<lambda>q.
     Some \<lparr>is_Tag = t, is_Protocol = q\<rparr>)))"

definition zero_spec :: inbound_spec where
  "zero_spec = \<lparr>is_Tag = [], is_Protocol = []\<rparr>"

definition dec_CreateUserRequest :: "CreateUserRequest decoder" where
  "dec_CreateUserRequest = dec_struct (\<lambda>p o'.
     Option.bind (fld ''username'' dec_string o' (cr_Username p)) (\<lambda>u.
     Option.bind (fld ''inbounds'' (dec_list dec_inbound_spec zero_spec) o' (cr_Inbounds p)) (\<lambda>ibs.
     Option.bind (fld ''nodes'' dec_strings o' (cr_Nodes p)) (\<lambda>ns.
     Some \<lparr>cr_Username = u, cr_Inbounds = ibs, cr_Nodes = ns\<rparr>))))"

text \<open>The inbounds of a new user: those of the request, or the one of the configuration.\<close>

definition inbounds_to_add :: "Config \<Rightarrow> CreateUserRequest \<Rightarrow> inbound_spec list" where
  "inbounds_to_add cfg req =
     (if cr_Inbounds req \<noteq> [] then cr_Inbounds req
      else let tag = TrimSpace (c_APIUserInboundTag cfg)
           in if tag \<noteq> [] then [\<lparr>is_Tag = tag, is_Protocol = TrimSpace (c_APIUserInboundProtocol cfg)\<rparr>] else [])"

text \<open>The protocol for an inbound: as given, or of the inbound in the database, or as configured.\<close>

definition choose_protocol :: "Config \<Rightarrow> inbound list \<Rightarrow> string \<Rightarrow> string \<Rightarrow> string" where
  "choose_protocol cfg ibs tag given =
     (let p = TrimSpace given;
          p = (if p = [] then (case find (\<lambda>ib. ib_Tag ib = tag) ibs of Some ib \<Rightarrow> ib_Protocol ib | None \<Rightarrow> []) else p)
      in if p = [] then TrimSpace (c_APIUserInboundProtocol cfg) else p)"

definition enrol :: "'x env \<Rightarrow> user \<Rightarrow> inbound list \<Rightarrow> inbound_spec \<Rightarrow> 'x server \<Rightarrow> 'x server" where
  "enrol env user ibs spec s =
     (let tag = TrimSpace (is_Tag spec)
      in if tag = [] then s
         else addUserToInbound env user tag (choose_protocol (e_cfg env) ibs tag (is_Protocol spec)) s)"

text \<open>The part of \<open>createUser\<close> after the checks.\<close>

definition create_checked :: "'x env \<Rightarrow> CreateUserRequest \<Rightarrow> 'x server \<Rightarrow> UserResponse reply \<times> 'x server" where
  "create_checked env req s =
     (let (token, s) = draw_token s; (fallbackToken, s) = draw_token s
      in case CreateUser (e_now env) (TrimSpace (cr_Username req)) [] token fallbackToken (db_of s) of
           Inl e \<Rightarrow> (db_error e, s)
         | Inr (db, user) \<Rightarrow>
             (let s = set_db db s;
                  specs = inbounds_to_add (e_cfg env) req;
                  ibs = (case ListInbounds (db_of s) of Inl _ \<Rightarrow> [] | Inr ibs \<Rightarrow> ibs);
                  s = fold (enrol env user ibs) specs s;
                  s = (if specs \<noteq> [] \<and> c_XrayAPIAddr (e_cfg env) = [] then add_job SyncJob s else s);
                  s = set_db (snd (placeUserOnNodes (e_cfg env) (u_ID user) (cr_Nodes req) (db_of s))) s
              in (jsonOK (user_response (e_cfg env) user), s)))"

definition createUser :: "'x env \<Rightarrow> request \<Rightarrow> 'x server \<Rightarrow> UserResponse reply \<times> 'x server" where
  "createUser env r s =
     (case decode_body dec_CreateUserRequest \<lparr>cr_Username = [], cr_Inbounds = [], cr_Nodes = []\<rparr> r of
        None \<Rightarrow> (JsonError 400 ''invalid json body'', s)
      | Some req \<Rightarrow>
          (case validateUsername (cr_Username req) of
             Some e \<Rightarrow> (JsonError 400 e, s)
           | None \<Rightarrow>
               (let username = TrimSpace (cr_Username req)
                in if (case GetUserByUsername username (db_of s) of Inr (Some _) \<Rightarrow> True | _ \<Rightarrow> False)
                   then (JsonError 409 ''username already exists'', s)
                   else case (if c_Nodes (e_cfg env) \<noteq> [] \<and> cr_Nodes req \<noteq> []
                              then resolveNodeNames (db_of s) (cr_Nodes req) else Inr ([], [])) of
                     Inl e \<Rightarrow> (db_error e, s)
                   | Inr (_, bad) \<Rightarrow>
                       if bad \<noteq> [] then (JsonError 400 (''unknown node(s): '' @ Join bad '', ''), s)
                       else create_checked env req s)))"

definition getUser :: "'x env \<Rightarrow> request \<Rightarrow> 'x server \<Rightarrow> UserResponse reply \<times> 'x server" where
  "getUser env r = with_user r (\<lambda>user s. (jsonOK (user_response (e_cfg env) user), s))"

definition getUserByTokenHandler :: "'x env \<Rightarrow> request \<Rightarrow> 'x server \<Rightarrow> UserResponse reply \<times> 'x server" where
  "getUserByTokenHandler env r s =
     (if TrimSpace (var r ''token'') = [] then (JsonError 400 ''token required'', s)
      else case GetUserByToken (var r ''token'') (db_of s) of
        Inl e \<Rightarrow> (db_error e, s)
      | Inr None \<Rightarrow> (JsonError 404 ''user not found'', s)
      | Inr (Some user) \<Rightarrow> (jsonOK (user_response (e_cfg env) user), s))"

definition deleteUser :: "'x env \<Rightarrow> request \<Rightarrow> 'x server \<Rightarrow> unit reply \<times> 'x server" where
  "deleteUser env r = with_user r (\<lambda>user s.
     let s = removeUserFromXray env (u_ID user) (ClientIdentity (Some user)) s
     in case DeleteUser (u_ID user) (db_of s) of
          Inl e \<Rightarrow> (db_error e, s)
        | Inr db \<Rightarrow> (jsonOK (), set_db db s))"

definition setUserEnabled :: "'x env \<Rightarrow> bool \<Rightarrow> request \<Rightarrow> 'x server \<Rightarrow> bool reply \<times> 'x server" where
  "setUserEnabled env enabled r = with_user r (\<lambda>user s.
     case SetUserEnabled (e_now env) (u_ID user) enabled (db_of s) of
       Inl e \<Rightarrow> (db_error e, s)
     | Inr db \<Rightarrow>
         (let s = set_db db s
          in (jsonOK enabled,
              if enabled then addUserToXray env (u_ID user) (ClientIdentity (Some user)) s
              else removeUserFromXray env (u_ID user) (ClientIdentity (Some user)) s)))"

definition regenerateToken :: "'x env \<Rightarrow> request \<Rightarrow> 'x server \<Rightarrow> (string \<times> string) reply \<times> 'x server" where
  "regenerateToken env r = with_user r (\<lambda>user s.
     let (newToken, s) = draw_token s
     in case UpdateUserToken (e_now env) (u_ID user) newToken (db_of s) of
          Inl e \<Rightarrow> (db_error e, s)
        | Inr db \<Rightarrow> (jsonOK (newToken, SubURL (e_cfg env) newToken), set_db db s))"

section \<open>Clients of a user\<close>

definition getUserClients :: "request \<Rightarrow> 'x server \<Rightarrow> user_client_full list reply \<times> 'x server" where
  "getUserClients r = with_user r (\<lambda>user s.
     case GetUserClients (u_ID user) (db_of s) of Inl e \<Rightarrow> (db_error e, s) | Inr cs \<Rightarrow> (jsonOK cs, s))"

definition addUserClient :: "'x env \<Rightarrow> request \<Rightarrow> 'x server \<Rightarrow> user_client_full reply \<times> 'x server" where
  "addUserClient env r = with_user r (\<lambda>user s.
     case decode_body dec_inbound_spec zero_spec r of
       None \<Rightarrow> (JsonError 400 ''invalid json body'', s)
     | Some req \<Rightarrow>
         (let tag = TrimSpace (is_Tag req)
          in if tag = [] then (JsonError 400 ''tag is required'', s)
             else case (case GetAllUserClients (u_ID user) (db_of s) of
                          Inl _ \<Rightarrow> None | Inr cs \<Rightarrow> find (\<lambda>c. f_InboundTag c = tag) cs) of
               Some c \<Rightarrow>
                 if uc_Enabled c then (jsonOK c, s)
                 else (case SetUserClientEnabled (u_ID user) (uc_InboundID c) True (db_of s) of
                         Inl e \<Rightarrow> (db_error e, s)
                       | Inr db \<Rightarrow> (jsonOK (c\<lparr>uc_Enabled := True\<rparr>),
                           addClientToXray env (ClientIdentity (Some user)) tag (uc_ClientConfig c) (set_db db s)))
             | None \<Rightarrow>
                 (let ibs = (case ListInbounds (db_of s) of Inl _ \<Rightarrow> [] | Inr ibs \<Rightarrow> ibs);
                      s = addUserToInbound env user tag (choose_protocol (e_cfg env) ibs tag (is_Protocol req)) s
                  in case GetUserClients (u_ID user) (db_of s) of
                       Inl e \<Rightarrow> (JsonError 500 ''failed to load created client'', s)
                     | Inr cs \<Rightarrow>
                         (case find (\<lambda>c. f_InboundTag c = tag) cs of
                            Some c \<Rightarrow> (jsonOK c, s)
                          | None \<Rightarrow> (JsonError 500 ''failed to add user to inbound'', s)))))"

definition setClientEnabled :: "'x env \<Rightarrow> bool \<Rightarrow> request \<Rightarrow> 'x server \<Rightarrow> bool reply \<times> 'x server" where
  "setClientEnabled env enabled r = with_user r (\<lambda>user s.
     case ParseInt (TrimSpace (var r ''inboundId'')) of
       None \<Rightarrow> (JsonError 400 ''invalid inbound id'', s)
     | Some inboundID \<Rightarrow>
         (case GetUserClientByUserAndInbound (u_ID user) inboundID (db_of s) of
            Inl e \<Rightarrow> (db_error e, s)
          | Inr (tag, clientConfig) \<Rightarrow>
              if tag = [] then (JsonError 404 ''client not found'', s)
              else case SetUserClientEnabled (u_ID user) inboundID enabled (db_of s) of
                Inl e \<Rightarrow> (db_error e, s)
              | Inr db \<Rightarrow> (jsonOK enabled,
                  if enabled then addClientToXray env (ClientIdentity (Some user)) tag clientConfig (set_db db s)
                  else removeClientFromXray env (ClientIdentity (Some user)) tag (set_db db s))))"

section \<open>Inbounds and synchronisation\<close>

record inbound_item =
  ii_inbound :: inbound
  ii_fallback_only :: bool
  ii_pseudo :: bool

definition hysteriaPseudoInbound :: "hysteria_config \<Rightarrow> inbound_item" where
  "hysteriaPseudoInbound h = \<lparr>ii_inbound = \<lparr>ib_ID = 0, ib_Tag = ''hysteria2-reserve'', ib_Protocol = ''hysteria2'',
       ib_Port = hy_Port h, ib_ConfigFile = ''native-daemon'',
       ib_RawConfig = Doc (JObj [(''tag'', JStr ''hysteria2-reserve''), (''protocol'', JStr ''hysteria2''),
         (''port'', JInt (hy_Port h)), (''pseudo'', JBool True)]), ib_UpdatedAt = 0\<rparr>,
     ii_fallback_only = False, ii_pseudo = True\<rparr>"

definition inbound_item_of :: "Config \<Rightarrow> inbound \<Rightarrow> inbound_item" where
  "inbound_item_of cfg ib = \<lparr>ii_inbound = ib,
     ii_fallback_only = (ib_Tag ib \<in> set (c_FallbackInboundTags cfg)), ii_pseudo = False\<rparr>"

definition listInbounds :: "'x env \<Rightarrow> request \<Rightarrow> 'x server \<Rightarrow> (inbound_item list \<times> (nat \<times> int \<times> int) option) reply \<times> 'x server" where
  "listInbounds env r s =
     (case parsePagination r of
        None \<Rightarrow>
          (case ListInbounds (db_of s) of
             Inl e \<Rightarrow> (db_error e, s)
           | Inr ibs \<Rightarrow> (jsonOK (map (inbound_item_of (e_cfg env)) ibs @
               (case c_Hysteria (e_cfg env) of
                  Some h \<Rightarrow> if hy_Enabled h then [hysteriaPseudoInbound h] else [] | None \<Rightarrow> []), None), s))
      | Some (limit, offset) \<Rightarrow>
          (case ListInboundsPaginated limit offset (db_of s) of
             Inl e \<Rightarrow> (db_error e, s)
           | Inr ibs \<Rightarrow>
               (case CountInbounds (db_of s) of
                  Inl e \<Rightarrow> (db_error e, s)
                | Inr count \<Rightarrow> (jsonOK (map (inbound_item_of (e_cfg env)) ibs, Some (count, limit, offset)), s))))"

definition triggerSync :: "'x server \<Rightarrow> unit reply \<times> 'x server" where
  "triggerSync s = (jsonOK (), add_job SyncJob s)"

definition handleSyncStatus :: "'x env \<Rightarrow> 'x server \<Rightarrow> (SyncStatus \<times> (string \<times> nodeSyncStatus) list option) reply \<times> 'x server" where
  "handleSyncStatus env s =
     (jsonOK (Status (e_now env) (srv_service s), snapshotNodeStatus (e_cfg env) s), s)"

end
