(* ===== verification/Url.thy ===== *)
theory Url
  imports Config Json
begin

text \<open>
  What the link builders use of \<^verbatim>\<open>net/url\<close> and \<^verbatim>\<open>encoding/json\<close>: escaping of query components and path
  segments, \<open>url.Values\<close>, the text of a JSON value, and the inverse functions a client applies.
  A character is a byte.
\<close>

section \<open>Escaping\<close>

definition unreserved :: "char \<Rightarrow> bool" where
  "unreserved c = (c \<in> set (upper_letters @ lower_letters @ digit_chars @ ''-_.~''))"

definition upper_hex :: string where
  "upper_hex = ''0123456789ABCDEF''"

definition percent :: "char \<Rightarrow> string" where
  "percent c = [CHR ''%'', upper_hex ! (of_char c div 16), upper_hex ! (of_char c mod 16)]"

definition query_char :: "char \<Rightarrow> string" where
  "query_char c = (if unreserved c then [c] else if c = CHR '' '' then ''+'' else percent c)"

definition QueryEscape :: "string \<Rightarrow> string" where
  "QueryEscape s = concat (map query_char s)"

definition path_char :: "char \<Rightarrow> string" where
  "path_char c = (if unreserved c \<or> c \<in> set ''$&+=:@'' then [c] else percent c)"

definition PathEscape :: "string \<Rightarrow> string" where
  "PathEscape s = concat (map path_char s)"

text \<open>\<open>url.Values\<close> with one value per key: \<open>Set\<close> replaces, \<open>Encode\<close> writes the keys in order.\<close>

type_synonym url_values = "(string \<times> string) list"

definition Set :: "string \<Rightarrow> string \<Rightarrow> url_values \<Rightarrow> url_values" where
  "Set k v q = map_put k v q"

definition encode_pair :: "string \<times> string \<Rightarrow> string" where
  "encode_pair kv = QueryEscape (fst kv) @ ''='' @ QueryEscape (snd kv)"

definition Encode :: "url_values \<Rightarrow> string" where
  "Encode q = Join (map encode_pair (sort_key fst q)) ''&''"

section \<open>JSON text\<close>

text \<open>The text \<open>json.Marshal\<close> writes: members of a map in the order of their keys, and the
  characters that are special in HTML escaped. A number is written as it was read.\<close>

definition lower_hex :: string where
  "lower_hex = ''0123456789abcdef''"

definition json_char :: "char \<Rightarrow> string" where
  "json_char c =
     (if c = CHR 0x22 then [CHR 0x5C, CHR 0x22]
      else if c = CHR 0x5C then [CHR 0x5C, CHR 0x5C]
      else if c = CHR 0x08 then [CHR 0x5C, CHR ''b'']
      else if c = CHR 0x0C then [CHR 0x5C, CHR ''f'']
      else if c = CHR 0x0A then [CHR 0x5C, CHR ''n'']
      else if c = CHR 0x0D then [CHR 0x5C, CHR ''r'']
      else if c = CHR 0x09 then [CHR 0x5C, CHR ''t'']
      else if of_char c < (32 :: nat) \<or> c = CHR ''<'' \<or> c = CHR ''>'' \<or> c = CHR ''&''
      then [CHR 0x5C] @ ''u00'' @ [lower_hex ! (of_char c div 16), lower_hex ! (of_char c mod 16)]
      else [c])"

definition json_string :: "string \<Rightarrow> string" where
  "json_string s = [CHR 0x22] @ concat (map json_char s) @ [CHR 0x22]"

fun json_text :: "json \<Rightarrow> string" where
  "json_text JNull = ''null''"
| "json_text (JBool b) = (if b then ''true'' else ''false'')"
| "json_text (JInt i) = Itoa i"
| "json_text (JNum s) = s"
| "json_text (JStr s) = json_string s"
| "json_text (JArr js) = ''['' @ Join (map json_text js) '','' @ '']''"
| "json_text (JObj o') = ''{'' @ Join (map snd (sort_key fst
     (map (\<lambda>(k, v). (k, json_string k @ '':'' @ json_text v)) o'))) '','' @ ''}''"

section \<open>Reading back\<close>

definition hex_value :: "char \<Rightarrow> nat option" where
  "hex_value c = map_of (zip upper_hex [0..<16]) c"

fun QueryUnescape :: "string \<Rightarrow> string option" where
  "QueryUnescape [] = Some []"
| "QueryUnescape (c # cs) =
     (if c = CHR ''%''
      then (case cs of
              a # b # r \<Rightarrow>
                (case (hex_value a, hex_value b, QueryUnescape r) of
                   (Some x, Some y, Some s) \<Rightarrow> Some (char_of (16 * x + y) # s)
                 | _ \<Rightarrow> None)
            | _ \<Rightarrow> None)
      else map_option (\<lambda>s. (if c = CHR ''+'' then CHR '' '' else c) # s) (QueryUnescape cs))"

text \<open>\<open>strings.Cut\<close>: what stands before and after the first occurrence of a character.\<close>

definition cut :: "char \<Rightarrow> string \<Rightarrow> (string \<times> string) option" where
  "cut c s = (if c \<in> set s then Some (takeWhile (\<lambda>x. x \<noteq> c) s, tl (dropWhile (\<lambda>x. x \<noteq> c) s)) else None)"

definition decode_pair :: "string \<Rightarrow> (string \<times> string) option" where
  "decode_pair p = (case cut (CHR ''='') p of
     None \<Rightarrow> None
   | Some (k, v) \<Rightarrow> (case (QueryUnescape k, QueryUnescape v) of
       (Some k', Some v') \<Rightarrow> Some (k', v') | _ \<Rightarrow> None))"

definition ParseQuery :: "string \<Rightarrow> url_values option" where
  "ParseQuery s = (if s = [] then Some [] else those (map decode_pair (split_on (CHR ''&'') s)))"

section \<open>Round trips\<close>

lemma upper_hex_ok: "distinct upper_hex" "length upper_hex = 16"
  by code_simp+

lemma hex_value_upper: "n < 16 \<Longrightarrow> hex_value (upper_hex ! n) = Some n"
  using map_of_zip_nth [of upper_hex "[0..<16]" n] upper_hex_ok by (simp add: hex_value_def)

lemma char_halves: "of_char c div 16 < (16 :: nat)" "of_char c mod 16 < (16 :: nat)"
  using nat_of_char_less_256 [of c] by (simp_all add: less_mult_imp_div_less)

lemma unreserved_special: "\<not> unreserved (CHR ''%'')" "\<not> unreserved (CHR ''+'')" "\<not> unreserved (CHR ''&'')"
  "\<not> unreserved (CHR ''='')" "\<not> unreserved (CHR ''#'')" "\<not> unreserved (CHR ''?'')" "\<not> unreserved (CHR ''@'')"
  by code_simp+

lemma unescape_char: "QueryUnescape (query_char c @ s) = map_option ((#) c) (QueryUnescape s)"
proof (cases "unreserved c \<or> c = CHR '' ''")
  case True
  with unreserved_special show ?thesis by (auto simp: query_char_def map_option_case split: option.splits)
next
  case False
  have "16 * (of_char c div 16) + of_char c mod 16 = (of_char c :: nat)" by simp
  with False show ?thesis
    by (simp add: query_char_def percent_def hex_value_upper char_halves map_option_case split: option.splits)
qed

lemma unescape_escape: "QueryUnescape (QueryEscape s) = Some s"
  by (induction s) (simp_all add: QueryEscape_def unescape_char)

lemma upper_hex_unreserved: "c \<in> set upper_hex \<Longrightarrow> unreserved c"
  unfolding upper_hex_def unreserved_def upper_letters_def digit_chars_def by auto

lemma escaped_chars: "c \<in> set (QueryEscape s) \<Longrightarrow> unreserved c \<or> c = CHR ''+'' \<or> c = CHR ''%''"
proof -
  have "c \<in> set (query_char d) \<Longrightarrow> unreserved c \<or> c = CHR ''+'' \<or> c = CHR ''%''" for d
    using char_halves [of d] upper_hex_ok(2)
    by (auto simp: query_char_def percent_def upper_hex_unreserved split: if_splits)
  then show "c \<in> set (QueryEscape s) \<Longrightarrow> ?thesis" by (auto simp: QueryEscape_def)
qed

lemma escape_free:
  "CHR ''&'' \<notin> set (QueryEscape s)" "CHR ''='' \<notin> set (QueryEscape s)" "CHR ''#'' \<notin> set (QueryEscape s)"
  "CHR ''?'' \<notin> set (QueryEscape s)" "CHR ''@'' \<notin> set (QueryEscape s)"
  using escaped_chars unreserved_special by blast+

lemma cut_append: "c \<notin> set a \<Longrightarrow> cut c (a @ c # b) = Some (a, b)"
proof -
  assume "c \<notin> set a"
  then have "takeWhile (\<lambda>x. x \<noteq> c) (a @ c # b) = a" "dropWhile (\<lambda>x. x \<noteq> c) (a @ c # b) = c # b"
    by (induction a) auto
  then show ?thesis by (simp add: cut_def)
qed

lemma decode_encode_pair: "decode_pair (encode_pair kv) = Some kv"
  using cut_append [of "CHR ''=''" "QueryEscape (fst kv)" "QueryEscape (snd kv)"] escape_free
  by (simp add: decode_pair_def encode_pair_def unescape_escape)

lemma split_on_Join: "ps \<noteq> [] \<Longrightarrow> \<forall>p\<in>set ps. c \<notin> set p \<Longrightarrow> split_on c (Join ps [c]) = ps"
proof (induction ps rule: induct_list012)
  case (3 p q ps)
  then show ?case by (simp add: split_on_append)
qed (simp_all add: split_on_none)

lemma those_map_Some: "(\<And>x. f (g x) = Some x) \<Longrightarrow> those (map f (map g xs)) = Some xs"
  by (induction xs) simp_all

lemma encode_pair_free: "CHR ''&'' \<notin> set (encode_pair kv)" "encode_pair kv \<noteq> []"
  "CHR ''#'' \<notin> set (encode_pair kv)" "CHR ''?'' \<notin> set (encode_pair kv)"
  using escape_free by (auto simp: encode_pair_def)

lemma Join_nonempty: "ps \<noteq> [] \<Longrightarrow> \<forall>p\<in>set ps. p \<noteq> [] \<Longrightarrow> Join ps sep \<noteq> []"
  by (induction ps sep rule: Join.induct) auto

lemma set_Join: "set (Join ps sep) \<subseteq> (\<Union>p\<in>set ps. set p) \<union> set sep"
  by (induction ps sep rule: Join.induct) auto

text \<open>A query string is read back as the pairs it was made of, in the order of the keys.\<close>

lemma ParseQuery_Encode: "ParseQuery (Encode q) = Some (sort_key fst q)"
proof (cases "q = []")
  case True
  then show ?thesis by (simp add: ParseQuery_def Encode_def)
next
  case False
  let ?ps = "map encode_pair (sort_key fst q)"
  have ne: "?ps \<noteq> []" using False by (metis length_0_conv length_map length_sort)
  have "Join ?ps ''&'' \<noteq> []" by (rule Join_nonempty) (use ne encode_pair_free in auto)
  moreover have "split_on (CHR ''&'') (Join ?ps ''&'') = ?ps"
    by (rule split_on_Join) (use ne encode_pair_free in auto)
  ultimately show ?thesis
    using those_map_Some [of decode_pair encode_pair "sort_key fst q"] by (simp add: ParseQuery_def Encode_def decode_encode_pair)
qed

lemma Encode_free: "CHR ''#'' \<notin> set (Encode q)" "CHR ''?'' \<notin> set (Encode q)"
  using set_Join [of "map encode_pair (sort_key fst q)" "''&''"] encode_pair_free
  by (auto simp: Encode_def)

end
