(* ===== verification/Links.thy ===== *)
theory Links
  imports Url Generator Base64
begin

text \<open>
  Share links (\<^verbatim>\<open>internal/api/sub_links.go\<close>): one URI per outbound of a generated configuration, and
  the Hysteria2 link (\<^verbatim>\<open>internal/api/hysteria.go\<close>).
\<close>

record proxyLink =
  pl_Protocol :: string
  pl_Tag :: string
  pl_URL :: string

section \<open>Parameters\<close>

text \<open>A raw message read into a \<open>map[string]interface{}\<close>; an error gives no members.\<close>

definition members :: "json option \<Rightarrow> (string \<times> json) list" where
  "members j = (case j of Some (JObj o') \<Rightarrow> o' | _ \<Rightarrow> [])"

definition set_nonempty :: "string \<Rightarrow> string \<Rightarrow> url_values \<Rightarrow> url_values" where
  "set_nonempty k v q = (if v \<noteq> [] then Set k v q else q)"

definition set_member :: "string \<Rightarrow> (string \<times> json) list \<Rightarrow> url_values \<Rightarrow> url_values" where
  "set_member k o' q = set_nonempty k (as_str (obj_get k o')) q"

definition applyTransportParams :: "StreamSettings \<Rightarrow> url_values \<Rightarrow> url_values" where
  "applyTransportParams ss q =
     (if ss_Network ss = ''ws''
      then (let ws = members (ss_WSSettings ss) in set_member ''host'' ws (set_member ''path'' ws q))
      else if ss_Network ss = ''grpc'' then set_member ''serviceName'' (members (ss_GRPCSettings ss)) q
      else if ss_Network ss = ''xhttp''
      then (let xh = members (ss_XHTTPSettings ss);
                q = set_member ''mode'' xh (set_member ''host'' xh (set_member ''path'' xh q))
            in case as_obj (obj_get ''extra'' xh) of
                 Some ex \<Rightarrow> if ex \<noteq> [] then Set ''extra'' (json_text (JObj ex)) q else q
               | None \<Rightarrow> q)
      else q)"

definition applyTLSCertParams :: "TLSSettings \<Rightarrow> url_values \<Rightarrow> url_values" where
  "applyTLSCertParams tls q =
     (let q = (if ts_PinnedPeerCertSha256 tls \<noteq> [] then Set ''pcs'' (Join (ts_PinnedPeerCertSha256 tls) '','') q else q)
      in set_nonempty ''vcn'' (ts_VerifyPeerCertByName tls) q)"

definition extractFinalmask :: "json \<Rightarrow> string" where
  "extractFinalmask settings = (case obj_get ''finalmask'' (members (Some settings)) of
     None \<Rightarrow> []
   | Some fm \<Rightarrow> if fm = JNull \<or> fm = JObj [] then [] else json_text fm)"

section \<open>Links\<close>

definition vless_params :: "Outbound \<Rightarrow> VLESSUser \<Rightarrow> url_values" where
  "vless_params ob u =
     (let q = Set ''encryption'' (firstNonEmptyString [vlu_Encryption u, ''none'']) [];
          q = set_nonempty ''flow'' (vlu_Flow u) q;
          q = (case ob_StreamSettings ob of
                 None \<Rightarrow> q
               | Some ss \<Rightarrow>
                   (let q = Set ''type'' (firstNonEmptyString [ss_Network ss, ''tcp'']) q;
                        q = set_nonempty ''security'' (ss_Security ss) q;
                        q = (case ss_RealitySettings ss of
                               Some rs \<Rightarrow>
                                 if ss_Security ss = ''reality''
                                 then set_nonempty ''pqv'' (rs_MLDSA65Verify rs) (set_nonempty ''spx'' (rs_SpiderX rs)
                                        (set_nonempty ''sid'' (rs_ShortId rs) (set_nonempty ''pbk'' (rs_PublicKey rs)
                                        (set_nonempty ''fp'' (rs_Fingerprint rs) (set_nonempty ''sni'' (rs_ServerName rs) q)))))
                                 else q
                             | None \<Rightarrow> q);
                        q = (case ss_TLSSettings ss of
                               Some tls \<Rightarrow> if ss_Security ss = ''tls'' then applyTLSCertParams tls q else q
                             | None \<Rightarrow> q)
                    in applyTransportParams ss q))
      in set_nonempty ''fm'' (extractFinalmask (ob_Settings ob)) q)"

definition link_text :: "string \<Rightarrow> string \<Rightarrow> string \<Rightarrow> int \<Rightarrow> string \<Rightarrow> url_values \<Rightarrow> string \<Rightarrow> string" where
  "link_text scheme user address port sep q name =
     scheme @ ''://'' @ QueryEscape user @ ''@'' @ address @ '':'' @ Itoa port @ sep @ Encode q @ ''#'' @ QueryEscape name"

definition buildVLESSLink :: "Outbound \<Rightarrow> string" where
  "buildVLESSLink ob = (case dec_VLESSOutboundSettings zero_VLESSOutboundSettings (ob_Settings ob) of
     None \<Rightarrow> []
   | Some s \<Rightarrow>
       (case vlo_Vnext s of
          [] \<Rightarrow> []
        | vn # _ \<Rightarrow>
            (case vls_Users vn of
               [] \<Rightarrow> []
             | u # _ \<Rightarrow> link_text ''vless'' (vlu_ID u) (vls_Address vn) (vls_Port vn) ''?'' (vless_params ob u) (ob_Tag ob))))"

definition set_item :: "string \<Rightarrow> json option \<Rightarrow> (string \<times> string) list \<Rightarrow> (string \<times> string) list" where
  "set_item k j item = (case j of Some (JStr v) \<Rightarrow> map_put k v item | _ \<Rightarrow> item)"

definition applyVMessTransport :: "StreamSettings \<Rightarrow> (string \<times> string) list \<Rightarrow> (string \<times> string) list" where
  "applyVMessTransport ss item =
     (if ss_Network ss = ''ws''
      then (let ws = members (ss_WSSettings ss)
            in set_item ''host'' (obj_get ''host'' ws) (set_item ''path'' (obj_get ''path'' ws) item))
      else if ss_Network ss = ''grpc''
      then set_item ''path'' (obj_get ''serviceName'' (members (ss_GRPCSettings ss))) item
      else item)"

definition vmess_item :: "Outbound \<Rightarrow> VMessServer \<Rightarrow> VMessUser \<Rightarrow> (string \<times> string) list" where
  "vmess_item ob vn u =
     (let item = [(''v'', ''2''), (''ps'', ob_Tag ob), (''add'', vms_Address vn), (''port'', Itoa (vms_Port vn)),
            (''id'', vmu_ID u), (''aid'', Itoa (vmu_AlterId u)), (''scy'', firstNonEmptyString [vmu_Security u, ''auto'']),
            (''net'', ''tcp''), (''type'', ''none''), (''host'', []), (''path'', []), (''tls'', []), (''sni'', []),
            (''alpn'', []), (''fp'', [])]
      in case ob_StreamSettings ob of
           None \<Rightarrow> item
         | Some ss \<Rightarrow>
             (let item = (if ss_Network ss \<noteq> [] then map_put ''net'' (ss_Network ss) item else item);
                  item = (if ss_Security ss = ''tls'' \<or> ss_Security ss = ''reality''
                          then map_put ''tls'' (ss_Security ss) item else item);
                  item = (case ss_TLSSettings ss of
                            Some t \<Rightarrow> map_put ''fp'' (ts_Fingerprint t) (map_put ''sni'' (ts_ServerName t) item)
                          | None \<Rightarrow> item);
                  item = (case ss_RealitySettings ss of
                            Some t \<Rightarrow> map_put ''fp'' (rs_Fingerprint t) (map_put ''sni'' (rs_ServerName t) item)
                          | None \<Rightarrow> item)
              in applyVMessTransport ss item))"

definition buildVMessLink :: "Outbound \<Rightarrow> string" where
  "buildVMessLink ob = (case dec_VMessOutboundSettings zero_VMessOutboundSettings (ob_Settings ob) of
     None \<Rightarrow> []
   | Some s \<Rightarrow>
       (case vmo_Vnext s of
          [] \<Rightarrow> []
        | vn # _ \<Rightarrow>
            (case vms_Users vn of
               [] \<Rightarrow> []
             | u # _ \<Rightarrow> ''vmess://'' @ EncodeToString
                 (json_text (JObj (map (\<lambda>(k, v). (k, JStr v)) (vmess_item ob vn u)))))))"

definition trojan_params :: "Outbound \<Rightarrow> url_values" where
  "trojan_params ob =
     (let q = (case ob_StreamSettings ob of
                 None \<Rightarrow> []
               | Some ss \<Rightarrow>
                   (let q = Set ''type'' (firstNonEmptyString [ss_Network ss, ''tcp'']) [];
                        q = set_nonempty ''security'' (ss_Security ss) q;
                        q = (case ss_TLSSettings ss of
                               Some tls \<Rightarrow> applyTLSCertParams tls
                                 (set_nonempty ''fp'' (ts_Fingerprint tls) (set_nonempty ''sni'' (ts_ServerName tls) q))
                             | None \<Rightarrow> q)
                    in applyTransportParams ss q))
      in set_nonempty ''fm'' (extractFinalmask (ob_Settings ob)) q)"

definition buildTrojanLink :: "Outbound \<Rightarrow> string" where
  "buildTrojanLink ob = (case dec_TrojanOutboundSettings zero_TrojanOutboundSettings (ob_Settings ob) of
     None \<Rightarrow> []
   | Some s \<Rightarrow>
       (case tjo_Servers s of
          [] \<Rightarrow> []
        | sv # _ \<Rightarrow> link_text ''trojan'' (tjs_Password sv) (tjs_Address sv) (tjs_Port sv) ''?'' (trojan_params ob) (ob_Tag ob)))"

definition buildSSLink :: "Outbound \<Rightarrow> string" where
  "buildSSLink ob = (case dec_ShadowsocksOutboundSettings zero_ShadowsocksOutboundSettings (ob_Settings ob) of
     None \<Rightarrow> []
   | Some s \<Rightarrow>
       (case sco_Servers s of
          [] \<Rightarrow> []
        | sv # _ \<Rightarrow> ''ss://'' @ EncodeToString (scs_Method sv @ '':'' @ scs_Password sv) @ ''@'' @ scs_Address sv @
            '':'' @ Itoa (scs_Port sv) @ ''#'' @ QueryEscape (ob_Tag ob)))"

definition link_of :: "Outbound \<Rightarrow> proxyLink list" where
  "link_of ob =
     (let url = (if ob_Protocol ob = ''vless'' then buildVLESSLink ob
                 else if ob_Protocol ob = ''vmess'' then buildVMessLink ob
                 else if ob_Protocol ob = ''trojan'' then buildTrojanLink ob
                 else if ob_Protocol ob = ''shadowsocks'' then buildSSLink ob
                 else [])
      in if url \<noteq> [] then [\<lparr>pl_Protocol = ob_Protocol ob, pl_Tag = ob_Tag ob, pl_URL = url\<rparr>] else [])"

definition buildProxyLinkEntries :: "ClientConfig \<Rightarrow> proxyLink list" where
  "buildProxyLinkEntries cfg = concat (map link_of (cc_Outbounds cfg))"

definition buildProxyLinks :: "ClientConfig \<Rightarrow> string list" where
  "buildProxyLinks cfg = map pl_URL (buildProxyLinkEntries cfg)"

section \<open>Hysteria2\<close>

definition buildHysteria2URI :: "string \<Rightarrow> string \<Rightarrow> hysteria_config \<Rightarrow> string" where
  "buildHysteria2URI auth name h =
     (let q = (if hy_ObfsType h \<noteq> [] \<and> hy_ObfsPassword h \<noteq> []
               then Set ''obfs-password'' (hy_ObfsPassword h) (Set ''obfs'' (hy_ObfsType h) []) else []);
          q = set_nonempty ''sni'' (hy_SNI h) q;
          q = (if hy_CertPin h \<noteq> [] then Set ''insecure'' ''1'' (Set ''pinSHA256'' (hy_CertPin h) q) else q)
      in link_text ''hysteria2'' auth (hy_Host h) (hy_Port h) ''/?'' q name)"

end
