(* ===== verification/Subscription.thy ===== *)
theory Subscription
  imports Links Nodes_Api
begin

text \<open>
  Serving subscriptions (\<^verbatim>\<open>internal/api/server.go\<close>, \<^verbatim>\<open>sub_links.go\<close>, \<^verbatim>\<open>hysteria.go\<close> and the middleware of
  \<^verbatim>\<open>fallback.go\<close>): from the token of a request to the clients that are served, the generated
  configuration, and its forms as JSON or share links. The handlers only read the database; the
  middleware for fallback tokens counts refusals and notes the access.
\<close>

section \<open>Selecting clients\<close>

definition filterExcludedInbounds :: "Config \<Rightarrow> user_client_full list \<Rightarrow> user_client_full list" where
  "filterExcludedInbounds cfg clients =
     (if c_ExcludeInboundTags cfg = [] then clients
      else filter (\<lambda>c. f_InboundTag c \<notin> set (c_ExcludeInboundTags cfg)) clients)"

text \<open>The tags of the fallback inbounds are a white list on fallback requests and a black list on
  all others.\<close>

definition split_fallback :: "Config \<Rightarrow> bool \<Rightarrow> user_client_full list \<Rightarrow> user_client_full list" where
  "split_fallback cfg isFallback clients =
     (if c_FallbackInboundTags cfg = [] then clients
      else filter (\<lambda>c. (f_InboundTag c \<in> set (c_FallbackInboundTags cfg)) = isFallback) clients)"

definition emergency_filter :: "emergency_status \<Rightarrow> user_client_full list \<Rightarrow> user_client_full list" where
  "emergency_filter em clients =
     (case es_Profile em of
        Some p \<Rightarrow>
          if ep_InboundTags p \<noteq> []
          then (let emergency = filter (\<lambda>c. f_InboundTag c \<in> set (ep_InboundTags p)) clients
                in if emergency \<noteq> [] then emergency else clients)
          else clients
      | None \<Rightarrow> clients)"

definition extractProtocolFilter :: "request \<Rightarrow> string" where
  "extractProtocolFilter r =
     (let p = ToLower (TrimSpace (var r ''protocol''))
      in if p \<noteq> [] then p else ToLower (TrimSpace (query r ''protocol'')))"

definition extractInboundTagFilter :: "request \<Rightarrow> string" where
  "extractInboundTagFilter r =
     (let t = TrimSpace (var r ''inboundTag'') in if t \<noteq> [] then t else TrimSpace (query r ''inbound_tag''))"

definition matchesInboundTagFilter :: "string \<Rightarrow> string \<Rightarrow> nat \<Rightarrow> bool" where
  "matchesInboundTagFilter inboundTag flt index =
     (let flt = TrimSpace flt;
          sanitized = Replacer [('' '', ''-''), (''/'', ''-''), ([CHR 0x5C], ''-'')] inboundTag
      in flt = [] \<or> inboundTag = flt \<or> sanitized = flt \<or> sanitized @ ''-'' @ Itoa (int index) = flt)"

definition filter_indexed :: "(nat \<Rightarrow> 'a \<Rightarrow> bool) \<Rightarrow> 'a list \<Rightarrow> 'a list" where
  "filter_indexed P xs = map snd (filter (\<lambda>(i, x). P i x) (zip [0..<length xs] xs))"

definition applySubscriptionFiltersWithProtocol :: "request \<Rightarrow> string \<Rightarrow> user_client_full list \<Rightarrow> user_client_full list" where
  "applySubscriptionFiltersWithProtocol r forcedProtocol clients =
     (let p = ToLower (TrimSpace forcedProtocol);
          p = (if p = [] then extractProtocolFilter r else p);
          result = (if p \<noteq> [] then filter (\<lambda>c. EqualFold (f_InboundProtocol c) p) clients else clients);
          t = extractInboundTagFilter r
      in if t \<noteq> [] then filter_indexed (\<lambda>i c. matchesInboundTagFilter (f_InboundTag c) t i) result else result)"

definition effectiveHost :: "Config \<Rightarrow> request \<Rightarrow> string" where
  "effectiveHost cfg r =
     (if rq_fallback r \<and> c_FallbackServerHost cfg \<noteq> [] then c_FallbackServerHost cfg else c_ServerHost cfg)"

definition effectiveInboundHosts :: "Config \<Rightarrow> request \<Rightarrow> (string \<times> string) list" where
  "effectiveInboundHosts cfg r =
     (case c_FallbackInboundHosts cfg of
        Some hosts \<Rightarrow> if rq_fallback r then hosts else c_InboundHosts cfg
      | None \<Rightarrow> c_InboundHosts cfg)"

section \<open>The user of a request\<close>

definition user_of_token :: "string \<Rightarrow> db \<Rightarrow> (nat \<times> string) + user" where
  "user_of_token token db =
     (if token = [] then Inl (400, ''missing token'')
      else case GetUserByToken token db of
        Inr (Some user) \<Rightarrow> if u_Enabled user then Inr user else Inl (403, ''user disabled'')
      | _ \<Rightarrow> Inl (404, ''invalid token''))"

text \<open>The part that the JSON and the link handlers have in common: expanding the selected clients to
  the nodes of the user and generating the configuration.\<close>

definition generate_for ::
  "'x env \<Rightarrow> request \<Rightarrow> db \<Rightarrow> user \<Rightarrow> user_client_full list \<Rightarrow> (nat \<times> string) + ClientConfig" where
  "generate_for env r db user clients =
     (if clients = [] then Inl (404, ''no enabled clients matched filters'')
      else case GetGlobalClientRoutes db of
        Inl _ \<Rightarrow> Inl (500, ''internal error'')
      | Inr globalRoutes \<Rightarrow>
          (case getEffectiveBalancerConfig (e_cfg env) db of
             Inl _ \<Rightarrow> Inl (500, ''internal error'')
           | Inr (strategy, probeURL, probeInterval) \<Rightarrow>
               (let clients = expandClientsForNodes (e_cfg env) db (u_ID user) clients
                in if clients = [] then Inl (404, ''no client endpoints after node placement'')
                   else case GenerateClientConfig (e_x25519 env) (effectiveHost (e_cfg env) r)
                          (effectiveInboundHosts (e_cfg env) r) (c_InboundPorts (e_cfg env)) user clients globalRoutes
                          strategy probeURL probeInterval (c_SocksInboundPort (e_cfg env)) (c_HTTPInboundPort (e_cfg env))
                          (c_ClientDNSServers (e_cfg env)) (c_ClientBlackholeResponse (e_cfg env)) of
                     Inl _ \<Rightarrow> Inl (500, ''could not generate config: no valid outbounds could be generated'')
                   | Inr cfg \<Rightarrow> Inr cfg)))"

section \<open>Hysteria2 reserve\<close>

definition hysteriaMainSubExtra :: "Config \<Rightarrow> string \<Rightarrow> db \<Rightarrow> string list" where
  "hysteriaMainSubExtra cfg token db =
     (case c_Hysteria cfg of
        None \<Rightarrow> []
      | Some h \<Rightarrow>
          if \<not> hy_Enabled h \<or> \<not> hy_InMainSub h \<or> token = [] then []
          else case GetUserByToken token db of
            Inr (Some user) \<Rightarrow>
              if u_Enabled user \<and> u_Hy2Enabled user then [buildHysteria2URI (u_Token user) ''hy2-reserve'' h] else []
          | _ \<Rightarrow> [])"

definition handleHysteriaSub :: "'x env \<Rightarrow> bool \<Rightarrow> request \<Rightarrow> db \<Rightarrow> string reply" where
  "handleHysteriaSub env b64 r db =
     (case c_Hysteria (e_cfg env) of
        None \<Rightarrow> JsonError 404 ''hysteria reserve not enabled''
      | Some h \<Rightarrow>
          if \<not> hy_Enabled h then JsonError 404 ''hysteria reserve not enabled''
          else case GetUserByToken (var r ''token'') db of
            Inr (Some user) \<Rightarrow>
              if \<not> u_Enabled user then JsonError 403 ''user disabled''
              else if \<not> u_Hy2Enabled user then JsonError 403 ''hysteria2 reserve not enabled for this user''
              else (let uri = buildHysteria2URI (u_Token user) ''hy2-reserve'' h
                    in Reply 200 (if b64 then EncodeToString uri else uri))
          | _ \<Rightarrow> JsonError 404 ''invalid token'')"

record hysteriaAuthResponse =
  ha_OK :: bool
  ha_ID :: string

definition requestFromLoopback :: "request \<Rightarrow> bool" where
  "requestFromLoopback r =
     (let host = (case SplitHostPort (rq_remote r) of Some h \<Rightarrow> h | None \<Rightarrow> rq_remote r)
      in case ParseIP host of Some ip \<Rightarrow> IsLoopback ip | None \<Rightarrow> False)"

definition dec_hysteria_auth :: "string decoder" where
  "dec_hysteria_auth = dec_struct (\<lambda>p o'.
     Option.bind (fld ''addr'' dec_string o' []) (\<lambda>_.
     Option.bind (fld ''auth'' dec_string o' p) (\<lambda>a.
     Option.bind (fld ''tx'' dec_int o' 0) (\<lambda>_. Some a))))"

definition handleHysteriaAuth :: "request \<Rightarrow> db \<Rightarrow> hysteriaAuthResponse reply" where
  "handleHysteriaAuth r db =
     (if \<not> requestFromLoopback r then JsonError 403 ''forbidden''
      else case decode_body dec_hysteria_auth [] r of
        None \<Rightarrow> Reply 200 \<lparr>ha_OK = False, ha_ID = []\<rparr>
      | Some auth \<Rightarrow>
          if auth = [] then Reply 200 \<lparr>ha_OK = False, ha_ID = []\<rparr>
          else case GetUserByToken auth db of
            Inr (Some user) \<Rightarrow>
              if u_Enabled user then Reply 200 \<lparr>ha_OK = True, ha_ID = u_Username user\<rparr>
              else Reply 200 \<lparr>ha_OK = False, ha_ID = []\<rparr>
          | _ \<Rightarrow> Reply 200 \<lparr>ha_OK = False, ha_ID = []\<rparr>)"

definition getUserHy2 :: "request \<Rightarrow> 'x server \<Rightarrow> bool reply \<times> 'x server" where
  "getUserHy2 r = with_user r (\<lambda>user s. (jsonOK (u_Hy2Enabled user), s))"

definition setUserHy2 :: "'x env \<Rightarrow> request \<Rightarrow> 'x server \<Rightarrow> bool reply \<times> 'x server" where
  "setUserHy2 env r = with_user r (\<lambda>user s.
     case decode_body (dec_struct (\<lambda>p o'. fld ''enabled'' dec_bool o' p)) False r of
       None \<Rightarrow> (JsonError 400 ''invalid json body'', s)
     | Some enabled \<Rightarrow>
         (case SetUserHy2Enabled (e_now env) (u_ID user) enabled (db_of s) of
            Inl e \<Rightarrow> (db_error e, s)
          | Inr db \<Rightarrow> (jsonOK enabled, set_db db s)))"

section \<open>Mobile profile\<close>

definition isMobileProfileRequest :: "request \<Rightarrow> bool" where
  "isMobileProfileRequest r =
     (let mobile = ToLower (TrimSpace (query r ''mobile'')); ua = ToLower (user_agent r)
      in ToLower (TrimSpace (query r ''profile'')) = ''mobile'' \<or>
         mobile = ''1'' \<or> mobile = ''true'' \<or> mobile = ''yes'' \<or>
         Contains ua ''android'' \<or> Contains ua ''iphone'' \<or> Contains ua ''ipad'' \<or> Contains ua ''v2box'' \<or>
         Contains ua ''v2rayng'' \<or> Contains ua ''nekobox'')"

definition is_geo :: "string \<Rightarrow> bool" where
  "is_geo v = (let s = ToLower (TrimSpace v) in HasPrefix s ''geosite:'' \<or> HasPrefix s ''geoip:'')"

definition stripGeoSelectors :: "string list \<Rightarrow> string list" where
  "stripGeoSelectors values = filter (\<lambda>v. \<not> is_geo v) values"

definition rule_effective :: "RoutingRule \<Rightarrow> bool" where
  "rule_effective r = (rl_Domain r \<noteq> [] \<or> rl_IP r \<noteq> [] \<or> TrimSpace (rl_Network r) \<noteq> [] \<or>
     TrimSpace (rl_Port r) \<noteq> [] \<or> rl_Protocol r \<noteq> [] \<or> rl_InboundTag r \<noteq> [])"

definition strip_rule :: "RoutingRule \<Rightarrow> RoutingRule" where
  "strip_rule r = r\<lparr>rl_Domain := stripGeoSelectors (rl_Domain r), rl_IP := stripGeoSelectors (rl_IP r)\<rparr>"

definition applyMobileRoutingProfile :: "ClientConfig \<Rightarrow> ClientConfig" where
  "applyMobileRoutingProfile cfg = cfg\<lparr>cc_Routing := (cc_Routing cfg)\<lparr>rt_Rules :=
     filter rule_effective (map strip_rule (rt_Rules (cc_Routing cfg)))\<rparr>\<rparr>"

section \<open>Subscription handlers\<close>

datatype sub_body = BConfig ClientConfig | BText string

record sub_reply =
  sb_body :: sub_body
  sb_title :: string
  sb_emergency :: bool

definition links_text :: "ClientConfig \<Rightarrow> string list \<Rightarrow> string" where
  "links_text cfg extra = Join (buildProxyLinks cfg @ extra) [CHR 0x0A]"

definition emergency_of :: "db \<Rightarrow> emergency_status option" where
  "emergency_of db = (case GetEmergencyStatus db of Inr em \<Rightarrow> if es_Active em then Some em else None | Inl _ \<Rightarrow> None)"

text \<open>The clients that the JSON handler serves before they are expanded to nodes.\<close>

definition selected_clients :: "Config \<Rightarrow> request \<Rightarrow> db \<Rightarrow> user_client_full list \<Rightarrow> user_client_full list" where
  "selected_clients cfg r db clients =
     (let clients = split_fallback cfg (rq_fallback r) (filterExcludedInbounds cfg clients);
          clients = (case emergency_of db of Some em \<Rightarrow> emergency_filter em clients | None \<Rightarrow> clients)
      in applySubscriptionFiltersWithProtocol r [] clients)"

definition writeProxyLinksB64 :: "ClientConfig \<Rightarrow> string list \<Rightarrow> string" where
  [simp]: "writeProxyLinksB64 cfg extra = EncodeToString (links_text cfg extra)"

text \<open>Links, encoded links or the configuration, by the query parameter \<open>format\<close>.\<close>

definition subscription_body :: "string \<Rightarrow> ClientConfig \<Rightarrow> string list \<Rightarrow> sub_body" where
  [simp]: "subscription_body format cfg hyExtra =
     (if format = ''v2box'' \<or> format = ''links'' \<or> format = ''links.txt'' then BText (links_text cfg hyExtra)
      else if format = ''b64'' \<or> format = ''links.b64'' then BText (writeProxyLinksB64 cfg hyExtra)
      else BConfig cfg)"

definition handleSubscription :: "'x env \<Rightarrow> request \<Rightarrow> db \<Rightarrow> sub_reply reply" where
  "handleSubscription env r db =
     (case user_of_token (var r ''token'') db of
        Inl (code, msg) \<Rightarrow> JsonError code msg
      | Inr user \<Rightarrow>
          (case GetUserClients (u_ID user) db of
             Inl _ \<Rightarrow> JsonError 500 ''internal error''
           | Inr clients \<Rightarrow>
               (case generate_for env r db user (selected_clients (e_cfg env) r db clients) of
                  Inl (code, msg) \<Rightarrow> JsonError code msg
                | Inr cfg \<Rightarrow>
                    (let cfg = (if isMobileProfileRequest r then applyMobileRoutingProfile cfg else cfg);
                         format = ToLower (TrimSpace (query r ''format''));
                         hyExtra = hysteriaMainSubExtra (e_cfg env) (u_Token user) db
                     in Reply 200 \<lparr>sb_body = subscription_body format cfg hyExtra, sb_title = u_Username user, sb_emergency = (emergency_of db \<noteq> None)\<rparr>))))"

definition handleCompactSubscription :: "'x env \<Rightarrow> request \<Rightarrow> db \<Rightarrow> sub_reply reply" where
  "handleCompactSubscription env r db = handleSubscription env (set_query ''profile'' ''mobile'' r) db"

text \<open>The link handlers select clients without the emergency filter and answer every error with 404.\<close>

definition generateConfigForSubscriptionRequestWithForcedProtocol ::
  "'x env \<Rightarrow> string \<Rightarrow> request \<Rightarrow> db \<Rightarrow> string + (ClientConfig \<times> string)" where
  "generateConfigForSubscriptionRequestWithForcedProtocol env forcedProtocol r db =
     (case user_of_token (var r ''token'') db of
        Inl (_, msg) \<Rightarrow> Inl msg
      | Inr user \<Rightarrow>
          (case GetUserClients (u_ID user) db of
             Inl _ \<Rightarrow> Inl ''internal error''
           | Inr clients \<Rightarrow>
               (let clients = split_fallback (e_cfg env) (rq_fallback r) (filterExcludedInbounds (e_cfg env) clients)
                in case generate_for env r db user (applySubscriptionFiltersWithProtocol r forcedProtocol clients) of
                     Inl (_, msg) \<Rightarrow> Inl msg
                   | Inr cfg \<Rightarrow> Inr (cfg, u_Username user))))"

definition handleSubscriptionLinksByFormatAndProtocol :: "'x env \<Rightarrow> string \<Rightarrow> string \<Rightarrow> request \<Rightarrow> db \<Rightarrow> sub_reply reply" where
  "handleSubscriptionLinksByFormatAndProtocol env format forcedProtocol r db =
     (case generateConfigForSubscriptionRequestWithForcedProtocol env forcedProtocol r db of
        Inl msg \<Rightarrow> JsonError 404 msg
      | Inr (cfg, username) \<Rightarrow>
          (let extra = (if forcedProtocol = [] then hysteriaMainSubExtra (e_cfg env) (var r ''token'') db else []);
               plain = links_text cfg extra
           in Reply 200 \<lparr>sb_body = BText (if format = ''b64'' then writeProxyLinksB64 cfg extra else plain),
                sb_title = username, sb_emergency = False\<rparr>))"

definition handleVLESSLinkByTag :: "'x env \<Rightarrow> string \<Rightarrow> request \<Rightarrow> db \<Rightarrow> sub_reply reply" where
  "handleVLESSLinkByTag env format r db =
     (let tag = TrimSpace (var r ''vlessTag'')
      in if tag = [] then JsonError 400 ''missing vless tag''
         else case generateConfigForSubscriptionRequestWithForcedProtocol env [] r db of
           Inl msg \<Rightarrow> JsonError 404 msg
         | Inr (cfg, username) \<Rightarrow>
             (case find (\<lambda>e. pl_Protocol e = ''vless'' \<and> pl_Tag e = tag) (buildProxyLinkEntries cfg) of
                None \<Rightarrow> JsonError 404 (''vless link not found for tag: '' @ tag)
              | Some e \<Rightarrow> Reply 200 \<lparr>sb_body = BText (if format = ''b64'' then EncodeToString (pl_URL e) else pl_URL e),
                  sb_title = username, sb_emergency = False\<rparr>))"

definition extractSubBaseURL :: "request \<Rightarrow> string" where
  "extractSubBaseURL r = (if rq_tls r then ''https'' else ''http'') @ ''://'' @ rq_host r @ ''/sub/'' @ var r ''token''"

record vless_item =
  vi_tag :: string
  vi_url :: string
  vi_url_b64 :: string
  vi_by_tag :: string
  vi_by_tag_b64 :: string

definition trim_slash :: "string \<Rightarrow> string" where
  "trim_slash s = (if HasSuffix s ''/'' then butlast s else s)"

definition handleVLESSList :: "'x env \<Rightarrow> request \<Rightarrow> db \<Rightarrow> (string \<times> vless_item list) reply" where
  "handleVLESSList env r db =
     (case generateConfigForSubscriptionRequestWithForcedProtocol env [] r db of
        Inl msg \<Rightarrow> JsonError 404 msg
      | Inr (cfg, username) \<Rightarrow>
          Reply 200 (username, map (\<lambda>e. \<lparr>vi_tag = pl_Tag e, vi_url = pl_URL e, vi_url_b64 = EncodeToString (pl_URL e),
              vi_by_tag = trim_slash (extractSubBaseURL r) @ ''/vless/'' @ PathEscape (pl_Tag e),
              vi_by_tag_b64 = trim_slash (extractSubBaseURL r) @ ''/vless/'' @ PathEscape (pl_Tag e) @ ''/b64''\<rparr>)
            (filter (\<lambda>e. pl_Protocol e = ''vless'') (buildProxyLinkEntries cfg))))"

text \<open>The index of subscription URLs. \<open>withSubQuery\<close> sets a query parameter; the base URL is one that
  \<open>url.Parse\<close> accepts and \<open>String\<close> prints as it was, without query and fragment.\<close>

definition withSubQuery :: "string \<Rightarrow> string \<Rightarrow> string \<Rightarrow> string" where
  "withSubQuery base key val = base @ ''?'' @ Encode [(key, val)]"

record links_index =
  li_Username :: string
  li_All :: string
  li_ByProtocol :: "(string \<times> string) list"
  li_ByInboundTag :: "(string \<times> string) list"

definition sorted_names :: "string list \<Rightarrow> string list" where
  "sorted_names xs = sort (remdups (filter (\<lambda>x. x \<noteq> []) xs))"

definition handleSubscriptionLinks :: "'x env \<Rightarrow> request \<Rightarrow> db \<Rightarrow> links_index reply" where
  "handleSubscriptionLinks env r db =
     (case user_of_token (var r ''token'') db of
        Inl (code, msg) \<Rightarrow> JsonError code msg
      | Inr user \<Rightarrow>
          (case GetUserClients (u_ID user) db of
             Inl _ \<Rightarrow> JsonError 500 ''internal error''
           | Inr clients \<Rightarrow>
               (let clients = filterExcludedInbounds (e_cfg env) clients; base = SubURL (e_cfg env) (var r ''token'')
                in if clients = [] then JsonError 404 ''no enabled clients''
                   else Reply 200 \<lparr>li_Username = u_Username user, li_All = base,
                     li_ByProtocol = map (\<lambda>p. (p, withSubQuery base ''protocol'' p))
                       (sorted_names (map (\<lambda>c. ToLower (TrimSpace (f_InboundProtocol c))) clients)),
                     li_ByInboundTag = map (\<lambda>t. (t, withSubQuery base ''inbound_tag'' t))
                       (sorted_names (map (\<lambda>c. TrimSpace (f_InboundTag c)) clients))\<rparr>)))"

section \<open>Fallback tokens\<close>

definition withFallbackAuth ::
  "'x env \<Rightarrow> (request \<Rightarrow> 'x server \<Rightarrow> 'a reply \<times> 'x server) \<Rightarrow> request \<Rightarrow> 'x server \<Rightarrow> 'a reply \<times> 'x server" where
  "withFallbackAuth env next' r s =
     (let fallbackToken = var r ''token''
      in if fallbackToken = [] then (JsonError 400 ''missing token'', s)
         else case GetFallbackEnabled (db_of s) of
           Inl _ \<Rightarrow> (JsonError 500 ''internal error'', s)
         | Inr False \<Rightarrow> (JsonError 403 ''fallback subscription disabled'', s\<lparr>srv_denied := Suc (srv_denied s)\<rparr>)
         | Inr True \<Rightarrow>
             (case GetUserByFallbackToken fallbackToken (db_of s) of
                Inr (Some user) \<Rightarrow>
                  if \<not> u_Enabled user then (JsonError 403 ''user disabled'', s)
                  else next' (r\<lparr>rq_vars := [(''token'', u_Token user)], rq_fallback := True\<rparr>)
                         (add_job (AccessedJob (u_ID user) (e_now env)) s)
              | _ \<Rightarrow> (JsonError 404 ''invalid token'', s)))"

definition reading :: "(request \<Rightarrow> db \<Rightarrow> 'a reply) \<Rightarrow> request \<Rightarrow> 'x server \<Rightarrow> 'a reply \<times> 'x server" where
  "reading h r s = (h r (db_of s), s)"

end
