(* ===== verification/Fallback_Api.thy ===== *)
theory Fallback_Api
  imports Subscription
begin

text \<open>
  \<^verbatim>\<open>internal/api/fallback.go\<close>: the handlers for the fallback flag and the fallback tokens, and the
  kill switch, which takes the fallback inbounds out of the running Xray and puts them back. The
  toggle handlers and the reconcile pass hold \<open>killSwitchMu\<close> from start to end, so each is one
  step. Errors of Xray are only logged.
\<close>

section \<open>Kill switch\<close>

text \<open>One tag; blank tags are skipped. Whether an error of Xray counts as benign only decides what
  is logged.\<close>

definition apply_tag :: "'x env \<Rightarrow> bool \<Rightarrow> string \<Rightarrow> 'x server \<Rightarrow> 'x server" where
  "apply_tag env enable tag s =
     (let tag = TrimSpace tag; apiAddr = TrimSpace (c_XrayAPIAddr (e_cfg env))
      in if tag = [] then s
         else if enable
         then (case GetInboundByTag tag (db_of s) of
                 Inl _ \<Rightarrow> s
               | Inr None \<Rightarrow> s
               | Inr (Some ib) \<Rightarrow> snd (on_world (AddInboundFromJSONViaAPI (e_xray env) apiAddr (ib_RawConfig ib)) s))
         else snd (on_world (RemoveInboundViaAPI (e_xray env) apiAddr tag) s))"

definition applyKillSwitchInboundsLocked :: "'x env \<Rightarrow> bool \<Rightarrow> 'x server \<Rightarrow> 'x server" where
  "applyKillSwitchInboundsLocked env enable s =
     (if TrimSpace (c_XrayAPIAddr (e_cfg env)) = [] then s
      else fold (apply_tag env enable) (KillSwitchTags (e_cfg env)) s)"

definition reconcileKillSwitchLocked :: "'x env \<Rightarrow> 'x server \<Rightarrow> 'x server" where
  "reconcileKillSwitchLocked env s =
     (case GetFallbackEnabled (db_of s) of
        Inl _ \<Rightarrow> s
      | Inr True \<Rightarrow> s
      | Inr False \<Rightarrow> applyKillSwitchInboundsLocked env False s)"

text \<open>The loop does not start without an interval, an API address or tags; every tick reconciles.\<close>

definition killswitch_loop_runs :: "Config \<Rightarrow> int \<Rightarrow> bool" where
  "killswitch_loop_runs cfg interval =
     (interval > 0 \<and> TrimSpace (c_XrayAPIAddr cfg) \<noteq> [] \<and> KillSwitchTags cfg \<noteq> [])"

definition killswitch_tick :: "'x env \<Rightarrow> int \<Rightarrow> 'x server \<Rightarrow> 'x server" where
  "killswitch_tick env interval s =
     (if killswitch_loop_runs (e_cfg env) interval then reconcileKillSwitchLocked env s else s)"

section \<open>Handlers\<close>

definition regenerateFallbackToken :: "'x env \<Rightarrow> request \<Rightarrow> 'x server \<Rightarrow> (string \<times> string) reply \<times> 'x server" where
  "regenerateFallbackToken env r = with_user r (\<lambda>user s.
     let (newToken, s) = draw_token s
     in case UpdateFallbackToken (e_now env) (u_ID user) newToken (db_of s) of
          Inl e \<Rightarrow> (db_error e, s)
        | Inr db \<Rightarrow> (jsonOK (newToken, FallbackURL (e_cfg env) newToken), set_db db s))"

definition getFallbackStatus :: "'x server \<Rightarrow> bool reply \<times> 'x server" where
  "getFallbackStatus s = (case GetFallbackEnabled (db_of s) of
     Inl e \<Rightarrow> (db_error e, s) | Inr enabled \<Rightarrow> (jsonOK enabled, s))"

definition setFallback :: "bool \<Rightarrow> 'x env \<Rightarrow> 'x server \<Rightarrow> bool reply \<times> 'x server" where
  "setFallback enabled env s =
     (case SetFallbackEnabled enabled (db_of s) of
        Inl e \<Rightarrow> (db_error e, s)
      | Inr db \<Rightarrow> (jsonOK enabled, applyKillSwitchInboundsLocked env enabled (set_db db s)))"

definition enableFallback :: "'x env \<Rightarrow> 'x server \<Rightarrow> bool reply \<times> 'x server" where
  "enableFallback = setFallback True"

definition disableFallback :: "'x env \<Rightarrow> 'x server \<Rightarrow> bool reply \<times> 'x server" where
  "disableFallback = setFallback False"

record accessed_entry =
  ac_ID :: int
  ac_Username :: string
  ac_FallbackToken :: string
  ac_FallbackAccessedAt :: time
  ac_FallbackURL :: string

definition accessed_of :: "Config \<Rightarrow> user \<Rightarrow> accessed_entry list" where
  "accessed_of cfg u = (case u_FallbackAccessedAt u of
     None \<Rightarrow> []
   | Some t \<Rightarrow> [\<lparr>ac_ID = u_ID u, ac_Username = u_Username u, ac_FallbackToken = u_FallbackToken u,
       ac_FallbackAccessedAt = t, ac_FallbackURL = FallbackURL cfg (u_FallbackToken u)\<rparr>])"

text \<open>\<open>sort.Slice\<close> leaves the order of equal elements open; here it is the order of \<open>ListUsers\<close>.\<close>

definition listFallbackAccessedUsers :: "'x env \<Rightarrow> 'x server \<Rightarrow> accessed_entry list reply \<times> 'x server" where
  "listFallbackAccessedUsers env s = (case ListUsers (db_of s) of
     Inl e \<Rightarrow> (db_error e, s)
   | Inr us \<Rightarrow> (jsonOK (sort_key (\<lambda>a. - ac_FallbackAccessedAt a) (concat (map (accessed_of (e_cfg env)) us))), s))"

end
