(* ===== verification/Emergency_Api.thy ===== *)
theory Emergency_Api
  imports Api_Base
begin

text \<open>
  \<^verbatim>\<open>internal/api/emergency.go\<close>: the handlers that switch the emergency mode and manage its profiles.
  They read the body without the limit of 512 KB that the other handlers have; longer bodies are outside
  the model.
\<close>

definition internal_error :: "'a reply" where
  "internal_error = JsonError 500 ''internal error''"

section \<open>Mode\<close>

definition getEmergencyStatus :: "'x server \<Rightarrow> emergency_status reply \<times> 'x server" where
  "getEmergencyStatus s = (case GetEmergencyStatus (db_of s) of
     Inl _ \<Rightarrow> (internal_error, s) | Inr st \<Rightarrow> (jsonOK st, s))"

text \<open>The reply shows the status read after the switch; an error of that read gives \<open>null\<close>.\<close>

definition activateEmergency :: "'x env \<Rightarrow> request \<Rightarrow> 'x server \<Rightarrow> emergency_status option reply \<times> 'x server" where
  "activateEmergency env r s =
     (case decode_body (dec_struct (\<lambda>p o'. fld ''profile_id'' dec_int o' p)) 0 r of
        None \<Rightarrow> (JsonError 400 ''invalid request body'', s)
      | Some profileID \<Rightarrow>
          if profileID \<le> 0 then (JsonError 400 ''profile_id is required'', s)
          else case GetEmergencyProfile profileID (db_of s) of
            Inl _ \<Rightarrow> (internal_error, s)
          | Inr None \<Rightarrow> (JsonError 404 ''profile not found'', s)
          | Inr (Some _) \<Rightarrow>
              (case ActivateEmergency (e_now env) profileID (db_of s) of
                 Inl _ \<Rightarrow> (internal_error, s)
               | Inr db \<Rightarrow>
                   (jsonOK (case GetEmergencyStatus db of Inl _ \<Rightarrow> None | Inr st \<Rightarrow> Some st), set_db db s)))"

definition deactivateEmergency :: "'x server \<Rightarrow> unit reply \<times> 'x server" where
  "deactivateEmergency s = (case DeactivateEmergency (db_of s) of
     Inl _ \<Rightarrow> (internal_error, s) | Inr db \<Rightarrow> (jsonOK (), set_db db s))"

section \<open>Profiles\<close>

definition listEmergencyProfiles :: "'x server \<Rightarrow> emergency_profile list reply \<times> 'x server" where
  "listEmergencyProfiles s = (case ListEmergencyProfiles (db_of s) of
     Inl _ \<Rightarrow> (internal_error, s) | Inr ps \<Rightarrow> (jsonOK ps, s))"

definition parseProfileID :: "request \<Rightarrow> int option" where
  "parseProfileID r = (case ParseInt (var r ''id'') of Some i \<Rightarrow> if i \<le> 0 then None else Some i | None \<Rightarrow> None)"

definition with_profile :: "request \<Rightarrow> (int \<Rightarrow> 'x server \<Rightarrow> 'a reply \<times> 'x server) \<Rightarrow> 'x server \<Rightarrow> 'a reply \<times> 'x server" where
  "with_profile r k s = (case parseProfileID r of
     None \<Rightarrow> (JsonError 400 ''invalid profile id'', s)
   | Some i \<Rightarrow> k i s)"

record profile_request =
  pq_Name :: string
  pq_Description :: string
  pq_InboundTags :: "string list"

definition dec_profile_request :: "profile_request decoder" where
  "dec_profile_request = dec_struct (\<lambda>p o'.
     Option.bind (fld ''name'' dec_string o' (pq_Name p)) (\<lambda>a.
     Option.bind (fld ''description'' dec_string o' (pq_Description p)) (\<lambda>b.
     Option.bind (fld ''inbound_tags'' dec_strings o' (pq_InboundTags p)) (\<lambda>c.
     Some \<lparr>pq_Name = a, pq_Description = b, pq_InboundTags = c\<rparr>))))"

text \<open>Reading and checking the body of a profile, which creation and update have in common.\<close>

definition with_profile_request :: "request \<Rightarrow> (profile_request \<Rightarrow> 'x server \<Rightarrow> 'a reply \<times> 'x server) \<Rightarrow> 'x server \<Rightarrow> 'a reply \<times> 'x server" where
  "with_profile_request r k s =
     (case decode_body dec_profile_request \<lparr>pq_Name = [], pq_Description = [], pq_InboundTags = []\<rparr> r of
        None \<Rightarrow> (JsonError 400 ''invalid request body'', s)
      | Some req \<Rightarrow>
          (let name = TrimSpace (pq_Name req)
           in if name = [] then (JsonError 400 ''name is required'', s)
              else k (req\<lparr>pq_Name := name\<rparr>) s))"

definition profile_error :: "db_err \<Rightarrow> 'a reply" where
  "profile_error e =
     (if Contains (db_text e) ''UNIQUE constraint'' then JsonError 409 ''profile name already exists''
      else internal_error)"

definition createEmergencyProfile :: "'x env \<Rightarrow> request \<Rightarrow> 'x server \<Rightarrow> emergency_profile reply \<times> 'x server" where
  "createEmergencyProfile env r = with_profile_request r (\<lambda>req s.
     case CreateEmergencyProfile (e_now env) (pq_Name req) (pq_Description req) (pq_InboundTags req) (db_of s) of
       Inl e \<Rightarrow> (profile_error e, s)
     | Inr (db, p) \<Rightarrow> (Reply 201 p, set_db db s))"

definition getEmergencyProfileByID :: "request \<Rightarrow> 'x server \<Rightarrow> emergency_profile reply \<times> 'x server" where
  "getEmergencyProfileByID r = with_profile r (\<lambda>i s.
     case GetEmergencyProfile i (db_of s) of
       Inl _ \<Rightarrow> (internal_error, s)
     | Inr None \<Rightarrow> (JsonError 404 ''profile not found'', s)
     | Inr (Some p) \<Rightarrow> (jsonOK p, s))"

definition updateEmergencyProfile :: "'x env \<Rightarrow> request \<Rightarrow> 'x server \<Rightarrow> emergency_profile reply \<times> 'x server" where
  "updateEmergencyProfile env r = with_profile r (\<lambda>i. with_profile_request r (\<lambda>req s.
     case UpdateEmergencyProfile (e_now env) i (pq_Name req) (pq_Description req) (pq_InboundTags req) (db_of s) of
       Inl e \<Rightarrow> (profile_error e, s)
     | Inr (db, None) \<Rightarrow> (JsonError 404 ''profile not found'', set_db db s)
     | Inr (db, Some p) \<Rightarrow> (jsonOK p, set_db db s)))"

definition is_active_profile :: "int \<Rightarrow> db \<Rightarrow> bool" where
  "is_active_profile i db = (case GetEmergencyStatus db of
     Inl _ \<Rightarrow> False | Inr em \<Rightarrow> es_Active em \<and> es_ProfileID em = Some i)"

definition deleteEmergencyProfile :: "request \<Rightarrow> 'x server \<Rightarrow> unit reply \<times> 'x server" where
  "deleteEmergencyProfile r = with_profile r (\<lambda>i s.
     if is_active_profile i (db_of s)
     then (JsonError 409 ''cannot delete the currently active emergency profile'', s)
     else case DeleteEmergencyProfile i (db_of s) of
       Inl _ \<Rightarrow> (internal_error, s)
     | Inr db \<Rightarrow> (Reply 204 (), set_db db s))"

end
