(* ===== verification/Api_Samples.thy ===== *)
theory Api_Samples
  imports Subscription Syncer_Properties
begin

text \<open>Concrete values for the handlers: a configuration, a database with a regular and a fallback
  inbound, a server and requests.\<close>

definition sample_api_config :: Config where
  "sample_api_config = sample_sync_config\<lparr>c_ServerHost := ''vpn.example.org'', c_AdminToken := ''secret'',
     c_FallbackInboundTags := [''fb-in'']\<rparr>"

definition sample_fb_inbound :: db where
  "sample_fb_inbound = fst (projr (UpsertInbound 5 ''fb-in'' ''trojan'' 8443 ''/etc/xray/b.json'' (Doc (JObj [])) sample_db))"

definition sample_api_db :: db where
  "sample_api_db = projr (UpsertUserClient 1 2 (Doc (JObj [(''password'', JStr ''p'')])) sample_fb_inbound)"

definition sample_env :: "xray_log env" where
  "sample_env = \<lparr>e_cfg = sample_api_config, e_now = 0, e_xray = sample_xray, e_order = id, e_x25519 = (\<lambda>_. None)\<rparr>"

definition sample_server :: "xray_log server" where
  "sample_server = \<lparr>srv_service = sample_service\<lparr>sv_db := sample_api_db\<rparr>, srv_denied = 0, srv_nodeStatus = [],
     srv_fetches = [], srv_jobs = []\<rparr>"

definition sample_get :: "string \<Rightarrow> request" where
  "sample_get token = \<lparr>rq_path = ''/sub/'' @ token, rq_vars = [(''token'', token)], rq_query = [], rq_headers = [],
     rq_remote = ''192.0.2.7:4711'', rq_tls = True, rq_host = ''vpn.example.org'', rq_body = NotJson, rq_fallback = False\<rparr>"

definition sample_admin_request :: "(string \<times> string) list \<Rightarrow> json \<Rightarrow> request" where
  "sample_admin_request vars body = \<lparr>rq_path = ''/api/users'', rq_vars = vars, rq_query = [],
     rq_headers = [(''X-Admin-Token'', ''secret'')], rq_remote = ''192.0.2.7:4711'', rq_tls = False,
     rq_host = ''vpn.example.org'', rq_body = JsonBody body False, rq_fallback = False\<rparr>"

definition is_reply :: "'a reply \<Rightarrow> bool" where
  "is_reply r = (case r of Reply _ _ \<Rightarrow> True | JsonError _ _ \<Rightarrow> False)"

lemma is_replyE: "is_reply r \<Longrightarrow> \<exists>code b. r = Reply code b"
  by (simp add: is_reply_def split: reply.splits)

lemma sample_get_token [simp]: "var (sample_get t) ''token'' = t"
  by (simp add: sample_get_def lookup_def)

lemma sample_server_db [simp]: "db_of sample_server = sample_api_db"
  by (simp add: sample_server_def db_of_def)

lemma sample_api_reachable: "db_reachable sample_api_db"
proof -
  have "UpsertInbound 5 ''fb-in'' ''trojan'' 8443 ''/etc/xray/b.json'' (Doc (JObj [])) sample_db = Inr (sample_fb_inbound, 2)"
    by code_simp
  then have i: "db_reachable sample_fb_inbound" by (blast intro: sample_reachable reach_step step_inbound)
  have "UpsertUserClient 1 2 (Doc (JObj [(''password'', JStr ''p'')])) sample_fb_inbound = Inr sample_api_db"
    by code_simp
  then show ?thesis by (blast intro: i reach_step step_client)
qed

end
