(* ===== verification/Liveness.thy ===== *)
theory Liveness
  imports Routes_Api
begin

text \<open>
  \<^verbatim>\<open>internal/api/liveness.go\<close> and \<^verbatim>\<open>metrics.go\<close>: the middleware that notes successful fetches of a
  subscription, and the text of the metrics endpoint. The tracker is a map, here an association
  list whose order stands for the order in which Go ranges over it. \<open>crypto/sha256\<close> is the
  argument \<open>sha256\<close>. The header \<open>Profile-Update-Interval\<close> is left out.
\<close>

section \<open>Tracker\<close>

type_synonym fetches = "(fetchKey \<times> time) list"

definition record_fetch :: "fetchKey \<Rightarrow> time \<Rightarrow> fetches \<Rightarrow> fetches" where
  "record_fetch k at m = filter (\<lambda>kv. fst kv \<noteq> k) m @ [(k, at)]"

definition forget :: "int \<Rightarrow> time \<Rightarrow> fetches \<Rightarrow> fetches" where
  "forget maxAge now m = filter (\<lambda>kv. \<not> now - snd kv > maxAge) m"

definition contains_any :: "string \<Rightarrow> string list \<Rightarrow> bool" where
  "contains_any u ws = list_ex (\<lambda>w. Contains u w) ws"

definition clientFamily :: "string \<Rightarrow> string" where
  "clientFamily ua =
     (let u = ToLower ua
      in if u = [] then ''none''
         else if contains_any u [''happ''] then ''happ''
         else if contains_any u [''v2rayng''] then ''v2rayng''
         else if contains_any u [''v2rayn''] then ''v2rayn''
         else if contains_any u [''hiddify''] then ''hiddify''
         else if contains_any u [''v2box''] then ''v2box''
         else if contains_any u [''streisand''] then ''streisand''
         else if contains_any u [''shadowrocket''] then ''shadowrocket''
         else if contains_any u [''nekobox'', ''nekoray''] then ''nekobox''
         else if contains_any u [''karing''] then ''karing''
         else if contains_any u [''sing-box'', ''sfa'', ''sfi''] then ''singbox''
         else if contains_any u [''clash'', ''mihomo'', ''stash''] then ''clash''
         else if contains_any u [''incy''] then ''incy''
         else if contains_any u [''mozilla'', ''curl'', ''wget''] then ''browser''
         else ''other'')"

section \<open>Middleware\<close>

text \<open>Whether a route template serves a subscription, and whether it is a fallback route.\<close>

definition isSubscriptionRoute :: "string \<Rightarrow> bool \<times> bool" where
  "isSubscriptionRoute tpl =
     (if HasPrefix tpl ''/sub/fallback/'' \<or> HasPrefix tpl ''/c/fallback/'' then (True, True)
      else if HasPrefix tpl ''/sub/{token}'' \<or> HasPrefix tpl ''/c/{token}'' then (True, False)
      else (False, False))"

text \<open>The template is that of the matched route, \<open>None\<close> without one. The next handler may replace the
  path variables of its own request; the middleware reads those of the request it was given.\<close>

definition subscriptionMiddleware ::
  "string option \<Rightarrow> 'x env \<Rightarrow> (request \<Rightarrow> 'x server \<Rightarrow> 'a reply \<times> 'x server) \<Rightarrow> request \<Rightarrow> 'x server \<Rightarrow> 'a reply \<times> 'x server" where
  "subscriptionMiddleware route env next' r s =
     (case route of
        None \<Rightarrow> next' r s
      | Some tpl \<Rightarrow>
          (let (isSub, fallback) = isSubscriptionRoute tpl
           in if \<not> isSub then next' r s
              else (case next' r s of (rep, s) \<Rightarrow>
                (rep, if reply_status rep div 100 = 2 \<and> var r ''token'' \<noteq> []
                      then s\<lparr>srv_fetches := record_fetch \<lparr>fk_token = var r ''token'', fk_fallback = fallback,
                               fk_client = clientFamily (user_agent r)\<rparr> (e_now env) (srv_fetches s)\<rparr>
                      else s))))"

section \<open>Metrics\<close>

definition obscureEmail :: "(string \<Rightarrow> nat list) \<Rightarrow> string \<Rightarrow> string \<Rightarrow> string" where
  "obscureEmail sha256 secret email =
     (if secret = [] \<or> email = [] then email else hex_string (take 8 (sha256 (secret @ '':'' @ email))))"

definition fetchForgetAfter :: int where
  "fetchForgetAfter = 14 * 24 * 3600 * Second"

record liveness_row =
  lr_email :: string
  lr_path :: string
  lr_client :: string
  lr_ts :: int

definition liveness_id :: "liveness_row \<Rightarrow> string" where
  "liveness_id r = lr_email r @ ''|'' @ lr_path r @ ''|'' @ lr_client r"

definition email_of :: "fetchKey \<Rightarrow> db \<Rightarrow> string" where
  "email_of k db =
     (case (if fk_fallback k then GetUserByFallbackToken (fk_token k) db else GetUserByToken (fk_token k) db) of
        Inr (Some u) \<Rightarrow> ClientIdentity (Some u)
      | _ \<Rightarrow> [])"

definition row_of :: "(string \<Rightarrow> nat list) \<Rightarrow> string \<Rightarrow> db \<Rightarrow> fetchKey \<times> time \<Rightarrow> liveness_row option" where
  "row_of sha256 secret db kv =
     (let email = email_of (fst kv) db
      in if email = [] then None
         else Some \<lparr>lr_email = obscureEmail sha256 secret email,
                    lr_path = (if fk_fallback (fst kv) then ''fallback'' else ''primary''),
                    lr_client = fk_client (fst kv), lr_ts = snd kv div Second\<rparr>)"

text \<open>The map \<open>best\<close> from ids to rows, and the loop that fills it.\<close>

definition put_best :: "liveness_row \<Rightarrow> (string \<times> liveness_row) list \<Rightarrow> (string \<times> liveness_row) list" where
  "put_best r best =
     (case map_of best (liveness_id r) of
        Some cur \<Rightarrow> if lr_ts r > lr_ts cur then map_put (liveness_id r) r best else best
      | None \<Rightarrow> map_put (liveness_id r) r best)"

fun best_rows :: "(string \<Rightarrow> nat list) \<Rightarrow> string \<Rightarrow> db \<Rightarrow> fetches \<Rightarrow> (string \<times> liveness_row) list \<Rightarrow> (string \<times> liveness_row) list" where
  "best_rows sha256 secret db [] best = best"
| "best_rows sha256 secret db (kv # snap) best =
     best_rows sha256 secret db snap (case row_of sha256 secret db kv of Some r \<Rightarrow> put_best r best | None \<Rightarrow> best)"

definition liveness_rows :: "(string \<Rightarrow> nat list) \<Rightarrow> string \<Rightarrow> db \<Rightarrow> fetches \<Rightarrow> liveness_row list" where
  "liveness_rows sha256 secret db snap = map snd (sort_key fst (best_rows sha256 secret db snap []))"

definition line :: "string \<Rightarrow> string" where
  "line s = s @ [CHR 0x0A]"

definition row_line :: "liveness_row \<Rightarrow> string" where
  "row_line r = line (''raven_sub_last_fetch_timestamp_seconds{email='' @ quoted (lr_email r) @ '',path='' @
     quoted (lr_path r) @ '',client='' @ quoted (lr_client r) @ ''} '' @ Itoa (lr_ts r))"

definition writeLivenessMetrics :: "(string \<Rightarrow> nat list) \<Rightarrow> 'x env \<Rightarrow> 'x server \<Rightarrow> string \<times> 'x server" where
  "writeLivenessMetrics sha256 env s =
     (let s = s\<lparr>srv_fetches := forget fetchForgetAfter (e_now env) (srv_fetches s)\<rparr>;
          rows = liveness_rows sha256 (c_MetricsAnonymizeSecret (e_cfg env)) (db_of s) (srv_fetches s)
      in (line ''# HELP raven_sub_last_fetch_timestamp_seconds Unix time of the last successful subscription fetch per user, path (primary|fallback) and client family. email is pseudonymised like xray-stats-exporter. In-memory: resets on restart.'' @
          line ''# TYPE raven_sub_last_fetch_timestamp_seconds gauge'' @
          concat (map row_line rows) @
          line ''# HELP raven_sub_profile_update_interval_hours Profile-Update-Interval advertised to clients (0 = header not sent).'' @
          line ''# TYPE raven_sub_profile_update_interval_hours gauge'' @
          line (''raven_sub_profile_update_interval_hours '' @ Itoa (c_ProfileUpdateIntervalHours (e_cfg env))), s))"

definition MetricsHandler :: "(string \<Rightarrow> nat list) \<Rightarrow> 'x env \<Rightarrow> 'x server \<Rightarrow> string reply \<times> 'x server" where
  "MetricsHandler sha256 env s =
     (case GetFallbackEnabled (db_of s) of
        Inl _ \<Rightarrow> (Reply 500 (line ''db error''), s)
      | Inr enabled \<Rightarrow>
          (case writeLivenessMetrics sha256 env s of (text, s') \<Rightarrow>
             (Reply 200 (line ''# HELP raven_fallback_enabled Global fallback subscription flag (1 = enabled, the Model A steady state).'' @
                line ''# TYPE raven_fallback_enabled gauge'' @
                line (''raven_fallback_enabled '' @ (if enabled then ''1'' else ''0'')) @
                line ''# HELP raven_fallback_denied_total Fallback subscription requests rejected with 403 because the global flag is off. Resets on restart.'' @
                line ''# TYPE raven_fallback_denied_total counter'' @
                line (''raven_fallback_denied_total '' @ Itoa (int (srv_denied s))) @ text), s')))"

end
