(* ===== verification/Rate_Limit.thy ===== *)
theory Rate_Limit
  imports Api_Base
begin

text \<open>
  \<^verbatim>\<open>internal/api/ratelimit.go\<close> and \<open>rateLimitWrap\<close> of \<^verbatim>\<open>server.go\<close>: one limiter for every client address,
  made on its first request and dropped when it was not used for ten minutes. The limiter itself
  is \<^verbatim>\<open>golang.org/x/time/rate\<close>, which is not part of the repository: \<open>lib\<close> holds its constructor
  (nanoseconds per token and burst) and \<open>Allow\<close> at a time.
\<close>

record 'l limiter_lib =
  l_new :: "int \<Rightarrow> int \<Rightarrow> 'l"
  l_allow :: "'l \<Rightarrow> time \<Rightarrow> bool \<times> 'l"

record 'l ipLimiter =
  il_limiter :: 'l
  il_last :: time

type_synonym 'l limiters = "(string \<times> 'l ipLimiter) list"

section \<open>Parameters of a limiter\<close>

definition limit_interval :: "int \<Rightarrow> int" where
  "limit_interval perMin = (60 * Second) div perMin"

definition limit_burst :: "int \<Rightarrow> int" where
  "limit_burst perMin =
     (let burst = perMin div 6; burst = (if burst < 2 then 2 else burst) in if burst > 20 then 20 else burst)"

section \<open>The client of a request\<close>

definition header :: "request \<Rightarrow> string \<Rightarrow> string" where
  "header r k = lookup (rq_headers r) k"

definition clientIP :: "request \<Rightarrow> string" where
  "clientIP r =
     (let host = (case SplitHostPort (rq_remote r) of Some h \<Rightarrow> h | None \<Rightarrow> rq_remote r)
      in if (host = ''127.0.0.1'' \<or> host = ''::1'') \<and> header r ''X-Forwarded-For'' \<noteq> []
         then TrimSpace (takeWhile (\<lambda>c. c \<noteq> CHR '','' \<and> c \<noteq> CHR '' '') (header r ''X-Forwarded-For''))
         else if (host = ''127.0.0.1'' \<or> host = ''::1'') \<and> header r ''X-Real-IP'' \<noteq> []
         then TrimSpace (header r ''X-Real-IP'')
         else host)"

section \<open>The middleware\<close>

definition fresh_limiter :: "'l limiter_lib \<Rightarrow> int \<Rightarrow> 'l" where
  "fresh_limiter lib perMin = l_new lib (limit_interval perMin) (limit_burst perMin)"

text \<open>One request of \<open>ip\<close> at \<open>now\<close>: the limiter is looked up or made, and asked.\<close>

definition admit :: "'l limiter_lib \<Rightarrow> int \<Rightarrow> string \<Rightarrow> time \<Rightarrow> 'l limiters \<Rightarrow> bool \<times> 'l limiters" where
  "admit lib perMin ip now m =
     (let l = (case map_of m ip of Some il \<Rightarrow> il_limiter il | None \<Rightarrow> fresh_limiter lib perMin)
      in case l_allow lib l now of (ok, l) \<Rightarrow> (ok, map_put ip \<lparr>il_limiter = l, il_last = now\<rparr> m))"

text \<open>The cleanup that runs every five minutes.\<close>

definition cleanup :: "time \<Rightarrow> 'l limiters \<Rightarrow> 'l limiters" where
  "cleanup now m = filter (\<lambda>kv. \<not> now - il_last (snd kv) > 10 * 60 * Second) m"

definition rateLimitMiddleware ::
  "'l limiter_lib \<Rightarrow> int \<Rightarrow> time \<Rightarrow> (request \<Rightarrow> 's \<Rightarrow> 'a reply \<times> 's) \<Rightarrow> request \<Rightarrow> 's \<times> 'l limiters \<Rightarrow> 'a reply \<times> 's \<times> 'l limiters" where
  "rateLimitMiddleware lib perMin now next' r sm =
     (case sm of (s, m) \<Rightarrow>
        if perMin \<le> 0 then (case next' r s of (rep, s) \<Rightarrow> (rep, s, m))
        else case admit lib perMin (clientIP r) now m of
          (False, m) \<Rightarrow> (JsonError 429 ''rate limit exceeded'', s, m)
        | (True, m) \<Rightarrow> (case next' r s of (rep, s) \<Rightarrow> (rep, s, m)))"

section \<open>Which limit applies\<close>

datatype rate_class = Unlimited | AdminLimit | SubLimit

definition rate_class_of :: "string \<Rightarrow> rate_class" where
  "rate_class_of path =
     (if path = ''/health'' then Unlimited
      else if HasPrefix path ''/api'' then AdminLimit
      else if HasPrefix path ''/sub'' \<or> HasPrefix path ''/c'' then SubLimit
      else Unlimited)"

record 'l limits =
  lim_sub :: "'l limiters"
  lim_admin :: "'l limiters"

definition rateLimitWrap ::
  "'l limiter_lib \<Rightarrow> 'x env \<Rightarrow> (request \<Rightarrow> 'x server \<Rightarrow> 'a reply \<times> 'x server) \<Rightarrow> request \<Rightarrow> 'x server \<times> 'l limits \<Rightarrow>
   'a reply \<times> 'x server \<times> 'l limits" where
  "rateLimitWrap lib env next' r sl =
     (case sl of (s, ls) \<Rightarrow>
        (case rate_class_of (rq_path r) of
           Unlimited \<Rightarrow> (case next' r s of (rep, s) \<Rightarrow> (rep, s, ls))
         | AdminLimit \<Rightarrow>
             (case rateLimitMiddleware lib (c_RateLimitAdminPerMin (e_cfg env)) (e_now env) next' r (s, lim_admin ls) of
                (rep, s, m) \<Rightarrow> (rep, s, ls\<lparr>lim_admin := m\<rparr>))
         | SubLimit \<Rightarrow>
             (case rateLimitMiddleware lib (c_RateLimitSubPerMin (e_cfg env)) (e_now env) next' r (s, lim_sub ls) of
                (rep, s, m) \<Rightarrow> (rep, s, ls\<lparr>lim_sub := m\<rparr>))))"

end
