(* ===== verification/Router.thy ===== *)
theory Router
  imports Users_Api Fallback_Api Emergency_Api Liveness Rate_Limit
begin

text \<open>
  The routing table of \<open>Router\<close> (\<^verbatim>\<open>internal/api/server.go\<close>) with the small handlers that only fix an
  argument of another one: which handler serves which method and path template, behind which
  checks. Matching a path against a template is the library \<^verbatim>\<open>gorilla/mux\<close>, the argument \<open>mx_match\<close>:
  the values of the path variables, or \<open>None\<close>. Routes are tried in the order in which they were
  registered.
\<close>

datatype http_method = MethodGet | MethodPost | MethodPut | MethodDelete | MethodOther string

record mux =
  mx_match :: "string \<Rightarrow> string \<Rightarrow> (string \<times> string) list option"

section \<open>Bodies of all replies\<close>

datatype body =
    Text string
  | Healthy
  | Done
  | Flag bool
  | Name string
  | Tokens "string \<times> string"
  | User UserResponse
  | Users user_list
  | Client user_client_full
  | Clients "user_client_full list"
  | Inbounds "inbound_item list \<times> (nat \<times> int \<times> int) option"
  | SyncState "SyncStatus \<times> (string \<times> nodeSyncStatus) list option"
  | Routes route_reply
  | Balancer balancer_reply
  | BalancerOverride "balancer_runtime_config option"
  | NodeList "node list"
  | Accessed "accessed_entry list"
  | Emergency emergency_status
  | Activated "emergency_status option"
  | Profile emergency_profile
  | Profiles "emergency_profile list"
  | Sub sub_reply
  | VLESSItems "string \<times> vless_item list"
  | LinksIndex links_index
  | HysteriaAuth hysteriaAuthResponse

type_synonym 'x endpoint = "request \<Rightarrow> 'x server \<Rightarrow> body reply \<times> 'x server"

definition answering :: "('a \<Rightarrow> body) \<Rightarrow> (request \<Rightarrow> 'x server \<Rightarrow> 'a reply \<times> 'x server) \<Rightarrow> 'x endpoint" where
  "answering f h r s = (case h r s of (rep, s) \<Rightarrow> (map_reply f rep, s))"

section \<open>Handlers with a fixed argument\<close>

definition handleSubscriptionLinksText :: "'x env \<Rightarrow> request \<Rightarrow> db \<Rightarrow> sub_reply reply" where
  "handleSubscriptionLinksText env = handleSubscriptionLinksByFormatAndProtocol env ''txt'' []"

definition handleSubscriptionLinksB64 :: "'x env \<Rightarrow> request \<Rightarrow> db \<Rightarrow> sub_reply reply" where
  "handleSubscriptionLinksB64 env = handleSubscriptionLinksByFormatAndProtocol env ''b64'' []"

definition handleVLESSLinksText :: "'x env \<Rightarrow> request \<Rightarrow> db \<Rightarrow> sub_reply reply" where
  "handleVLESSLinksText env = handleSubscriptionLinksByFormatAndProtocol env ''txt'' ''vless''"

definition handleVLESSLinksB64 :: "'x env \<Rightarrow> request \<Rightarrow> db \<Rightarrow> sub_reply reply" where
  "handleVLESSLinksB64 env = handleSubscriptionLinksByFormatAndProtocol env ''b64'' ''vless''"

definition handleVMessLinksText :: "'x env \<Rightarrow> request \<Rightarrow> db \<Rightarrow> sub_reply reply" where
  "handleVMessLinksText env = handleSubscriptionLinksByFormatAndProtocol env ''txt'' ''vmess''"

definition handleVMessLinksB64 :: "'x env \<Rightarrow> request \<Rightarrow> db \<Rightarrow> sub_reply reply" where
  "handleVMessLinksB64 env = handleSubscriptionLinksByFormatAndProtocol env ''b64'' ''vmess''"

definition handleTrojanLinksText :: "'x env \<Rightarrow> request \<Rightarrow> db \<Rightarrow> sub_reply reply" where
  "handleTrojanLinksText env = handleSubscriptionLinksByFormatAndProtocol env ''txt'' ''trojan''"

definition handleTrojanLinksB64 :: "'x env \<Rightarrow> request \<Rightarrow> db \<Rightarrow> sub_reply reply" where
  "handleTrojanLinksB64 env = handleSubscriptionLinksByFormatAndProtocol env ''b64'' ''trojan''"

definition handleShadowsocksLinksText :: "'x env \<Rightarrow> request \<Rightarrow> db \<Rightarrow> sub_reply reply" where
  "handleShadowsocksLinksText env = handleSubscriptionLinksByFormatAndProtocol env ''txt'' ''shadowsocks''"

definition handleShadowsocksLinksB64 :: "'x env \<Rightarrow> request \<Rightarrow> db \<Rightarrow> sub_reply reply" where
  "handleShadowsocksLinksB64 env = handleSubscriptionLinksByFormatAndProtocol env ''b64'' ''shadowsocks''"

definition handleVLESSLinkByTagText :: "'x env \<Rightarrow> request \<Rightarrow> db \<Rightarrow> sub_reply reply" where
  "handleVLESSLinkByTagText env = handleVLESSLinkByTag env ''txt''"

definition handleVLESSLinkByTagB64 :: "'x env \<Rightarrow> request \<Rightarrow> db \<Rightarrow> sub_reply reply" where
  "handleVLESSLinkByTagB64 env = handleVLESSLinkByTag env ''b64''"

definition handleCompactSubscriptionLinksText :: "'x env \<Rightarrow> request \<Rightarrow> db \<Rightarrow> sub_reply reply" where
  "handleCompactSubscriptionLinksText env r = handleSubscriptionLinksText env (set_query ''profile'' ''mobile'' r)"

definition handleCompactSubscriptionLinksB64 :: "'x env \<Rightarrow> request \<Rightarrow> db \<Rightarrow> sub_reply reply" where
  "handleCompactSubscriptionLinksB64 env r = handleSubscriptionLinksB64 env (set_query ''profile'' ''mobile'' r)"

definition enableUser :: "'x env \<Rightarrow> request \<Rightarrow> 'x server \<Rightarrow> bool reply \<times> 'x server" where
  "enableUser env = setUserEnabled env True"

definition disableUser :: "'x env \<Rightarrow> request \<Rightarrow> 'x server \<Rightarrow> bool reply \<times> 'x server" where
  "disableUser env = setUserEnabled env False"

definition enableUserClient :: "'x env \<Rightarrow> request \<Rightarrow> 'x server \<Rightarrow> bool reply \<times> 'x server" where
  "enableUserClient env = setClientEnabled env True"

definition disableUserClient :: "'x env \<Rightarrow> request \<Rightarrow> 'x server \<Rightarrow> bool reply \<times> 'x server" where
  "disableUserClient env = setClientEnabled env False"

section \<open>The table\<close>

type_synonym 'x route = "http_method \<times> string \<times> 'x endpoint"

text \<open>Fallback routes, keyed on the fallback token.\<close>

definition fallback_routes :: "'x env \<Rightarrow> 'x route list" where
  "fallback_routes env =
     [(MethodGet, ''/sub/fallback/{token}'', withFallbackAuth env (answering Sub (reading (handleSubscription env)))),
      (MethodGet, ''/sub/fallback/{token}/links.txt'', withFallbackAuth env (answering Sub (reading (handleSubscriptionLinksText env)))),
      (MethodGet, ''/sub/fallback/{token}/links.b64'', withFallbackAuth env (answering Sub (reading (handleSubscriptionLinksB64 env)))),
      (MethodGet, ''/c/fallback/{token}'', withFallbackAuth env (answering Sub (reading (handleCompactSubscription env)))),
      (MethodGet, ''/c/fallback/{token}/links.txt'', withFallbackAuth env (answering Sub (reading (handleCompactSubscriptionLinksText env)))),
      (MethodGet, ''/c/fallback/{token}/links.b64'', withFallbackAuth env (answering Sub (reading (handleCompactSubscriptionLinksB64 env))))]"

text \<open>Public routes, authenticated by the token in the path; the last one is for the Hysteria daemon.\<close>

definition public_routes :: "'x env \<Rightarrow> 'x route list" where
  "public_routes env =
     [(MethodGet, ''/sub/{token}'', answering Sub (reading (handleSubscription env))),
      (MethodGet, ''/sub/{token}/links'', answering LinksIndex (reading (handleSubscriptionLinks env))),
      (MethodGet, ''/sub/{token}/links.txt'', answering Sub (reading (handleSubscriptionLinksText env))),
      (MethodGet, ''/sub/{token}/links.b64'', answering Sub (reading (handleSubscriptionLinksB64 env))),
      (MethodGet, ''/c/{token}'', answering Sub (reading (handleCompactSubscription env))),
      (MethodGet, ''/c/{token}/links.txt'', answering Sub (reading (handleCompactSubscriptionLinksText env))),
      (MethodGet, ''/c/{token}/links.b64'', answering Sub (reading (handleCompactSubscriptionLinksB64 env))),
      (MethodGet, ''/sub/{token}/vless'', answering Sub (reading (handleVLESSLinksText env))),
      (MethodGet, ''/sub/{token}/vless.b64'', answering Sub (reading (handleVLESSLinksB64 env))),
      (MethodGet, ''/sub/{token}/vless/list'', answering VLESSItems (reading (handleVLESSList env))),
      (MethodGet, ''/sub/{token}/vless/{vlessTag}'', answering Sub (reading (handleVLESSLinkByTagText env))),
      (MethodGet, ''/sub/{token}/vless/{vlessTag}/b64'', answering Sub (reading (handleVLESSLinkByTagB64 env))),
      (MethodGet, ''/sub/{token}/vmess'', answering Sub (reading (handleVMessLinksText env))),
      (MethodGet, ''/sub/{token}/vmess.b64'', answering Sub (reading (handleVMessLinksB64 env))),
      (MethodGet, ''/sub/{token}/trojan'', answering Sub (reading (handleTrojanLinksText env))),
      (MethodGet, ''/sub/{token}/trojan.b64'', answering Sub (reading (handleTrojanLinksB64 env))),
      (MethodGet, ''/sub/{token}/ss'', answering Sub (reading (handleShadowsocksLinksText env))),
      (MethodGet, ''/sub/{token}/ss.b64'', answering Sub (reading (handleShadowsocksLinksB64 env))),
      (MethodGet, ''/sub/{token}/shadowsocks'', answering Sub (reading (handleShadowsocksLinksText env))),
      (MethodGet, ''/sub/{token}/shadowsocks.b64'', answering Sub (reading (handleShadowsocksLinksB64 env))),
      (MethodGet, ''/sub/{token}/protocol/{protocol}'', answering Sub (reading (handleSubscription env))),
      (MethodGet, ''/sub/{token}/protocol/{protocol}/links.txt'', answering Sub (reading (handleSubscriptionLinksText env))),
      (MethodGet, ''/sub/{token}/protocol/{protocol}/links.b64'', answering Sub (reading (handleSubscriptionLinksB64 env))),
      (MethodGet, ''/sub/{token}/inbound/{inboundTag}'', answering Sub (reading (handleSubscription env))),
      (MethodGet, ''/sub/{token}/inbound/{inboundTag}/links.txt'', answering Sub (reading (handleSubscriptionLinksText env))),
      (MethodGet, ''/sub/{token}/inbound/{inboundTag}/links.b64'', answering Sub (reading (handleSubscriptionLinksB64 env))),
      (MethodGet, ''/sub/{token}/hy2'', answering Text (reading (handleHysteriaSub env False))),
      (MethodGet, ''/sub/{token}/hy2.b64'', answering Text (reading (handleHysteriaSub env True))),
      (MethodPost, ''/hysteria/auth'', answering HysteriaAuth (reading handleHysteriaAuth))]"

text \<open>The subrouter for administrators, below \<open>/api\<close>.\<close>

definition admin_routes :: "'x env \<Rightarrow> 'x route list" where
  "admin_routes env =
     [(MethodGet, ''/users'', answering Users (listUsers env)),
      (MethodPost, ''/users'', answering User (createUser env)),
      (MethodGet, ''/users/{id}'', answering User (getUser env)),
      (MethodGet, ''/users/by-token/{token}'', answering User (getUserByTokenHandler env)),
      (MethodDelete, ''/users/{id}'', answering (\<lambda>_. Done) (deleteUser env)),
      (MethodPut, ''/users/{id}/enable'', answering Flag (enableUser env)),
      (MethodPut, ''/users/{id}/disable'', answering Flag (disableUser env)),
      (MethodPost, ''/users/{id}/token'', answering Tokens (regenerateToken env)),
      (MethodGet, ''/users/{id}/routes'', answering Routes (getUserRoutes env)),
      (MethodPost, ''/users/{id}/routes'', answering Routes (addUserRoute env)),
      (MethodPut, ''/users/{id}/routes'', answering Routes (setUserRoutes env)),
      (MethodPut, ''/users/{id}/routes/{index}'', answering Routes (updateUserRoute env)),
      (MethodDelete, ''/users/{id}/routes/{index}'', answering Routes (deleteUserRoute env)),
      (MethodPut, ''/users/{id}/routes/id/{routeId}'', answering Routes (updateUserRouteByID env)),
      (MethodDelete, ''/users/{id}/routes/id/{routeId}'', answering Routes (deleteUserRouteByID env)),
      (MethodGet, ''/users/{id}/clients'', answering Clients getUserClients),
      (MethodPost, ''/users/{id}/clients'', answering Client (addUserClient env)),
      (MethodPut, ''/users/{id}/clients/{inboundId}/enable'', answering Flag (enableUserClient env)),
      (MethodPut, ''/users/{id}/clients/{inboundId}/disable'', answering Flag (disableUserClient env)),
      (MethodGet, ''/users/{id}/hy2'', answering Flag getUserHy2),
      (MethodPut, ''/users/{id}/hy2'', answering Flag (setUserHy2 env)),
      (MethodGet, ''/inbounds'', answering Inbounds (listInbounds env)),
      (MethodGet, ''/routes/global'', answering Routes (\<lambda>_. getGlobalRoutes)),
      (MethodPut, ''/routes/global'', answering Routes setGlobalRoutes),
      (MethodPost, ''/routes/global'', answering Routes addGlobalRoute),
      (MethodDelete, ''/routes/global'', answering Routes (\<lambda>_. deleteGlobalRoutes)),
      (MethodGet, ''/config/balancer'', answering Balancer (\<lambda>_. getBalancerConfig env)),
      (MethodPut, ''/config/balancer'', answering BalancerOverride (setBalancerConfig env)),
      (MethodPost, ''/sync'', answering (\<lambda>_. Done) (\<lambda>_. triggerSync)),
      (MethodGet, ''/sync/status'', answering SyncState (\<lambda>_. handleSyncStatus env)),
      (MethodGet, ''/nodes'', answering NodeList (\<lambda>_. listNodes)),
      (MethodGet, ''/users/{id}/nodes'', answering NodeList getUserNodes),
      (MethodPost, ''/users/{id}/nodes'', answering NodeList (setUserNodes env)),
      (MethodDelete, ''/users/{id}/nodes/{nodeName}'', answering Name (deleteUserNode env)),
      (MethodPost, ''/users/{id}/fallback/token'', answering Tokens (regenerateFallbackToken env)),
      (MethodGet, ''/fallback/status'', answering Flag (\<lambda>_. getFallbackStatus)),
      (MethodPost, ''/fallback/enable'', answering Flag (\<lambda>_. enableFallback env)),
      (MethodPost, ''/fallback/disable'', answering Flag (\<lambda>_. disableFallback env)),
      (MethodGet, ''/fallback/accessed'', answering Accessed (\<lambda>_. listFallbackAccessedUsers env)),
      (MethodGet, ''/emergency/status'', answering Emergency (\<lambda>_. getEmergencyStatus)),
      (MethodPost, ''/emergency/activate'', answering Activated (activateEmergency env)),
      (MethodPost, ''/emergency/deactivate'', answering (\<lambda>_. Done) (\<lambda>_. deactivateEmergency)),
      (MethodGet, ''/emergency/profiles'', answering Profiles (\<lambda>_. listEmergencyProfiles)),
      (MethodPost, ''/emergency/profiles'', answering Profile (createEmergencyProfile env)),
      (MethodGet, ''/emergency/profiles/{id:[0-9]+}'', answering Profile getEmergencyProfileByID),
      (MethodPut, ''/emergency/profiles/{id:[0-9]+}'', answering Profile (updateEmergencyProfile env)),
      (MethodDelete, ''/emergency/profiles/{id:[0-9]+}'', answering (\<lambda>_. Done) deleteEmergencyProfile)]"

definition guarded :: "'x env \<Rightarrow> 'x route \<Rightarrow> 'x route" where
  "guarded env rt = (case rt of (m, tpl, h) \<Rightarrow> (m, ''/api'' @ tpl, adminAuth env h))"

definition routes :: "'x env \<Rightarrow> 'x route list" where
  "routes env = fallback_routes env @ public_routes env @ map (guarded env) (admin_routes env) @
     [(MethodGet, ''/health'', \<lambda>_ s. (Reply 200 Healthy, s))]"

section \<open>Dispatch\<close>

fun find_route :: "mux \<Rightarrow> http_method \<Rightarrow> string \<Rightarrow> 'x route list \<Rightarrow> (string \<times> 'x endpoint \<times> (string \<times> string) list) option" where
  "find_route mx m path [] = None"
| "find_route mx m path ((m', tpl, h) # rts) =
     (if m' = m then (case mx_match mx tpl path of Some vars \<Rightarrow> Some (tpl, h, vars) | None \<Rightarrow> find_route mx m path rts)
      else find_route mx m path rts)"

text \<open>Without a route the library answers 405 when the path has a route for another method, and 404
  otherwise.\<close>

definition dispatch :: "mux \<Rightarrow> 'x env \<Rightarrow> http_method \<Rightarrow> 'x endpoint" where
  "dispatch mx env m r s =
     (case find_route mx m (rq_path r) (routes env) of
        Some (tpl, h, vars) \<Rightarrow> subscriptionMiddleware (Some tpl) env h (r\<lparr>rq_vars := vars\<rparr>) s
      | None \<Rightarrow>
          (Reply (if list_ex (\<lambda>rt. mx_match mx (fst (snd rt)) (rq_path r) \<noteq> None) (routes env) then 405 else 404) (Text []), s))"

definition Router :: "mux \<Rightarrow> 'l limiter_lib \<Rightarrow> 'x env \<Rightarrow> http_method \<Rightarrow> request \<Rightarrow> 'x server \<times> 'l limits \<Rightarrow> body reply \<times> 'x server \<times> 'l limits" where
  "Router mx lib env m = rateLimitWrap lib env (dispatch mx env m)"

end
