(* ===== verification/Startup.thy ===== *)
theory Startup
  imports Fallback_Api
begin

text \<open>
  \<^verbatim>\<open>main.go\<close> and \<^verbatim>\<open>internal/xray/tls.go\<close>: what runs once before the service answers requests: the
  transport credentials of the nodes, the node table, the first synchronisation, the restore of
  users and the kill switch. Listeners, signals and log output are left out. Reading a
  certificate file, finding certificates in it and loading a key pair are the arguments of
  \<open>pki\<close>; the credentials themselves are described by what they were made from.
\<close>

section \<open>Transport credentials\<close>

record pki =
  k_ReadFile :: "string \<Rightarrow> string + string"
  k_HasCerts :: "string \<Rightarrow> bool"
  k_LoadKeyPair :: "string \<Rightarrow> string \<Rightarrow> string option"

record tls_config =
  tc_ClientCert :: string
  tc_ClientKey :: string
  tc_RootCAs :: string
  tc_ServerName :: string
  tc_MinVersion :: nat

definition VersionTLS13 :: nat where
  "VersionTLS13 = 0x0304"

datatype transport = Insecure | MutualTLS tls_config

definition BuildTLSCredentials :: "pki \<Rightarrow> string \<Rightarrow> string \<Rightarrow> string \<Rightarrow> string \<Rightarrow> string + transport" where
  "BuildTLSCredentials k caCertPath clientCertPath clientKeyPath serverName =
     (case k_ReadFile k caCertPath of
        Inl e \<Rightarrow> Inl (''read ca_cert '' @ caCertPath @ '': '' @ e)
      | Inr caPEM \<Rightarrow>
          if \<not> k_HasCerts k caPEM then Inl (''ca_cert '' @ caCertPath @ '': no PEM certificates found'')
          else case k_LoadKeyPair k clientCertPath clientKeyPath of
            Some e \<Rightarrow> Inl (''load client keypair ('' @ clientCertPath @ '' / '' @ clientKeyPath @ ''): '' @ e)
          | None \<Rightarrow> Inr (MutualTLS \<lparr>tc_ClientCert = clientCertPath, tc_ClientKey = clientKeyPath,
              tc_RootCAs = caPEM, tc_ServerName = serverName, tc_MinVersion = VersionTLS13\<rparr>))"

text \<open>The variable \<open>nodeCreds\<close> is the map that \<open>SetNodeCredentials\<close> installs.\<close>

type_synonym node_creds = "(string \<times> transport) list"

definition resolveCredentials :: "node_creds \<Rightarrow> string \<Rightarrow> transport" where
  "resolveCredentials nodeCreds apiAddr =
     (case map_of nodeCreds apiAddr of Some c \<Rightarrow> c | None \<Rightarrow> Insecure)"

definition server_name :: "NodeConfig \<Rightarrow> NodeTLS \<Rightarrow> string" where
  "server_name n t =
     (if tls_ServerName t = []
      then (case SplitHostPort (nc_APIAddr n) of Some host \<Rightarrow> host | None \<Rightarrow> nc_APIAddr n)
      else tls_ServerName t)"

fun node_credentials :: "pki \<Rightarrow> NodeConfig list \<Rightarrow> node_creds \<Rightarrow> string + node_creds" where
  "node_credentials k [] creds = Inr creds"
| "node_credentials k (n # ns) creds =
     (case nc_TLS n of
        None \<Rightarrow> node_credentials k ns creds
      | Some t \<Rightarrow>
          (case BuildTLSCredentials k (tls_CACert t) (tls_ClientCert t) (tls_ClientKey t) (server_name n t) of
             Inl e \<Rightarrow> Inl (''Node '' @ nc_Name n @ '' mTLS: '' @ e)
           | Inr c \<Rightarrow> node_credentials k ns (map_put (nc_APIAddr n) c creds)))"

text \<open>An error ends the process.\<close>

definition configureNodeCredentials :: "pki \<Rightarrow> Config \<Rightarrow> string + node_creds" where
  "configureNodeCredentials k cfg = node_credentials k (c_Nodes cfg) []"

section \<open>Nodes\<close>

definition node_of_config :: "NodeConfig \<Rightarrow> node" where
  "node_of_config n = \<lparr>n_ID = 0, n_Name = nc_Name n, n_APIAddr = nc_APIAddr n, n_InboundTag = nc_InboundTag n,
     n_PublicHost = nc_PublicHost n, n_PublicPort = nc_PublicPort n, n_Enabled = IsEnabled n, n_CreatedAt = 0\<rparr>"

definition reconcileNodes :: "time \<Rightarrow> Config \<Rightarrow> db \<Rightarrow> db \<times> db_err option" where
  "reconcileNodes now cfg db =
     (case ReconcileNodes now (map node_of_config (ResolvedNodes cfg)) db of
        (db, Some e) \<Rightarrow> (db, Some e)
      | (db, None) \<Rightarrow>
          (case BackfillUserNodesToEnabled db of
             Inl e \<Rightarrow> (db, Some e)
           | Inr db \<Rightarrow> (db, None)))"

section \<open>Start\<close>

text \<open>From a loaded configuration and an opened database to the server that the listeners serve.\<close>

definition start :: "pki \<Rightarrow> 'x env \<Rightarrow> 'x service \<Rightarrow> string + (node_creds \<times> 'x server)" where
  "start k env sv =
     (case configureNodeCredentials k (e_cfg env) of
        Inl e \<Rightarrow> Inl e
      | Inr creds \<Rightarrow>
          (let sv = sv\<lparr>sv_db := fst (reconcileNodes (e_now env) (e_cfg env) (sv_db sv))\<rparr>;
               sv = Probe (e_cfg env) sv;
               sv = snd (Sync (e_order env) (e_cfg env) (e_now env) sv);
               sv = RestoreOnStartup (e_xray env) (e_cfg env) sv;
               s = \<lparr>srv_service = sv, srv_denied = 0, srv_nodeStatus = [], srv_fetches = [], srv_jobs = []\<rparr>
           in Inr (creds, reconcileKillSwitchLocked env s)))"

end
