(* ===== verification/Document_Store.thy ===== *)
theory Document_Store
  imports Users_Api Emergency_Api Fallback_Api Admin_Properties
begin

text \<open>
  The columns of the database that hold documents: the credential of a client, the routing rules of
  a user, the inbound tags of an emergency profile and the values of the settings. The raw text of an
  inbound (inbounds.raw_config) is not among them: it is whatever the configuration file or the
  administrator has there, and its readers handle text that does not decode. What each method
  of \<open>DB\<close> writes into them, and that what the administration backends return for a new client is
  the encoding of a credential.
\<close>

section \<open>Documents\<close>

datatype document = ClientDoc jtext | RoutesDoc jtext | ProfileDoc jtext | SettingDoc string setting

definition documents :: "db \<Rightarrow> document list" where
  "documents db = map (\<lambda>c. ClientDoc (uc_ClientConfig c)) (user_clients db) @
     map (\<lambda>r. RoutesDoc (row_client_routes r)) (users db) @
     map (\<lambda>p. ProfileDoc (pr_inbound_tags p)) (emergency_profiles db) @
     map (\<lambda>kv. SettingDoc (fst kv) (snd kv)) (app_settings db)"

text \<open>Every document of the database is well-typed.\<close>

definition stored_docs :: "(document \<Rightarrow> bool) \<Rightarrow> db \<Rightarrow> bool" where
  "stored_docs T db = list_all T (documents db)"

lemma stored_docs_iff:
  "stored_docs T db \<longleftrightarrow> (\<forall>c\<in>set (user_clients db). T (ClientDoc (uc_ClientConfig c))) \<and>
     (\<forall>r\<in>set (users db). T (RoutesDoc (row_client_routes r))) \<and>
     (\<forall>p\<in>set (emergency_profiles db). T (ProfileDoc (pr_inbound_tags p))) \<and>
     (\<forall>kv\<in>set (app_settings db). T (SettingDoc (fst kv) (snd kv)))"
  by (auto simp: stored_docs_def documents_def list_all_iff)

lemma stored_docs_True [simp]: "stored_docs (\<lambda>_. True) db"
  by (simp add: stored_docs_iff)

lemma stored_docs_empty [simp]: "stored_docs T empty_db"
  by (simp add: stored_docs_iff empty_db_def)

lemma same_documents:
  assumes "user_clients db' = user_clients db" and "users db' = users db"
    and "emergency_profiles db' = emergency_profiles db" and "app_settings db' = app_settings db"
  shows "stored_docs T db' = stored_docs T db"
  by (simp add: stored_docs_def documents_def assms)

section \<open>What the methods write\<close>

named_theorems docs "what the methods of the database do to documents"

lemma docs_update_user:
  assumes "\<And>r. row_client_routes (f r) = row_client_routes r"
  shows "stored_docs T (update_user i f db) = stored_docs T db"
  by (simp add: stored_docs_def documents_def update_user_def map_key_update_where assms)

lemma docs_user_fields [docs]:
  "UpdateUserToken now i tok db = Inr db' \<Longrightarrow> stored_docs T db' = stored_docs T db"
  "UpdateFallbackToken now i tok db = Inr db' \<Longrightarrow> stored_docs T db' = stored_docs T db"
  "SetFallbackAccessedAt i now db = Inr db' \<Longrightarrow> stored_docs T db' = stored_docs T db"
  "SetUserEnabled now i en db = Inr db' \<Longrightarrow> stored_docs T db' = stored_docs T db"
  "SetUserHy2Enabled now i en db = Inr db' \<Longrightarrow> stored_docs T db' = stored_docs T db"
  by (auto simp: UpdateUserToken_def UpdateFallbackToken_def SetFallbackAccessedAt_def SetUserEnabled_def
      SetUserHy2Enabled_def docs_update_user split: if_splits)

lemma docs_conn [docs]: "stored_docs T (db\<lparr>conn_ok := up\<rparr>) = stored_docs T db"
  by (rule same_documents) simp_all

lemma docs_create [docs]:
  "CreateUser now name email tok fb db = Inr (db', u) \<Longrightarrow> T (RoutesDoc (Doc (JArr []))) \<Longrightarrow> stored_docs T db \<Longrightarrow> stored_docs T db'"
  by (auto simp: CreateUser_def Let_def stored_docs_iff split: if_splits)

lemma docs_routes [docs]:
  "UpdateUserClientRoutes now i t db = Inr db' \<Longrightarrow> T (RoutesDoc t) \<Longrightarrow> stored_docs T db \<Longrightarrow> stored_docs T db'"
  by (auto simp: UpdateUserClientRoutes_def update_user_def stored_docs_iff set_update_where)

lemma docs_delete_user [docs]: "DeleteUser i db = Inr db' \<Longrightarrow> stored_docs T db \<Longrightarrow> stored_docs T db'"
  by (auto simp: DeleteUser_def stored_docs_iff set_delete_where)

lemma docs_put: "T (SettingDoc k v) \<Longrightarrow> stored_docs T db \<Longrightarrow> stored_docs T (put_setting k v db)"
  by (auto simp: put_setting_def stored_docs_iff set_update_where)

lemma docs_del: "stored_docs T db \<Longrightarrow> stored_docs T (del_settings ks db)"
  by (auto simp: del_settings_def stored_docs_iff set_delete_where)

lemma docs_settings [docs]:
  "SetFallbackEnabled en db = Inr db' \<Longrightarrow> T (SettingDoc ''fallback_enabled'' (SText (if en then ''true'' else ''false''))) \<Longrightarrow>
     stored_docs T db \<Longrightarrow> stored_docs T db'"
  "UpdateGlobalClientRoutes t db = Inr db' \<Longrightarrow> T (SettingDoc ''global_client_routes'' (SJson t)) \<Longrightarrow> stored_docs T db \<Longrightarrow> stored_docs T db'"
  "SetBalancerRuntimeConfig cfg db = Inr db' \<Longrightarrow> T (SettingDoc ''balancer_runtime_config'' (SJson (Doc (enc_balancer cfg)))) \<Longrightarrow>
     stored_docs T db \<Longrightarrow> stored_docs T db'"
  "DeleteBalancerRuntimeConfig db = Inr db' \<Longrightarrow> stored_docs T db \<Longrightarrow> stored_docs T db'"
  "DeactivateEmergency db = Inr db' \<Longrightarrow> stored_docs T db \<Longrightarrow> stored_docs T db'"
  "ActivateEmergency now i db = Inr db' \<Longrightarrow> T (SettingDoc ''emergency_active'' (SText ''true'')) \<Longrightarrow>
     T (SettingDoc ''emergency_profile_id'' (SText (Itoa i))) \<Longrightarrow>
     T (SettingDoc ''emergency_activated_at'' (SStamp (now div Second))) \<Longrightarrow> stored_docs T db \<Longrightarrow> stored_docs T db'"
  by (auto simp: SetFallbackEnabled_def UpdateGlobalClientRoutes_def SetBalancerRuntimeConfig_def
      DeleteBalancerRuntimeConfig_def DeactivateEmergency_def ActivateEmergency_def intro!: docs_put docs_del)

lemma docs_inbound [docs]:
  "UpsertInbound now tag proto port file raw db = Inr (db', i) \<Longrightarrow> stored_docs T db' = stored_docs T db"
  by (rule same_documents) (auto simp: UpsertInbound_def Let_def split: if_splits option.splits)

lemma docs_delete_inbounds: "stored_docs T db \<Longrightarrow> stored_docs T (delete_inbounds P db)"
  by (auto simp: delete_inbounds_def stored_docs_iff set_delete_where)

lemma docs_delete_tag [docs]: "DeleteInboundByTag tag db = Inr db' \<Longrightarrow> stored_docs T db \<Longrightarrow> stored_docs T db'"
  by (auto simp: DeleteInboundByTag_def docs_delete_inbounds)

lemma docs_client [docs]:
  "UpsertUserClient u i cc db = Inr db' \<Longrightarrow> T (ClientDoc cc) \<Longrightarrow> stored_docs T db \<Longrightarrow> stored_docs T db'"
  by (auto simp: UpsertUserClient_def stored_docs_iff set_update_where split: if_splits)

lemma docs_client_enabled [docs]: "SetUserClientEnabled u i en db = Inr db' \<Longrightarrow> stored_docs T db' = stored_docs T db"
  by (auto simp: SetUserClientEnabled_def stored_docs_def documents_def map_key_update_where)

lemma docs_profiles [docs]:
  "CreateEmergencyProfile now name desc tags db = Inr (db', p) \<Longrightarrow> T (ProfileDoc (tags_json tags)) \<Longrightarrow>
     stored_docs T db \<Longrightarrow> stored_docs T db'"
  "UpdateEmergencyProfile now i name desc tags db = Inr (db', q) \<Longrightarrow> T (ProfileDoc (tags_json tags)) \<Longrightarrow>
     stored_docs T db \<Longrightarrow> stored_docs T db'"
  "DeleteEmergencyProfile i db = Inr db' \<Longrightarrow> stored_docs T db \<Longrightarrow> stored_docs T db'"
  by (auto simp: CreateEmergencyProfile_def UpdateEmergencyProfile_def DeleteEmergencyProfile_def Let_def stored_docs_iff
      set_update_where set_delete_where split: if_splits)

lemma docs_upsert_nodes: "upsert_nodes now ns db = (db', e) \<Longrightarrow> stored_docs T db' = stored_docs T db"
proof (induction ns arbitrary: db)
  case (Cons n ns)
  have "stored_docs T d = stored_docs T db" if "UpsertNode now n db = Inr (d, i)" for d i
    by (rule same_documents) (use that in \<open>auto simp: UpsertNode_def Let_def split: if_splits option.splits\<close>)
  with Cons show ?case by (auto split: sum.splits prod.splits)
qed simp

lemma docs_disable: "stored_docs T (fold (\<lambda>n d. if P n then d else disable_node (n_ID n) d) ns db) = stored_docs T db"
proof (induction ns arbitrary: db)
  case (Cons n ns)
  have "stored_docs T (disable_node i db) = stored_docs T db" for i by (rule same_documents) (simp_all add: disable_node_def)
  with Cons show ?case by simp
qed simp

lemma docs_assign: "AssignUserToNodes u ns db = (db', e) \<Longrightarrow> stored_docs T db' = stored_docs T db"
proof (induction ns arbitrary: db)
  case (Cons n ns)
  have "stored_docs T d = stored_docs T db" if "insert_placement u n db = Inr d" for d
    by (rule same_documents) (use that in \<open>auto simp: insert_placement_def split: if_splits\<close>)
  with Cons show ?case by (auto split: sum.splits)
qed simp

lemma docs_nodes [docs]:
  "ReconcileNodes now ds db = (db', e) \<Longrightarrow> stored_docs T db' = stored_docs T db"
  "BackfillUserNodesToEnabled db = Inr db' \<Longrightarrow> stored_docs T db' = stored_docs T db"
  "SetUserNodes u ns db = Inr db' \<Longrightarrow> stored_docs T db' = stored_docs T db"
  "RemoveUserFromNode u n db = Inr db' \<Longrightarrow> stored_docs T db' = stored_docs T db"
proof -
  show "stored_docs T db' = stored_docs T db" if "ReconcileNodes now ds db = (db', e)"
  proof -
    obtain d x where d: "upsert_nodes now ds db = (d, x)" by force
    then have "stored_docs T d = stored_docs T db" by (rule docs_upsert_nodes)
    with that d show ?thesis by (auto simp: ReconcileNodes_def docs_disable split: option.splits sum.splits)
  qed
  show "stored_docs T db' = stored_docs T db" if "BackfillUserNodesToEnabled db = Inr db'"
    by (rule same_documents) (use that in \<open>auto simp: BackfillUserNodesToEnabled_def\<close>)
  show "stored_docs T db' = stored_docs T db" if "RemoveUserFromNode u n db = Inr db'"
    by (rule same_documents) (use that in \<open>auto simp: RemoveUserFromNode_def\<close>)
  have "stored_docs T (db\<lparr>user_nodes := x\<rparr>) = stored_docs T db" for x by (rule same_documents) simp_all
  then show "stored_docs T db' = stored_docs T db" if "SetUserNodes u ns db = Inr db'"
    using that by (auto simp: SetUserNodes_def split: if_splits prod.splits option.splits dest: docs_assign)
qed

section \<open>New credentials\<close>

lemma built_credential:
  assumes "build_client rnd proto username settings = Inr client" and "clientToStoredConfig proto client enc = Inr t"
  shows "is_credential t"
  using assms by (auto simp: build_client_def clientToStoredConfig_def Let_def vmess_alter_zero split: if_splits
      intro!: stored_is_credential stored_ok_simple)

definition returns_credentials :: "'w AdminAPI \<Rightarrow> bool" where
  "returns_credentials a \<longleftrightarrow> (\<forall>tag identity hint w t w'. ad_AddClient a tag identity hint w = (Inr t, w') \<longrightarrow> is_credential t)"

lemma file_credentials: "returns_credentials fileAdmin"
proof -
  have "is_credential t" if "AddClientToInbound rnd wr tag u enc d = (Inr t, d')" for rnd wr tag u enc d t d'
    using that by (auto simp: AddClientToInbound_def Let_def split: if_splits sum.splits prod.splits option.splits
        intro: built_credential)
  moreover have "map_sum f id r = Inr t \<longleftrightarrow> r = Inr t" for f :: "wr_err \<Rightarrow> string" and r and t :: jtext
    by (cases r) simp_all
  ultimately show ?thesis
    by (auto simp: returns_credentials_def fileAdmin_def Let_def split: prod.splits)
qed

lemma grpc_credentials: "returns_credentials (grpcAdmin h addr mirror)"
proof -
  have "is_credential t" if "(case build_client rnd proto u settings of Inl e \<Rightarrow> (Inl (wr_text e), w)
      | Inr client \<Rightarrow> (case clientMapToProtocolUser proto client u of Inl e \<Rightarrow> (Inl (''build protocol user: '' @ e), w)
        | Inr user \<Rightarrow> (case f user of (Some e, w') \<Rightarrow> (Inl e, w')
          | (None, w') \<Rightarrow> (case clientToStoredConfig proto client enc of Inl e \<Rightarrow> (Inl (''client config: '' @ wr_text e), w')
            | Inr storedJSON \<Rightarrow> (Inr storedJSON, w'))))) = (Inr t, w'')"
    for proto u settings rnd enc t and w w'' :: "'a world" and f :: "proto_user \<Rightarrow> string option \<times> 'a world"
    using that by (auto split: sum.splits prod.splits option.splits intro: built_credential)
  then show ?thesis
    unfolding returns_credentials_def grpcAdmin_def AddClientToInboundViaAPI_def Let_def
    by (auto split: if_split_asm sum.split_asm prod.split_asm)
qed

lemma targets_credentials:
  assumes "list_all (\<lambda>(n, a). returns_credentials a) ts" and "add_targets tag u hint ts w = (rs, w')" and "Inr t \<in> set rs"
  shows "is_credential t"
  using assms
proof (induction ts arbitrary: w rs w')
  case (Cons x ts)
  obtain n a where x: "x = (n, a)" by force
  obtain r w1 where r: "ad_AddClient a tag u hint w = (r, w1)" by force
  obtain rs' w2 where rs': "add_targets tag u hint ts w1 = (rs', w2)" by force
  from Cons.prems(2) x r rs' have rs: "rs = map_sum (\<lambda>e. n @ '': '' @ e) id r # rs'" by simp
  show ?case
  proof (cases "Inr t \<in> set rs'")
    case True
    with Cons.IH [OF _ rs'] Cons.prems(1) show ?thesis by simp
  next
    case False
    with Cons.prems(3) rs have "r = Inr t" by (cases r) auto
    with r have "ad_AddClient a tag u hint w = (Inr t, w1)" by simp
    moreover have "returns_credentials a" using Cons.prems(1) x by simp
    ultimately show ?thesis unfolding returns_credentials_def by blast
  qed
qed simp

lemma fanout_credentials:
  assumes "list_all (\<lambda>(n, a). returns_credentials a) ts"
  shows "returns_credentials (fanoutAdmin ts)"
proof -
  have "Inr t \<in> set rs" if "first_stored l rs = Inr t" for l rs t
  proof -
    from that obtain us where "List.map_filter (\<lambda>r. case r of Inr s \<Rightarrow> Some s | Inl _ \<Rightarrow> None) rs = t # us"
      by (auto simp: first_stored_def split: list.splits)
    then have "t \<in> set (List.map_filter (\<lambda>r. case r of Inr s \<Rightarrow> Some s | Inl _ \<Rightarrow> None) rs)" by simp
    then show ?thesis by (auto simp: List.map_filter_def split: sum.splits)
  qed
  then show ?thesis
    using targets_credentials [OF assms] by (auto simp: returns_credentials_def fanoutAdmin_def split: prod.splits)
qed

lemma admin_credentials: "returns_credentials (admin_of env)"
proof -
  have "list_all (\<lambda>(n, a). returns_credentials a) (node_targets h ns)" for h :: "'a handler" and ns
    by (simp add: node_targets_def list_all_iff grpc_credentials)
  then show ?thesis
    by (simp add: admin_of_def buildAdmin_def Let_def file_credentials grpc_credentials fanout_credentials)
qed

end
