(* ===== verification/Server_Invariant.thy ===== *)
theory Server_Invariant
  imports Api_Samples Router Startup Document_Store
begin

text \<open>
  The server as a whole: which steps its state can take (requests of administrators, requests for
  subscriptions, goroutines, timers, changes from outside), and that the database stays
  consistent in every state that can be reached from the start of the process. What the steps keep is
  proved once, in the locale \<open>document_store\<close>, for any notion of well-typed documents that the
  writers of the service respect.
\<close>

section \<open>What changes the database\<close>

lemma on_world_db [simp]: "db_of (snd (on_world f s)) = db_of s"
  by (simp add: on_world_def split: prod.splits)

lemma on_world_dbD: "on_world f s = (x, s') \<Longrightarrow> db_of s' = db_of s"
  using on_world_db [of f s] by simp

lemma draw_token_db [simp]: "db_of (snd (draw_token s)) = db_of s"
  by (simp add: draw_token_def split: prod.splits)

lemma draw_token_dbD: "draw_token s = (x, s') \<Longrightarrow> db_of s' = db_of s"
  using draw_token_db [of s] by simp

lemma fold_world_db: "(\<And>x s. db_of (f x s) = db_of s) \<Longrightarrow> db_of (fold f xs s) = db_of s"
  by (induction xs arbitrary: s) auto

lemma xray_calls_db [simp]:
  "db_of (removeUserFromXray env u n s) = db_of s"
  "db_of (addUserToXray env u n s) = db_of s"
  "db_of (addClientToXray env n tag cc s) = db_of s"
  "db_of (removeClientFromXray env n tag s) = db_of s"
  by (simp_all add: removeUserFromXray_def addUserToXray_def addClientToXray_def removeClientFromXray_def Let_def
      fold_world_db split: sum.splits)

lemma reconcileOneNode_db [simp]: "db_of (reconcileOneNode env n s) = db_of s"
  by (auto simp: reconcileOneNode_def Let_def storeNodeStatus_def db_of_def on_world_def set_world_def
      split: sum.splits prod.splits)

lemma apply_tag_db [simp]: "db_of (apply_tag env b tag s) = db_of s"
  by (auto simp: apply_tag_def Let_def split: sum.splits option.splits)

lemma kill_switch_db [simp]:
  "db_of (applyKillSwitchInboundsLocked env b s) = db_of s"
  "db_of (reconcileKillSwitchLocked env s) = db_of s"
  "db_of (killswitch_tick env i s) = db_of s"
  by (auto simp: applyKillSwitchInboundsLocked_def reconcileKillSwitchLocked_def killswitch_tick_def fold_world_db
      split: sum.splits bool.splits)

lemma with_user_reads: "(\<And>u s. snd (k u s) = s) \<Longrightarrow> snd (with_user r k s) = s"
  by (simp add: with_user_def split: sum.splits)

text \<open>The handlers that only read.\<close>

lemma readers [simp]:
  "snd (listUsers env r s) = s" "snd (getUser env r s) = s" "snd (getUserByTokenHandler env r s) = s"
  "snd (getUserClients r s) = s" "snd (getUserHy2 r s) = s" "snd (listInbounds env r s) = s"
  "snd (getBalancerConfig env s) = s" "snd (handleSyncStatus env s) = s" "snd (listNodes s) = s"
  "snd (getUserNodes r s) = s" "snd (getFallbackStatus s) = s" "snd (listFallbackAccessedUsers env s) = s"
  "snd (getEmergencyStatus s) = s" "snd (listEmergencyProfiles s) = s" "snd (getEmergencyProfileByID r s) = s"
  by (auto simp: listUsers_def getUser_def getUserByTokenHandler_def getUserClients_def getUserHy2_def listInbounds_def
      getBalancerConfig_def handleSyncStatus_def listNodes_def getUserNodes_def getFallbackStatus_def
      listFallbackAccessedUsers_def getEmergencyStatus_def listEmergencyProfiles_def getEmergencyProfileByID_def
      with_profile_def Let_def intro!: with_user_reads split: option.splits sum.splits prod.splits)

lemma find_route_mem: "find_route mx m path rts = Some (tpl, h, vars) \<Longrightarrow> (m, tpl, h) \<in> set rts"
  by (induction rts) (auto split: if_splits option.splits)

lemma job_removed [simp]: "db_of (s\<lparr>srv_jobs := js\<rparr>) = db_of s"
  by (simp add: db_of_def)

lemma surjective_pairing3: "p = (fst p, fst (snd p), snd (snd p))"
  by simp

lemma find_Some_mem: "find P xs = Some x \<Longrightarrow> x \<in> set xs"
  by (auto simp: find_Some_iff)

lemma getByID_row:
  assumes "getByID r db = Inr u"
  shows "\<exists>row\<in>set (users db). u = scanUser row"
  using assms by (auto simp: getByID_def GetUserByID_def GetUserByUsername_def find_user_def with_conn_def Let_def
      split: if_splits sum.splits option.splits dest: find_Some_mem)

section \<open>Steps of the server\<close>

text \<open>A request goes through the router, whatever the router library matches and the limiters say (they
  are free in every step, so limiters without a state are general enough); a
  goroutine that a handler started runs at any later point; the timers tick at any time; Xray, the
  configuration directory and the database connection change on their own. Time and requests are
  free in every step, and so is the order in which a map is visited, once per entry.\<close>

inductive server_step :: "'x server \<Rightarrow> 'x server \<Rightarrow> bool" where
  srv_request: "visits_all (e_order env) \<Longrightarrow>
    Router mx (lib :: unit limiter_lib) env m r (s, ls) = (rep, s', ls') \<Longrightarrow> server_step s s'"
| srv_metrics: "server_step s (snd (MetricsHandler sha256 env s))"
| srv_job: "visits_all (e_order env) \<Longrightarrow> j \<in> set (srv_jobs s) \<Longrightarrow>
    server_step s (run_job env j (s\<lparr>srv_jobs := remove1 j (srv_jobs s)\<rparr>))"
| srv_tick_sync: "visits_all (e_order env) \<Longrightarrow> server_step s (sync_now env s)"
| srv_tick_kill_switch: "server_step s (killswitch_tick env interval s)"
| srv_tick_nodes: "server_step s (reconcileNodesOnce env s)"
| srv_outside: "server_step s (set_world w s)"
| srv_connection: "server_step s (set_db ((db_of s)\<lparr>conn_ok := up\<rparr>) s)"

text \<open>The states that the server reaches from its start on a database with the property \<open>P\<close>.\<close>

inductive reachable_from :: "(db \<Rightarrow> bool) \<Rightarrow> 'x server \<Rightarrow> bool" for P where
  srv_start: "P (sv_db sv) \<Longrightarrow> visits_all (e_order env) \<Longrightarrow> start k env sv = Inr (creds, s) \<Longrightarrow> reachable_from P s"
| srv_next: "reachable_from P s \<Longrightarrow> server_step s s' \<Longrightarrow> reachable_from P s'"

section \<open>Rules\<close>

lemma selectors_any: "check_selectors w e1 e2 ds = None \<longleftrightarrow> check_selectors w e1' e2' ds = None"
  by (induction ds) (auto simp: Let_def)

lemma validate_each: "validate_from i seen rs = None \<Longrightarrow> r \<in> set rs \<Longrightarrow> validateUserRoutes [r] = None"
proof (induction rs arbitrary: i seen)
  case (Cons x rs)
  have "validateRouteSelectors j x = None" if "validateRouteSelectors i x = None" for j
    using that selectors_any [of "''geoip:''" "GeoIPInDomain i" "InvalidSelector i" "rr_Domain x" "GeoIPInDomain j" "InvalidSelector j"]
      selectors_any [of "''geosite:''" "GeositeInIP i" "InvalidSelector i" "rr_IP x" "GeositeInIP j" "InvalidSelector j"]
    by (auto simp: validateRouteSelectors_def split: option.splits)
  then have x: "validateUserRoutes [x] = None"
    using Cons.prems(1) by (auto simp: validateUserRoutes_def Let_def split: if_split_asm option.split_asm)
  obtain seen' where "validate_from (Suc i) seen' rs = None"
    using Cons.prems(1) by (auto simp: Let_def split: if_split_asm option.split_asm)
  with Cons.IH Cons.prems(2) x show ?case by auto
qed simp

lemma list_all_edits:
  "list_all P xs \<Longrightarrow> P x \<Longrightarrow> list_all P (xs[i := x])"
  "list_all P xs \<Longrightarrow> list_all P (remove_at i xs)"
  by (auto simp: list_all_iff remove_at_def dest: subsetD [OF set_update_subset_insert] in_set_takeD in_set_dropD)

section \<open>Writers of documents\<close>

text \<open>A reachable database all of whose documents are well-typed.\<close>

definition sound_db :: "(document \<Rightarrow> bool) \<Rightarrow> db \<Rightarrow> bool" where
  "sound_db T db \<longleftrightarrow> db_reachable db \<and> stored_docs T db"

named_theorems keeps "handlers keep the database sound"

text \<open>What the service writes is well-typed: credentials that the parser extracts or a backend returns,
  rules that are valid one by one, and the fixed forms of the other documents. \<open>R\<close> is what is
  known of every stored rule; ids do not matter for it.\<close>

locale document_store =
  fixes T :: "document \<Rightarrow> bool" and R :: "user_route_rule \<Rightarrow> bool"
  assumes credential: "is_credential cc \<Longrightarrow> T (ClientDoc cc)"
    and user_rules: "pred_option (list_all R) rules \<Longrightarrow> T (RoutesDoc (routes_text rules))"
    and global_rules: "pred_option (list_all R) rules \<Longrightarrow> T (SettingDoc ''global_client_routes'' (SJson (routes_text rules)))"
    and stored_rules: "T (RoutesDoc t) \<Longrightarrow> parseUserRoutes t = Some rs \<Longrightarrow> list_all R rs"
    and stored_global: "T (SettingDoc ''global_client_routes'' v) \<Longrightarrow> parseUserRoutes (setting_text v) = Some rs \<Longrightarrow> list_all R rs"
    and validated: "validateUserRoutes [r] = None \<Longrightarrow> R r"
    and renamed: "R r \<Longrightarrow> R (r\<lparr>rr_ID := route_id\<rparr>)"
    and fallback_flag: "T (SettingDoc ''fallback_enabled'' (SText (if en then ''true'' else ''false'')))"
    and balancer: "normalizeBalancerStrategyInput strategy \<noteq> [] \<Longrightarrow> T (SettingDoc ''balancer_runtime_config''
      (SJson (Doc (enc_balancer \<lparr>brc_Strategy = normalizeBalancerStrategyInput strategy, brc_ProbeURL = url, brc_ProbeInterval = freq\<rparr>))))"
    and active_flag: "T (SettingDoc ''emergency_active'' (SText ''true''))"
    and active_profile: "0 < i \<Longrightarrow> i \<le> int64_max \<Longrightarrow> T (SettingDoc ''emergency_profile_id'' (SText (Itoa i)))"
    and active_since: "T (SettingDoc ''emergency_activated_at'' (SStamp sec))"
    and profile: "T (ProfileDoc (tags_json tags))"
begin

lemma no_rules: "T (RoutesDoc (Doc (JArr [])))"
  using user_rules [of "Some []"] by (simp add: routes_text_def enc_route_rules_def)

text \<open>A method keeps a database sound when what it is called with is well-typed.\<close>

lemma user_ops:
  "CreateUser now name email tok fb db = Inr (db', u) \<Longrightarrow> sound_db T db \<Longrightarrow> sound_db T db'"
  "UpdateUserToken now i tok db = Inr db' \<Longrightarrow> sound_db T db \<Longrightarrow> sound_db T db'"
  "UpdateFallbackToken now i tok db = Inr db' \<Longrightarrow> sound_db T db \<Longrightarrow> sound_db T db'"
  "SetFallbackAccessedAt i now db = Inr db' \<Longrightarrow> sound_db T db \<Longrightarrow> sound_db T db'"
  "SetUserEnabled now i en db = Inr db' \<Longrightarrow> sound_db T db \<Longrightarrow> sound_db T db'"
  "SetUserHy2Enabled now i en db = Inr db' \<Longrightarrow> sound_db T db \<Longrightarrow> sound_db T db'"
  "DeleteUser i db = Inr db' \<Longrightarrow> sound_db T db \<Longrightarrow> sound_db T db'"
  "pred_option (list_all R) rules \<Longrightarrow> UpdateUserClientRoutes now i (routes_text rules) db = Inr db' \<Longrightarrow> sound_db T db \<Longrightarrow> sound_db T db'"
  unfolding sound_db_def
  by (blast intro: reach_step db_step.intros docs_create no_rules docs_delete_user docs_routes user_rules
      dest: docs_user_fields [where T = T, THEN iffD2])+

lemma setting_ops:
  "SetFallbackEnabled en db = Inr db' \<Longrightarrow> sound_db T db \<Longrightarrow> sound_db T db'"
  "pred_option (list_all R) rules \<Longrightarrow> UpdateGlobalClientRoutes (routes_text rules) db = Inr db' \<Longrightarrow> sound_db T db \<Longrightarrow> sound_db T db'"
  "normalizeBalancerStrategyInput v \<noteq> [] \<Longrightarrow> SetBalancerRuntimeConfig \<lparr>brc_Strategy = normalizeBalancerStrategyInput v,
     brc_ProbeURL = url, brc_ProbeInterval = freq\<rparr> db = Inr db' \<Longrightarrow> sound_db T db \<Longrightarrow> sound_db T db'"
  "DeleteBalancerRuntimeConfig db = Inr db' \<Longrightarrow> sound_db T db \<Longrightarrow> sound_db T db'"
  "0 < i \<Longrightarrow> i \<le> int64_max \<Longrightarrow> ActivateEmergency now i db = Inr db' \<Longrightarrow> sound_db T db \<Longrightarrow> sound_db T db'"
  "DeactivateEmergency db = Inr db' \<Longrightarrow> sound_db T db \<Longrightarrow> sound_db T db'"
  unfolding sound_db_def
  by (blast intro: reach_step db_step.intros docs_settings fallback_flag global_rules balancer active_flag active_profile active_since)+

lemma table_ops:
  "UpsertInbound now tag proto port file raw db = Inr (db', ib) \<Longrightarrow> sound_db T db \<Longrightarrow> sound_db T db'"
  "DeleteInboundByTag tag db = Inr db' \<Longrightarrow> sound_db T db \<Longrightarrow> sound_db T db'"
  "is_credential cc \<Longrightarrow> UpsertUserClient u i cc db = Inr db' \<Longrightarrow> sound_db T db \<Longrightarrow> sound_db T db'"
  "SetUserClientEnabled u i en db = Inr db' \<Longrightarrow> sound_db T db \<Longrightarrow> sound_db T db'"
  "CreateEmergencyProfile now name desc tags db = Inr (db', p) \<Longrightarrow> sound_db T db \<Longrightarrow> sound_db T db'"
  "UpdateEmergencyProfile now i name desc tags db = Inr (db', q) \<Longrightarrow> sound_db T db \<Longrightarrow> sound_db T db'"
  "DeleteEmergencyProfile i db = Inr db' \<Longrightarrow> sound_db T db \<Longrightarrow> sound_db T db'"
  unfolding sound_db_def
  by (blast intro: reach_step db_step.intros docs_delete_tag docs_client credential docs_profiles profile
      dest: docs_inbound [where T = T, THEN iffD2] docs_client_enabled [where T = T, THEN iffD2])+

lemma node_ops:
  "ReconcileNodes now ds db = (db', e) \<Longrightarrow> sound_db T db \<Longrightarrow> sound_db T db'"
  "BackfillUserNodesToEnabled db = Inr db' \<Longrightarrow> sound_db T db \<Longrightarrow> sound_db T db'"
  "SetUserNodes u ns db = Inr db' \<Longrightarrow> sound_db T db \<Longrightarrow> sound_db T db'"
  "RemoveUserFromNode u n db = Inr db' \<Longrightarrow> sound_db T db \<Longrightarrow> sound_db T db'"
  unfolding sound_db_def
  by (blast intro: reach_step db_step.intros dest: docs_nodes [where T = T, THEN iffD2])+

lemmas db_ops = user_ops setting_ops table_ops node_ops

lemma conn_op: "sound_db T db \<Longrightarrow> sound_db T (db\<lparr>conn_ok := up\<rparr>)"
  by (auto simp: sound_db_def docs_conn intro: reach_step step_conn)

end

sublocale document_store \<subseteq> storing: sync_stable "sound_db T" is_credential
  by unfold_locales (blast intro: table_ops user_ops)+

section \<open>Handlers keep the database sound\<close>

context document_store
begin

abbreviation good :: "'x server \<Rightarrow> bool" where
  "good s \<equiv> sound_db T (db_of s)"

lemma fold_keeps: "(\<And>x s. good s \<Longrightarrow> good (f x s)) \<Longrightarrow> good s \<Longrightarrow> good (fold f xs s)"
  by (induction xs arbitrary: s) auto

text \<open>A handler works on a user whose rules are those of a row.\<close>

lemma with_user_keeps:
  assumes "\<And>u s. good s \<Longrightarrow> T (RoutesDoc (u_ClientRoutes u)) \<Longrightarrow> good (snd (k u s))" and "good s"
  shows "good (snd (with_user r k s))"
proof -
  have "T (RoutesDoc (u_ClientRoutes u))" if u: "getByID r (db_of s) = Inr u" for u
  proof -
    obtain row where "row \<in> set (users (db_of s))" "u = scanUser row" using getByID_row [OF u] by blast
    with assms(2) show ?thesis by (simp add: sound_db_def stored_docs_iff scanUser_def)
  qed
  then show ?thesis using assms by (auto simp: with_user_def split: sum.splits)
qed

lemma sync_now_keeps [keeps]: "visits_all (e_order env) \<Longrightarrow> good s \<Longrightarrow> good (sync_now env s)"
  unfolding sync_now_def db_of_def by (simp, rule storing.Sync_stable) (auto intro: visited_credentials)

lemma run_job_keeps [keeps]: "visits_all (e_order env) \<Longrightarrow> good s \<Longrightarrow> good (run_job env j s)"
  by (auto simp: run_job_def split: job.splits sum.splits intro: keeps db_ops)

lemma draw_case_keeps:
  "(\<And>tok s'. good s' \<Longrightarrow> good (snd (k tok s'))) \<Longrightarrow> good s \<Longrightarrow> good (snd (case draw_token s of (tok, s') \<Rightarrow> k tok s'))"
  by (auto split: prod.splits dest: draw_token_dbD)

end

context document_store
begin

text \<open>Users.\<close>

lemma upsert_client_keeps: "is_credential cc \<Longrightarrow> sound_db T db \<Longrightarrow> sound_db T (upsert_client u i cc db)"
  by (auto simp: upsert_client_def split: sum.splits intro: db_ops)

lemma store_credential_keeps [keeps]:
  assumes "visits_all (e_order env)" and "is_credential cc" and "good s"
  shows "good (store_credential env u tag p cc s)"
proof -
  have s: "good (sync_now env s)" using assms(1,3) by (rule keeps)
  show ?thesis
    unfolding store_credential_def Let_def using assms s
    by (auto split: option.splits sum.splits prod.splits intro!: upsert_client_keeps intro: table_ops)
qed

lemma addUserToInbound_keeps [keeps]:
  assumes "visits_all (e_order env)" and "good s"
  shows "good (addUserToInbound env user tag p s)"
proof -
  have "is_credential cc" if c: "on_world (ad_AddClient (admin_of env) tag identity hint) s = (Inr cc, s')" for hint identity cc s'
  proof -
    obtain w where "ad_AddClient (admin_of env) tag identity hint (world_of s) = (Inr cc, w)"
      using c by (auto simp: on_world_def split: prod.splits)
    with admin_credentials [of env] show ?thesis unfolding returns_credentials_def by blast
  qed
  then show ?thesis using assms
    by (auto simp: addUserToInbound_def Let_def split: prod.splits sum.splits dest: on_world_dbD intro!: keeps)
qed

lemma enrol_keeps: "visits_all (e_order env) \<Longrightarrow> good s \<Longrightarrow> good (enrol env user ibs spec s)"
  by (simp add: enrol_def Let_def keeps)

lemma placeUserOnNodes_keeps: "sound_db T db \<Longrightarrow> sound_db T (snd (placeUserOnNodes cfg u names db))"
  by (auto simp: placeUserOnNodes_def split: sum.splits prod.splits if_splits intro: node_ops)

lemma created_keeps:
  assumes "visits_all (e_order env)" and "CreateUser now name email tok fb (db_of s) = Inr (db, user)" and "good s"
  shows "good (fold (enrol env user ibs) specs (set_db db s))"
  using assms by (auto intro!: fold_keeps enrol_keeps intro: user_ops)

lemma createUser_keeps [keeps]:
  assumes "visits_all (e_order env)" and "good s"
  shows "good (snd (createUser env r s))"
proof -
  have *: "good (snd (case CreateUser now name email tok fb (db_of s) of Inl e \<Rightarrow> (db_error e, s)
      | Inr (db, user) \<Rightarrow> k db user s))"
    if "\<And>db user. CreateUser now name email tok fb (db_of s) = Inr (db, user) \<Longrightarrow> good (snd (k db user s))" "good s"
    for now name email tok fb k and s :: "'a server"
    using that by (auto split: sum.splits)
  show ?thesis
    unfolding createUser_def create_checked_def Let_def
    by (auto split: option.splits sum.splits simp: assms
        intro!: draw_case_keeps * placeUserOnNodes_keeps created_keeps intro: user_ops(1))
qed

lemma user_handlers_keep [keeps]:
  assumes "good s"
  shows "good (snd (deleteUser env r s))" "good (snd (setUserEnabled env b r s))"
    "good (snd (regenerateToken env r s))" "good (snd (regenerateFallbackToken env r s))"
    "good (snd (setUserHy2 env r s))"
  unfolding deleteUser_def setUserEnabled_def regenerateToken_def regenerateFallbackToken_def setUserHy2_def Let_def
  by (intro with_user_keeps draw_case_keeps assms; auto split: sum.splits option.splits intro: user_ops)+

lemma client_handlers_keep [keeps]:
  assumes "visits_all (e_order env)" and "good s"
  shows "good (snd (addUserClient env r s))" "good (snd (setClientEnabled env b r s))"
  unfolding addUserClient_def setClientEnabled_def
  by (rule with_user_keeps [OF _ assms(2)],
      auto simp: Let_def assms(1) split: sum.splits prod.splits option.splits intro: table_ops intro!: keeps)+

end

context document_store
begin

text \<open>Routing rules and the balancer.\<close>

lemma all_valid: "validateUserRoutes rs = None \<Longrightarrow> list_all R rs"
  by (auto simp: list_all_iff validateUserRoutes_def [of rs] intro: validated dest: validate_each)

lemma assigned_rules: "list_all R rs \<Longrightarrow> assignRouteIDs rs w = ((rs', c), w') \<Longrightarrow> list_all R rs'"
  by (induction rs arbitrary: rs' c w w') (auto simp: Let_def renamed split: if_splits prod.splits)

lemma assigned_case_keeps:
  assumes "list_all R rs" and "\<And>rs' c s'. list_all R rs' \<Longrightarrow> good s' \<Longrightarrow> good (snd (k rs' c s'))" and "good s"
  shows "good (snd (case on_world (assignRouteIDs rs) s of ((rs', c), s') \<Rightarrow> k rs' c s'))"
  using assms(3) by (auto simp: on_world_def split: prod.splits intro!: assms(2) dest: assigned_rules [OF assms(1)])

lemma assigned_let_keeps:
  assumes "list_all R rs" and "\<And>rs' c s'. list_all R rs' \<Longrightarrow> good s' \<Longrightarrow> good (snd (k rs' c s'))" and "good s"
  shows "good (snd (let ((rs', c), s') = on_world (assignRouteIDs rs) s in k rs' c s'))"
  using assigned_case_keeps [OF assms] by (simp add: Let_def case_prod_unfold)

lemma saveUserRoutes_keeps: "pred_option (list_all R) rs \<Longrightarrow> good s \<Longrightarrow> good (snd (saveUserRoutes env i rs s))"
  by (auto simp: saveUserRoutes_def split: sum.splits intro: user_ops)

lemma save_case_keeps:
  assumes "pred_option (list_all R) rs" and "good s" and "\<And>s'. good s' \<Longrightarrow> good (snd (k s'))"
  shows "good (snd (case saveUserRoutes env i rs s of (Some e, s) \<Rightarrow> (db_error e, s) | (None, s) \<Rightarrow> k s))"
  using saveUserRoutes_keeps [OF assms(1,2), of env i] assms(3) by (auto split: prod.splits option.splits)

lemma with_stored_rules_keeps:
  assumes "T (RoutesDoc (u_ClientRoutes user))" and "\<And>rs s. list_all R rs \<Longrightarrow> good s \<Longrightarrow> good (snd (k rs s))" and "good s"
  shows "good (snd (with_stored_rules env user k s))"
  unfolding with_stored_rules_def
  by (auto split: option.splits intro!: assigned_case_keeps save_case_keeps assms dest: stored_rules [OF assms(1)])

lemma save_and_reply_keeps: "list_all R rs \<Longrightarrow> good s \<Longrightarrow> good (snd (save_and_reply env user i rule rs s))"
  unfolding save_and_reply_def by (rule save_case_keeps) simp_all

lemma ensure_id_keeps:
  "R rule \<Longrightarrow> (\<And>rule s'. R rule \<Longrightarrow> good s' \<Longrightarrow> good (snd (k rule s'))) \<Longrightarrow> good s \<Longrightarrow>
     good (snd (case ensure_id rule s of (rule, s') \<Rightarrow> k rule s'))"
  by (auto simp: ensure_id_def renamed split: prod.splits)

lemmas rule_edits = assigned_let_keeps [unfolded Let_def] with_stored_rules_keeps ensure_id_keeps save_and_reply_keeps assigned_case_keeps save_case_keeps
  list_all_edits

lemma user_route_handlers_keep [keeps]:
  assumes "good s"
  shows "good (snd (getUserRoutes env r s))" "good (snd (setUserRoutes env r s))" "good (snd (addUserRoute env r s))"
    "good (snd (updateUserRoute env r s))" "good (snd (updateUserRouteByID env r s))"
    "good (snd (deleteUserRoute env r s))" "good (snd (deleteUserRouteByID env r s))"
proof -
  show "good (snd (getUserRoutes env r s))"
    unfolding getUserRoutes_def by (rule with_user_keeps [OF _ assms]) (auto intro!: rule_edits)
  show "good (snd (setUserRoutes env r s))"
    unfolding setUserRoutes_def Let_def by (rule with_user_keeps [OF _ assms])
      (auto split: option.splits http_body.splits intro!: rule_edits dest: all_valid)
  show "good (snd (addUserRoute env r s))"
    unfolding addUserRoute_def Let_def by (rule with_user_keeps [OF _ assms])
      (auto split: option.splits sum.splits intro!: rule_edits validated)
  show "good (snd (updateUserRoute env r s))"
    unfolding updateUserRoute_def Let_def by (rule with_user_keeps [OF _ assms])
      (auto simp: validated renamed split: option.splits sum.splits intro!: rule_edits)
  show "good (snd (updateUserRouteByID env r s))"
    unfolding updateUserRouteByID_def Let_def by (rule with_user_keeps [OF _ assms])
      (auto split: option.splits sum.splits intro!: rule_edits validated)
  show "good (snd (deleteUserRoute env r s))"
    unfolding deleteUserRoute_def by (rule with_user_keeps [OF _ assms])
      (auto split: option.splits intro!: rule_edits)
  show "good (snd (deleteUserRouteByID env r s))"
    unfolding deleteUserRouteByID_def Let_def by (rule with_user_keeps [OF _ assms])
      (auto split: option.splits intro!: rule_edits)
qed

lemma save_global_keeps:
  assumes "pred_option (list_all R) rs" and "good s" and "\<And>s'. good s' \<Longrightarrow> good (snd (k s'))"
  shows "good (snd (case save_global rs s of (Some e, s) \<Rightarrow> (db_error e, s) | (None, s) \<Rightarrow> k s))"
  using assms(1,2) by (auto simp: save_global_def split: sum.splits intro!: assms(3) intro: setting_ops)

lemma global_stored:
  assumes "good s" and "GetGlobalClientRoutes (db_of s) = Inr raw" and "parseUserRoutes raw = Some rs"
  shows "list_all R rs"
proof (cases "raw = Doc (JArr [])")
  case True
  with no_rules assms(3) stored_rules show ?thesis by blast
next
  case False
  with assms(2) obtain v where v: "get_setting ''global_client_routes'' (db_of s) = Some v" "raw = setting_text v"
    by (auto simp: GetGlobalClientRoutes_def split: option.splits if_splits)
  then have "T (SettingDoc ''global_client_routes'' v)"
    using assms(1) by (auto simp: sound_db_def stored_docs_iff get_setting_def dest!: map_of_SomeD)
  with v assms(3) stored_global show ?thesis by blast
qed

lemma with_global_rules_keeps:
  assumes "\<And>rs s. list_all R rs \<Longrightarrow> good s \<Longrightarrow> good (snd (k rs s))" and "good s"
  shows "good (snd (with_global_rules k s))"
  unfolding with_global_rules_def
  by (auto split: option.splits sum.splits intro!: assigned_case_keeps save_global_keeps assms dest: global_stored [OF assms(2)])

lemma setBalancerConfig_keeps [keeps]: "good s \<Longrightarrow> good (snd (setBalancerConfig env r s))"
  by (auto simp: setBalancerConfig_def Let_def split: option.splits sum.splits intro: setting_ops)

lemma global_route_handlers_keep [keeps]:
  assumes "good s"
  shows "good (snd (getGlobalRoutes s))" "good (snd (setGlobalRoutes r s))" "good (snd (deleteGlobalRoutes s))"
  unfolding getGlobalRoutes_def setGlobalRoutes_def deleteGlobalRoutes_def Let_def
  by (auto simp: assms split: option.splits sum.splits http_body.splits
      intro!: with_global_rules_keeps assigned_let_keeps [unfolded Let_def] assigned_case_keeps save_global_keeps dest: all_valid)

lemma addGlobalRoute_keeps [keeps]: "good s \<Longrightarrow> good (snd (addGlobalRoute r s))"
proof -
  have e: "good (snd (case ensure_id rule s of (rule, s') \<Rightarrow> k rule s'))"
    if "\<And>rule s'. good s' \<Longrightarrow> good (snd (k rule s'))" "good s"
    for rule and s :: "'a server" and k :: "user_route_rule \<Rightarrow> 'a server \<Rightarrow> route_reply reply \<times> 'a server"
    using that by (auto simp: ensure_id_def split: prod.splits)
  show "good s \<Longrightarrow> ?thesis"
    unfolding addGlobalRoute_def Let_def
    by (auto simp: validated split: option.splits sum.splits intro!: e with_global_rules_keeps save_global_keeps dest: all_valid)
qed

end

context document_store
begin

text \<open>Nodes, fallback, emergency mode and metrics.\<close>

lemma node_handlers_keep [keeps]:
  assumes "good s"
  shows "good (snd (setUserNodes env r s))" "good (snd (deleteUserNode env r s))"
  unfolding setUserNodes_def deleteUserNode_def Let_def
  using assms by (auto intro!: with_user_keeps split: option.splits sum.splits prod.splits intro: node_ops(3,4))

lemma reconcileNodesOnce_keeps [keeps]: "good s \<Longrightarrow> good (reconcileNodesOnce env s)"
  by (simp add: reconcileNodesOnce_def fold_world_db split: sum.splits)

lemma fallback_handlers_keep [keeps]:
  assumes "good s"
  shows "good (snd (enableFallback env s))" "good (snd (disableFallback env s))"
  using assms by (auto simp: enableFallback_def disableFallback_def setFallback_def split: sum.splits intro: setting_ops)

lemma activateEmergency_keeps [keeps]:
  assumes "good s"
  shows "good (snd (activateEmergency env r s))"
proof -
  have "i \<le> int64_max" if i: "decode_body (dec_struct (\<lambda>p o'. fld ''profile_id'' dec_int o' p)) 0 r = Some i" for i
  proof -
    obtain j where "dec_struct (\<lambda>p o'. fld ''profile_id'' dec_int o' p) 0 j = Some i"
      using i by (auto simp: decode_body_def split: http_body.splits)
    then show ?thesis by (cases j) (auto dest: fld_int_range)
  qed
  then show ?thesis
    using assms by (auto simp: activateEmergency_def not_le split: option.splits sum.splits intro: setting_ops(5))
qed

lemma emergency_handlers_keep [keeps]:
  assumes "good s"
  shows "good (snd (deactivateEmergency s))"
    "good (snd (createEmergencyProfile env r s))" "good (snd (updateEmergencyProfile env r s))"
    "good (snd (deleteEmergencyProfile r s))"
  using assms by (auto simp: deactivateEmergency_def createEmergencyProfile_def
      updateEmergencyProfile_def deleteEmergencyProfile_def with_profile_def with_profile_request_def Let_def
      split: option.splits sum.splits prod.splits intro: db_ops)

lemma serving_keeps [keeps]:
  assumes "good s"
  shows "good (snd (withFallbackAuth env (reading h) r s))" "good (snd (MetricsHandler sha env s))"
    "good (snd (subscriptionMiddleware route env (reading h) r s))"
    "good (snd (subscriptionMiddleware route env (withFallbackAuth env (reading h)) r s))"
proof -
  show f: "good (snd (withFallbackAuth env (reading h) r s))"
    using assms by (auto simp: withFallbackAuth_def reading_def Let_def db_of_def add_job_def
        split: sum.splits bool.splits option.splits)
  show "good (snd (MetricsHandler sha env s))"
    using assms by (auto simp: MetricsHandler_def writeLivenessMetrics_def Let_def db_of_def split: sum.splits prod.splits)
  show "good (snd (subscriptionMiddleware route env (reading h) r s))"
    using assms by (auto simp: subscriptionMiddleware_def reading_def Let_def db_of_def split: option.splits prod.splits)
  show "good (snd (subscriptionMiddleware route env (withFallbackAuth env (reading h)) r s))"
    using assms f by (auto simp: subscriptionMiddleware_def Let_def db_of_def split: option.splits prod.splits)
qed

end

context document_store
begin

text \<open>The routing table.\<close>

lemma answering_keeps: "good (snd (h r s)) \<Longrightarrow> good (snd (answering f h r s))"
  by (cases "h r s") (simp add: answering_def)

lemma adminAuth_keeps: "(good s \<Longrightarrow> good (snd (h r s))) \<Longrightarrow> good s \<Longrightarrow> good (snd (adminAuth env h r s))"
  by (simp add: adminAuth_def)

lemma triggerSync_keeps [keeps]: "good s \<Longrightarrow> good (snd (triggerSync s))"
  by (simp add: triggerSync_def)

lemma admin_routes_keep:
  "visits_all (e_order env) \<Longrightarrow> list_all (\<lambda>(m, tpl, h). \<forall>r s. good s \<longrightarrow> good (snd (h r s))) (admin_routes env)"
  by (auto simp: admin_routes_def enableUser_def disableUser_def enableUserClient_def disableUserClient_def
      intro!: answering_keeps keeps)

lemma reading_keeps [simp]: "good s \<Longrightarrow> good (snd (answering f (reading g) r s))"
  by (simp add: answering_def reading_def)

lemma fallback_keeps [simp]: "good s \<Longrightarrow> good (snd (withFallbackAuth env (answering f (reading g)) r s))"
  by (auto simp: withFallbackAuth_def answering_def reading_def Let_def db_of_def add_job_def
      split: sum.splits bool.splits option.splits)

lemma open_routes_keep:
  "list_all (\<lambda>(m, tpl, h). \<forall>r s. good s \<longrightarrow> good (snd (h r s))) (fallback_routes env @ public_routes env)"
  by (simp add: fallback_routes_def public_routes_def)

lemma routes_keep: "visits_all (e_order env) \<Longrightarrow> (m, tpl, h) \<in> set (routes env) \<Longrightarrow> good s \<Longrightarrow> good (snd (h r s))"
  using admin_routes_keep [of env] open_routes_keep [of env]
  by (fastforce simp: routes_def guarded_def list_all_iff intro: adminAuth_keeps)

lemma middleware_keeps: "good (snd (h r s)) \<Longrightarrow> good (snd (subscriptionMiddleware route env h r s))"
  by (auto simp: subscriptionMiddleware_def Let_def db_of_def split: option.splits prod.splits)

lemma dispatch_keeps: "visits_all (e_order env) \<Longrightarrow> good s \<Longrightarrow> good (snd (dispatch mx env m r s))"
  by (auto simp: dispatch_def split: option.splits prod.splits intro!: middleware_keeps intro: routes_keep dest!: find_route_mem)

lemma Router_keeps [keeps]:
  assumes "visits_all (e_order env)" and "good s"
  shows "good (fst (snd (Router mx lib env m r (s, ls))))"
proof -
  have "good (fst (snd (rateLimitWrap lib env h r (s, ls))))" if "good s" "good (snd (h r s))" for h :: "'a endpoint"
    using that by (auto simp: rateLimitWrap_def rateLimitMiddleware_def split: rate_class.splits prod.splits bool.splits)
  then show ?thesis using assms by (simp add: Router_def dispatch_keeps)
qed

lemma Router_keepsD:
  "visits_all (e_order env) \<Longrightarrow> Router mx lib env m r (s, ls) = (rep, s', ls') \<Longrightarrow> good s \<Longrightarrow> good s'"
  using Router_keeps [of env s mx lib m r ls] by simp

lemma server_step_good: "server_step s s' \<Longrightarrow> good s \<Longrightarrow> good s'"
  by (induction rule: server_step.induct) (auto intro!: keeps conn_op dest: Router_keepsD)

lemma start_good:
  assumes "sound_db T (sv_db sv)" and "visits_all (e_order env)" and "start k env sv = Inr (creds, s)"
  shows "good s"
proof -
  have n: "sound_db T (fst (reconcileNodes now cfg db))" if "sound_db T db" for now cfg db
    using that by (auto simp: reconcileNodes_def split: prod.splits option.splits sum.splits intro: node_ops)
  have p: "sv_db (Probe cfg sv) = sv_db sv" for cfg and sv :: "'a service"
    by (simp add: Probe_def)
  have r: "sv_db (RestoreOnStartup h cfg sv) = sv_db sv" for h cfg and sv :: "'a service"
    by (simp add: RestoreOnStartup_def Let_def split: sum.splits)
  have g: "good (reconcileKillSwitchLocked env s)" if "sound_db T (sv_db (srv_service s))" for s
    using that by (metis kill_switch_db(2) db_of_def)
  have y: "sound_db T (sv_db (snd (Sync (e_order env) cfg now sv)))" if "sound_db T (sv_db sv)" for cfg now and sv :: "'a service"
    using that assms(2) by (intro storing.Sync_stable) (auto intro: visited_credentials)
  show ?thesis
    using assms(1,3) by (auto simp: start_def Let_def r p split: sum.splits intro!: g y n)
qed

lemma reachable_good: "reachable_from (sound_db T) s \<Longrightarrow> good s"
  by (induction rule: reachable_from.induct) (auto intro: start_good server_step_good)

end

section \<open>The database stays consistent\<close>

text \<open>When nothing is asked of documents, soundness is reachability.\<close>

interpretation untyped: document_store "\<lambda>_. True" "\<lambda>_. True"
  by unfold_locales (simp_all add: list_all_iff)

lemma sound_untyped: "sound_db (\<lambda>_. True) = db_reachable"
  by (simp add: fun_eq_iff sound_db_def)

text \<open>C29: The database stays consistent in every state of the running server. From the start of the
  process on, through any sequence of requests (of administrators and of clients), goroutines,
  timer ticks, failures of the database connection and changes of Xray or the configuration
  directory, the database is the result of its own operations, so uniqueness of names, tokens,
  tags and pairs, the counters and all references hold.\<close>

theorem server_keeps_database:
  assumes "reachable_from db_reachable s"
  shows "db_reachable (db_of s) \<and> db_inv (db_of s)"
  using untyped.reachable_good [unfolded sound_untyped, OF assms] by (simp add: reachable_inv)

definition sample_pki :: pki where
  "sample_pki = \<lparr>k_ReadFile = (\<lambda>_. Inl ''no such file''), k_HasCerts = (\<lambda>_. False), k_LoadKeyPair = (\<lambda>_ _. None)\<rparr>"

lemma sample_start: "\<exists>s. start sample_pki sample_env sample_service = Inr ([], s)"
  by (simp add: start_def configureNodeCredentials_def Let_def sample_env_def sample_api_config_def sample_sync_config_def default_config_def)

text \<open>A router that matches templates without variables, and no limit.\<close>

definition literal_mux :: mux where
  "literal_mux = \<lparr>mx_match = (\<lambda>tpl path. if tpl = path then Some [] else None)\<rparr>"

definition open_limiter :: "unit limiter_lib" where
  "open_limiter = \<lparr>l_new = (\<lambda>_ _. ()), l_allow = (\<lambda>_ _. (True, ()))\<rparr>"

theorem server_keeps_database_witness:
  "\<exists>s. start sample_pki sample_env sample_service = Inr ([], s) \<and>
     db_inv (db_of (fst (snd (Router literal_mux open_limiter sample_env MethodPost
       (sample_admin_request [] (JObj [(''username'', JStr ''carol'')])) (s, \<lparr>lim_sub = [], lim_admin = []\<rparr>)))))"
proof -
  obtain s where s: "start sample_pki sample_env sample_service = Inr ([], s)"
    using sample_start by blast
  have "db_reachable (sv_db sample_service)"
    using sample_reachable by (simp add: sample_service_def)
  then have "reachable_from db_reachable s" by (rule srv_start [OF _ _ s]) (simp add: sample_env_def)
  then have "reachable_from db_reachable (fst (snd (Router literal_mux open_limiter sample_env MethodPost
       (sample_admin_request [] (JObj [(''username'', JStr ''carol'')])) (s, \<lparr>lim_sub = [], lim_admin = []\<rparr>))))"
    by (rule srv_next) (rule srv_request [of sample_env literal_mux open_limiter MethodPost], simp add: sample_env_def, rule surjective_pairing3)
  with s server_keeps_database show ?thesis by blast
qed

end
