(* ===== verification/Subscription_Properties.thy ===== *)
theory Subscription_Properties
  imports Fallback_Api Generator_Safety Api_Samples Placement Tokens
begin

text \<open>
  What a subscription serves: only endpoints of the user whose token was given, never those of an
  excluded inbound or of the other side of the fallback split, on the nodes where the user is
  placed; the fallback route is closed while the flag is off.
\<close>

section \<open>Which rows may be served\<close>

text \<open>A client that may be served: an enabled row of the user, joined with its inbound, whose tag is
  not excluded and on the right side of the fallback split.\<close>

definition may_serve :: "Config \<Rightarrow> bool \<Rightarrow> db \<Rightarrow> int \<Rightarrow> user_client_full \<Rightarrow> bool" where
  "may_serve cfg fallback db uid c \<longleftrightarrow>
     (\<exists>row\<in>set (user_clients db). \<exists>ib\<in>set (inbounds db).
        uc_UserID row = uid \<and> uc_Enabled row \<and> ib_ID ib = uc_InboundID row \<and>
        uc_ClientConfig c = uc_ClientConfig row \<and> f_InboundTag c = ib_Tag ib \<and>
        f_InboundProtocol c = ib_Protocol ib \<and> f_InboundRaw c = ib_RawConfig ib) \<and>
     f_InboundTag c \<notin> set (c_ExcludeInboundTags cfg) \<and>
     (c_FallbackInboundTags cfg \<noteq> [] \<longrightarrow> (f_InboundTag c \<in> set (c_FallbackInboundTags cfg) \<longleftrightarrow> fallback))"

text \<open>An outbound that was built from such a client.\<close>

definition serves :: "'x env \<Rightarrow> request \<Rightarrow> db \<Rightarrow> user \<Rightarrow> Outbound \<Rightarrow> bool" where
  "serves env r db user ob \<longleftrightarrow>
     (\<exists>c j. may_serve (e_cfg env) (rq_fallback r) db (u_ID user) c \<and>
        buildOutbound (e_x25519 env) (client_host (effectiveHost (e_cfg env) r) (effectiveInboundHosts (e_cfg env) r) c)
          (c\<lparr>f_InboundPort := client_port (c_InboundPorts (e_cfg env)) c\<rparr>) j = Inr ob)"

definition system_outbound :: "Outbound \<Rightarrow> bool" where
  "system_outbound ob \<longleftrightarrow> ob \<in> {freedomOutbound} \<union> range blackholeOutbound"

lemma user_client_rows:
  assumes "GetUserClients uid db = Inr cs" and "c \<in> set cs"
  shows "\<exists>row\<in>set (user_clients db). \<exists>ib\<in>set (inbounds db).
    uc_UserID row = uid \<and> uc_Enabled row \<and> ib_ID ib = uc_InboundID row \<and> c = join_client row ib"
  using assms by (auto simp: GetUserClients_def clients_join_def) blast

lemma may_serve_row:
  assumes "GetUserClients uid db = Inr cs" and "c \<in> set (split_fallback cfg fb (filterExcludedInbounds cfg cs))"
  shows "may_serve cfg fb db uid c"
proof -
  have c: "c \<in> set cs" "f_InboundTag c \<notin> set (c_ExcludeInboundTags cfg)"
    "c_FallbackInboundTags cfg \<noteq> [] \<longrightarrow> (f_InboundTag c \<in> set (c_FallbackInboundTags cfg) \<longleftrightarrow> fb)"
    using assms(2) by (auto simp: split_fallback_def filterExcludedInbounds_def split: if_splits)
  obtain row ib where "row \<in> set (user_clients db)" "ib \<in> set (inbounds db)" "uc_UserID row = uid"
    "uc_Enabled row" "ib_ID ib = uc_InboundID row" "c = join_client row ib"
    using user_client_rows [OF assms(1) c(1)] by blast
  with c(2,3) show ?thesis unfolding may_serve_def by (auto simp: join_client_def)
qed

lemma may_serve_at_node [simp]: "may_serve cfg fb db uid (at_node c n) = may_serve cfg fb db uid c"
  by (simp add: may_serve_def at_node_def)

lemma expanded_from:
  "c \<in> set (expandClientsForNodes cfg db uid cs) \<Longrightarrow> c \<in> set cs \<or> (\<exists>c0\<in>set cs. \<exists>n. c = at_node c0 n)"
  by (auto simp: expandClientsForNodes_def Let_def split: if_splits sum.splits)

section \<open>Selections\<close>

text \<open>The JSON handler and the link handlers select clients in two ways; all that matters is that
  neither serves more than the excluded tags and the fallback split leave.\<close>

locale client_selection =
  fixes sel :: "user_client_full list \<Rightarrow> user_client_full list" and cfg :: Config and fb :: bool
  assumes sel_sub: "set (sel cs) \<subseteq> set (split_fallback cfg fb (filterExcludedInbounds cfg cs))"
begin

lemma generated_serves:
  assumes "e_cfg env = cfg" and "rq_fallback r = fb" and "GetUserClients (u_ID user) db = Inr cs"
    and "generate_for env r db user (sel cs) = Inr cc" and "ob \<in> set (cc_Outbounds cc)"
  shows "system_outbound ob \<or> serves env r db user ob"
proof -
  let ?clients = "expandClientsForNodes cfg db (u_ID user) (sel cs)"
  obtain gr bst bu bi where gen: "GenerateClientConfig (e_x25519 env) (effectiveHost cfg r) (effectiveInboundHosts cfg r)
      (c_InboundPorts cfg) user ?clients gr bst bu bi (c_SocksInboundPort cfg) (c_HTTPInboundPort cfg)
      (c_ClientDNSServers cfg) (c_ClientBlackholeResponse cfg) = Inr cc"
    using assms(1,4) by (auto simp: generate_for_def Let_def split: if_splits sum.splits)
  from generated_outbound [OF gen assms(5)] show ?thesis
  proof
    assume "\<exists>uc\<in>set ?clients. \<exists>j. buildOutbound (e_x25519 env)
      (client_host (effectiveHost cfg r) (effectiveInboundHosts cfg r) uc)
      (uc\<lparr>f_InboundPort := client_port (c_InboundPorts cfg) uc\<rparr>) j = Inr ob"
    then obtain uc j where uc: "uc \<in> set ?clients" "buildOutbound (e_x25519 env)
      (client_host (effectiveHost cfg r) (effectiveInboundHosts cfg r) uc)
      (uc\<lparr>f_InboundPort := client_port (c_InboundPorts cfg) uc\<rparr>) j = Inr ob" by blast
    have "may_serve cfg fb db (u_ID user) uc"
      using expanded_from [OF uc(1)] sel_sub [of cs] may_serve_row [OF assms(3)] by auto
    with uc(2) assms(1,2) show ?thesis unfolding serves_def by blast
  qed (simp add: system_outbound_def)
qed

end

lemma filters_sub: "set (applySubscriptionFiltersWithProtocol r p cs) \<subseteq> set cs"
  by (auto simp: applySubscriptionFiltersWithProtocol_def filter_indexed_def Let_def dest: set_zip_rightD)

lemma emergency_sub: "set (emergency_filter em cs) \<subseteq> set cs"
  by (auto simp: emergency_filter_def Let_def split: option.splits if_splits)

interpretation json_selection: client_selection "selected_clients cfg r db" cfg "rq_fallback r" for cfg r db
  by unfold_locales (use filters_sub emergency_sub in \<open>fastforce simp: selected_clients_def Let_def split: option.splits\<close>)

interpretation link_selection: client_selection
  "\<lambda>cs. applySubscriptionFiltersWithProtocol r p (split_fallback cfg (rq_fallback r) (filterExcludedInbounds cfg cs))"
  cfg "rq_fallback r" for cfg r p
  by unfold_locales (rule filters_sub)

section \<open>Subscriptions\<close>

text \<open>How a configuration appears in a reply: as JSON or as share links, with the Hysteria2 link of the
  same user appended.\<close>

definition renders :: "string list \<Rightarrow> ClientConfig \<Rightarrow> sub_body \<Rightarrow> bool" where
  "renders extra cc body \<longleftrightarrow>
     body \<in> {BConfig cc, BText (links_text cc extra), BText (EncodeToString (links_text cc extra))}"

lemma mobile_outbounds [simp]: "cc_Outbounds (applyMobileRoutingProfile cc) = cc_Outbounds cc"
  by (simp add: applyMobileRoutingProfile_def)

lemma user_of_token_Inr:
  "user_of_token token db = Inr user \<longleftrightarrow>
     token \<noteq> [] \<and> GetUserByToken token db = Inr (Some user) \<and> u_Enabled user"
  by (auto simp: user_of_token_def split: sum.splits option.splits if_splits)

lemma handleSubscription_Reply:
  assumes "handleSubscription env r db = Reply code b"
  obtains user cs cc where "user_of_token (var r ''token'') db = Inr user" "GetUserClients (u_ID user) db = Inr cs"
    "generate_for env r db user (selected_clients (e_cfg env) r db cs) = Inr cc" "code = 200"
    "sb_title b = u_Username user"
    "renders (hysteriaMainSubExtra (e_cfg env) (u_Token user) db)
       (if isMobileProfileRequest r then applyMobileRoutingProfile cc else cc) (sb_body b)"
  using assms by (auto simp: handleSubscription_def Let_def renders_def split: sum.splits prod.splits if_splits)

lemma json_serves:
  assumes "handleSubscription env r db = Reply code b"
  shows "\<exists>user cc. GetUserByToken (var r ''token'') db = Inr (Some user) \<and> u_Enabled user \<and> code = 200 \<and>
    sb_title b = u_Username user \<and> renders (hysteriaMainSubExtra (e_cfg env) (u_Token user) db) cc (sb_body b) \<and>
    (\<forall>ob\<in>set (cc_Outbounds cc). system_outbound ob \<or> serves env r db user ob)"
  using assms
proof (rule handleSubscription_Reply)
  fix user cs cc
  assume u: "user_of_token (var r ''token'') db = Inr user" and cs: "GetUserClients (u_ID user) db = Inr cs"
    and cc: "generate_for env r db user (selected_clients (e_cfg env) r db cs) = Inr cc" and "code = 200"
    and b: "sb_title b = u_Username user" "renders (hysteriaMainSubExtra (e_cfg env) (u_Token user) db)
     (if isMobileProfileRequest r then applyMobileRoutingProfile cc else cc) (sb_body b)"
  let ?cc = "if isMobileProfileRequest r then applyMobileRoutingProfile cc else cc"
  have "\<forall>ob\<in>set (cc_Outbounds ?cc). system_outbound ob \<or> serves env r db user ob"
    using json_selection.generated_serves [OF refl refl cs cc] by simp
  with u b \<open>code = 200\<close> show ?thesis by (auto simp: user_of_token_Inr)
qed

lemma links_serve:
  assumes "generateConfigForSubscriptionRequestWithForcedProtocol env p r db = Inr (cc, name)"
  shows "\<exists>user. GetUserByToken (var r ''token'') db = Inr (Some user) \<and> u_Enabled user \<and> name = u_Username user \<and>
    (\<forall>ob\<in>set (cc_Outbounds cc). system_outbound ob \<or> serves env r db user ob)"
proof -
  obtain user cs where "user_of_token (var r ''token'') db = Inr user" and cs: "GetUserClients (u_ID user) db = Inr cs"
    and name: "name = u_Username user" and cc: "generate_for env r db user (applySubscriptionFiltersWithProtocol r p
      (split_fallback (e_cfg env) (rq_fallback r) (filterExcludedInbounds (e_cfg env) cs))) = Inr cc"
    using assms by (auto simp: generateConfigForSubscriptionRequestWithForcedProtocol_def Let_def split: sum.splits)
  with link_selection.generated_serves [OF refl refl cs cc] show ?thesis
    by (auto simp: user_of_token_Inr)
qed

text \<open>C33: A subscription serves the endpoints of one user only. When the JSON handler answers, in
  any format, the token belongs to an enabled user and every proxy outbound of the configuration
  in the reply was built from an enabled client of that user, on an inbound whose tag is not
  excluded, and which is a fallback inbound exactly when the request came over the fallback
  route; what is added to the links is the Hysteria2 link of that user. The same holds for the
  configuration behind every link handler.\<close>

theorem subscription_isolated:
  "(handleSubscription env r db = Reply code b \<longrightarrow>
      (\<exists>user cc. GetUserByToken (var r ''token'') db = Inr (Some user) \<and> u_Enabled user \<and> code = 200 \<and>
         sb_title b = u_Username user \<and> renders (hysteriaMainSubExtra (e_cfg env) (u_Token user) db) cc (sb_body b) \<and>
         (\<forall>ob\<in>set (cc_Outbounds cc). system_outbound ob \<or> serves env r db user ob))) \<and>
   (generateConfigForSubscriptionRequestWithForcedProtocol env p r db = Inr (cc, name) \<longrightarrow>
      (\<exists>user. GetUserByToken (var r ''token'') db = Inr (Some user) \<and> u_Enabled user \<and> name = u_Username user \<and>
         (\<forall>ob\<in>set (cc_Outbounds cc). system_outbound ob \<or> serves env r db user ob)))"
  using json_serves links_serve by blast

theorem subscription_isolated_witness:
  "\<exists>b user. handleSubscription sample_env (sample_get ''t-alice'') sample_api_db = Reply 200 b \<and>
     GetUserByToken ''t-alice'' sample_api_db = Inr (Some user) \<and> sb_title b = u_Username user"
proof -
  have "is_reply (handleSubscription sample_env (sample_get ''t-alice'') sample_api_db)" by code_simp
  then obtain code b where "handleSubscription sample_env (sample_get ''t-alice'') sample_api_db = Reply code b"
    using is_replyE by blast
  with subscription_isolated [of sample_env "sample_get ''t-alice''" sample_api_db code b]
  show ?thesis unfolding sample_get_token by blast
qed

section \<open>The fallback route\<close>

lemma serves_request: "rq_fallback r = rq_fallback r' \<Longrightarrow> serves env r db user ob = serves env r' db user ob"
  by (simp add: serves_def effectiveHost_def effectiveInboundHosts_def cong: option.case_cong)

lemma fallback_same_user:
  assumes "db_inv db" and "GetUserByFallbackToken t db = Inr (Some user)"
  shows "GetUserByToken (u_Token user) db = Inr (Some user)"
proof -
  obtain row where row: "row \<in> set (users db)" "user = scanUser row" "conn_ok db"
    using assms(2) by (auto simp: GetUserByFallbackToken_def find_user_def dest: find_SomeD split: if_splits)
  have "distinct (map row_token (users db))" using assms(1) by (simp add: inv_defs)
  from find_key [OF this row(1)] row show ?thesis
    by (simp add: GetUserByToken_def find_user_def scanUser_def with_conn_def)
qed

text \<open>C34: The fallback route is closed while the fallback flag is off, and then serves nothing but
  fallback endpoints. With the flag off every request is refused with 403 and counted, and
  nothing else changes. A configuration is only served with the flag on, to the enabled user who
  owns the fallback token; all its endpoints are endpoints of that user on fallback inbounds
  (when such are configured), and the access is noted for that user.\<close>

theorem fallback_route_gated:
  assumes "db_reachable (db_of s)"
    and "withFallbackAuth env (reading (handleSubscription env)) r s = (rep, s')"
  shows "(GetFallbackEnabled (db_of s) = Inr False \<longrightarrow> var r ''token'' \<noteq> [] \<longrightarrow>
      reply_status rep = 403 \<and> s' = s\<lparr>srv_denied := Suc (srv_denied s)\<rparr>) \<and>
    (rep = Reply code b \<longrightarrow> GetFallbackEnabled (db_of s) = Inr True \<and>
      (\<exists>user cc. GetUserByFallbackToken (var r ''token'') (db_of s) = Inr (Some user) \<and> u_Enabled user \<and>
         renders (hysteriaMainSubExtra (e_cfg env) (u_Token user) (db_of s)) cc (sb_body b) \<and>
         (\<forall>ob\<in>set (cc_Outbounds cc). system_outbound ob \<or> serves env (r\<lparr>rq_fallback := True\<rparr>) (db_of s) user ob) \<and>
         s' = add_job (AccessedJob (u_ID user) (e_now env)) s))"
proof (intro conjI impI)
  show "reply_status rep = 403" "s' = s\<lparr>srv_denied := Suc (srv_denied s)\<rparr>"
    if "GetFallbackEnabled (db_of s) = Inr False" "var r ''token'' \<noteq> []"
    using assms(2) that by (auto simp: withFallbackAuth_def Let_def)
  assume rep: "rep = Reply code b"
  with assms(2) obtain user where u: "GetFallbackEnabled (db_of s) = Inr True"
    "GetUserByFallbackToken (var r ''token'') (db_of s) = Inr (Some user)" "u_Enabled user"
    "s' = add_job (AccessedJob (u_ID user) (e_now env)) s"
    "handleSubscription env (r\<lparr>rq_vars := [(''token'', u_Token user)], rq_fallback := True\<rparr>) (db_of s) = Reply code b"
    by (auto simp: withFallbackAuth_def Let_def reading_def split: if_splits sum.splits bool.splits option.splits)
  have same: "GetUserByToken (u_Token user) (db_of s) = Inr (Some user)"
    using fallback_same_user [OF reachable_inv [OF assms(1)] u(2)] .
  have srv: "serves env (r\<lparr>rq_vars := v, rq_fallback := True\<rparr>) db us ob = serves env (r\<lparr>rq_fallback := True\<rparr>) db us ob" for v db us ob
    by (rule serves_request) simp
  from json_serves [OF u(5)] same obtain cc where
    "renders (hysteriaMainSubExtra (e_cfg env) (u_Token user) (db_of s)) cc (sb_body b)"
    "\<forall>ob\<in>set (cc_Outbounds cc). system_outbound ob \<or> serves env (r\<lparr>rq_fallback := True\<rparr>) (db_of s) user ob"
    by (auto simp: lookup_def srv)
  with u show "GetFallbackEnabled (db_of s) = Inr True" "\<exists>user cc. GetUserByFallbackToken (var r ''token'') (db_of s) = Inr (Some user) \<and> u_Enabled user \<and>
         renders (hysteriaMainSubExtra (e_cfg env) (u_Token user) (db_of s)) cc (sb_body b) \<and>
         (\<forall>ob\<in>set (cc_Outbounds cc). system_outbound ob \<or> serves env (r\<lparr>rq_fallback := True\<rparr>) (db_of s) user ob) \<and>
         s' = add_job (AccessedJob (u_ID user) (e_now env)) s"
    by blast+
qed

theorem fallback_route_gated_witness:
  "\<exists>code b s'. withFallbackAuth sample_env (reading (handleSubscription sample_env)) (sample_get ''f-alice'') sample_server =
      (Reply code b, s') \<and> srv_jobs s' = [AccessedJob 1 0]"
proof -
  define res where "res = withFallbackAuth sample_env (reading (handleSubscription sample_env)) (sample_get ''f-alice'') sample_server"
  have "is_reply (fst res)" unfolding res_def by code_simp
  then obtain code b where rep: "fst res = Reply code b" using is_replyE by blast
  have u: "map_sum id (map_option u_ID) (GetUserByFallbackToken ''f-alice'' sample_api_db) = Inr (Some 1)" by code_simp
  have "\<exists>user. GetUserByFallbackToken ''f-alice'' sample_api_db = Inr (Some user) \<and>
      snd res = add_job (AccessedJob (u_ID user) (e_now sample_env)) sample_server"
    using fallback_route_gated [of sample_server sample_env "sample_get ''f-alice''" "fst res" "snd res" code b]
      sample_api_reachable rep by (auto simp: res_def)
  with u have "srv_jobs (snd res) = [AccessedJob 1 0]"
    by (auto simp: add_job_def sample_server_def sample_env_def)
  with rep show ?thesis by (metis prod.collapse res_def)
qed

end
