(* ===== verification/Node_Properties.thy ===== *)
theory Node_Properties
  imports Subscription_Properties Placement Tokens
begin

text \<open>
  The nodes of a user: what an administrator sets is what the subscription shows, and a node that
  lost its users gets them back.
\<close>

section \<open>Placement decides the endpoints\<close>

definition wanted_names :: "string list \<Rightarrow> string set" where
  "wanted_names names = TrimSpace ` set names - {[]}"

lemma resolved_names:
  assumes "resolveNodeNames db names = Inr (ids, [])"
  shows "(names = [] \<or> conn_ok db \<or> wanted_names names = {}) \<and> wanted_names names \<subseteq> n_Name ` set (nodes db) \<and>
    set ids = {i. \<exists>x\<in>wanted_names names. \<exists>n. find (\<lambda>n. n_Name n = x) (nodes db) = Some n \<and> i = n_ID n} \<and>
    (ids = [] \<longleftrightarrow> wanted_names names = {})"
  using assms
proof (induction names arbitrary: ids)
  case (Cons name names)
  show ?case
  proof (cases "TrimSpace name = []")
    case True
    with Cons show ?thesis by (auto simp: wanted_names_def Let_def)
  next
    case False
    with Cons.prems obtain n ids' where n: "GetNodeByName (TrimSpace name) db = Inr (Some n)"
      "resolveNodeNames db names = Inr (ids', [])" "ids = n_ID n # ids'"
      by (auto simp: Let_def split: sum.splits option.splits)
    then have f: "conn_ok db" "find (\<lambda>m. n_Name m = TrimSpace name) (nodes db) = Some n"
      by (simp_all add: GetNodeByName_def)
    have w: "wanted_names (name # names) = insert (TrimSpace name) (wanted_names names)"
      using False by (auto simp: wanted_names_def)
    from f(2) have "TrimSpace name \<in> n_Name ` set (nodes db)" using find_SomeD by force
    with Cons.IH [OF n(2)] f n(3) show ?thesis unfolding w by auto
  qed
qed (simp add: wanted_names_def)

lemma resolved_ids:
  assumes "db_inv db" and "resolveNodeNames db names = Inr (ids, [])" and "n \<in> set (nodes db)"
  shows "n_ID n \<in> set ids \<longleftrightarrow> n_Name n \<in> wanted_names names"
proof -
  have "nodes_ok db" using assms(1) by (simp add: db_inv_def)
  then have d: "distinct (map n_Name (nodes db))" "distinct (map n_ID (nodes db))"
    by (simp_all add: nodes_ok_def ids_ok_def)
  have f: "find (\<lambda>m. n_Name m = x) (nodes db) = Some m \<longleftrightarrow> m \<in> set (nodes db) \<and> n_Name m = x" for x m
    by (rule find_key_eq [OF d(1)])
  have "m = n" if "m \<in> set (nodes db)" "n_ID m = n_ID n" for m
    using that assms(3) d(2) by (auto simp: distinct_map dest: inj_onD)
  moreover have "set ids = {i. \<exists>x\<in>wanted_names names. \<exists>m. m \<in> set (nodes db) \<and> n_Name m = x \<and> i = n_ID m}"
    using resolved_names [OF assms(2)] unfolding f by blast
  ultimately show ?thesis using assms(3) by auto
qed

lemma SetUserNodes_rows:
  assumes "SetUserNodes u ns db = Inr db'"
  shows "conn_ok db' \<and> nodes db' = nodes db \<and> {i. (u, i) \<in> set (user_nodes db')} = set ns"
proof -
  let ?d = "db\<lparr>user_nodes := delete_where (\<lambda>un. fst un = u) (user_nodes db)\<rparr>"
  from assms have as: "AssignUserToNodes u ns ?d = (db', None)" and "conn_ok db"
    by (auto simp: SetUserNodes_def split: if_splits prod.splits option.splits)
  with AssignUserToNodes_set [OF as] show ?thesis by (auto simp: set_delete_where)
qed

lemma expanded_nodes:
  assumes "conn_ok db" and "c_Nodes cfg \<noteq> []"
  shows "set (expandClientsForNodes cfg db u cs) =
    (if {i. (u, i) \<in> set (user_nodes db)} = {} then set cs
     else {at_node c n | c n. c \<in> set cs \<and> n \<in> set (nodes db) \<and> n_Enabled n \<and>
            (u, n_ID n) \<in> set (user_nodes db) \<and> n_InboundTag n = f_InboundTag c})"
proof -
  define ids where "ids = sort (map snd (filter (\<lambda>un. fst un = u) (user_nodes db)))"
  have ids: "set ids = {i. (u, i) \<in> set (user_nodes db)}" by (force simp: ids_def)
  then have "ids = [] \<longleftrightarrow> {i. (u, i) \<in> set (user_nodes db)} = {}" by (metis set_empty)
  moreover have "expandClientsForNodes cfg db u cs = (if ids = [] then cs
      else concat (map (\<lambda>c. map (at_node c) (filter (\<lambda>n. n_Enabled n \<and> n_ID n \<in> set ids \<and> n_InboundTag n = f_InboundTag c)
        (sort_key n_Name (nodes db)))) cs))"
    using assms by (simp add: expandClientsForNodes_def ListNodeIDsForUser_def ListNodes_def with_conn_def ids_def Let_def)
  ultimately show ?thesis by (auto simp: ids)
qed

text \<open>C35: The nodes that an administrator sets decide the endpoints. After the handler for a user's
  nodes has answered with success, the subscription of that user is expanded to exactly the
  clients on the enabled nodes that were named (names are trimmed and blank ones dropped) and
  that serve the client's inbound, each with the address of its node; with no name left the
  clients are served as they are.\<close>

theorem placement_decides_endpoints:
  assumes "db_reachable (db_of s)" and "getByID r (db_of s) = Inr user"
    and "decode_body dec_node_names [] r = Some names"
    and "setUserNodes env r s = (Reply code ns, s')"
  shows "set (expandClientsForNodes (e_cfg env) (db_of s') (u_ID user) cs) =
      (if wanted_names names = {} then set cs
       else {at_node c n | c n. c \<in> set cs \<and> n \<in> set (nodes (db_of s)) \<and> n_Enabled n \<and>
              n_Name n \<in> wanted_names names \<and> n_InboundTag n = f_InboundTag c})"
proof -
  obtain ids db where r: "c_Nodes (e_cfg env) \<noteq> []" "resolveNodeNames (db_of s) names = Inr (ids, [])"
    "SetUserNodes (u_ID user) ids (db_of s) = Inr db" "s' = set_db db s"
    using assms(2,3,4) by (auto simp: setUserNodes_def with_user_def split: if_splits sum.splits)
  note db = SetUserNodes_rows [OF r(3)]
  have same: "(u_ID user, n_ID n) \<in> set (user_nodes db) \<longleftrightarrow> n_Name n \<in> wanted_names names"
    if "n \<in> set (nodes (db_of s))" for n
    using resolved_ids [OF reachable_inv [OF assms(1)] r(2) that] db by blast
  have "{i. (u_ID user, i) \<in> set (user_nodes db)} = {} \<longleftrightarrow> wanted_names names = {}"
    using resolved_names [OF r(2)] db by (metis set_empty)
  moreover have "{at_node c n | c n. c \<in> set cs \<and> n \<in> set (nodes (db_of s)) \<and> n_Enabled n \<and>
        (u_ID user, n_ID n) \<in> set (user_nodes db) \<and> n_InboundTag n = f_InboundTag c} =
      {at_node c n | c n. c \<in> set cs \<and> n \<in> set (nodes (db_of s)) \<and> n_Enabled n \<and>
        n_Name n \<in> wanted_names names \<and> n_InboundTag n = f_InboundTag c}"
    using same by blast
  ultimately show ?thesis
    using expanded_nodes [of db "e_cfg env" "u_ID user" cs] db r(1,4) by simp
qed

definition sample_node_env :: "xray_log env" where
  "sample_node_env = sample_env\<lparr>e_cfg := sample_api_config\<lparr>c_Nodes :=
     [zero_node\<lparr>nc_Name := ''n1''\<rparr>, zero_node\<lparr>nc_Name := ''n2''\<rparr>]\<rparr>\<rparr>"

definition sample_nodes_request :: request where
  "sample_nodes_request = sample_admin_request [(''id'', ''alice'')] (JObj [(''nodes'', JArr [JStr '' n2 ''])])"

definition sample_vless_client :: user_client_full where
  "sample_vless_client = \<lparr>uc_ID = 1, uc_UserID = 1, uc_InboundID = 1, uc_ClientConfig = Doc (JObj []), uc_Enabled = True,
     f_InboundTag = ''vless-in'', f_InboundProtocol = ''vless'', f_InboundPort = 443, f_InboundRaw = Doc (JObj []),
     f_NodeName = [], f_NodeHost = [], f_NodePort = 0\<rparr>"

theorem placement_decides_endpoints_witness:
  "\<exists>code ns s' user. setUserNodes sample_node_env sample_nodes_request sample_server = (Reply code ns, s') \<and>
     getByID sample_nodes_request sample_api_db = Inr user \<and>
     f_NodeName ` set (expandClientsForNodes (e_cfg sample_node_env) (db_of s') (u_ID user) [sample_vless_client]) = {''n2''}"
proof -
  define res where "res = setUserNodes sample_node_env sample_nodes_request sample_server"
  have "is_reply (fst res)" unfolding res_def by code_simp
  then obtain code ns where rep: "fst res = Reply code ns" using is_replyE by blast
  have "isl (getByID sample_nodes_request sample_api_db) = False" by code_simp
  then obtain user where u: "getByID sample_nodes_request sample_api_db = Inr user"
    by (cases "getByID sample_nodes_request sample_api_db") auto
  have n: "decode_body dec_node_names [] sample_nodes_request = Some ['' n2 '']" by code_simp
  have w: "TrimSpace '' n2 '' = ''n2''" by code_simp
  have "list_ex (\<lambda>n. n_Enabled n \<and> n_Name n = ''n2'' \<and> n_InboundTag n = ''vless-in'') (nodes sample_api_db)" by code_simp
  then obtain m where m: "m \<in> set (nodes sample_api_db)" "n_Enabled m" "n_Name m = ''n2''" "n_InboundTag m = ''vless-in''"
    by (auto simp: list_ex_iff)
  have "set (expandClientsForNodes (e_cfg sample_node_env) (db_of (snd res)) (u_ID user) [sample_vless_client]) =
      {at_node sample_vless_client n | n. n \<in> set (nodes sample_api_db) \<and> n_Enabled n \<and> n_Name n = ''n2'' \<and> n_InboundTag n = ''vless-in''}"
    using placement_decides_endpoints [of sample_server, OF _ _ n, of user sample_node_env code ns "snd res" "[sample_vless_client]"]
      sample_api_reachable u rep by (simp add: res_def prod_eq_iff wanted_names_def w) (simp add: sample_vless_client_def)
  moreover have name: "f_NodeName (at_node sample_vless_client n) = n_Name n" for n by (simp add: at_node_def)
  ultimately have "f_NodeName ` set (expandClientsForNodes (e_cfg sample_node_env) (db_of (snd res)) (u_ID user) [sample_vless_client]) = {''n2''}"
    using m by (auto simp: image_iff name intro!: exI [of _ "at_node sample_vless_client m"])
  with rep u show ?thesis by (metis prod.collapse res_def)
qed

end
