(* ===== verification/Link_Reader.thy ===== *)
theory Link_Reader
  imports Url Base64 Config_Properties
begin

text \<open>
  What a client does with a share link: the specification that the link builders are measured against.
  A link \<open>scheme://user@host:port?query#name\<close> is taken apart by the rules of RFC 3986, which are also
  those of \<^verbatim>\<open>net/url.Parse\<close>, in their strict form: no slash in the user part, a host that is a name, an
  IPv4 address or an IPv6 address in brackets, digits as the port, and a plus sign that stands for a
  blank in the query only. A VMess link is base64 of a JSON object with strings as members.
\<close>

section \<open>Percent decoding outside the query\<close>

fun PathUnescape :: "string \<Rightarrow> string option" where
  "PathUnescape [] = Some []"
| "PathUnescape (c # cs) =
     (if c = CHR ''%''
      then (case cs of
              a # b # r \<Rightarrow>
                (case (hex_value a, hex_value b, PathUnescape r) of
                   (Some x, Some y, Some s) \<Rightarrow> Some (char_of (16 * x + y) # s)
                 | _ \<Rightarrow> None)
            | _ \<Rightarrow> None)
      else map_option ((#) c) (PathUnescape cs))"

text \<open>\<open>url.QueryEscape\<close> writes a blank as a plus sign, which means itself outside the query.\<close>

definition blank_as_plus :: "string \<Rightarrow> string" where
  "blank_as_plus = map (\<lambda>c. if c = CHR '' '' then CHR ''+'' else c)"

lemma blank_as_plus_id: "CHR '' '' \<notin> set s \<Longrightarrow> blank_as_plus s = s"
  by (induction s) (auto simp: blank_as_plus_def)

lemma path_unescape_char:
  "PathUnescape (query_char c @ s) = map_option ((#) (if c = CHR '' '' then CHR ''+'' else c)) (PathUnescape s)"
proof (cases "unreserved c \<or> c = CHR '' ''")
  case True
  moreover have "\<not> unreserved (CHR '' '')" by code_simp
  ultimately show ?thesis using unreserved_special by (auto simp: query_char_def)
next
  case False
  have "16 * (of_char c div 16) + of_char c mod 16 = (of_char c :: nat)" by simp
  with False show ?thesis
    by (simp add: query_char_def percent_def hex_value_upper char_halves map_option_case split: option.splits)
qed

lemma path_unescape_escape: "PathUnescape (QueryEscape s) = Some (blank_as_plus s)"
  by (induction s) (simp_all add: QueryEscape_def path_unescape_char blank_as_plus_def)

lemma path_unescape_plain: "CHR ''%'' \<notin> set s \<Longrightarrow> PathUnescape s = Some s"
  by (induction s) auto

section \<open>Taking a link apart\<close>

definition letters_only :: "string \<Rightarrow> bool" where
  "letters_only s = (s \<noteq> [] \<and> list_all (\<lambda>c. c \<in> set (upper_letters @ lower_letters)) s)"

definition userinfo_char :: "char \<Rightarrow> bool" where
  "userinfo_char c = (unreserved c \<or> c \<in> set ''%!$&()*+,;='')"

definition ip6_chars :: string where
  "ip6_chars = ''0123456789abcdefABCDEF:.''"

definition bracketed :: "string \<Rightarrow> bool" where
  "bracketed h = (case h of
     [] \<Rightarrow> False
   | c # r \<Rightarrow> c = CHR ''['' \<and> r \<noteq> [] \<and> last r = CHR '']'' \<and> list_all (\<lambda>x. x \<in> set ip6_chars) (butlast r))"

definition host_ok :: "string \<Rightarrow> bool" where
  "host_ok h = (h \<noteq> [] \<and> list_all unreserved h \<or> bracketed h)"

definition port_ok :: "string \<Rightarrow> bool" where
  "port_ok p = (p \<noteq> [] \<and> list_all (\<lambda>c. c \<in> set digit_chars) p)"

definition parse_link :: "string \<Rightarrow> (string \<times> string \<times> string \<times> int \<times> url_values \<times> string) option" where
  "parse_link s =
     Option.bind (cut (CHR ''#'') s) (\<lambda>(rest, frag).
     Option.bind (cut (CHR '':'') rest) (\<lambda>(scheme, r1).
     if \<not> letters_only scheme \<or> \<not> HasPrefix r1 ''//'' then None else
     let (auth, qs) = (case cut (CHR ''?'') (drop 2 r1) of Some p \<Rightarrow> p | None \<Rightarrow> (drop 2 r1, [])) in
     Option.bind (split_last (CHR ''@'') auth) (\<lambda>(user, hostport).
     Option.bind (split_last (CHR '':'') hostport) (\<lambda>(host, port).
     if \<not> list_all userinfo_char user \<or> \<not> host_ok host \<or> \<not> port_ok port then None else
     Option.bind (PathUnescape user) (\<lambda>u.
     Option.bind (ParseInt port) (\<lambda>p.
     Option.bind (ParseQuery qs) (\<lambda>q.
     Option.bind (PathUnescape frag) (\<lambda>n. Some (scheme, u, host, p, q, n)))))))))"

lemma cut_None: "c \<notin> set s \<Longrightarrow> cut c s = None"
  by (simp add: cut_def)

lemma host_free:
  assumes "host_ok h"
  shows "CHR ''@'' \<notin> set h" "CHR ''?'' \<notin> set h" "CHR ''#'' \<notin> set h"
proof -
  have "set h \<subseteq> Collect unreserved \<union> set ''[]'' \<union> set ip6_chars"
  proof (cases "bracketed h")
    case True
    then obtain r where h: "h = CHR ''['' # r" "r \<noteq> []" "last r = CHR '']''" "set (butlast r) \<subseteq> set ip6_chars"
      by (auto simp: bracketed_def list_all_iff split: list.splits)
    then have "r = butlast r @ '']''" by (metis append_butlast_last_id)
    then have "set r = set (butlast r) \<union> {CHR '']''}" by (metis list.set(1) list.set(2) set_append)
    with h(1,4) show ?thesis by auto
  next
    case False
    with assms show ?thesis by (auto simp: host_ok_def list_all_iff)
  qed
  moreover have "CHR ''@'' \<notin> set ip6_chars" "CHR ''?'' \<notin> set ip6_chars" "CHR ''#'' \<notin> set ip6_chars" by code_simp+
  ultimately show "CHR ''@'' \<notin> set h" "CHR ''?'' \<notin> set h" "CHR ''#'' \<notin> set h"
    using unreserved_special by auto
qed

lemma Itoa_port: "0 \<le> i \<Longrightarrow> port_ok (Itoa i)"
  using utoa_chars by (auto simp: port_ok_def Itoa_def list_all_iff digit_chars_def)

lemma port_free: "port_ok p \<Longrightarrow> c \<notin> set digit_chars \<Longrightarrow> c \<notin> set p"
  by (auto simp: port_ok_def list_all_iff)

lemma separators_no_digit:
  "CHR '':'' \<notin> set digit_chars" "CHR ''?'' \<notin> set digit_chars" "CHR ''#'' \<notin> set digit_chars" "CHR ''@'' \<notin> set digit_chars"
  by (simp_all add: digit_chars_def)

lemma letters_free: "letters_only s \<Longrightarrow> CHR '':'' \<notin> set s" "letters_only s \<Longrightarrow> CHR ''#'' \<notin> set s"
proof -
  have "CHR '':'' \<notin> set (upper_letters @ lower_letters)" "CHR ''#'' \<notin> set (upper_letters @ lower_letters)" by code_simp+
  then show "letters_only s \<Longrightarrow> CHR '':'' \<notin> set s" "letters_only s \<Longrightarrow> CHR ''#'' \<notin> set s"
    by (auto simp: letters_only_def list_all_iff)
qed

lemma userinfo_free:
  assumes "list_all userinfo_char user"
  shows "CHR ''@'' \<notin> set user" "CHR ''?'' \<notin> set user" "CHR ''#'' \<notin> set user" "CHR '':'' \<notin> set user"
proof -
  have "\<not> userinfo_char (CHR ''@'')" "\<not> userinfo_char (CHR ''?'')" "\<not> userinfo_char (CHR ''#'')" "\<not> userinfo_char (CHR '':'')" by code_simp+
  with assms show "CHR ''@'' \<notin> set user" "CHR ''?'' \<notin> set user" "CHR ''#'' \<notin> set user" "CHR '':'' \<notin> set user"
    by (auto simp: list_all_iff)
qed

text \<open>A link of allowed parts is taken apart into these parts; one whose user part has a character that is
  not allowed there, but is otherwise well formed, is refused.\<close>

lemma parse_parts:
  assumes scheme: "letters_only scheme" and host: "host_ok h" and port: "0 \<le> port" "port \<le> int64_max"
    and user: "CHR ''#'' \<notin> set user" "CHR ''?'' \<notin> set user"
    and tail: "tail = [] \<and> q = [] \<or> tail = ''?'' @ Encode q"
  shows "parse_link (scheme @ ''://'' @ user @ ''@'' @ h @ '':'' @ Itoa port @ tail @ ''#'' @ QueryEscape name) =
    (if list_all userinfo_char user
     then map_option (\<lambda>u. (scheme, u, h, port, sort_key fst q, blank_as_plus name)) (PathUnescape user) else None)"
proof -
  define hp where "hp = h @ CHR '':'' # Itoa port"
  define auth where "auth = user @ CHR ''@'' # hp"
  define body where "body = ''//'' @ auth @ tail"
  define rest where "rest = scheme @ CHR '':'' # body"
  note digits = port_free [OF Itoa_port [OF port(1)]]
  have hp: "CHR ''#'' \<notin> set hp" "CHR ''?'' \<notin> set hp" "CHR ''@'' \<notin> set hp"
    using host_free [OF host] digits separators_no_digit by (simp_all add: hp_def)
  have auth: "CHR ''#'' \<notin> set auth" "CHR ''?'' \<notin> set auth" using hp user by (simp_all add: auth_def)
  have "CHR ''#'' \<notin> set tail" using tail Encode_free [of q] by auto
  then have "CHR ''#'' \<notin> set rest" using letters_free(2) [OF scheme] auth by (simp add: rest_def body_def)
  then have frag: "cut (CHR ''#'') (rest @ CHR ''#'' # QueryEscape name) = Some (rest, QueryEscape name)" by (rule cut_append)
  have sch: "cut (CHR '':'') rest = Some (scheme, body)"
    unfolding rest_def by (rule cut_append) (rule letters_free(1) [OF scheme])
  have slashes: "HasPrefix body ''//''" "drop 2 body = auth @ tail" by (simp_all add: body_def HasPrefix_def)
  have query: "(case cut (CHR ''?'') (auth @ tail) of Some p \<Rightarrow> p | None \<Rightarrow> (auth @ tail, [])) = (auth, if tail = [] then [] else Encode q)"
    using tail cut_append [OF auth(2), of "Encode q"] cut_None [OF auth(2)] by auto
  have at: "split_last (CHR ''@'') auth = Some (user, hp)" unfolding auth_def by (rule split_last_append) (rule hp(3))
  have colon: "split_last (CHR '':'') hp = Some (h, Itoa port)"
    unfolding hp_def by (rule split_last_append) (rule digits, rule separators_no_digit)
  have int: "ParseInt (Itoa port) = Some port" using port by (intro ParseInt_Itoa) simp_all
  have pq: "ParseQuery (if tail = [] then [] else Encode q) = Some (sort_key fst q)"
    using tail ParseQuery_Encode [of q] by (auto simp: ParseQuery_def)
  have "scheme @ ''://'' @ user @ ''@'' @ h @ '':'' @ Itoa port @ tail @ ''#'' @ QueryEscape name = rest @ CHR ''#'' # QueryEscape name"
    by (simp add: rest_def body_def auth_def hp_def)
  then show ?thesis
    unfolding parse_link_def by (simp only: frag sch slashes query at colon int pq scheme host Itoa_port [OF port(1)]
        path_unescape_escape Option.bind.simps prod.case Let_def simp_thms if_False if_True)
      (cases "PathUnescape user", simp_all)
qed

lemma escaped_userinfo: "list_all userinfo_char (QueryEscape s)"
proof -
  have "userinfo_char (CHR ''+'')" "userinfo_char (CHR ''%'')" by code_simp+
  moreover have "unreserved c \<Longrightarrow> userinfo_char c" for c by (simp add: userinfo_char_def)
  ultimately show ?thesis using escaped_chars by (metis list_all_iff)
qed

section \<open>Objects of strings\<close>

definition lower_hex_value :: "char \<Rightarrow> nat option" where
  "lower_hex_value c = map_of (zip lower_hex [0..<16]) c"

definition simple_escape :: "char \<Rightarrow> char option" where
  "simple_escape c = map_of [(CHR 0x22, CHR 0x22), (CHR 0x5C, CHR 0x5C), (CHR ''b'', CHR 0x08), (CHR ''f'', CHR 0x0C),
     (CHR ''n'', CHR 0x0A), (CHR ''r'', CHR 0x0D), (CHR ''t'', CHR 0x09)] c"

text \<open>The characters of a JSON string after its opening quote, and what follows the closing quote.\<close>

fun read_string :: "string \<Rightarrow> (string \<times> string) option" where
  "read_string [] = None"
| "read_string (c # cs) =
     (if c = CHR 0x22 then Some ([], cs)
      else if c = CHR 0x5C
      then (case cs of
              [] \<Rightarrow> None
            | e # r \<Rightarrow>
                if e = CHR ''u''
                then (case r of
                        y # z # a # b # r' \<Rightarrow>
                          (case (lower_hex_value a, lower_hex_value b) of
                             (Some m, Some n) \<Rightarrow>
                               if y = CHR ''0'' \<and> z = CHR ''0'' then map_option (apfst ((#) (char_of (16 * m + n)))) (read_string r') else None
                           | _ \<Rightarrow> None)
                      | _ \<Rightarrow> None)
                else (case simple_escape e of Some d \<Rightarrow> map_option (apfst ((#) d)) (read_string r) | None \<Rightarrow> None))
      else if of_char c < (32 :: nat) then None
      else map_option (apfst ((#) c)) (read_string cs))"

fun read_members :: "nat \<Rightarrow> string \<Rightarrow> (string \<times> string) list option" where
  "read_members 0 s = None"
| "read_members (Suc n) s =
     (if \<not> HasPrefix s [CHR 0x22] then None
      else Option.bind (read_string (tl s)) (\<lambda>(k, s2).
        if \<not> HasPrefix s2 [CHR '':'', CHR 0x22] then None
        else Option.bind (read_string (drop 2 s2)) (\<lambda>(v, s3).
          if s3 = ''}'' then Some [(k, v)]
          else if HasPrefix s3 '','' then map_option ((#) (k, v)) (read_members n (tl s3)) else None)))"

definition read_object :: "string \<Rightarrow> (string \<times> string) list option" where
  "read_object s = (if s = ''{}'' then Some [] else if HasPrefix s ''{'' then read_members (length s) (tl s) else None)"

lemma lower_hex_ok: "distinct lower_hex" "length lower_hex = 16"
  by code_simp+

lemma lower_hex_value_nth: "n < 16 \<Longrightarrow> lower_hex_value (lower_hex ! n) = Some n"
  using map_of_zip_nth [of lower_hex "[0..<16]" n] lower_hex_ok by (simp add: lower_hex_value_def)

lemma read_char: "read_string (json_char c @ r) = map_option (apfst ((#) c)) (read_string r)"
proof -
  have "16 * (of_char c div 16) + of_char c mod 16 = (of_char c :: nat)" by simp
  then show ?thesis
    by (auto simp: json_char_def simple_escape_def lower_hex_value_nth char_halves)
qed

lemma read_quoted: "read_string (concat (map json_char s) @ CHR 0x22 # r) = Some (s, r)"
  by (induction s) (simp_all add: read_char)

definition member_text :: "string \<times> string \<Rightarrow> string" where
  "member_text kv = json_string (fst kv) @ '':'' @ json_string (snd kv)"

lemma read_member:
  "read_members (Suc n) (member_text kv @ r) =
     (if r = ''}'' then Some [kv] else if HasPrefix r '','' then map_option ((#) kv) (read_members n (tl r)) else None)"
  using read_quoted [of "fst kv" "CHR '':'' # json_string (snd kv) @ r"] read_quoted [of "snd kv" r]
  by (simp add: member_text_def json_string_def HasPrefix_def)

lemma read_joined:
  "kvs \<noteq> [] \<Longrightarrow> length kvs \<le> n \<Longrightarrow> read_members n (Join (map member_text kvs) '','' @ ''}'') = Some kvs"
proof (induction kvs arbitrary: n rule: induct_list012)
  case (2 kv)
  then obtain m where "n = Suc m" by (cases n) auto
  then show ?case using read_member [of m kv "''}''"] by simp
next
  case (3 kv kv' kvs)
  then obtain m where n: "n = Suc m" and m: "length (kv' # kvs) \<le> m" by (cases n) auto
  from 3(2) [OF _ m] have IH: "read_members m (Join (map member_text (kv' # kvs)) '','' @ ''}'') = Some (kv' # kvs)" by simp
  then show ?case
    unfolding n using read_member [of m kv "'','' @ Join (map member_text (kv' # kvs)) '','' @ ''}''"]
    by (simp add: HasPrefix_def)
qed simp

lemma Join_length: "(\<And>x. x \<in> set xs \<Longrightarrow> f x \<noteq> []) \<Longrightarrow> length xs \<le> length (Join (map f xs) sep)"
proof (induction xs rule: induct_list012)
  case (2 x)
  then have "f x \<noteq> []" by simp
  then show ?case by (cases "f x") simp_all
next
  case (3 x y xs)
  then have "f x \<noteq> []" "length (y # xs) \<le> length (Join (map f (y # xs)) sep)" by simp_all
  then show ?case by (cases "f x") simp_all
qed simp

lemma sort_key_fst_map:
  "sort_key fst (map (\<lambda>kv. (fst kv, f kv)) xs) = map (\<lambda>kv. (fst kv, f kv)) (sort_key fst xs)" for xs :: "(string \<times> 'a) list"
proof -
  have "insort_key fst (fst y, f y) (map (\<lambda>kv. (fst kv, f kv)) ys) = map (\<lambda>kv. (fst kv, f kv)) (insort_key fst y ys)" for y ys
    by (induction ys) simp_all
  then show ?thesis by (induction xs) simp_all
qed

text \<open>What \<open>json.Marshal\<close> writes for a map of strings is read back as its pairs, in the order of the keys.\<close>

lemma read_object_text: "read_object (json_text (JObj (map (\<lambda>(k, v). (k, JStr v)) item))) = Some (sort_key fst item)"
proof (cases "item = []")
  case True
  then show ?thesis by (simp add: read_object_def)
next
  case False
  let ?kvs = "sort_key fst item"
  have kvs: "?kvs \<noteq> []" using False by (metis length_0_conv length_sort)
  have members: "map (\<lambda>(k, v). (k, json_string k @ '':'' @ json_text v)) (map (\<lambda>(k, v). (k, JStr v)) item) =
      map (\<lambda>kv. (fst kv, member_text kv)) item"
    by (simp add: member_text_def case_prod_beta)
  have marshalled: "json_text (JObj (map (\<lambda>(k, v). (k, JStr v)) item)) = ''{'' @ Join (map member_text ?kvs) '','' @ ''}''"
    unfolding json_text.simps members sort_key_fst_map by (simp add: comp_def)
  have "member_text kv \<noteq> []" for kv by (simp add: member_text_def json_string_def)
  then have "length ?kvs \<le> length (Join (map member_text ?kvs) '','')" by (intro Join_length)
  then have "read_members (length (''{'' @ Join (map member_text ?kvs) '','' @ ''}'')) (Join (map member_text ?kvs) '','' @ ''}'') = Some ?kvs"
    using kvs by (intro read_joined) simp_all
  moreover have "Join (map member_text ?kvs) '','' \<noteq> []"
    using kvs \<open>length ?kvs \<le> _\<close> by (metis le_zero_eq length_0_conv)
  ultimately show ?thesis unfolding marshalled by (simp add: read_object_def HasPrefix_def)
qed

definition parse_vmess :: "string \<Rightarrow> (string \<times> string) list option" where
  "parse_vmess s = (if HasPrefix s ''vmess://''
     then Option.bind (StdDecode (drop 8 s)) (\<lambda>bs. read_object (map char_of bs)) else None)"

lemma parse_vmess_link:
  "parse_vmess (''vmess://'' @ EncodeToString (json_text (JObj (map (\<lambda>(k, v). (k, JStr v)) item)))) = Some (sort_key fst item)"
proof -
  let ?t = "json_text (JObj (map (\<lambda>(k, v). (k, JStr v)) item))"
  obtain bs where "StdDecode (EncodeToString ?t) = Some bs" "map char_of bs = ?t"
    using EncodeToString_roundtrip [of ?t] by auto
  then show ?thesis using read_object_text [of item] by (simp add: parse_vmess_def HasPrefix_def)
qed

end
