(* ===== verification/Link_Properties.thy ===== *)
theory Link_Properties
  imports Links Link_Reader Generator_Safety
begin

text \<open>
  Share links carry what the outbound carries: a client that takes a link apart gets back the
  credential, the endpoint, the parameters and the name.
\<close>

section \<open>Parameters\<close>

lemma map_of_Set [simp]: "map_of (Set k v q) j = (if j = k then Some v else map_of q j)"
  by (simp add: Set_def)

lemma distinct_Set [simp]: "distinct (map fst q) \<Longrightarrow> distinct (map fst (Set k v q))"
  by (simp add: Set_def)

lemma map_of_set_nonempty [simp]:
  "map_of (set_nonempty k v q) j = (if j = k \<and> v \<noteq> [] then Some v else map_of q j)"
  by (simp add: set_nonempty_def)

lemma distinct_set_nonempty [simp]: "distinct (map fst q) \<Longrightarrow> distinct (map fst (set_nonempty k v q))"
  by (simp add: set_nonempty_def)

lemma transport_keys:
  "j \<notin> {''path'', ''host'', ''serviceName'', ''mode'', ''extra''} \<Longrightarrow> map_of (applyTransportParams ss q) j = map_of q j"
  by (simp add: applyTransportParams_def set_member_def Let_def split: option.splits)

lemma tls_keys: "j \<notin> {''pcs'', ''vcn''} \<Longrightarrow> map_of (applyTLSCertParams tls q) j = map_of q j"
  by (simp add: applyTLSCertParams_def Let_def)

lemma distinct_params [simp]:
  "distinct (map fst q) \<Longrightarrow> distinct (map fst (applyTransportParams ss q))"
  "distinct (map fst q) \<Longrightarrow> distinct (map fst (applyTLSCertParams tls q))"
  by (auto simp: applyTransportParams_def applyTLSCertParams_def set_member_def Let_def split: option.splits)

lemma map_of_sorted: "distinct (map fst q) \<Longrightarrow> map_of (sort_key fst q) = map_of q"
  by (rule map_of_inject_set [THEN iffD2]) (simp_all add: distinct_map inj_on_def)

lemma vless_params_distinct: "distinct (map fst (vless_params ob u))"
  by (simp add: vless_params_def Let_def split: option.splits)

definition nonblank :: "string \<Rightarrow> string option" where
  "nonblank v = (if v = [] then None else Some v)"

text \<open>The parameters in the order in which they are set.\<close>

definition reality_part :: "StreamSettings \<Rightarrow> url_values \<Rightarrow> url_values" where
  "reality_part ss q = (case ss_RealitySettings ss of
     Some rs \<Rightarrow>
       if ss_Security ss = ''reality''
       then set_nonempty ''pqv'' (rs_MLDSA65Verify rs) (set_nonempty ''spx'' (rs_SpiderX rs)
              (set_nonempty ''sid'' (rs_ShortId rs) (set_nonempty ''pbk'' (rs_PublicKey rs)
              (set_nonempty ''fp'' (rs_Fingerprint rs) (set_nonempty ''sni'' (rs_ServerName rs) q)))))
       else q
   | None \<Rightarrow> q)"

definition tls_part :: "StreamSettings \<Rightarrow> url_values \<Rightarrow> url_values" where
  "tls_part ss q = (case ss_TLSSettings ss of
     Some tls \<Rightarrow> if ss_Security ss = ''tls'' then applyTLSCertParams tls q else q
   | None \<Rightarrow> q)"

lemma vless_params_parts:
  "ob_StreamSettings ob = Some ss \<Longrightarrow> vless_params ob u =
     set_nonempty ''fm'' (extractFinalmask (ob_Settings ob)) (applyTransportParams ss (tls_part ss (reality_part ss
       (set_nonempty ''security'' (ss_Security ss) (Set ''type'' (firstNonEmptyString [ss_Network ss, ''tcp''])
         (set_nonempty ''flow'' (vlu_Flow u) (Set ''encryption'' (firstNonEmptyString [vlu_Encryption u, ''none'']) [])))))))"
  unfolding vless_params_def Let_def reality_part_def tls_part_def by simp

lemma tls_part_keys: "j \<notin> {''pcs'', ''vcn''} \<Longrightarrow> map_of (tls_part ss q) j = map_of q j"
  by (simp add: tls_part_def tls_keys split: option.splits)

lemma reality_part_other:
  "j \<notin> {''pqv'', ''spx'', ''sid'', ''pbk'', ''fp'', ''sni''} \<Longrightarrow> map_of (reality_part ss q) j = map_of q j"
  by (simp add: reality_part_def split: option.splits)

lemma reality_part_keys:
  assumes "ss_Security ss = ''reality''" and "ss_RealitySettings ss = Some rs"
    and "map_of q ''pbk'' = None" "map_of q ''sid'' = None" "map_of q ''sni'' = None" "map_of q ''fp'' = None"
  shows "map_of (reality_part ss q) ''pbk'' = nonblank (rs_PublicKey rs)" "map_of (reality_part ss q) ''sid'' = nonblank (rs_ShortId rs)"
    "map_of (reality_part ss q) ''sni'' = nonblank (rs_ServerName rs)" "map_of (reality_part ss q) ''fp'' = nonblank (rs_Fingerprint rs)"
  using assms by (simp_all add: reality_part_def nonblank_def)

lemma vless_lookup_user:
  "map_of (vless_params ob u) ''encryption'' = Some (firstNonEmptyString [vlu_Encryption u, ''none''])"
  "map_of (vless_params ob u) ''flow'' = nonblank (vlu_Flow u)"
proof -
  have "map_of (vless_params ob u) ''encryption'' = Some (firstNonEmptyString [vlu_Encryption u, ''none'']) \<and>
      map_of (vless_params ob u) ''flow'' = nonblank (vlu_Flow u)"
  proof (cases "ob_StreamSettings ob")
    case None
    then show ?thesis by (simp add: vless_params_def Let_def nonblank_def del: firstNonEmptyString.simps)
  next
    case (Some ss)
    then show ?thesis
      by (simp add: vless_params_parts [OF Some] transport_keys tls_part_keys reality_part_other nonblank_def del: firstNonEmptyString.simps)
  qed
  then show "map_of (vless_params ob u) ''encryption'' = Some (firstNonEmptyString [vlu_Encryption u, ''none''])"
    "map_of (vless_params ob u) ''flow'' = nonblank (vlu_Flow u)" by simp_all
qed

lemma vless_lookup:
  assumes "ob_StreamSettings ob = Some ss"
  shows "map_of (vless_params ob u) ''type'' = Some (firstNonEmptyString [ss_Network ss, ''tcp''])"
    "map_of (vless_params ob u) ''security'' = nonblank (ss_Security ss)"
  by (simp_all add: vless_params_parts [OF assms] transport_keys tls_part_keys reality_part_other nonblank_def
      del: firstNonEmptyString.simps)

lemma vless_lookup_reality:
  assumes "ob_StreamSettings ob = Some ss" and "ss_Security ss = ''reality''" and "ss_RealitySettings ss = Some rs"
  shows "map_of (vless_params ob u) ''pbk'' = nonblank (rs_PublicKey rs)" "map_of (vless_params ob u) ''sid'' = nonblank (rs_ShortId rs)"
    "map_of (vless_params ob u) ''sni'' = nonblank (rs_ServerName rs)" "map_of (vless_params ob u) ''fp'' = nonblank (rs_Fingerprint rs)"
  by (simp_all add: vless_params_parts [OF assms(1)] transport_keys tls_part_keys reality_part_keys [OF assms(2,3)]
      del: firstNonEmptyString.simps)

text \<open>The parameters of a Trojan link.\<close>

definition trojan_tls :: "StreamSettings \<Rightarrow> url_values \<Rightarrow> url_values" where
  "trojan_tls ss q = (case ss_TLSSettings ss of
     Some tls \<Rightarrow> applyTLSCertParams tls (set_nonempty ''fp'' (ts_Fingerprint tls) (set_nonempty ''sni'' (ts_ServerName tls) q))
   | None \<Rightarrow> q)"

lemma trojan_params_parts:
  "ob_StreamSettings ob = Some ss \<Longrightarrow> trojan_params ob =
     set_nonempty ''fm'' (extractFinalmask (ob_Settings ob)) (applyTransportParams ss (trojan_tls ss
       (set_nonempty ''security'' (ss_Security ss) (Set ''type'' (firstNonEmptyString [ss_Network ss, ''tcp'']) []))))"
  unfolding trojan_params_def Let_def trojan_tls_def by simp

lemma trojan_tls_other: "j \<notin> {''sni'', ''fp'', ''pcs'', ''vcn''} \<Longrightarrow> map_of (trojan_tls ss q) j = map_of q j"
  by (simp add: trojan_tls_def tls_keys split: option.splits)

lemma trojan_tls_keys:
  assumes "ss_TLSSettings ss = Some tls" and "map_of q ''sni'' = None" and "map_of q ''fp'' = None"
  shows "map_of (trojan_tls ss q) ''sni'' = nonblank (ts_ServerName tls)" "map_of (trojan_tls ss q) ''fp'' = nonblank (ts_Fingerprint tls)"
  using assms by (simp_all add: trojan_tls_def tls_keys nonblank_def)

lemma trojan_lookup:
  assumes "ob_StreamSettings ob = Some ss"
  shows "map_of (trojan_params ob) ''type'' = Some (firstNonEmptyString [ss_Network ss, ''tcp''])"
    "map_of (trojan_params ob) ''security'' = nonblank (ss_Security ss)"
    "ss_TLSSettings ss = Some tls \<Longrightarrow> map_of (trojan_params ob) ''sni'' = nonblank (ts_ServerName tls)"
    "ss_TLSSettings ss = Some tls \<Longrightarrow> map_of (trojan_params ob) ''fp'' = nonblank (ts_Fingerprint tls)"
proof -
  show "map_of (trojan_params ob) ''type'' = Some (firstNonEmptyString [ss_Network ss, ''tcp''])"
    "map_of (trojan_params ob) ''security'' = nonblank (ss_Security ss)"
    by (simp_all add: trojan_params_parts [OF assms] transport_keys trojan_tls_other nonblank_def del: firstNonEmptyString.simps)
  assume "ss_TLSSettings ss = Some tls"
  then show "map_of (trojan_params ob) ''sni'' = nonblank (ts_ServerName tls)" "map_of (trojan_params ob) ''fp'' = nonblank (ts_Fingerprint tls)"
    by (simp_all add: trojan_params_parts [OF assms] transport_keys trojan_tls_keys del: firstNonEmptyString.simps)
qed

lemma trojan_params_distinct: "distinct (map fst (trojan_params ob))"
  by (simp add: trojan_params_def Let_def split: option.splits)

text \<open>The members of a VMess link: those that every link has, those of the stream settings, and those of the
  transport.\<close>

definition vmess_base :: "Outbound \<Rightarrow> VMessServer \<Rightarrow> VMessUser \<Rightarrow> (string \<times> string) list" where
  "vmess_base ob vn u = [(''v'', ''2''), (''ps'', ob_Tag ob), (''add'', vms_Address vn), (''port'', Itoa (vms_Port vn)),
     (''id'', vmu_ID u), (''aid'', Itoa (vmu_AlterId u)), (''scy'', firstNonEmptyString [vmu_Security u, ''auto'']),
     (''net'', ''tcp''), (''type'', ''none''), (''host'', []), (''path'', []), (''tls'', []), (''sni'', []),
     (''alpn'', []), (''fp'', [])]"

definition vmess_security :: "StreamSettings \<Rightarrow> (string \<times> string) list \<Rightarrow> (string \<times> string) list" where
  "vmess_security ss item =
     (let item = (if ss_Network ss \<noteq> [] then map_put ''net'' (ss_Network ss) item else item);
          item = (if ss_Security ss = ''tls'' \<or> ss_Security ss = ''reality'' then map_put ''tls'' (ss_Security ss) item else item);
          item = (case ss_TLSSettings ss of
                    Some t \<Rightarrow> map_put ''fp'' (ts_Fingerprint t) (map_put ''sni'' (ts_ServerName t) item) | None \<Rightarrow> item)
      in case ss_RealitySettings ss of
           Some t \<Rightarrow> map_put ''fp'' (rs_Fingerprint t) (map_put ''sni'' (rs_ServerName t) item) | None \<Rightarrow> item)"

lemma vmess_item_parts:
  "vmess_item ob vn u = (case ob_StreamSettings ob of
     None \<Rightarrow> vmess_base ob vn u | Some ss \<Rightarrow> applyVMessTransport ss (vmess_security ss (vmess_base ob vn u)))"
  unfolding vmess_item_def vmess_base_def vmess_security_def Let_def ..

lemma set_item_other: "j \<noteq> k \<Longrightarrow> map_of (set_item k v item) j = map_of item j"
  by (simp add: set_item_def split: option.splits json.splits)

lemma set_item_distinct: "distinct (map fst item) \<Longrightarrow> distinct (map fst (set_item k v item))"
  by (simp add: set_item_def split: option.splits json.splits)

lemma vmess_transport_keys:
  "j \<notin> {''path'', ''host''} \<Longrightarrow> map_of (applyVMessTransport ss item) j = map_of item j"
  by (simp add: applyVMessTransport_def set_item_other Let_def)

lemma vmess_security_other: "j \<notin> {''net'', ''tls'', ''sni'', ''fp''} \<Longrightarrow> map_of (vmess_security ss item) j = map_of item j"
  by (simp add: vmess_security_def Let_def split: option.splits)

lemma vmess_distinct:
  "distinct (map fst item) \<Longrightarrow> distinct (map fst (applyVMessTransport ss item))"
  "distinct (map fst item) \<Longrightarrow> distinct (map fst (vmess_security ss item))"
  by (simp_all add: applyVMessTransport_def set_item_distinct vmess_security_def Let_def split: option.splits)

lemma vmess_item_distinct: "distinct (map fst (vmess_item ob vn u))"
proof -
  have "distinct (map fst (vmess_base ob vn u))" by (simp add: vmess_base_def)
  then show ?thesis by (simp add: vmess_item_parts vmess_distinct split: option.splits)
qed

lemma vmess_lookup:
  assumes "j \<in> {''ps'', ''add'', ''port'', ''id'', ''aid'', ''scy''}"
  shows "map_of (vmess_item ob vn u) j = map_of (vmess_base ob vn u) j"
  using assms by (auto simp: vmess_item_parts vmess_transport_keys vmess_security_other split: option.splits)

lemma vmess_lookup_stream:
  assumes "ob_StreamSettings ob = Some ss"
  shows "map_of (vmess_item ob vn u) ''net'' = Some (if ss_Network ss = [] then ''tcp'' else ss_Network ss)"
    "map_of (vmess_item ob vn u) ''tls'' = Some (if ss_Security ss \<in> {''tls'', ''reality''} then ss_Security ss else [])"
    "map_of (vmess_item ob vn u) ''sni'' = Some (case ss_RealitySettings ss of Some rs \<Rightarrow> rs_ServerName rs
       | None \<Rightarrow> (case ss_TLSSettings ss of Some tls \<Rightarrow> ts_ServerName tls | None \<Rightarrow> []))"
proof -
  have base: "map_of (vmess_base ob vn u) ''net'' = Some ''tcp''" "map_of (vmess_base ob vn u) ''tls'' = Some []"
    "map_of (vmess_base ob vn u) ''sni'' = Some []" by (simp_all add: vmess_base_def)
  show "map_of (vmess_item ob vn u) ''net'' = Some (if ss_Network ss = [] then ''tcp'' else ss_Network ss)"
    "map_of (vmess_item ob vn u) ''tls'' = Some (if ss_Security ss \<in> {''tls'', ''reality''} then ss_Security ss else [])"
    "map_of (vmess_item ob vn u) ''sni'' = Some (case ss_RealitySettings ss of Some rs \<Rightarrow> rs_ServerName rs
       | None \<Rightarrow> (case ss_TLSSettings ss of Some tls \<Rightarrow> ts_ServerName tls | None \<Rightarrow> []))"
    using base by (simp_all add: vmess_item_parts assms vmess_transport_keys vmess_security_def Let_def split: option.splits)
qed

lemma base64_chars: "set (EncodeToString s) \<subseteq> insert (CHR ''='') (set std_alphabet)"
proof -
  have "\<forall>b\<in>set (map of_char s). b < (256 :: nat)" by auto
  then have "\<forall>x\<in>set (sextets (map of_char s)). x < 64" by (metis sextets_bound)
  from chars_in_alphabet [OF std_alphabet_ok(2) this] show ?thesis
    by (auto simp: EncodeToString_def StdEncode_def padding_def)
qed

text \<open>The only character of the standard alphabet that is not allowed in the user part of a link is the slash.\<close>

lemma base64_userinfo:
  "list_all userinfo_char (EncodeToString s) \<longleftrightarrow> CHR ''/'' \<notin> set (EncodeToString s)"
  "CHR ''#'' \<notin> set (EncodeToString s)" "CHR ''?'' \<notin> set (EncodeToString s)" "CHR ''%'' \<notin> set (EncodeToString s)"
proof -
  have "list_all (\<lambda>c. userinfo_char c = (c \<noteq> CHR ''/'')) (CHR ''='' # std_alphabet)"
    "CHR ''#'' \<notin> insert (CHR ''='') (set std_alphabet)" "CHR ''?'' \<notin> insert (CHR ''='') (set std_alphabet)"
    "CHR ''%'' \<notin> insert (CHR ''='') (set std_alphabet)" by code_simp+
  then show "list_all userinfo_char (EncodeToString s) \<longleftrightarrow> CHR ''/'' \<notin> set (EncodeToString s)"
    "CHR ''#'' \<notin> set (EncodeToString s)" "CHR ''?'' \<notin> set (EncodeToString s)" "CHR ''%'' \<notin> set (EncodeToString s)"
    using base64_chars [of s] by (auto simp: list_all_iff subset_iff)
qed

section \<open>Links of generated outbounds\<close>

lemma built_settings:
  assumes "unmarshal dec_StoredClientConfig zero_StoredClientConfig (uc_ClientConfig uc) = Some cred"
    and "buildOutbound k h uc i = Inr ob"
  shows "protocol_settings (ob_Protocol ob) h (f_InboundPort uc) cred = Inr (ob_Settings ob)"
  using assms by (auto simp: buildOutbound_def Let_def split: option.splits sum.splits)

lemma tag_no_blank: "CHR '' '' \<notin> set (outbound_tag tag i)"
proof -
  have "CHR '' '' \<notin> set (sanitizeTag tag)" unfolding sanitizeTag_def by (rule Replacer_removes [of _ "''-''"]) auto
  moreover have "CHR '' '' \<notin> set (utoa i)" by (rule utoa_other) simp
  ultimately show ?thesis by (simp add: outbound_tag_def)
qed

lemma parse_link_text:
  assumes "host_ok h" and "letters_only scheme" and "0 \<le> port" and "port \<le> int64_max" and "CHR '' '' \<notin> set name"
  shows "parse_link (link_text scheme user h port ''?'' q name) = Some (scheme, blank_as_plus user, h, port, sort_key fst q, name)"
  using parse_parts [OF assms(2,1,3,4) escape_free(3,4), of "''?'' @ Encode q" q user name] assms(5)
  by (simp add: link_text_def escaped_userinfo path_unescape_escape blank_as_plus_id)

text \<open>The parameters of a VLESS and of a Trojan link, and the members of a VMess link, are those of the
  outbound and the client.\<close>

definition vless_params_ok :: "StoredClientConfig \<Rightarrow> Outbound \<Rightarrow> url_values \<Rightarrow> bool" where
  "vless_params_ok cred ob q \<longleftrightarrow>
     map_of q ''encryption'' = Some (if TrimSpace (st_Encryption cred) = [] then ''none'' else TrimSpace (st_Encryption cred)) \<and>
     map_of q ''flow'' = nonblank (st_Flow cred) \<and>
     (\<forall>ss. ob_StreamSettings ob = Some ss \<longrightarrow>
        map_of q ''type'' = Some (firstNonEmptyString [ss_Network ss, ''tcp'']) \<and> map_of q ''security'' = nonblank (ss_Security ss) \<and>
        (\<forall>rs. ss_Security ss = ''reality'' \<longrightarrow> ss_RealitySettings ss = Some rs \<longrightarrow>
           map_of q ''pbk'' = nonblank (rs_PublicKey rs) \<and> map_of q ''sid'' = nonblank (rs_ShortId rs) \<and>
           map_of q ''sni'' = nonblank (rs_ServerName rs) \<and> map_of q ''fp'' = nonblank (rs_Fingerprint rs)))"

definition trojan_params_ok :: "Outbound \<Rightarrow> url_values \<Rightarrow> bool" where
  "trojan_params_ok ob q \<longleftrightarrow>
     (\<forall>ss. ob_StreamSettings ob = Some ss \<longrightarrow>
        map_of q ''type'' = Some (firstNonEmptyString [ss_Network ss, ''tcp'']) \<and> map_of q ''security'' = nonblank (ss_Security ss) \<and>
        (\<forall>tls. ss_TLSSettings ss = Some tls \<longrightarrow>
           map_of q ''sni'' = nonblank (ts_ServerName tls) \<and> map_of q ''fp'' = nonblank (ts_Fingerprint tls)))"

definition vmess_members_ok :: "StoredClientConfig \<Rightarrow> string \<Rightarrow> int \<Rightarrow> Outbound \<Rightarrow> (string \<times> string) list \<Rightarrow> bool" where
  "vmess_members_ok cred h port ob item \<longleftrightarrow>
     map_of item ''ps'' = Some (ob_Tag ob) \<and> map_of item ''add'' = Some h \<and> map_of item ''port'' = Some (Itoa port) \<and>
     map_of item ''id'' = Some (st_ID cred) \<and> map_of item ''aid'' = Some (Itoa (st_AlterId cred)) \<and> map_of item ''scy'' = Some ''auto'' \<and>
     (\<forall>ss. ob_StreamSettings ob = Some ss \<longrightarrow>
        map_of item ''net'' = Some (if ss_Network ss = [] then ''tcp'' else ss_Network ss) \<and>
        map_of item ''tls'' = Some (if ss_Security ss \<in> {''tls'', ''reality''} then ss_Security ss else []) \<and>
        map_of item ''sni'' = Some (case ss_RealitySettings ss of Some rs \<Rightarrow> rs_ServerName rs
          | None \<Rightarrow> (case ss_TLSSettings ss of Some tls \<Rightarrow> ts_ServerName tls | None \<Rightarrow> [])))"

lemma schemes: "letters_only ''vless''" "letters_only ''trojan''" "letters_only ''ss''"
  by code_simp+

lemma first_nonempty_trimmed:
  "firstNonEmptyString [if TrimSpace e = [] then ''none'' else TrimSpace e, ''none''] = (if TrimSpace e = [] then ''none'' else TrimSpace e)"
proof -
  have "TrimSpace ''none'' = ''none''" by code_simp
  then show ?thesis by simp
qed

lemma vless_link_reads:
  assumes "protocol_settings ''vless'' h port cred = Inr (ob_Settings ob)" and "stored_ok cred"
    and "0 \<le> port" and "port \<le> int64_max" and "host_ok h" and "CHR '' '' \<notin> set (ob_Tag ob)"
  shows "\<exists>q. parse_link (buildVLESSLink ob) = Some (''vless'', blank_as_plus (st_ID cred), h, port, q, ob_Tag ob) \<and> vless_params_ok cred ob q"
proof -
  have "int64_min \<le> port" using assms(3) by simp
  from vless_settings_read [OF assms(2) this assms(4), of h] assms(1)
  obtain u where u: "dec_VLESSOutboundSettings zero_VLESSOutboundSettings (ob_Settings ob) =
      Some \<lparr>vlo_Vnext = [\<lparr>vls_Address = h, vls_Port = port, vls_Users = [u]\<rparr>]\<rparr>"
    "vlu_ID u = st_ID cred" "vlu_Flow u = st_Flow cred"
    "vlu_Encryption u = (if TrimSpace (st_Encryption cred) = [] then ''none'' else TrimSpace (st_Encryption cred))"
    by (simp add: protocol_settings_def)
  have "buildVLESSLink ob = link_text ''vless'' (st_ID cred) h port ''?'' (vless_params ob u) (ob_Tag ob)"
    using u(1,2) by (simp add: buildVLESSLink_def)
  then have "parse_link (buildVLESSLink ob) = Some (''vless'', blank_as_plus (st_ID cred), h, port, sort_key fst (vless_params ob u), ob_Tag ob)"
    using parse_link_text [OF assms(5) schemes(1) assms(3,4,6)] by simp
  moreover have "vless_params_ok cred ob (sort_key fst (vless_params ob u))"
    unfolding vless_params_ok_def map_of_sorted [OF vless_params_distinct] vless_lookup_user u(3,4) first_nonempty_trimmed
    using vless_lookup [of ob _ u] vless_lookup_reality [of ob _ _ u] by blast
  ultimately show ?thesis by blast
qed

lemma trojan_link_reads:
  assumes "protocol_settings ''trojan'' h port cred = Inr (ob_Settings ob)"
    and "0 \<le> port" and "port \<le> int64_max" and "host_ok h" and "CHR '' '' \<notin> set (ob_Tag ob)"
  shows "\<exists>q. parse_link (buildTrojanLink ob) = Some (''trojan'', blank_as_plus (st_Password cred), h, port, q, ob_Tag ob) \<and> trojan_params_ok ob q"
proof -
  have "int64_min \<le> port" using assms(2) by simp
  from trojan_settings_read [OF this assms(3), of h cred] assms(1)
  have "buildTrojanLink ob = link_text ''trojan'' (st_Password cred) h port ''?'' (trojan_params ob) (ob_Tag ob)"
    by (simp add: protocol_settings_def buildTrojanLink_def)
  then have "parse_link (buildTrojanLink ob) = Some (''trojan'', blank_as_plus (st_Password cred), h, port, sort_key fst (trojan_params ob), ob_Tag ob)"
    using parse_link_text [OF assms(4) schemes(2) assms(2,3,5)] by simp
  moreover have "trojan_params_ok ob (sort_key fst (trojan_params ob))"
    unfolding trojan_params_ok_def map_of_sorted [OF trojan_params_distinct] using trojan_lookup [of ob] by blast
  ultimately show ?thesis by blast
qed

lemma ss_link_reads:
  assumes "protocol_settings ''shadowsocks'' h port cred = Inr (ob_Settings ob)"
    and "0 \<le> port" and "port \<le> int64_max" and "host_ok h" and "CHR '' '' \<notin> set (ob_Tag ob)"
  shows "\<exists>user. map_option (map char_of) (StdDecode user) =
      Some ((if st_Method cred = [] then ''aes-256-gcm'' else st_Method cred) @ '':'' @ st_Password cred) \<and>
    buildSSLink ob = ''ss://'' @ user @ ''@'' @ h @ '':'' @ Itoa port @ ''#'' @ QueryEscape (ob_Tag ob) \<and>
    parse_link (buildSSLink ob) = (if CHR ''/'' \<in> set user then None else Some (''ss'', user, h, port, [], ob_Tag ob))"
proof -
  let ?m = "if st_Method cred = [] then ''aes-256-gcm'' else st_Method cred"
  define user where "user = EncodeToString (?m @ '':'' @ st_Password cred)"
  have "int64_min \<le> port" using assms(2) by simp
  from ss_settings_read [OF this assms(3), of h cred] assms(1)
  have link: "buildSSLink ob = ''ss://'' @ user @ ''@'' @ h @ '':'' @ Itoa port @ ''#'' @ QueryEscape (ob_Tag ob)"
    by (simp add: protocol_settings_def buildSSLink_def user_def)
  note b = base64_userinfo [of "?m @ '':'' @ st_Password cred", folded user_def]
  have "parse_link (buildSSLink ob) = (if CHR ''/'' \<in> set user then None else Some (''ss'', user, h, port, [], ob_Tag ob))"
    using parse_parts [OF schemes(3) assms(4,2,3) b(2,3), of "[]" "[]" "ob_Tag ob"] b(1) path_unescape_plain [OF b(4)] assms(5)
    by (simp add: link blank_as_plus_id)
  moreover have "map_option (map char_of) (StdDecode user) = Some (?m @ '':'' @ st_Password cred)"
    unfolding user_def by (rule EncodeToString_roundtrip)
  ultimately show ?thesis using link by blast
qed

lemma vmess_link_reads:
  assumes "protocol_settings ''vmess'' h port cred = Inr (ob_Settings ob)" and "stored_ok cred"
    and "0 \<le> port" and "port \<le> int64_max"
  shows "\<exists>item. parse_vmess (buildVMessLink ob) = Some item \<and> vmess_members_ok cred h port ob item"
proof -
  let ?u = "\<lparr>vmu_ID = st_ID cred, vmu_AlterId = st_AlterId cred, vmu_Security = ''auto'', vmu_Level = 0\<rparr>"
  let ?vn = "\<lparr>vms_Address = h, vms_Port = port, vms_Users = [?u]\<rparr>"
  have "int64_min \<le> port" using assms(3) by simp
  from vmess_settings_read [OF assms(2) this assms(4), of h] assms(1)
  have "buildVMessLink ob = ''vmess://'' @ EncodeToString (json_text (JObj (map (\<lambda>(k, v). (k, JStr v)) (vmess_item ob ?vn ?u))))"
    by (simp add: protocol_settings_def buildVMessLink_def del: json_text.simps)
  then have "parse_vmess (buildVMessLink ob) = Some (sort_key fst (vmess_item ob ?vn ?u))" by (simp only: parse_vmess_link)
  moreover have "firstNonEmptyString [vmu_Security ?u, ''auto''] = ''auto''" by code_simp
  then have "vmess_members_ok cred h port ob (sort_key fst (vmess_item ob ?vn ?u))"
    unfolding vmess_members_ok_def map_of_sorted [OF vmess_item_distinct]
    by (simp add: vmess_lookup vmess_lookup_stream) (simp add: vmess_base_def)
  ultimately show ?thesis by blast
qed

text \<open>C36: Share links read back, for each of the four protocols that have one. For a generated outbound
  whose host is a name, an IPv4 address or an IPv6 address in brackets and whose port is not negative, a
  client that takes the link apart by the rules of RFC 3986 gets: for VLESS and Trojan the id and the
  password of the stored credential (with blanks turned into plus signs, so exactly it when it has none),
  the host, the port, the tag as the name, and the parameters of the outbound (encryption, flow,
  transport, security and REALITY keys for VLESS, transport, security, server name and fingerprint for
  Trojan); for VMess a JSON object with the tag, host, port, id, alterId, transport, security and server
  name; for Shadowsocks a user part that is the base64 of the method (\<open>aes-256-gcm\<close> when none is
  stored), a colon and the password, where the link as a whole is readable iff that base64 text has no
  slash.\<close>

theorem share_links_read_back:
  assumes "unmarshal dec_StoredClientConfig zero_StoredClientConfig (uc_ClientConfig uc) = Some cred" and "stored_ok cred"
    and "0 \<le> f_InboundPort uc" and "f_InboundPort uc \<le> int64_max" and "host_ok h"
    and "buildOutbound k h uc i = Inr ob"
  shows "(ob_Protocol ob = ''vless'' \<longrightarrow> (\<exists>q. parse_link (buildVLESSLink ob) =
      Some (''vless'', blank_as_plus (st_ID cred), h, f_InboundPort uc, q, ob_Tag ob) \<and> vless_params_ok cred ob q)) \<and>
    (ob_Protocol ob = ''trojan'' \<longrightarrow> (\<exists>q. parse_link (buildTrojanLink ob) =
      Some (''trojan'', blank_as_plus (st_Password cred), h, f_InboundPort uc, q, ob_Tag ob) \<and> trojan_params_ok ob q)) \<and>
    (ob_Protocol ob = ''vmess'' \<longrightarrow> (\<exists>item. parse_vmess (buildVMessLink ob) = Some item \<and>
      vmess_members_ok cred h (f_InboundPort uc) ob item)) \<and>
    (ob_Protocol ob = ''shadowsocks'' \<longrightarrow> (\<exists>user. map_option (map char_of) (StdDecode user) =
        Some ((if st_Method cred = [] then ''aes-256-gcm'' else st_Method cred) @ '':'' @ st_Password cred) \<and>
      buildSSLink ob = ''ss://'' @ user @ ''@'' @ h @ '':'' @ Itoa (f_InboundPort uc) @ ''#'' @ QueryEscape (ob_Tag ob) \<and>
      parse_link (buildSSLink ob) = (if CHR ''/'' \<in> set user then None else Some (''ss'', user, h, f_InboundPort uc, [], ob_Tag ob))))"
proof -
  note settings = built_settings [OF assms(1,6)]
  have tag: "CHR '' '' \<notin> set (ob_Tag ob)" using buildOutbound_tag [OF assms(6)] tag_no_blank by simp
  show ?thesis
    using settings vless_link_reads [OF _ assms(2-5) tag] trojan_link_reads [OF _ assms(3-5) tag]
      vmess_link_reads [OF _ assms(2-4)] ss_link_reads [OF _ assms(3-5) tag] by metis
qed

theorem share_links_read_back_witness:
  "\<exists>ob q. buildOutbound (\<lambda>_. None) ''h'' (sample_uc ''vless-in'' ''tcp'') 0 = Inr ob \<and>
     parse_link (buildVLESSLink ob) = Some (''vless'', ''uuid-1'', ''h'', 443, q, ''vless-in-0'') \<and> map_of q ''encryption'' = Some ''none''"
proof -
  let ?uc = "sample_uc ''vless-in'' ''tcp''"
  let ?cred = "zero_StoredClientConfig\<lparr>st_Protocol := ''vless'', st_ID := ''uuid-1''\<rparr>"
  have c: "unmarshal dec_StoredClientConfig zero_StoredClientConfig (uc_ClientConfig ?uc) = Some ?cred"
    by code_simp
  define ob where "ob = projr (buildOutbound (\<lambda>_. None) ''h'' ?uc 0)"
  have b: "buildOutbound (\<lambda>_. None) ''h'' ?uc 0 = Inr ob" unfolding ob_def by code_simp
  have ob: "ob_Protocol ob = ''vless''" "ob_Tag ob = ''vless-in-0''" unfolding ob_def by code_simp+
  have p: "0 \<le> f_InboundPort ?uc" "f_InboundPort ?uc \<le> int64_max" "f_InboundPort ?uc = 443" by (simp_all add: sample_uc_def)
  have h: "host_ok ''h''" by code_simp
  have cred: "st_ID ?cred = ''uuid-1''" "st_Encryption ?cred = []" by (simp_all add: zero_StoredClientConfig_def)
  have "blank_as_plus ''uuid-1'' = ''uuid-1''" by code_simp
  then have "\<exists>q. parse_link (buildVLESSLink ob) = Some (''vless'', ''uuid-1'', ''h'', 443, q, ''vless-in-0'') \<and> vless_params_ok ?cred ob q"
    using share_links_read_back [OF c sample_stored p(1,2) h b] ob p(3) cred(1) by simp
  then show ?thesis using b cred(2) by (auto simp: vless_params_ok_def)
qed

text \<open>An IPv6 address is written without brackets, and a blank as a plus sign: a client does not get
  these back. The base64 text of a Shadowsocks link may have a slash, where the link cannot be read.\<close>

lemma links_not_read:
  "parse_link (link_text ''trojan'' ''pw'' ''2001:db8::1'' 443 ''?'' [] ''t'') = None"
  "parse_link (link_text ''trojan'' ''a b'' ''h'' 443 ''?'' [] ''t'') = Some (''trojan'', ''a+b'', ''h'', 443, [], ''t'')"
  "CHR ''/'' \<in> set (EncodeToString ''aes-256-gcm:???'')"
  by code_simp+

text \<open>The link of a VLESS outbound with TLS does not depend on the server name and the fingerprint.\<close>

lemma vless_link_ignores_sni:
  assumes "ob_StreamSettings ob = Some ss" and "ss_TLSSettings ss = Some tls" and "ss_Security ss = ''tls''"
  shows "vless_params (ob\<lparr>ob_StreamSettings := Some (ss\<lparr>ss_TLSSettings := Some (tls\<lparr>ts_ServerName := sni, ts_Fingerprint := fp\<rparr>)\<rparr>)\<rparr>) u =
    vless_params ob u"
proof -
  have "applyTLSCertParams (tls\<lparr>ts_ServerName := sni, ts_Fingerprint := fp\<rparr>) = applyTLSCertParams tls"
    by (simp add: fun_eq_iff applyTLSCertParams_def)
  moreover have "applyTransportParams (ss\<lparr>ss_TLSSettings := x\<rparr>) = applyTransportParams ss" for x
    by (simp add: fun_eq_iff applyTransportParams_def)
  ultimately show ?thesis using assms by (simp add: vless_params_def cong: option.case_cong)
qed

end
