(* ===== verification/Killswitch_Properties.thy ===== *)
theory Killswitch_Properties
  imports Server_Invariant Db_Properties
begin

text \<open>
  The kill switch: with the fallback flag off, the fallback inbounds are taken out of the running Xray.
  Xray is not part of the repository; what is relied on is the documented meaning of the replies of
  \<open>RemoveInbound\<close>: a call that succeeds, or that fails with one of the texts that mean there is no
  such inbound, leaves the inbound absent. A call that fails otherwise may have removed it or not. No call
  touches another inbound.
\<close>

section \<open>What is relied on\<close>

text \<open>A reply that says that the inbound is gone.\<close>

definition confirmed :: "string option \<Rightarrow> bool" where
  "confirmed e = (case e of None \<Rightarrow> True | Some t \<Rightarrow> isBenignAbsent t)"

text \<open>\<open>live x\<close> is the set of tags of the inbounds that an Xray in state \<open>x\<close> has.\<close>

definition removes_inbounds :: "'x handler \<Rightarrow> string \<Rightarrow> ('x \<Rightarrow> string set) \<Rightarrow> bool" where
  "removes_inbounds h addr live \<longleftrightarrow> (\<forall>tag x e x'. h_RemoveInbound h addr tag x = (e, x') \<longrightarrow>
     live x' \<in> {live x, live x - {tag}} \<and> (confirmed e \<longrightarrow> tag \<notin> live x'))"

text \<open>The tags of the kill switch as they are sent, and the replies to removing them one after the other.\<close>

definition kill_tags :: "Config \<Rightarrow> string list" where
  "kill_tags cfg = filter (\<lambda>t. t \<noteq> []) (map TrimSpace (KillSwitchTags cfg))"

fun remove_calls :: "'x handler \<Rightarrow> string \<Rightarrow> string list \<Rightarrow> 'x \<Rightarrow> string option list \<times> 'x" where
  "remove_calls h addr [] x = ([], x)"
| "remove_calls h addr (tag # tags) x =
     (case h_RemoveInbound h addr tag x of
        (e, x1) \<Rightarrow> (case remove_calls h addr tags x1 of (es, x2) \<Rightarrow> (e # es, x2)))"

abbreviation api_addr :: "'x env \<Rightarrow> string" where
  "api_addr env \<equiv> TrimSpace (c_XrayAPIAddr (e_cfg env))"

abbreviation xray_of :: "'x server \<Rightarrow> 'x" where
  "xray_of s \<equiv> w_xray (world_of s)"

text \<open>What one pass of the kill switch makes of an Xray: every tag is asked for once, also after failures;
  no inbound appears and none outside the kill switch goes; a tag whose reply confirms it is gone. So
  what is left of the kill switch tags are tags whose call failed, and nothing is left when all calls
  are confirmed.\<close>

definition switched_off :: "'x env \<Rightarrow> ('x \<Rightarrow> string set) \<Rightarrow> 'x \<Rightarrow> 'x \<Rightarrow> bool" where
  "switched_off env live x x' \<longleftrightarrow> (\<exists>es. remove_calls (e_xray env) (api_addr env) (kill_tags (e_cfg env)) x = (es, x') \<and>
     live x' \<subseteq> live x \<and> live x - set (kill_tags (e_cfg env)) \<subseteq> live x' \<and>
     (\<forall>(tag, e)\<in>set (zip (kill_tags (e_cfg env)) es). confirmed e \<longrightarrow> tag \<notin> live x') \<and>
     (list_all confirmed es \<longrightarrow> live x' = live x - set (kill_tags (e_cfg env))))"

section \<open>Removing\<close>

lemma calls_live:
  assumes "removes_inbounds h addr live"
  shows "remove_calls h addr tags x = (es, x') \<Longrightarrow> live x' \<subseteq> live x \<and> live x - set tags \<subseteq> live x' \<and> length es = length tags \<and>
    (\<forall>(tag, e)\<in>set (zip tags es). confirmed e \<longrightarrow> tag \<notin> live x')"
proof (induction tags arbitrary: x es)
  case (Cons tag tags)
  obtain e x1 where c: "h_RemoveInbound h addr tag x = (e, x1)" by force
  with Cons.prems obtain es1 where r: "remove_calls h addr tags x1 = (es1, x')" "es = e # es1" by (auto split: prod.splits)
  have one: "live x1 \<in> {live x, live x - {tag}}" "confirmed e \<Longrightarrow> tag \<notin> live x1"
    using assms c unfolding removes_inbounds_def by blast+
  note rest = Cons.IH [OF r(1)]
  have "live x' \<subseteq> live x" "live x - set (tag # tags) \<subseteq> live x'" using one(1) rest by auto
  moreover have "confirmed e \<Longrightarrow> tag \<notin> live x'" using one(2) rest by blast
  ultimately show ?case using rest r(2) by auto
qed simp

lemma calls_confirmed:
  assumes "removes_inbounds h addr live" and "remove_calls h addr tags x = (es, x')" and "list_all confirmed es"
  shows "live x' = live x - set tags"
proof -
  note c = calls_live [OF assms(1,2)]
  have "tag \<notin> live x'" if "tag \<in> set tags" for tag
  proof -
    from that obtain i where i: "i < length tags" "tag = tags ! i" by (auto simp: in_set_conv_nth)
    with c have "(tag, es ! i) \<in> set (zip tags es)" by (auto simp: in_set_zip)
    moreover have "confirmed (es ! i)" using assms(3) i(1) c by (simp add: list_all_length)
    ultimately show ?thesis using c by blast
  qed
  then show ?thesis using c by blast
qed

lemma on_world_world: "world_of (snd (on_world f s)) = snd (f (world_of s))"
  by (simp add: on_world_def split: prod.splits)

lemma apply_tag_xray:
  assumes "api_addr env \<noteq> []"
  shows "xray_of (apply_tag env False tag s) =
    (if TrimSpace tag = [] then xray_of s else snd (h_RemoveInbound (e_xray env) (api_addr env) (TrimSpace tag) (xray_of s)))"
  using assms by (simp add: apply_tag_def on_world_world RemoveInboundViaAPI_def on_xray_def split: prod.splits)

lemma apply_all_xray:
  assumes "api_addr env \<noteq> []"
  shows "xray_of (applyKillSwitchInboundsLocked env False s) =
    snd (remove_calls (e_xray env) (api_addr env) (kill_tags (e_cfg env)) (xray_of s))"
proof -
  have "xray_of (fold (apply_tag env False) tags s) =
      snd (remove_calls (e_xray env) (api_addr env) (filter (\<lambda>t. t \<noteq> []) (map TrimSpace tags)) (xray_of s))" for tags
    by (induction tags arbitrary: s) (simp_all add: apply_tag_xray [OF assms] split: prod.splits)
  with assms show ?thesis by (simp add: applyKillSwitchInboundsLocked_def kill_tags_def)
qed

lemma apply_all_off:
  assumes "removes_inbounds (e_xray env) (api_addr env) live" and "api_addr env \<noteq> []"
  shows "switched_off env live (xray_of s) (xray_of (applyKillSwitchInboundsLocked env False s))"
proof -
  obtain es x' where c: "remove_calls (e_xray env) (api_addr env) (kill_tags (e_cfg env)) (xray_of s) = (es, x')" by force
  from calls_live [OF assms(1) c] calls_confirmed [OF assms(1) c] show ?thesis
    unfolding switched_off_def apply_all_xray [OF assms(2)] c by auto
qed

lemma flag_read: "SetFallbackEnabled b db = Inr db' \<Longrightarrow> GetFallbackEnabled db' = Inr b"
  by (cases b) (auto simp: SetFallbackEnabled_def GetFallbackEnabled_def settings.get_put)

lemma tick_off:
  assumes "removes_inbounds (e_xray env) (api_addr env) live"
    and "killswitch_loop_runs (e_cfg env) interval" and "GetFallbackEnabled (db_of s) = Inr False"
  shows "switched_off env live (xray_of s) (xray_of (killswitch_tick env interval s))"
  using assms by (simp add: killswitch_tick_def reconcileKillSwitchLocked_def killswitch_loop_runs_def apply_all_off)

text \<open>C37: The kill switch, as far as Xray answers. Under a configuration with an API address, at least one
  kill switch tag and a positive interval, and for an Xray whose RemoveInbound leaves an inbound absent
  when it reports success or that there is none (a call that fails with another error may have had no
  effect, and no call touches other inbounds): when disabling the fallback succeeds, the flag is off, and
  RemoveInbound has been called once for every kill switch tag, also after failed calls. Inbounds outside
  the kill switch stay; every tag whose reply confirms it is gone, so that only tags whose call failed can
  be left, and none is left when all calls are confirmed. Whatever happens to Xray afterwards (a restart
  that loads the inbounds from its files again), every later tick of the reconcile loop while the flag is
  off does the same and leaves the database alone, so the first tick whose calls are all confirmed leaves
  exactly the other inbounds; a further tick brings nothing back.\<close>

theorem kill_switch_enforced:
  assumes "removes_inbounds (e_xray env) (api_addr env) live"
    and "killswitch_loop_runs (e_cfg env) interval"
    and "disableFallback env s = (Reply code b, s1)"
  shows "GetFallbackEnabled (db_of s1) = Inr False \<and>
    switched_off env live (xray_of s) (xray_of s1) \<and>
    (\<forall>w. let s2 = killswitch_tick env interval (set_world w s1); s3 = killswitch_tick env interval s2
         in db_of s2 = db_of s1 \<and> switched_off env live (w_xray w) (xray_of s2) \<and>
            switched_off env live (xray_of s2) (xray_of s3) \<and> live (xray_of s3) \<subseteq> live (xray_of s2))"
proof -
  obtain db where db: "SetFallbackEnabled False (db_of s) = Inr db"
    "s1 = applyKillSwitchInboundsLocked env False (set_db db s)"
    using assms(3) by (auto simp: disableFallback_def setFallback_def split: sum.splits)
  have off: "GetFallbackEnabled (db_of s1) = Inr False" using flag_read [OF db(1)] db(2) by simp
  have addr: "api_addr env \<noteq> []" using assms(2) by (simp add: killswitch_loop_runs_def)
  have "switched_off env live (xray_of s) (xray_of s1)"
    using apply_all_off [OF assms(1) addr, of "set_db db s"] db(2) by simp
  moreover have "db_of s2 = db_of s1 \<and> switched_off env live (w_xray w) (xray_of s2) \<and>
      switched_off env live (xray_of s2) (xray_of s3) \<and> live (xray_of s3) \<subseteq> live (xray_of s2)"
    if s2: "s2 = killswitch_tick env interval (set_world w s1)" and s3: "s3 = killswitch_tick env interval s2" for w s2 s3
  proof -
    have db2: "db_of s2 = db_of s1" by (simp add: s2)
    have "switched_off env live (w_xray w) (xray_of s2)"
      using tick_off [OF assms(1,2), of "set_world w s1"] off by (simp add: s2)
    moreover have third: "switched_off env live (xray_of s2) (xray_of s3)"
      using tick_off [OF assms(1,2), of s2] off db2 by (simp add: s3)
    moreover have "live (xray_of s3) \<subseteq> live (xray_of s2)" using third by (auto simp: switched_off_def)
    ultimately show ?thesis using db2 by blast
  qed
  ultimately show ?thesis using off by (simp add: Let_def)
qed

text \<open>An Xray that keeps the list of its inbounds and refuses to remove one of them.\<close>

definition tag_xray :: "string list handler" where
  "tag_xray = \<lparr>h_AlterInbound = (\<lambda>_ _ _ x. (None, x)), h_LoadInbounds = (\<lambda>_. Inr []), h_AddInbound = (\<lambda>_ _ x. (None, x)),
     h_RemoveInbound = (\<lambda>_ tag x. if tag = ''stuck'' then (Some ''connection refused'', x)
       else if tag \<in> set x then (None, removeAll tag x) else (Some ''handler not found'', x)),
     h_GetInboundUsers = (\<lambda>_ _ _. Inr [])\<rparr>"

definition kill_env :: "string list env" where
  "kill_env = \<lparr>e_cfg = sample_api_config\<lparr>c_XrayAPIAddr := ''127.0.0.1:10085''\<rparr>, e_now = 0, e_xray = tag_xray, e_order = id,
     e_x25519 = (\<lambda>_. None)\<rparr>"

definition kill_server :: "string list server" where
  "kill_server = \<lparr>srv_service = \<lparr>sv_db = sample_api_db,
       sv_world = \<lparr>w_rand = (\<lambda>n. [n]), w_draws = 0, w_dir = DirError, w_writable = True, w_xray = [''vless-in'', ''fb-in'']\<rparr>,
       sv_status = sv_status sample_service\<rparr>,
     srv_denied = 0, srv_nodeStatus = [], srv_fetches = [], srv_jobs = []\<rparr>"

theorem kill_switch_enforced_witness:
  "\<exists>code b s1. disableFallback kill_env kill_server = (Reply code b, s1) \<and>
     set (w_xray (world_of (killswitch_tick kill_env 60 (set_world (world_of kill_server) s1)))) = {''vless-in''}"
proof -
  define res where "res = disableFallback kill_env kill_server"
  have "is_reply (fst res)" unfolding res_def by code_simp
  then obtain code b where rep: "disableFallback kill_env kill_server = (Reply code b, snd res)"
    using is_replyE by (metis prod.collapse res_def)
  have runs: "killswitch_loop_runs (e_cfg kill_env) 60" by code_simp
  have "\<not> isBenignAbsent ''connection refused''" by code_simp
  then have "removes_inbounds (e_xray kill_env) (api_addr kill_env) set"
    by (auto simp: removes_inbounds_def kill_env_def tag_xray_def confirmed_def split: if_splits)
  from kill_switch_enforced [OF this runs rep]
  have "switched_off kill_env set (xray_of kill_server) (xray_of (killswitch_tick kill_env 60 (set_world (world_of kill_server) (snd res))))"
    by (auto simp: Let_def)
  moreover have "kill_tags (e_cfg kill_env) = [''fb-in'']" by code_simp
  moreover have "list_all confirmed (fst (remove_calls (e_xray kill_env) (api_addr kill_env) [''fb-in''] (xray_of kill_server)))" by code_simp
  ultimately have "set (w_xray (world_of (killswitch_tick kill_env 60 (set_world (world_of kill_server) (snd res))))) =
      set (xray_of kill_server) - {''fb-in''}" by (auto simp: switched_off_def)
  moreover have "set (xray_of kill_server) - {''fb-in''} = {''vless-in''}" by (auto simp: kill_server_def world_of_def)
  ultimately show ?thesis using rep by auto
qed

end
