(* ===== verification/Route_Properties.thy ===== *)
theory Route_Properties
  imports Api_Samples Routes_Api Server_Invariant
begin

text \<open>
  Routing rules of a user: whatever a handler that edits them answers is what is stored and read
  back, every stored rule has an id, and which rules the check of new rules accepts.
\<close>

section \<open>Ids\<close>

text \<open>\<open>rand.Read\<close> fills the buffer with bytes.\<close>

definition rand_ok :: "'x world \<Rightarrow> bool" where
  "rand_ok w \<longleftrightarrow> (\<forall>n. 8 \<le> length (w_rand w n) \<and> (\<forall>b\<in>set (w_rand w n). b < 256))"

definition ids_set :: "user_route_rule list \<Rightarrow> bool" where
  "ids_set rules = list_all (\<lambda>r. TrimSpace (rr_ID r) \<noteq> []) rules"

lemma hex_no_space: "\<forall>b\<in>set bs. b < 256 \<Longrightarrow> c \<in> set (hex_string bs) \<Longrightarrow> \<not> is_space c"
proof -
  assume b: "\<forall>b\<in>set bs. b < 256" and c: "c \<in> set (hex_string bs)"
  then obtain x where x: "x < 256" "c = hex_chars ! (x div 16) \<or> c = hex_chars ! (x mod 16)"
    by (auto simp: hex_string_def hex_byte_def)
  have "hex_chars ! n \<in> set hex_chars" if "n < 16" for n using that by (intro nth_mem) (simp add: hex_chars_def)
  with x have "c \<in> set hex_chars" by auto
  moreover have "list_all (\<lambda>c. \<not> is_space c) hex_chars" by code_simp
  ultimately show ?thesis by (auto simp: list_all_iff)
qed

lemma generated_id: "rand_ok w \<Longrightarrow> TrimSpace (generateRouteID (w_rand w n)) \<noteq> []"
proof -
  assume w: "rand_ok w"
  let ?bs = "take 8 (w_rand w n)"
  have "\<forall>b\<in>set ?bs. b < 256" "length ?bs = 8" using w by (auto simp: rand_ok_def dest: in_set_takeD)
  then have "TrimSpace (hex_string ?bs) = hex_string ?bs" "hex_string ?bs \<noteq> []"
    using hex_no_space length_hex_string [of ?bs] by (auto intro!: TrimSpace_id)
  then show ?thesis by (simp add: generateRouteID_def)
qed

lemma draw_rand: "draw w = (rnd, w') \<Longrightarrow> w_rand w' = w_rand w \<and> rnd = w_rand w (w_draws w)"
  by (auto simp: draw_def)

lemma assign_ids:
  "assignRouteIDs rules w = ((rules', c), w') \<Longrightarrow> rand_ok w \<Longrightarrow>
     rand_ok w' \<and> ids_set rules' \<and> length rules' = length rules \<and>
     map (\<lambda>r. r\<lparr>rr_ID := []\<rparr>) rules' = map (\<lambda>r. r\<lparr>rr_ID := []\<rparr>) rules"
proof (induction rules arbitrary: rules' c w w')
  case Nil then show ?case by (simp add: ids_set_def)
next
  case (Cons r rs)
  show ?case
  proof (cases "TrimSpace (rr_ID r) = []")
    case True
    obtain rnd w1 where d: "draw w = (rnd, w1)" by (cases "draw w")
    then have w1: "rand_ok w1" "rnd = w_rand w (w_draws w)" using Cons.prems(2) draw_rand [OF d] by (auto simp: rand_ok_def)
    obtain rs' c' w2 where as: "assignRouteIDs rs w1 = ((rs', c'), w2)" by (metis prod.exhaust)
    from Cons.IH [OF as w1(1)] Cons.prems True d as w1(2) generated_id [OF Cons.prems(2)] show ?thesis
      by (auto simp: ids_set_def Let_def)
  next
    case False
    obtain rs' c' w2 where as: "assignRouteIDs rs w = ((rs', c'), w2)" by (metis prod.exhaust)
    from Cons.IH [OF as Cons.prems(2)] Cons.prems False as show ?thesis
      by (auto simp: ids_set_def Let_def)
  qed
qed

lemma assign_none: "ids_set rules \<Longrightarrow> assignRouteIDs rules w = ((rules, False), w)"
  by (induction rules) (auto simp: ids_set_def)

section \<open>Stored rules\<close>

text \<open>The user that a request names has these rules stored, all with ids.\<close>

definition has_rules :: "request \<Rightarrow> int \<Rightarrow> user_route_rule list \<Rightarrow> 'x server \<Rightarrow> bool" where
  "has_rules r uid rules s \<longleftrightarrow> db_inv (db_of s) \<and> ids_set rules \<and>
     (\<exists>user. getByID r (db_of s) = Inr user \<and> u_ID user = uid \<and> parseUserRoutes (u_ClientRoutes user) = Some rules)"

lemma find_update_where:
  "(\<And>x. P (f x) = P x) \<Longrightarrow> find P (update_where Q f xs) = map_option (\<lambda>x. if Q x then f x else x) (find P xs)"
  by (induction xs) auto

lemma find_user_routes:
  assumes "\<And>row v t. P (row\<lparr>row_client_routes := v, row_updated_at := t\<rparr>) = P row"
    and "find_user P db = Inr (Some user)" and "UpdateUserClientRoutes now (u_ID user) txt db = Inr db'"
  shows "\<exists>user'. find_user P db' = Inr (Some user') \<and> u_ID user' = u_ID user \<and> u_ClientRoutes user' = txt"
proof -
  obtain row where row: "find P (users db) = Some row" "user = scanUser row" "conn_ok db"
    using assms(2) by (auto simp: find_user_def)
  have "find P (users db') = Some (row\<lparr>row_client_routes := txt, row_updated_at := now\<rparr>)"
    using assms(1,3) row by (auto simp: UpdateUserClientRoutes_def update_user_def find_update_where scanUser_def)
  moreover have "conn_ok db'" using assms(3) by (auto simp: UpdateUserClientRoutes_def update_user_def)
  ultimately show ?thesis using row(2) by (simp add: find_user_def with_conn_def scanUser_def)
qed

lemma getByID_routes:
  assumes "getByID r db = Inr user" and "UpdateUserClientRoutes now (u_ID user) txt db = Inr db'"
  shows "\<exists>user'. getByID r db' = Inr user' \<and> u_ID user' = u_ID user \<and> u_ClientRoutes user' = txt"
proof (cases "ParseInt (TrimSpace (var r ''id''))")
  case None
  with assms(1) have "TrimSpace (var r ''id'') \<noteq> []" "GetUserByUsername (TrimSpace (var r ''id'')) db = Inr (Some user)"
    by (auto simp: getByID_def Let_def split: if_splits sum.splits option.splits)
  with find_user_routes [OF _ _ assms(2), of "\<lambda>row. row_username row = TrimSpace (var r ''id'')"] None show ?thesis
    by (auto simp: getByID_def Let_def GetUserByUsername_def)
next
  case (Some i)
  with assms(1) have "TrimSpace (var r ''id'') \<noteq> []" "GetUserByID i db = Inr (Some user)"
    by (auto simp: getByID_def Let_def split: if_splits sum.splits option.splits)
  with find_user_routes [OF _ _ assms(2), of "\<lambda>row. Database.row_id row = i"] Some show ?thesis
    by (auto simp: getByID_def Let_def GetUserByID_def)
qed

lemma parse_routes_text: "parseUserRoutes (routes_text (map_option (\<lambda>_. rules) p)) = Some (if p = None then [] else rules)"
proof (cases p)
  case None
  then show ?thesis by (simp add: parseUserRoutes_def routes_text_def blank_text_def dec_route_rules_def)
next
  case Some
  then show ?thesis by (simp add: parseUserRoutes_def routes_text_def blank_text_def dec_enc_route_rules)
qed

lemma saved_rules:
  assumes "saveUserRoutes env (u_ID user) (map_option (\<lambda>_. rules) p) s = (None, s')" and "db_inv (db_of s)"
    and "getByID r (db_of s) = Inr user" and "ids_set rules" and "p = None \<Longrightarrow> rules = []"
  shows "has_rules r (u_ID user) rules s' \<and> world_of s' = world_of s"
proof -
  obtain db where db: "UpdateUserClientRoutes (e_now env) (u_ID user) (routes_text (map_option (\<lambda>_. rules) p)) (db_of s) = Inr db"
    "s' = set_db db s"
    using assms(1) by (auto simp: saveUserRoutes_def split: sum.splits)
  have "db_inv db" using user_field_steps_inv(4) [OF assms(2) db(1)] .
  with getByID_routes [OF assms(3) db(1)] db(2) assms(4,5) parse_routes_text [of rules p] show ?thesis
    by (auto simp: has_rules_def)
qed

lemma get_has_rules:
  assumes "has_rules r uid rules s"
  shows "getUserRoutes env r s = (jsonOK \<lparr>rt_user = Some uid, rt_index = None, rt_rule = None, rt_rules = rules\<rparr>, s)"
proof -
  obtain user where "getByID r (db_of s) = Inr user" "u_ID user = uid" "parseUserRoutes (u_ClientRoutes user) = Some rules"
    "ids_set rules" using assms by (auto simp: has_rules_def)
  then show ?thesis
    by (simp add: getUserRoutes_def with_user_def with_stored_rules_def on_world_def assign_none set_world_def world_of_def)
qed

section \<open>The handlers\<close>

definition saving :: "request \<Rightarrow> int \<Rightarrow> (route_reply reply \<times> 'x server) \<Rightarrow> bool" where
  "saving r uid res \<longleftrightarrow> (\<forall>code rep. fst res = Reply code rep \<longrightarrow> has_rules r uid (rt_rules rep) (snd res))"

lemma save_and_reply_saving:
  assumes "db_inv (db_of s)" and "getByID r (db_of s) = Inr user'" and "u_ID user' = u_ID user" and "ids_set rules"
  shows "saving r (u_ID user) (save_and_reply env user i rule rules s)"
  using saved_rules [of env user' rules "Some ()" s _ r] assms
  by (auto simp: saving_def save_and_reply_def split: prod.splits option.splits)

lemma with_stored_rules_saving:
  assumes "db_inv (db_of s)" and "getByID r (db_of s) = Inr user" and "rand_ok (world_of s)"
    and k: "\<And>rules s user'. db_inv (db_of s) \<Longrightarrow> getByID r (db_of s) = Inr user' \<Longrightarrow> u_ID user' = u_ID user \<Longrightarrow> ids_set rules \<Longrightarrow>
       rand_ok (world_of s) \<Longrightarrow> saving r (u_ID user) (k rules s)"
  shows "saving r (u_ID user) (with_stored_rules env user k s)"
proof (cases "parseUserRoutes (u_ClientRoutes user)")
  case None
  then show ?thesis by (simp add: with_stored_rules_def saving_def)
next
  case (Some rules0)
  obtain rules c w where as: "assignRouteIDs rules0 (world_of s) = ((rules, c), w)" by (metis prod.exhaust)
  note ok = assign_ids [OF as assms(3)]
  let ?s = "set_world w s"
  show ?thesis
  proof (cases c)
    case False
    with Some as k [of ?s user rules] assms(1,2) ok show ?thesis
      by (simp add: with_stored_rules_def on_world_def)
  next
    case True
    obtain e s1 where sv: "saveUserRoutes env (u_ID user) (Some rules) ?s = (e, s1)" by (metis prod.exhaust)
    show ?thesis
    proof (cases e)
      case None
      with saved_rules [of env user rules "Some ()" ?s s1 r] sv assms(1,2) ok
      have "has_rules r (u_ID user) rules s1" "world_of s1 = w" by simp_all
      then obtain user' where "getByID r (db_of s1) = Inr user'" "u_ID user' = u_ID user" "db_inv (db_of s1)"
        by (auto simp: has_rules_def)
      with None True Some as sv k [of s1 user' rules] ok \<open>world_of s1 = w\<close> show ?thesis
        by (simp add: with_stored_rules_def on_world_def)
    qed (use True Some as sv in \<open>simp add: with_stored_rules_def on_world_def saving_def\<close>)
  qed
qed

lemma with_user_saving:
  assumes "getByID r (db_of s) = Inr user" and "saving r (u_ID user) (k user s)"
  shows "saving r (u_ID user) (with_user r k s)"
  using assms by (simp add: with_user_def)

lemma ensured:
  assumes "ensure_id rule s = (rule', s')" and "rand_ok (world_of s)"
  shows "TrimSpace (rr_ID rule') \<noteq> [] \<and> db_of s' = db_of s \<and> rand_ok (world_of s')"
  using assms generated_id [OF assms(2)]
  by (auto simp: ensure_id_def draw_def rand_ok_def split: if_splits prod.splits)

lemma ids_set_simps [simp]:
  "ids_set (xs @ ys) \<longleftrightarrow> ids_set xs \<and> ids_set ys" "ids_set (x # xs) \<longleftrightarrow> TrimSpace (rr_ID x) \<noteq> [] \<and> ids_set xs" "ids_set []"
  by (simp_all add: ids_set_def)

lemma ids_set_update: "ids_set xs \<Longrightarrow> TrimSpace (rr_ID x) \<noteq> [] \<Longrightarrow> ids_set (xs[i := x])"
  by (auto simp: ids_set_def list_all_iff dest: set_update_subset_insert [THEN subsetD])

lemma ids_set_remove: "ids_set xs \<Longrightarrow> ids_set (remove_at i xs)"
  by (auto simp: ids_set_def list_all_iff remove_at_def dest: in_set_takeD in_set_dropD)

lemma JsonError_saving [simp]: "saving r uid (JsonError c m, s)"
  by (simp add: saving_def)

lemma add_saving:
  assumes "db_inv (db_of s)" and "getByID r (db_of s) = Inr user" and "rand_ok (world_of s)"
    and "ensure_id rule s = (rule', s')"
  shows "saving r (u_ID user) (with_stored_rules env user (\<lambda>rules. save_and_reply env user (i rules) (j rules) (rules @ [rule'])) s')"
  using ensured [OF assms(4,3)] assms(1,2) by (intro with_stored_rules_saving) (auto intro!: save_and_reply_saving)

lemma replace_saving:
  assumes "db_inv (db_of s)" and "getByID r (db_of s) = Inr user'" and "u_ID user' = u_ID user" and "ids_set rules"
    and "rand_ok (world_of s)" and "ensure_id rule s = (rule', s')"
  shows "saving r (u_ID user) (save_and_reply env user (i rule') (j rule') (rules[n := rule']) s')"
  using ensured [OF assms(6,5)] assms(1-4) by (auto intro!: save_and_reply_saving ids_set_update)

lemma edits_saving:
  assumes "db_inv (db_of s)" and "getByID r (db_of s) = Inr user" and "rand_ok (world_of s)"
  shows "saving r (u_ID user) (addUserRoute env r s)"
    "saving r (u_ID user) (updateUserRoute env r s)" "saving r (u_ID user) (updateUserRouteByID env r s)"
    "saving r (u_ID user) (deleteUserRoute env r s)" "saving r (u_ID user) (deleteUserRouteByID env r s)"
proof -
  note stored = with_stored_rules_saving [OF assms]
  show "saving r (u_ID user) (addUserRoute env r s)"
    unfolding addUserRoute_def
    by (rule with_user_saving [OF assms(2)])
      (auto split: sum.splits option.splits prod.splits simp: Let_def intro: add_saving [OF assms])
  show "saving r (u_ID user) (deleteUserRoute env r s)"
    unfolding deleteUserRoute_def
    by (rule with_user_saving [OF assms(2)])
      (auto split: option.splits intro!: stored save_and_reply_saving ids_set_remove)
  show "saving r (u_ID user) (deleteUserRouteByID env r s)"
    unfolding deleteUserRouteByID_def
    by (rule with_user_saving [OF assms(2)])
      (auto split: option.splits simp: Let_def intro!: stored save_and_reply_saving ids_set_remove)
  show "saving r (u_ID user) (updateUserRouteByID env r s)"
    unfolding updateUserRouteByID_def
    by (rule with_user_saving [OF assms(2)])
      (auto split: option.splits sum.splits simp: Let_def intro!: stored save_and_reply_saving ids_set_update)
  show "saving r (u_ID user) (updateUserRoute env r s)"
    unfolding updateUserRoute_def
    by (rule with_user_saving [OF assms(2)])
      (auto split: option.splits sum.splits prod.splits simp: Let_def intro!: stored intro: replace_saving)
qed

lemma on_worldE: "on_world f s = (x, s') \<Longrightarrow> \<exists>w. f (world_of s) = (x, w) \<and> s' = set_world w s"
  by (cases "f (world_of s)") (simp add: on_world_def)

lemma set_saving:
  assumes "db_inv (db_of s)" and "getByID r (db_of s) = Inr user" and "rand_ok (world_of s)"
  shows "saving r (u_ID user) (setUserRoutes env r s)"
proof -
  have *: "saving r (u_ID user) (Reply code \<lparr>rt_user = u, rt_index = i, rt_rule = j, rt_rules = rules\<rparr>, s2)"
    if "on_world (assignRouteIDs (case payload of None \<Rightarrow> [] | Some rs \<Rightarrow> rs)) s = ((rules, c), s1)"
      "saveUserRoutes env (u_ID user) (map_option (\<lambda>_. rules) payload) s1 = (None, s2)"
    for payload rules c s1 s2 code u i j
  proof -
    note assigned = that(1)
    obtain w where as: "assignRouteIDs (case payload of None \<Rightarrow> [] | Some rs \<Rightarrow> rs) (world_of s) = ((rules, c), w)"
      "s1 = set_world w s" using on_worldE [OF assigned] by blast
    from assign_ids [OF as(1) assms(3)] have "ids_set rules" "payload = None \<Longrightarrow> rules = []" by auto
    with saved_rules [OF that(2), of r] assms as(2) show ?thesis by (simp add: saving_def)
  qed
  show ?thesis
    unfolding setUserRoutes_def
    by (rule with_user_saving [OF assms(2)])
      (auto split: option.splits prod.splits http_body.splits simp: Let_def intro: *)
qed

section \<open>What is answered is what is stored\<close>

text \<open>The six edits, and what each does to the list of rules: the ids are set aside, since a rule
  without one gets a random one.\<close>

datatype route_edit = SetAll | Append | ReplaceAt | ReplaceID | DeleteAt | DeleteID

primrec edit_handler :: "route_edit \<Rightarrow> 'x env \<Rightarrow> request \<Rightarrow> 'x server \<Rightarrow> route_reply reply \<times> 'x server" where
  "edit_handler SetAll = setUserRoutes"
| "edit_handler Append = addUserRoute"
| "edit_handler ReplaceAt = updateUserRoute"
| "edit_handler ReplaceID = updateUserRouteByID"
| "edit_handler DeleteAt = deleteUserRoute"
| "edit_handler DeleteID = deleteUserRouteByID"

definition mod_ids :: "user_route_rule list \<Rightarrow> user_route_rule list" where
  "mod_ids = map (\<lambda>r. r\<lparr>rr_ID := []\<rparr>)"

primrec edited :: "route_edit \<Rightarrow> request \<Rightarrow> user_route_rule list \<Rightarrow> user_route_rule list \<Rightarrow> bool" where
  "edited SetAll r old new = (\<exists>p. rules_of_body r = Some p \<and> mod_ids new = mod_ids (case p of None \<Rightarrow> [] | Some rs \<Rightarrow> rs))"
| "edited Append r old new = (\<exists>rule rule'. decodeUserRouteFromBody r = Inr rule \<and> mod_ids [rule'] = mod_ids [rule] \<and>
     new = old @ [rule'])"
| "edited ReplaceAt r old new = (\<exists>rule rule' i. decodeUserRouteFromBody r = Inr rule \<and> mod_ids [rule'] = mod_ids [rule] \<and>
     ParseInt (var r ''index'') = Some (int i) \<and> i < length old \<and> new = old[i := rule'])"
| "edited ReplaceID r old new = (\<exists>rule rule' i. decodeUserRouteFromBody r = Inr rule \<and> mod_ids [rule'] = mod_ids [rule] \<and>
     findRouteIndexByID old (TrimSpace (var r ''routeId'')) = Some i \<and>
     TrimSpace (rr_ID rule') = TrimSpace (var r ''routeId'') \<and> new = old[i := rule'])"
| "edited DeleteAt r old new = (\<exists>i. ParseInt (var r ''index'') = Some (int i) \<and> i < length old \<and> new = remove_at i old)"
| "edited DeleteID r old new = (\<exists>i. findRouteIndexByID old (TrimSpace (var r ''routeId'')) = Some i \<and> new = remove_at i old)"

lemma edit_saving:
  assumes "db_inv (db_of s)" and "getByID r (db_of s) = Inr user" and "rand_ok (world_of s)"
  shows "saving r (u_ID user) (edit_handler e env r s)"
  using edits_saving [OF assms] set_saving [OF assms] by (cases e) auto

text \<open>Stored rules that all have ids are handed on as they are.\<close>

lemma has_rules_user:
  assumes "has_rules r uid rules s"
  shows "\<exists>user. u_ID user = uid \<and> with_user r k s = k user s \<and> getByID r (db_of s) = Inr user \<and>
     parseUserRoutes (u_ClientRoutes user) = Some rules"
  using assms by (auto simp: has_rules_def with_user_def)

lemma stored_as_is:
  assumes "ids_set rules" and "parseUserRoutes (u_ClientRoutes user) = Some rules"
  shows "with_stored_rules env user k s = k rules s"
  using assms by (simp add: with_stored_rules_def on_world_def assign_none set_world_def world_of_def)

lemma ensured_mod: "ensure_id rule s = (rule', s') \<Longrightarrow> rule'\<lparr>rr_ID := []\<rparr> = rule\<lparr>rr_ID := []\<rparr>"
  by (auto simp: ensure_id_def split: if_splits prod.splits)

lemma ensured_parse: "ensure_id rule s = (rule', s') \<Longrightarrow> db_of s' = db_of s"
  by (auto simp: ensure_id_def split: if_splits prod.splits)

lemma save_and_reply_rules: "save_and_reply env user i j rules s = (Reply code rep, s') \<Longrightarrow> rt_rules rep = rules"
  by (auto simp: save_and_reply_def split: prod.splits option.splits)

lemma assign_mod: "assignRouteIDs rules w = ((rules', c), w') \<Longrightarrow> map (\<lambda>r. r\<lparr>rr_ID := []\<rparr>) rules' = map (\<lambda>r. r\<lparr>rr_ID := []\<rparr>) rules"
  by (induction rules arbitrary: rules' c w w') (auto simp: Let_def split: prod.splits if_splits)

lemma find_bound: "findRouteIndexByID rules i = Some n \<Longrightarrow> n < length rules"
  by (induction rules arbitrary: n) (auto split: if_splits)

text \<open>Each handler on a user whose stored rules all have ids.\<close>

lemma handler_edits:
  assumes "has_rules r uid old s" and "edit_handler e env r s = (Reply code rep, s')"
  shows "edited e r old (rt_rules rep)"
proof -
  obtain user where user: "getByID r (db_of s) = Inr user" "u_ID user = uid" "parseUserRoutes (u_ClientRoutes user) = Some old"
    and ids: "ids_set old" using assms(1) by (auto simp: has_rules_def)
  note stored = stored_as_is [OF ids user(3)]
  note run = with_user_def user(1) stored Let_def
  show ?thesis
  proof (cases e)
    case SetAll
    obtain p s1 rules c where "rules_of_body r = Some p"
      "on_world (assignRouteIDs (case p of None \<Rightarrow> [] | Some rs \<Rightarrow> rs)) s = ((rules, c), s1)" "rt_rules rep = rules"
      using assms(2) SetAll by (auto simp: setUserRoutes_def run split: http_body.splits option.splits prod.splits)
    then show ?thesis using SetAll on_worldE assign_mod by (fastforce simp: mod_ids_def)
  next
    case Append
    with assms(2) show ?thesis
      by (auto simp: addUserRoute_def run mod_ids_def split: sum.splits option.splits prod.splits
            dest!: ensured_mod save_and_reply_rules)
  next
    case DeleteAt
    with assms(2) show ?thesis
      by (auto simp: deleteUserRoute_def run split: option.splits if_splits dest!: save_and_reply_rules
            intro!: exI [of _ "nat _"])
  next
    case DeleteID
    with assms(2) show ?thesis
      by (auto simp: deleteUserRouteByID_def run split: option.splits if_splits dest!: save_and_reply_rules)
  next
    case ReplaceAt
    then obtain rule x where x: "decodeUserRouteFromBody r = Inr rule" "ParseInt (var r ''index'') = Some x" "0 \<le> x" "x < int (length old)"
      using assms(2) by (auto simp: updateUserRoute_def run not_less not_le split: option.splits sum.splits prod.splits if_splits)
    then obtain i where "x = int i" by (metis zero_le_imp_eq_int)
    with x ReplaceAt assms(2) show ?thesis
      by (auto simp: updateUserRoute_def run mod_ids_def split: option.splits sum.splits prod.splits if_splits
          dest!: save_and_reply_rules ensured_mod)
  next
    case ReplaceID
    let ?id = "TrimSpace (var r ''routeId'')"
    from ReplaceID assms(2) obtain rule i where "decodeUserRouteFromBody r = Inr rule" "findRouteIndexByID old ?id = Some i"
      and new: "TrimSpace (rr_ID (if TrimSpace (rr_ID rule) = [] then rule\<lparr>rr_ID := ?id\<rparr> else rule)) = ?id"
        "rt_rules rep = old[i := if TrimSpace (rr_ID rule) = [] then rule\<lparr>rr_ID := ?id\<rparr> else rule]"
      by (auto simp: updateUserRouteByID_def run split: option.splits sum.splits if_splits dest!: save_and_reply_rules)
    with ReplaceID show ?thesis
      by (auto simp: mod_ids_def intro!: exI [of _ "if TrimSpace (rr_ID rule) = [] then rule\<lparr>rr_ID := ?id\<rparr> else rule"])
  qed
qed

lemma assign_unchanged: "assignRouteIDs rules w = ((rules', False), w') \<Longrightarrow> rules' = rules \<and> w' = w"
  by (induction rules arbitrary: rules' w w') (auto simp: Let_def split: prod.splits if_splits)

lemma get_stores:
  assumes "db_inv (db_of s0)" and "rand_ok (world_of s0)" and "getUserRoutes env r s0 = (Reply code old, s)"
  shows "\<exists>uid. has_rules r uid (rt_rules old) s \<and> rt_user old = Some uid \<and> rand_ok (world_of s)"
proof -
  obtain user rules0 where u: "getByID r (db_of s0) = Inr user" "parseUserRoutes (u_ClientRoutes user) = Some rules0"
    using assms(3) by (auto simp: getUserRoutes_def with_user_def with_stored_rules_def split: sum.splits option.splits)
  obtain rules c w where as: "assignRouteIDs rules0 (world_of s0) = ((rules, c), w)" by (metis prod.exhaust)
  note ids = assign_ids [OF as assms(2)]
  show ?thesis
  proof (cases c)
    case False
    then have "rules = rules0" "w = world_of s0" using assign_unchanged [of rules0 _ rules w] as by simp_all
    with False assms as u ids show ?thesis
      by (auto simp: getUserRoutes_def with_user_def with_stored_rules_def on_world_def has_rules_def)
  next
    case True
    then have "saveUserRoutes env (u_ID user) (Some rules) (set_world w s0) = (None, s)" "rt_rules old = rules"
      "rt_user old = Some (u_ID user)"
      using assms(3) as u by (auto simp: getUserRoutes_def with_user_def with_stored_rules_def on_world_def
        split: prod.splits option.splits)
    with saved_rules [of env user rules "Some ()" "set_world w s0" s r] assms(1) u ids show ?thesis by auto
  qed
qed

text \<open>C38: Editing the routing rules of a user. When the rules were read and a handler that edits
  them (the six of \<open>PUT\<close>, \<open>POST\<close> and \<open>DELETE\<close>) then answers with a success, the
  rules it answers are the ones read, edited as the request asks (up to the ids that are drawn for
  rules without one), they are what the next reading returns, without that reading changing
  anything, and each has an id.\<close>

theorem route_edits_read_back:
  assumes "db_reachable (db_of s0)" and "rand_ok (world_of s0)"
    and "getUserRoutes env r s0 = (Reply c old, s)"
    and "edit_handler e env r s = (Reply code rep, s')"
  shows "edited e r (rt_rules old) (rt_rules rep) \<and> ids_set (rt_rules rep) \<and>
    getUserRoutes env' r s' =
      (jsonOK \<lparr>rt_user = rt_user old, rt_index = None, rt_rule = None, rt_rules = rt_rules rep\<rparr>, s')"
proof -
  obtain uid where old: "has_rules r uid (rt_rules old) s" "rt_user old = Some uid" "rand_ok (world_of s)"
    using get_stores assms(1-3) reachable_inv by blast
  then obtain user where "getByID r (db_of s) = Inr user" "u_ID user = uid" "db_inv (db_of s)" by (auto simp: has_rules_def)
  with edit_saving [of s r user e env] old(3) assms(4) have new: "has_rules r uid (rt_rules rep) s'"
    by (auto simp: saving_def)
  then show ?thesis using old(2) handler_edits [OF old(1) assms(4)] get_has_rules [OF new] new by (simp add: has_rules_def)
qed

definition route_server :: "xray_log server" where
  "route_server = set_world ((world_of sample_server)\<lparr>w_rand := (\<lambda>n. replicate 32 (n mod 256))\<rparr>) sample_server"

definition route_request :: request where
  "route_request = sample_admin_request [(''id'', ''1'')]
     (JObj [(''outboundTag'', JStr ''direct''), (''domain'', JArr [JStr ''geosite:ru''])])"

theorem route_edits_read_back_witness:
  "\<exists>old s code rep s'. getUserRoutes sample_env route_request route_server = (Reply 200 old, s) \<and>
     edit_handler Append sample_env route_request s = (Reply code rep, s') \<and>
     edited Append route_request (rt_rules old) (rt_rules rep) \<and> ids_set (rt_rules rep) \<and>
     getUserRoutes sample_env route_request s' =
       (jsonOK \<lparr>rt_user = rt_user old, rt_index = None, rt_rule = None, rt_rules = rt_rules rep\<rparr>, s')"
proof -
  define p where "p = getUserRoutes sample_env route_request route_server"
  define q where "q = edit_handler Append sample_env route_request (snd p)"
  have "is_reply (fst p)" "is_reply (fst q)" unfolding p_def q_def by code_simp+
  then obtain c old code rep where *: "p = (Reply c old, snd p)" "q = (Reply code rep, snd q)"
    using is_replyE by (metis prod.collapse)
  have db: "db_reachable (db_of route_server)" by (simp add: route_server_def sample_api_reachable)
  have rnd: "rand_ok (world_of route_server)" by (simp add: rand_ok_def route_server_def)
  have "c = 200" using *(1) by (auto simp: p_def getUserRoutes_def with_user_def with_stored_rules_def
    split: sum.splits option.splits prod.splits if_splits)
  with route_edits_read_back [OF db rnd *(1) [unfolded p_def] *(2) [unfolded q_def p_def], of sample_env] * show ?thesis
    unfolding p_def q_def by metis
qed

text \<open>\<open>addUserRoute\<close> accepts a rule whose id the user has already; \<open>setUserRoutes\<close> refuses such a list.\<close>

definition duplicate_request :: request where
  "duplicate_request = sample_admin_request [(''id'', ''1'')]
     (JObj [(''id'', JStr ''r1''), (''outboundTag'', JStr ''direct''), (''domain'', JArr [JStr ''geosite:ru''])])"

lemma duplicate_route_id_accepted:
  "let s1 = snd (addUserRoute sample_env duplicate_request route_server);
       reply = fst (addUserRoute sample_env duplicate_request s1)
   in is_reply reply \<and> (case reply of Reply _ rep \<Rightarrow> validateUserRoutes (rt_rules rep) \<noteq> None | _ \<Rightarrow> False)"
  by code_simp

end
