(* ===== verification/User_Properties.thy ===== *)
theory User_Properties
  imports Server_Invariant Placement "HOL-Library.Sublist"
begin

text \<open>
  Creating a user through the API: what the handler answers in which case, that a refused request
  changes nothing, and that a created user is there afterwards.
\<close>

section \<open>Operations that only add users\<close>

text \<open>Nothing that runs while a user is enrolled, a synchronisation included, changes or removes the
  row of a user or touches the table of nodes.\<close>

definition grown :: "db \<Rightarrow> db \<Rightarrow> bool" where
  "grown db0 db \<longleftrightarrow> conn_ok db = conn_ok db0 \<and> prefix (users db0) (users db) \<and> nodes db = nodes db0"

lemma grown_refl [simp]: "grown db db"
  by (simp add: grown_def)

interpretation growing: sync_stable "grown db0" "\<lambda>_. True" for db0
proof
  fix db db' tag now n e t f user u i cc proto port cf raw ib
  assume g: "grown db0 db"
  show "UpsertUserClient u i cc db = Inr db' \<Longrightarrow> grown db0 db'"
    using g by (auto simp: grown_def UpsertUserClient_def split: if_splits)
  show "CreateUser now n e t f db = Inr (db', user) \<Longrightarrow> grown db0 db'"
    using g by (auto simp: grown_def CreateUser_def Let_def split: if_splits)
  show "UpsertInbound now tag proto port cf raw db = Inr (db', ib) \<Longrightarrow> grown db0 db'"
    using g by (auto simp: grown_def UpsertInbound_def Let_def split: if_splits option.splits)
  show "DeleteInboundByTag tag db = Inr db' \<Longrightarrow> grown db0 db'"
    using g by (auto simp: grown_def DeleteInboundByTag_def with_conn_def delete_inbounds_def split: if_splits)
qed

abbreviation grown_to :: "db \<Rightarrow> 'x server \<Rightarrow> bool" where
  "grown_to db0 s \<equiv> grown db0 (db_of s)"

lemma sync_now_grown: "grown_to db0 s \<Longrightarrow> grown_to db0 (sync_now env s)"
  by (simp add: sync_now_def db_of_def growing.Sync_stable [simplified])

lemma upsert_client_grown: "grown db0 db \<Longrightarrow> grown db0 (upsert_client u i cc db)"
  by (auto simp: upsert_client_def split: sum.splits intro: growing.client [simplified])

lemma store_credential_grown:
  assumes "grown_to db0 s"
  shows "grown_to db0 (store_credential env u tag p cc s)"
proof -
  have s: "grown_to db0 (sync_now env s)" using assms by (rule sync_now_grown)
  show ?thesis
    unfolding store_credential_def Let_def using assms s
    by (auto split: option.splits sum.splits prod.splits intro!: upsert_client_grown intro: growing.inbound)
qed

lemma enrol_grown: "grown_to db0 s \<Longrightarrow> grown_to db0 (enrol env user ibs spec s)"
  by (auto simp: enrol_def addUserToInbound_def Let_def split: prod.splits sum.splits dest!: on_world_dbD
      intro!: store_credential_grown)

lemma fold_enrol_grown: "grown_to db0 s \<Longrightarrow> grown_to db0 (fold (enrol env user ibs) specs s)"
  by (rule growing.fold_stable [of _ _ db_of]) (rule enrol_grown)

lemma AssignUserToNodes_users: "users (fst (AssignUserToNodes u ids db)) = users db \<and> conn_ok (fst (AssignUserToNodes u ids db)) = conn_ok db \<and>
    nodes (fst (AssignUserToNodes u ids db)) = nodes db"
  by (induction ids arbitrary: db) (auto simp: insert_placement_def split: sum.splits if_splits)

lemma SetUserNodes_grown:
  assumes "grown db0 db" and "SetUserNodes u ids db = Inr db'"
  shows "grown db0 db'"
proof -
  let ?db = "db\<lparr>user_nodes := delete_where (\<lambda>un. fst un = u) (user_nodes db)\<rparr>"
  have "db' = fst (AssignUserToNodes u ids ?db)"
    using assms(2) by (auto simp: SetUserNodes_def split: if_splits prod.splits option.splits)
  with AssignUserToNodes_users [of u ids ?db] assms(1) show ?thesis by (simp add: grown_def)
qed

lemma place_grown: "grown db0 db \<Longrightarrow> grown db0 (snd (placeUserOnNodes cfg u names db))"
  by (auto simp: placeUserOnNodes_def split: sum.splits prod.splits intro: SetUserNodes_grown)

section \<open>Finding the new user\<close>

lemma find_prefix: "find P xs = Some x \<Longrightarrow> prefix xs ys \<Longrightarrow> find P ys = Some x"
  by (auto simp: prefix_def find_append)

lemma find_None_append: "\<not> list_ex P xs \<Longrightarrow> P y \<Longrightarrow> find P (xs @ [y]) = Some y"
  by (induction xs) auto

lemma created_found:
  assumes "CreateUser now n e t f db = Inr (db1, user)" and "grown db1 db2"
  shows "\<exists>u. GetUserByToken (u_Token user) db2 = Inr (Some u) \<and> u_ID u = u_ID user \<and> u_Username u = u_Username user \<and>
    u_FallbackToken u = u_FallbackToken user \<and> u_Enabled u"
proof -
  obtain row where "users db1 = users db @ [row]" "row_token row = u_Token user" "Database.row_id row = u_ID user"
    "row_username row = u_Username user" "scanUser row = user\<lparr>u_ClientRoutes := Doc (JArr [])\<rparr>" "u_Enabled user"
    and new: "\<not> list_ex (\<lambda>r. row_token r = u_Token user) (users db)" and conn: "conn_ok db1"
    using assms(1) by (auto simp: CreateUser_def Let_def scanUser_def split: if_splits)
  then have "find (\<lambda>r. row_token r = u_Token user) (users db2) = Some row"
    using find_prefix [of _ "users db1" row "users db2"] find_None_append [OF new, of row] assms(2) by (simp add: grown_def)
  then show ?thesis
    using conn assms(2) \<open>scanUser row = _\<close> \<open>u_Enabled user\<close>
    by (auto simp: GetUserByToken_def find_user_def with_conn_def grown_def)
qed

section \<open>Node names\<close>

text \<open>The names of a request that no node has, and the nodes that a request asks for: those it names, or
  all enabled nodes when it names none.\<close>

definition unknown_nodes :: "db \<Rightarrow> string list \<Rightarrow> string list" where
  "unknown_nodes db names = filter (\<lambda>n. n \<noteq> [] \<and> n \<notin> n_Name ` set (nodes db)) (map TrimSpace names)"

definition named_nodes :: "db \<Rightarrow> string list \<Rightarrow> int set" where
  "named_nodes db names = {n_ID n |n name. name \<in> set names \<and> TrimSpace name \<noteq> [] \<and> GetNodeByName (TrimSpace name) db = Inr (Some n)}"

definition requested_nodes :: "db \<Rightarrow> string list \<Rightarrow> int set" where
  "requested_nodes db names = (if names = [] then n_ID ` {n \<in> set (nodes db). n_Enabled n} else named_nodes db names)"

lemma named_nodes_Cons:
  "named_nodes db (name # names) = named_nodes db names \<union>
     (if TrimSpace name = [] then {} else case GetNodeByName (TrimSpace name) db of Inr (Some n) \<Rightarrow> {n_ID n} | _ \<Rightarrow> {})"
  by (auto simp: named_nodes_def split: sum.splits option.splits)

lemma resolved_node_names:
  assumes "conn_ok db"
  shows "\<exists>ids. resolveNodeNames db names = Inr (ids, unknown_nodes db names) \<and> set ids = named_nodes db names"
proof (induction names)
  case Nil
  then show ?case by (simp add: unknown_nodes_def named_nodes_def)
next
  case (Cons name names)
  then obtain ids where ids: "resolveNodeNames db names = Inr (ids, unknown_nodes db names)" "set ids = named_nodes db names" by blast
  let ?n = "TrimSpace name"
  have known: "?n \<notin> n_Name ` set (nodes db) \<longleftrightarrow> find (\<lambda>n. n_Name n = ?n) (nodes db) = None" unfolding find_None_iff by force
  have bad: "unknown_nodes db (name # names) =
      (if ?n \<noteq> [] \<and> find (\<lambda>n. n_Name n = ?n) (nodes db) = None then ?n # unknown_nodes db names else unknown_nodes db names)"
    unfolding unknown_nodes_def known [symmetric] by simp
  show ?case
  proof (cases "find (\<lambda>n. n_Name n = ?n) (nodes db)")
    case None
    with ids assms show ?thesis by (simp add: bad Let_def GetNodeByName_def with_conn_def named_nodes_Cons)
  next
    case (Some n)
    with ids assms show ?thesis by (simp add: bad Let_def GetNodeByName_def with_conn_def named_nodes_Cons)
  qed
qed

lemma named_nodes_exist: "named_nodes db names \<subseteq> n_ID ` set (nodes db)"
  by (auto simp: named_nodes_def GetNodeByName_def with_conn_def find_Some_iff split: if_splits)

lemma same_nodes:
  "nodes db' = nodes db \<Longrightarrow> conn_ok db' = conn_ok db \<Longrightarrow>
   unknown_nodes db' names = unknown_nodes db names \<and> named_nodes db' names = named_nodes db names \<and>
   requested_nodes db' names = requested_nodes db names"
  by (simp add: unknown_nodes_def named_nodes_def requested_nodes_def GetNodeByName_def with_conn_def)

lemma placed_set:
  assumes "conn_ok db" and "u \<in> Database.row_id ` set (users db)" and "set ids \<subseteq> n_ID ` set (nodes db)"
  shows "\<exists>db'. SetUserNodes u ids db = Inr db' \<and> conn_ok db' \<and> {n. (u, n) \<in> set (user_nodes db')} = set ids"
proof -
  let ?d = "db\<lparr>user_nodes := delete_where (\<lambda>un. fst un = u) (user_nodes db)\<rparr>"
  obtain db' where a: "AssignUserToNodes u ids ?d = (db', None)"
    using AssignUserToNodes_total [of ?d u ids] assms by auto
  from AssignUserToNodes_set [OF a] assms(1) have "conn_ok db'" "{n. (u, n) \<in> set (user_nodes db')} = set ids"
    by (auto simp: set_delete_where)
  with a assms(1) show ?thesis by (auto simp: SetUserNodes_def)
qed

text \<open>A user who exists is placed on exactly the nodes asked for, when there are no unknown names.\<close>

lemma placed_nodes:
  assumes "conn_ok db" and "u \<in> Database.row_id ` set (users db)" and "c_Nodes cfg \<noteq> []" and "unknown_nodes db names = []"
  shows "\<exists>ids. ListNodeIDsForUser u (snd (placeUserOnNodes cfg u names db)) = Inr ids \<and> set ids = requested_nodes db names"
proof -
  obtain ids where ids: "(if names \<noteq> [] then (case resolveNodeNames db names of Inl e \<Rightarrow> Inl (db_text e)
        | Inr (ids, bad) \<Rightarrow> if bad \<noteq> [] then Inl (''unknown node(s): '' @ Join bad '', '') else Inr ids)
      else (case EnabledNodeIDs db of Inl e \<Rightarrow> Inl (db_text e) | Inr ids \<Rightarrow> Inr ids)) = Inr ids" "set ids = requested_nodes db names"
  proof (cases "names = []")
    case True
    with assms(1) show thesis
      by (intro that [of "map n_ID (sort_key n_Name (filter n_Enabled (nodes db)))"])
         (simp_all add: requested_nodes_def EnabledNodeIDs_def with_conn_def)
  next
    case False
    with resolved_node_names [OF assms(1), of names] assms(4) show thesis by (auto simp: requested_nodes_def intro: that)
  qed
  have "set ids \<subseteq> n_ID ` set (nodes db)" using ids(2) named_nodes_exist [of db names] by (auto simp: requested_nodes_def split: if_splits)
  from placed_set [OF assms(1,2) this] obtain db' where p: "SetUserNodes u ids db = Inr db'" "conn_ok db'"
    "{n. (u, n) \<in> set (user_nodes db')} = set ids" by blast
  have "snd (placeUserOnNodes cfg u names db) = db'" unfolding placeUserOnNodes_def ids(1) using assms(3) p(1) by simp
  moreover have "\<exists>ns. ListNodeIDsForUser u db' = Inr ns \<and> set ns = {n. (u, n) \<in> set (user_nodes db')}"
    using p(2) by (auto simp: ListNodeIDsForUser_def with_conn_def image_iff)
  ultimately show ?thesis using p(3) ids(2) by simp
qed

section \<open>Outcomes\<close>

definition create_request :: "request \<Rightarrow> CreateUserRequest option" where
  "create_request r = decode_body dec_CreateUserRequest \<lparr>cr_Username = [], cr_Inbounds = [], cr_Nodes = []\<rparr> r"

text \<open>A state that differs in the random bytes that were used up only.\<close>

definition untouched :: "'x server \<Rightarrow> 'x server \<Rightarrow> bool" where
  "untouched s s' \<longleftrightarrow> (\<exists>n. s' = set_world ((world_of s)\<lparr>w_draws := n\<rparr>) s)"

lemma untouched_refl [simp]: "untouched s s"
  unfolding untouched_def by (rule exI [of _ "w_draws (world_of s)"]) (simp add: set_world_def world_of_def)

lemma draw_token_untouched: "draw_token s = (t, s') \<Longrightarrow> untouched s0 s \<Longrightarrow> untouched s0 s'"
  by (auto simp: draw_token_def draw_def untouched_def set_world_def world_of_def)

lemma untouched_db: "untouched s s' \<Longrightarrow> db_of s' = db_of s"
  by (auto simp: untouched_def)

definition name_taken :: "string \<Rightarrow> db \<Rightarrow> bool" where
  "name_taken n db = list_ex (\<lambda>row. row_username row = n) (users db)"

lemma taken_lookup: "conn_ok db \<Longrightarrow> (case GetUserByUsername n db of Inr (Some _) \<Rightarrow> True | _ \<Rightarrow> False) = name_taken n db"
  by (auto simp: GetUserByUsername_def find_user_def with_conn_def name_taken_def list_ex_iff find_None_iff find_Some_iff
      split: option.splits)

definition token_taken :: "string \<Rightarrow> db \<Rightarrow> bool" where
  "token_taken t db = list_ex (\<lambda>row. row_token row = t) (users db)"

definition fallback_taken :: "string \<Rightarrow> db \<Rightarrow> bool" where
  "fallback_taken f db = (TrimSpace f \<noteq> [] \<and> list_ex (\<lambda>row. row_fallback_token row = Some (TrimSpace f)) (users db))"

lemma CreateUser_cases:
  assumes "conn_ok db" and "\<not> name_taken (TrimSpace n) db"
  shows "if token_taken t db then CreateUser now n e t f db = Inl (UniqueConstraint ''users.token'')
    else if fallback_taken f db then CreateUser now n e t f db = Inl (UniqueConstraint ''users.fallback_token'')
    else \<exists>db' user. CreateUser now n e t f db = Inr (db', user) \<and> u_Token user = t \<and> u_Username user = TrimSpace n \<and>
      u_ID user \<in> Database.row_id ` set (users db')"
  using assms by (auto simp: CreateUser_def name_taken_def token_taken_def fallback_taken_def scanUser_def Let_def)

lemma createUser_checks:
  assumes "conn_ok (db_of s)"
  shows "createUser env r s =
    (case create_request r of
       None \<Rightarrow> (JsonError 400 ''invalid json body'', s)
     | Some req \<Rightarrow>
         (case validateUsername (cr_Username req) of
            Some e \<Rightarrow> (JsonError 400 e, s)
          | None \<Rightarrow>
              if name_taken (TrimSpace (cr_Username req)) (db_of s) then (JsonError 409 ''username already exists'', s)
              else if c_Nodes (e_cfg env) \<noteq> [] \<and> unknown_nodes (db_of s) (cr_Nodes req) \<noteq> []
              then (JsonError 400 (''unknown node(s): '' @ Join (unknown_nodes (db_of s) (cr_Nodes req)) '', ''), s)
              else create_checked env req s))"
proof -
  obtain ids where "resolveNodeNames (db_of s) names = Inr (ids names, unknown_nodes (db_of s) names)" for names
    using resolved_node_names [OF assms] by metis
  moreover have "unknown_nodes (db_of s) [] = []" by (simp add: unknown_nodes_def)
  ultimately show ?thesis
    unfolding createUser_def create_request_def [symmetric] Let_def taken_lookup [OF assms]
    by (auto split: option.splits)
qed

text \<open>The two tokens that the random bytes give.\<close>

abbreviation new_token :: "'x server \<Rightarrow> string" where
  "new_token s \<equiv> fst (draw_token s)"

abbreviation new_fallback_token :: "'x server \<Rightarrow> string" where
  "new_fallback_token s \<equiv> fst (draw_token (snd (draw_token s)))"

text \<open>The created user, as the answer and the database have it.\<close>

definition user_created :: "'x env \<Rightarrow> CreateUserRequest \<Rightarrow> 'x server \<Rightarrow> UserResponse \<Rightarrow> 'x server \<Rightarrow> bool" where
  "user_created env req s resp s' \<longleftrightarrow> grown (db_of s) (db_of s') \<and> u_Token (ur_User resp) = new_token s \<and>
     (\<exists>u. GetUserByToken (u_Token (ur_User resp)) (db_of s') = Inr (Some u) \<and> u_ID u = u_ID (ur_User resp) \<and>
        u_Username u = TrimSpace (cr_Username req) \<and> u_FallbackToken u = u_FallbackToken (ur_User resp) \<and> u_Enabled u \<and>
        (c_Nodes (e_cfg env) \<noteq> [] \<longrightarrow>
          (\<exists>ids. ListNodeIDsForUser (u_ID u) (db_of s') = Inr ids \<and> set ids = requested_nodes (db_of s) (cr_Nodes req))))"

lemma create_checked_outcome:
  assumes "create_checked env req s = (rep, s')" and "conn_ok (db_of s)" and "\<not> name_taken (TrimSpace (cr_Username req)) (db_of s)"
    and "c_Nodes (e_cfg env) = [] \<or> unknown_nodes (db_of s) (cr_Nodes req) = []"
  shows "if token_taken (new_token s) (db_of s)
    then rep = JsonError 500 ''UNIQUE constraint failed: users.token'' \<and> untouched s s'
    else if fallback_taken (new_fallback_token s) (db_of s)
    then rep = JsonError 500 ''UNIQUE constraint failed: users.fallback_token'' \<and> untouched s s'
    else \<exists>resp. rep = Reply 200 resp \<and> user_created env req s resp s'"
proof -
  obtain t s1 where d1: "draw_token s = (t, s1)" by (cases "draw_token s")
  obtain f s2 where d2: "draw_token s1 = (f, s2)" by (cases "draw_token s1")
  have u: "untouched s s2" using draw_token_untouched d1 d2 untouched_refl by metis
  note db = untouched_db [OF u]
  have new: "new_token s = t" "new_fallback_token s = f" using d1 d2 by simp_all
  have taken: "\<not> name_taken (TrimSpace (TrimSpace (cr_Username req))) (db_of s)" using assms(3) by simp
  note made = CreateUser_cases [OF assms(2) taken, of t "e_now env" "[]" f]
  show ?thesis
  proof (cases "token_taken t (db_of s) \<or> fallback_taken f (db_of s)")
    case True
    with made u d1 d2 db assms(1) show ?thesis unfolding new
      by (auto simp: create_checked_def split: if_splits)
  next
    case False
    with made obtain db1 user where c: "CreateUser (e_now env) (TrimSpace (cr_Username req)) [] t f (db_of s) = Inr (db1, user)"
      "u_Token user = t" "u_Username user = TrimSpace (cr_Username req)" "u_ID user \<in> Database.row_id ` set (users db1)" by auto
    let ?specs = "inbounds_to_add (e_cfg env) req"
    define s3 where "s3 = (let ibs = (case ListInbounds (db_of (set_db db1 s2)) of Inl _ \<Rightarrow> [] | Inr ibs \<Rightarrow> ibs);
        s = fold (enrol env user ibs) ?specs (set_db db1 s2)
      in if ?specs \<noteq> [] \<and> c_XrayAPIAddr (e_cfg env) = [] then add_job SyncJob s else s)"
    have s3: "grown db1 (db_of s3)"
      "db_of s' = snd (placeUserOnNodes (e_cfg env) (u_ID user) (cr_Nodes req) (db_of s3))" "rep = jsonOK (user_response (e_cfg env) user)"
      using fold_enrol_grown [of db1 "set_db db1 s2"] assms(1) d1 d2 c(1) db
      by (auto simp: create_checked_def s3_def Let_def)
    have g: "grown db1 (db_of s')" unfolding s3(2) using s3(1) by (rule place_grown)
    have g1: "grown (db_of s) db1" using growing.create [OF grown_refl] c(1) by metis
    have ready: "conn_ok (db_of s3)" "u_ID user \<in> Database.row_id ` set (users (db_of s3))"
      "unknown_nodes (db_of s3) names = unknown_nodes (db_of s) names" "requested_nodes (db_of s3) names = requested_nodes (db_of s) names" for names
      using s3(1) g1 c(4) assms(2) same_nodes [of "db_of s3" "db_of s"] by (auto simp: grown_def prefix_def)
    have "\<exists>ids. ListNodeIDsForUser (u_ID user) (db_of s') = Inr ids \<and> set ids = requested_nodes (db_of s) (cr_Nodes req)"
      if "c_Nodes (e_cfg env) \<noteq> []"
      using placed_nodes [OF ready(1,2) that, of "cr_Nodes req"] that assms(4) ready(3,4) s3(2) by simp
    moreover have "grown (db_of s) (db_of s')" using g g1 by (auto simp: grown_def)
    ultimately have "user_created env req s (user_response (e_cfg env) user) s'"
      using created_found [OF c(1) g] c(2,3) unfolding user_created_def new by (auto simp: user_response_def)
    with False s3(3) show ?thesis unfolding new by auto
  qed
qed

text \<open>C39: What creating a user answers in which case, on a working database. A body that is no request is
  answered 400, a name that is not allowed 400 with the reason, a name that is taken 409, and, with
  nodes configured, names of nodes that the node table does not have 400 with the list of exactly these
  names; in all four cases nothing changes. Otherwise the answer is 500 when one of the two fresh random
  tokens is in use already, and nothing changes but the random bytes used up. In every other case the
  answer is 200 with a user under the fresh token: no stored user was changed or removed, the new user is
  found under that token by its name, enabled, and with nodes configured it is placed on exactly the
  requested nodes (all enabled ones when the request names none), whatever the enrolment in the inbounds
  and the synchronisations it starts did in between.\<close>

theorem create_user_outcome:
  assumes "conn_ok (db_of s)" and "createUser env r s = (rep, s')"
  shows "case create_request r of
      None \<Rightarrow> rep = JsonError 400 ''invalid json body'' \<and> s' = s
    | Some req \<Rightarrow>
        (case validateUsername (cr_Username req) of
           Some reason \<Rightarrow> rep = JsonError 400 reason \<and> s' = s
         | None \<Rightarrow>
             if name_taken (TrimSpace (cr_Username req)) (db_of s) then rep = JsonError 409 ''username already exists'' \<and> s' = s
             else if c_Nodes (e_cfg env) \<noteq> [] \<and> unknown_nodes (db_of s) (cr_Nodes req) \<noteq> []
             then rep = JsonError 400 (''unknown node(s): '' @ Join (unknown_nodes (db_of s) (cr_Nodes req)) '', '') \<and> s' = s
             else if token_taken (new_token s) (db_of s)
             then rep = JsonError 500 ''UNIQUE constraint failed: users.token'' \<and> untouched s s'
             else if fallback_taken (new_fallback_token s) (db_of s)
             then rep = JsonError 500 ''UNIQUE constraint failed: users.fallback_token'' \<and> untouched s s'
             else (\<exists>resp. rep = Reply 200 resp \<and> user_created env req s resp s'))"
proof (cases "create_request r")
  case None
  with assms show ?thesis by (auto simp: createUser_checks)
next
  case (Some req)
  let ?go = "validateUsername (cr_Username req) = None \<and> \<not> name_taken (TrimSpace (cr_Username req)) (db_of s) \<and>
    (c_Nodes (e_cfg env) = [] \<or> unknown_nodes (db_of s) (cr_Nodes req) = [])"
  show ?thesis
  proof (cases ?go)
    case True
    then have "create_checked env req s = (rep, s')" using assms(2) Some by (auto simp: createUser_checks [OF assms(1)])
    from create_checked_outcome [OF this assms(1)] True Some show ?thesis by auto
  next
    case False
    with Some assms(2) show ?thesis by (auto simp: createUser_checks [OF assms(1)] split: option.splits if_splits)
  qed
qed

definition create_carol :: request where
  "create_carol = sample_admin_request [] (JObj [(''username'', JStr ''carol'')])"

theorem create_user_outcome_witness:
  "conn_ok (db_of sample_server) \<and>
   (\<exists>resp s' u. createUser sample_env create_carol sample_server = (Reply 200 resp, s') \<and>
      GetUserByToken (u_Token (ur_User resp)) (db_of s') = Inr (Some u) \<and> u_Username u = ''carol'' \<and> u_Enabled u)"
proof -
  have conn: "conn_ok (db_of sample_server)" by code_simp
  define p where "p = createUser sample_env create_carol sample_server"
  have "is_reply (fst p)" unfolding p_def by code_simp
  then obtain code resp where "fst p = Reply code resp" using is_replyE by blast
  then have run: "createUser sample_env create_carol sample_server = (Reply code resp, snd p)" by (metis p_def prod.collapse)
  obtain req where req: "create_request create_carol = Some req" "TrimSpace (cr_Username req) = ''carol''"
  proof
    show "create_request create_carol = Some \<lparr>cr_Username = ''carol'', cr_Inbounds = [], cr_Nodes = []\<rparr>" by code_simp
    show "TrimSpace (cr_Username \<lparr>cr_Username = ''carol'', cr_Inbounds = [], cr_Nodes = []\<rparr>) = ''carol''" by code_simp
  qed
  from create_user_outcome [OF conn run] req have "code = 200 \<and> user_created sample_env req sample_server resp (snd p)"
    by (auto split: option.splits if_splits)
  then show ?thesis using run req conn by (auto simp: user_created_def)
qed

section \<open>Log lines\<close>

text \<open>A name, tag or error text cannot start a new line in the log.\<close>

lemma log_field_one_line:
  assumes "c = CHR 0x0D \<or> c = CHR 0x0A \<or> c = CHR 0x09"
  shows "c \<notin> set (sanitizeLogField v)"
proof -
  let ?ps = "[([CHR 0x0D], []), ([CHR 0x0A], []), ([CHR 0x09], '' '')]"
  obtain w where "([c], w) \<in> set ?ps" using assms by auto
  moreover have "c \<notin> set (snd p)" if "p \<in> set ?ps" for p using that assms by auto
  ultimately show ?thesis unfolding sanitizeLogField_def by (rule Replacer_removes)
qed

end
