(* ===== verification/Rate_Limit_Properties.thy ===== *)
theory Rate_Limit_Properties
  imports Rate_Limit
begin

text \<open>
  The limiters of \<open>rateLimitMiddleware\<close> are dropped when they have been idle; nobody can tell, since
  a limiter that was idle that long is full again. And a client cannot choose under which address
  it is counted.
\<close>

section \<open>Runs of one limiter\<close>

fun allows :: "'l limiter_lib \<Rightarrow> 'l \<Rightarrow> time list \<Rightarrow> bool list" where
  "allows lib l [] = []"
| "allows lib l (t # ts) = (case l_allow lib l t of (ok, l) \<Rightarrow> ok # allows lib l ts)"

fun after :: "'l limiter_lib \<Rightarrow> 'l \<Rightarrow> time list \<Rightarrow> 'l" where
  "after lib l [] = l"
| "after lib l (t # ts) = after lib (snd (l_allow lib l t)) ts"

text \<open>The token bucket of \<^verbatim>\<open>golang.org/x/time/rate\<close>: it starts full with \<open>burst\<close> tokens and gets one
  back every \<open>interval\<close>, so a limiter that was not asked for \<open>burst\<close> intervals answers like a new one.\<close>

definition refills :: "'l limiter_lib \<Rightarrow> int \<Rightarrow> int \<Rightarrow> bool" where
  "refills lib interval burst \<longleftrightarrow>
     (\<forall>ts t us. sorted (ts @ t # us) \<and> ts \<noteq> [] \<and> t - last ts > burst * interval \<longrightarrow>
        allows lib (after lib (l_new lib interval burst) ts) (t # us) = allows lib (l_new lib interval burst) (t # us))"

lemma after_append: "after lib l (ts @ us) = after lib (after lib l ts) us"
  by (induction ts arbitrary: l) auto

section \<open>Idle time\<close>

lemma burst_refill_time:
  assumes "0 < perMin"
  shows "limit_burst perMin * limit_interval perMin \<le> 120 * Second"
proof -
  have i: "perMin * limit_interval perMin \<le> 60 * Second" "0 \<le> limit_interval perMin"
    using assms by (simp_all add: limit_interval_def minus_mod_eq_mult_div [symmetric] pos_imp_zdiv_nonneg_iff)
  have "limit_burst perMin \<le> 2 * perMin" using assms by (auto simp: limit_burst_def Let_def)
  with i(2) have "limit_burst perMin * limit_interval perMin \<le> 2 * perMin * limit_interval perMin"
    by (rule mult_right_mono [rotated])
  with i(1) show ?thesis by linarith
qed

section \<open>Requests and cleanups in time order\<close>

datatype limit_event = Arrive request time | Tick time

primrec event_time :: "limit_event \<Rightarrow> time" where
  "event_time (Arrive _ t) = t"
| "event_time (Tick t) = t"

primrec is_arrival :: "limit_event \<Rightarrow> bool" where
  "is_arrival (Arrive _ _) = True"
| "is_arrival (Tick _) = False"

fun serve :: "'l limiter_lib \<Rightarrow> int \<Rightarrow> (request \<Rightarrow> 's \<Rightarrow> 'a reply \<times> 's) \<Rightarrow> limit_event list \<Rightarrow> 's \<Rightarrow> 'l limiters \<Rightarrow> 'a reply list \<times> 's" where
  "serve lib perMin next' [] s m = ([], s)"
| "serve lib perMin next' (Arrive r t # es) s m =
     (case rateLimitMiddleware lib perMin t next' r (s, m) of
        (rep, s, m) \<Rightarrow> (case serve lib perMin next' es s m of (reps, s) \<Rightarrow> (rep # reps, s)))"
| "serve lib perMin next' (Tick t # es) s m = serve lib perMin next' es s (if perMin \<le> 0 then m else cleanup t m)"

text \<open>Two limiters that answer alike from a time on.\<close>

definition alike :: "'l limiter_lib \<Rightarrow> time \<Rightarrow> 'l \<Rightarrow> 'l \<Rightarrow> bool" where
  "alike lib t0 l1 l2 \<longleftrightarrow> (\<forall>us. sorted (t0 # us) \<longrightarrow> allows lib l1 us = allows lib l2 us)"

lemma alike_mono: "alike lib t0 l1 l2 \<Longrightarrow> t0 \<le> t \<Longrightarrow> alike lib t l1 l2"
  unfolding alike_def sorted_simps by (meson order_trans)

lemma alike_step:
  assumes "alike lib t0 l1 l2" and "t0 \<le> t"
  shows "fst (l_allow lib l1 t) = fst (l_allow lib l2 t) \<and> alike lib t (snd (l_allow lib l1 t)) (snd (l_allow lib l2 t))"
proof -
  have *: "allows lib l1 (t # us) = allows lib l2 (t # us)" if "sorted (t # us)" for us
    using assms that unfolding alike_def by (metis dual_order.trans sorted_simps(2) list.set_intros(1) insert_iff list.set(2))
  have "fst (l_allow lib l1 t) = fst (l_allow lib l2 t)" using * [of "[]"] by (auto split: prod.splits)
  moreover have "allows lib (snd (l_allow lib l1 t)) us = allows lib (snd (l_allow lib l2 t)) us" if "sorted (t # us)" for us
    using * [OF that] by (auto split: prod.splits)
  ultimately show ?thesis by (simp add: alike_def)
qed

text \<open>The limiters with cleanups, \<open>m1\<close>, against those without, \<open>m2\<close>.\<close>

definition tracks :: "'l limiter_lib \<Rightarrow> int \<Rightarrow> time \<Rightarrow> 'l limiters \<Rightarrow> 'l limiters \<Rightarrow> string \<Rightarrow> bool" where
  "tracks lib perMin now m1 m2 ip =
     (case map_of m2 ip of
        None \<Rightarrow> map_of m1 ip = None
      | Some il2 \<Rightarrow>
          (\<exists>ts. ts \<noteq> [] \<and> sorted ts \<and> last ts = il_last il2 \<and> il_last il2 \<le> now \<and>
             il_limiter il2 = after lib (fresh_limiter lib perMin) ts) \<and>
          (case map_of m1 ip of
             None \<Rightarrow> now - il_last il2 > 10 * 60 * Second
           | Some il1 \<Rightarrow> il_last il1 = il_last il2 \<and> alike lib (il_last il2) (il_limiter il1) (il_limiter il2)))"

lemma map_of_filter_values:
  "distinct (map fst m) \<Longrightarrow>
     map_of (filter (\<lambda>kv. P (snd kv)) m) k = (case map_of m k of Some v \<Rightarrow> if P v then Some v else None | None \<Rightarrow> None)"
proof (induction m)
  case (Cons kv m)
  then show ?case by (cases "fst kv = k") (auto split: option.splits simp: map_of_eq_None_iff [symmetric] dest: map_of_SomeD)
qed simp

lemma cleanup_lookup:
  "distinct (map fst m) \<Longrightarrow>
     map_of (cleanup t m) k = (case map_of m k of
       Some il \<Rightarrow> if \<not> t - il_last il > 10 * 60 * Second then Some il else None | None \<Rightarrow> None)"
  using map_of_filter_values [of m "\<lambda>il. \<not> t - il_last il > 10 * 60 * Second" k] by (simp add: cleanup_def)

lemma cleanup_tracks:
  assumes "tracks lib perMin now m1 m2 ip" and "now \<le> t" and "distinct (map fst m1)"
  shows "tracks lib perMin t (cleanup t m1) m2 ip"
  using assms(1,2) by (auto simp: tracks_def cleanup_lookup [OF assms(3)] split: option.splits)

lemma wait_tracks: "tracks lib perMin now m1 m2 ip \<Longrightarrow> now \<le> t \<Longrightarrow> tracks lib perMin t m1 m2 ip"
  by (auto simp: tracks_def split: option.splits)

lemma sorted_le_last: "sorted ts \<Longrightarrow> x \<in> set ts \<Longrightarrow> x \<le> last ts"
  by (induction ts) auto

lemma refilled:
  assumes lib: "refills lib (limit_interval perMin) (limit_burst perMin)" and per: "0 < perMin"
    and ts: "ts \<noteq> []" "sorted ts" "t - last ts > 10 * 60 * Second"
  shows "alike lib t (fresh_limiter lib perMin) (after lib (fresh_limiter lib perMin) ts)"
  unfolding alike_def
proof (intro allI impI)
  fix us assume us: "sorted (t # us)"
  show "allows lib (fresh_limiter lib perMin) us = allows lib (after lib (fresh_limiter lib perMin) ts) us"
  proof (cases us)
    case (Cons u us')
    with us ts(3) have u: "u - last ts > limit_burst perMin * limit_interval perMin" "last ts \<le> u"
      using burst_refill_time [OF per] by auto
    have "sorted (ts @ u # us')"
      using ts(1,2) us Cons u(2) sorted_le_last [OF ts(2)] by (force simp: sorted_append)
    with lib ts(1) u(1) Cons show ?thesis unfolding refills_def fresh_limiter_def by metis
  qed simp
qed

lemma admit_alike:
  assumes tr: "tracks lib perMin now m1 m2 ip" and now: "now \<le> t" and per: "0 < perMin"
    and lib: "refills lib (limit_interval perMin) (limit_burst perMin)"
    and a: "admit lib perMin ip t m1 = (ok1, m1')" "admit lib perMin ip t m2 = (ok2, m2')"
  shows "ok1 = ok2 \<and> tracks lib perMin t m1' m2' ip"
proof -
  let ?fresh = "fresh_limiter lib perMin"
  define l1 where "l1 = (case map_of m1 ip of Some il \<Rightarrow> il_limiter il | None \<Rightarrow> ?fresh)"
  define l2 where "l2 = (case map_of m2 ip of Some il \<Rightarrow> il_limiter il | None \<Rightarrow> ?fresh)"
  have "(\<exists>ts. l2 = after lib ?fresh ts \<and> sorted (ts @ [t])) \<and> alike lib t l1 l2"
  proof (cases "map_of m2 ip")
    case None
    then show ?thesis using tr by (auto simp: l1_def l2_def tracks_def alike_def intro!: exI [of _ "[]"])
  next
    case (Some il2)
    with tr obtain ts where ts: "ts \<noteq> []" "sorted ts" "last ts = il_last il2" "il_last il2 \<le> now" "il_limiter il2 = after lib ?fresh ts"
      by (auto simp: tracks_def)
    then have h: "sorted (ts @ [t])" using now sorted_le_last [of ts] by (force simp: sorted_append)
    have "alike lib t l1 l2"
    proof (cases "map_of m1 ip")
      case (Some il1)
      with tr \<open>map_of m2 ip = _\<close> have "alike lib (il_last il2) l1 l2" by (simp add: tracks_def l1_def l2_def)
      then show ?thesis by (rule alike_mono) (use ts now in simp)
    next
      case None
      then show ?thesis using tr now ts \<open>map_of m2 ip = _\<close> refilled [OF lib per ts(1,2), of t]
        by (auto simp: tracks_def l1_def l2_def)
    qed
    with h ts Some show ?thesis by (auto simp: l2_def)
  qed
  then obtain ts where ts: "l2 = after lib ?fresh ts" "sorted (ts @ [t])" and al: "alike lib t l1 l2" by blast
  have m: "ok1 = fst (l_allow lib l1 t)" "m1' = map_put ip \<lparr>il_limiter = snd (l_allow lib l1 t), il_last = t\<rparr> m1"
    "ok2 = fst (l_allow lib l2 t)" "m2' = map_put ip \<lparr>il_limiter = snd (l_allow lib l2 t), il_last = t\<rparr> m2"
    using a by (auto simp: admit_def l1_def l2_def Let_def split: prod.splits)
  have "snd (l_allow lib l2 t) = after lib ?fresh (ts @ [t])" using ts(1) by (simp add: after_append)
  moreover have "ok1 = ok2" "alike lib t (snd (l_allow lib l1 t)) (snd (l_allow lib l2 t))"
    using alike_step [OF al order_refl] m(1,3) by simp_all
  ultimately show ?thesis using ts(2) m(2,4) unfolding tracks_def by (auto intro: exI [of _ "ts @ [t]"])
qed

lemma admit_others:
  assumes "admit lib perMin ip t m1 = (ok1, m1')" and "admit lib perMin ip t m2 = (ok2, m2')" and "j \<noteq> ip"
  shows "tracks lib perMin now m1' m2' j = tracks lib perMin now m1 m2 j"
proof -
  have "map_of m1' j = map_of m1 j" "map_of m2' j = map_of m2 j"
    using assms by (auto simp: admit_def split: prod.splits)
  then show ?thesis by (simp add: tracks_def cong: option.case_cong)
qed

lemma admit_distinct: "admit lib perMin ip t m = (ok, m') \<Longrightarrow> distinct (map fst m) \<Longrightarrow> distinct (map fst m')"
  by (auto simp: admit_def split: prod.splits)

lemma serve_alike:
  assumes "0 < perMin" and "refills lib (limit_interval perMin) (limit_burst perMin)"
    and "sorted (now # map event_time es)" and "distinct (map fst m1)" and "\<And>ip. tracks lib perMin now m1 m2 ip"
  shows "serve lib perMin next' es s m1 = serve lib perMin next' (filter is_arrival es) s m2"
  using assms(3-5)
proof (induction es arbitrary: now s m1 m2)
  case (Cons e es)
  show ?case
  proof (cases e)
    case (Tick t)
    with Cons assms(1) cleanup_tracks [of lib perMin now m1 m2 _ t] show ?thesis
      by (auto intro!: Cons.IH [of t] simp: cleanup_def distinct_map_filter)
  next
    case (Arrive r t)
    obtain ok1 m1' ok2 m2' where a: "admit lib perMin (clientIP r) t m1 = (ok1, m1')" "admit lib perMin (clientIP r) t m2 = (ok2, m2')"
      by (metis prod.exhaust)
    have now: "now \<le> t" using Cons.prems(1) Arrive by simp
    have ok: "ok1 = ok2" "tracks lib perMin t m1' m2' ip" for ip
      using admit_alike [OF Cons.prems(3) now assms(1,2) a] admit_others [OF a, of ip t] wait_tracks [OF Cons.prems(3) now] by auto
    have "serve lib perMin next' es s' m1' = serve lib perMin next' (filter is_arrival es) s' m2'" for s'
      using Cons.prems Arrive ok(2) admit_distinct [OF a(1)] by (intro Cons.IH [of t]) auto
    with Arrive a ok(1) assms(1) show ?thesis by (auto simp: rateLimitMiddleware_def split: prod.splits bool.splits)
  qed
qed simp

lemma serve_unlimited: "perMin \<le> 0 \<Longrightarrow> serve lib perMin next' es s m = serve lib perMin next' (filter is_arrival es) s m"
proof (induction es arbitrary: s)
  case (Cons e es)
  then show ?case by (cases e) (auto simp: rateLimitMiddleware_def split: prod.splits)
qed simp

text \<open>C40: The cleanup of idle limiters cannot be noticed. For a limiter that refills as a token
  bucket does, any sequence of requests and cleanups in the order of time gets the same replies
  and leaves the same state behind the middleware as the requests without the cleanups, whatever
  the limit per minute and the handler behind it: the ten minutes after which a limiter is dropped
  are always more than the time in which it is full again.\<close>

theorem cleanup_unnoticed:
  assumes "refills lib (limit_interval perMin) (limit_burst perMin)" and "sorted (map event_time es)"
  shows "serve lib perMin next' es s [] = serve lib perMin next' (filter is_arrival es) s []"
proof (cases "0 < perMin")
  case True
  show ?thesis
  proof (cases es)
    case (Cons e es')
    with assms(2) show ?thesis
      by (intro serve_alike [OF True assms(1), of "event_time e"]) (auto simp: tracks_def)
  qed simp
next
  case False
  then show ?thesis by (intro serve_unlimited) simp
qed

section \<open>A token bucket\<close>

text \<open>Credit in nanoseconds, a token costs an interval.\<close>

record bucket =
  b_interval :: int
  b_full :: int
  b_state :: "(int \<times> time) option"

definition credit :: "bucket \<Rightarrow> time \<Rightarrow> int" where
  "credit b t = (case b_state b of None \<Rightarrow> b_full b | Some (c, t0) \<Rightarrow> min (b_full b) (c + (t - t0)))"

definition bucket_lib :: "bucket limiter_lib" where
  "bucket_lib = \<lparr>l_new = (\<lambda>i n. \<lparr>b_interval = i, b_full = n * i, b_state = None\<rparr>),
     l_allow = (\<lambda>b t. if credit b t \<ge> b_interval b then (True, b\<lparr>b_state := Some (credit b t - b_interval b, t)\<rparr>)
                        else (False, b\<lparr>b_state := Some (credit b t, t)\<rparr>))\<rparr>"

definition bucket_ok :: "int \<Rightarrow> int \<Rightarrow> time \<Rightarrow> bucket \<Rightarrow> bool" where
  "bucket_ok i n t0 b \<longleftrightarrow> b_interval b = i \<and> b_full b = n * i \<and>
     (case b_state b of None \<Rightarrow> True | Some (c, t) \<Rightarrow> 0 \<le> c \<and> t \<le> t0)"

lemma bucket_after:
  assumes "0 \<le> n * i" and "bucket_ok i n t0 b" and "sorted (t0 # ts)"
  shows "bucket_ok i n (last (t0 # ts)) (after bucket_lib b ts)"
  using assms(2,3)
proof (induction ts arbitrary: t0 b)
  case (Cons t ts)
  have "bucket_ok i n t (snd (l_allow bucket_lib b t))"
    using Cons.prems assms(1) by (auto simp: bucket_ok_def bucket_lib_def credit_def split: option.splits)
  with Cons.IH [of t] Cons.prems(2) show ?case by simp
qed simp

lemma bucket_refills:
  assumes "0 \<le> n * i"
  shows "refills bucket_lib i n"
  unfolding refills_def
proof (intro allI impI, elim conjE)
  fix ts us :: "time list" and t :: time
  let ?new = "l_new bucket_lib i n"
  let ?b = "after bucket_lib ?new ts"
  assume ts: "sorted (ts @ t # us)" "ts \<noteq> []" "n * i < t - last ts"
  obtain t0 ts' where t0: "ts = t0 # ts'" using ts(2) by (cases ts) auto
  have "bucket_ok i n t0 (snd (l_allow bucket_lib ?new t0))"
    using assms by (auto simp: bucket_ok_def bucket_lib_def credit_def)
  from bucket_after [OF assms this, of ts'] ts(1) have "bucket_ok i n (last ts) ?b" by (simp add: t0 sorted_append)
  then have "l_allow bucket_lib ?b t = l_allow bucket_lib ?new t"
    using ts(3) by (cases ?b) (auto simp: bucket_ok_def bucket_lib_def credit_def split: option.splits)
  then show "allows bucket_lib ?b (t # us) = allows bucket_lib ?new (t # us)" by simp
qed

theorem cleanup_unnoticed_witness:
  "\<exists>es. es \<noteq> filter is_arrival es \<and> refills bucket_lib (limit_interval 6) (limit_burst 6) \<and> sorted (map event_time es) \<and>
     serve bucket_lib 6 (\<lambda>_ n. (Reply 200 (), Suc n)) es 0 [] =
     serve bucket_lib 6 (\<lambda>_ n. (Reply 200 (), Suc n)) (filter is_arrival es) (0::nat) [] \<and>
     fst (serve bucket_lib 6 (\<lambda>_ n. (Reply 200 (), Suc n)) es (0::nat) []) =
       [Reply 200 (), Reply 200 (), JsonError 429 ''rate limit exceeded'', Reply 200 ()]"
proof -
  define r where "r = \<lparr>rq_path = ''/sub/t'', rq_vars = [], rq_query = [], rq_headers = [], rq_remote = ''192.0.2.7:4711'',
    rq_tls = False, rq_host = [], rq_body = NotJson, rq_fallback = False\<rparr>"
  define es where "es = [Arrive r 0, Arrive r 1, Arrive r 2, Tick (300 * Second), Tick (700 * Second), Arrive r (701 * Second)]"
  have lib: "refills bucket_lib (limit_interval 6) (limit_burst 6)"
    by (rule bucket_refills) (simp add: limit_interval_def limit_burst_def)
  have es: "sorted (map event_time es)" "es \<noteq> filter is_arrival es" by (simp_all add: es_def)
  have reps: "fst (serve bucket_lib 6 (\<lambda>_ n. (Reply 200 (), Suc n)) es (0::nat) []) =
    [Reply 200 (), Reply 200 (), JsonError 429 ''rate limit exceeded'', Reply 200 ()]"
    unfolding es_def r_def by code_simp
  show ?thesis
    by (rule exI [of _ es], intro conjI) (rule es lib reps cleanup_unnoticed [OF lib es(1)])+
qed

section \<open>Who is counted\<close>

text \<open>A client that is not on this machine is counted under the address of its connection, whatever
  headers it sends.\<close>

lemma clientIP_remote:
  assumes "SplitHostPort (rq_remote r) = Some host" and "host \<notin> {''127.0.0.1'', ''::1''}"
  shows "clientIP (r\<lparr>rq_headers := hs\<rparr>) = host"
  using assms by (simp add: clientIP_def)

end
