(* ===== verification/Startup_Properties.thy ===== *)
theory Startup_Properties
  imports Startup Config_Properties Api_Samples
begin

text \<open>
  The transport to the nodes: a configuration that \<open>Load\<close> accepted and credentials that
  \<open>configureNodeCredentials\<close> built together keep the control plane from talking to a public
  address in the clear.
\<close>

abbreviation build_for :: "pki \<Rightarrow> NodeConfig \<Rightarrow> NodeTLS \<Rightarrow> string + transport" where
  "build_for k n t \<equiv> BuildTLSCredentials k (tls_CACert t) (tls_ClientCert t) (tls_ClientKey t) (server_name n t)"

lemma node_credentials_error:
  "node_credentials k ns creds = Inl e \<Longrightarrow>
     \<exists>n\<in>set ns. \<exists>t e'. nc_TLS n = Some t \<and> build_for k n t = Inl e' \<and> e = ''Node '' @ nc_Name n @ '' mTLS: '' @ e'"
proof (induction k ns creds rule: node_credentials.induct)
  case (2 k n ns creds)
  show ?case
  proof (cases "nc_TLS n")
    case None
    with 2 show ?thesis by auto
  next
    case (Some t)
    with 2 show ?thesis by (cases "build_for k n t") (auto intro: exI [of _ t])
  qed
qed simp

text \<open>The address of a node with a \<open>tls\<close> block has the credentials of the last such node there, all
  other addresses have what they had.\<close>

lemma node_credentials_built:
  "node_credentials k ns creds = Inr creds' \<Longrightarrow>
     (\<forall>n\<in>set ns. nc_TLS n \<noteq> None \<longrightarrow>
        (\<exists>n'\<in>set ns. \<exists>t c. nc_APIAddr n' = nc_APIAddr n \<and> nc_TLS n' = Some t \<and> build_for k n' t = Inr c \<and>
           map_of creds' (nc_APIAddr n) = Some c)) \<and>
     (\<forall>a. (\<forall>n\<in>set ns. nc_TLS n \<noteq> None \<longrightarrow> nc_APIAddr n \<noteq> a) \<longrightarrow> map_of creds' a = map_of creds a)"
proof (induction k ns creds rule: node_credentials.induct)
  case (2 k n ns creds)
  show ?case
  proof (cases "nc_TLS n")
    case None
    with 2 show ?thesis by simp
  next
    case (Some t)
    with "2.prems" obtain c where c: "build_for k n t = Inr c" "node_credentials k ns (map_put (nc_APIAddr n) c creds) = Inr creds'"
      by (auto split: sum.splits)
    note IH = "2.IH"(2) [OF Some c]
    show ?thesis
    proof (cases "\<exists>n'\<in>set ns. nc_TLS n' \<noteq> None \<and> nc_APIAddr n' = nc_APIAddr n")
      case True
      with IH Some show ?thesis by simp metis
    next
      case False
      then have "map_of creds' (nc_APIAddr n) = Some c"
        using IH [THEN conjunct2, THEN spec, of "nc_APIAddr n"] by auto
      with IH Some c(1) show ?thesis by simp
    qed
  qed
qed simp

lemma BuildTLS_mutual: "BuildTLSCredentials k ca crt key sn = Inr c \<Longrightarrow>
   \<exists>pem. k_ReadFile k ca = Inr pem \<and> k_HasCerts k pem \<and>
     c = MutualTLS \<lparr>tc_ClientCert = crt, tc_ClientKey = key, tc_RootCAs = pem, tc_ServerName = sn, tc_MinVersion = VersionTLS13\<rparr>"
  by (auto simp: BuildTLSCredentials_def split: sum.splits option.splits if_splits)

lemma applyXrayFilePerm_nodes: "map_sum FileModeInvalid id (applyXrayFilePerm cfg) = Inr cfg' \<Longrightarrow> c_Nodes cfg' = c_Nodes cfg"
  by (auto simp: applyXrayFilePerm_def split: sum.splits)

lemma no_nodes_ok: "nodes_ok_spec []"
  by (simp add: nodes_ok_spec_def)

lemma default_no_nodes: "c_Nodes default_config = []"
  by (simp add: default_config_def)

lemma Load_nodes_ok: "Load path data = Inr cfg \<Longrightarrow> nodes_ok_spec (c_Nodes cfg)"
  by (auto simp: Load_def Let_def validateNodes_iff no_nodes_ok default_no_nodes dest!: applyXrayFilePerm_nodes
      split: if_splits file_read.splits option.splits)

lemma start_credentials:
  "start k env sv = Inl e \<Longrightarrow> configureNodeCredentials k (e_cfg env) = Inl e"
  "start k env sv = Inr (creds, s) \<Longrightarrow> configureNodeCredentials k (e_cfg env) = Inr creds"
  by (auto simp: start_def Let_def split: sum.splits)

text \<open>C3: No plaintext to a public node. When the process starts with a configuration that \<open>Load\<close>
  accepted, either it stops because the certificate files of a node with a \<open>tls\<close> block cannot be
  used, or every node with a \<open>tls\<close> block is dialled over mutual TLS, version 1.3, against a
  certificate pool read from a file, and a node managed over gRPC that is dialled in plaintext has
  a private address or the explicit permission \<open>allow_public_grpc\<close>.\<close>

theorem no_public_plaintext:
  assumes "Load path data = Inr (e_cfg env)"
  shows "case start k env sv of
      Inl e \<Rightarrow> \<exists>n\<in>set (c_Nodes (e_cfg env)). \<exists>t e'. nc_TLS n = Some t \<and> build_for k n t = Inl e'
    | Inr (creds, s) \<Rightarrow> \<forall>n\<in>set (c_Nodes (e_cfg env)).
        (nc_TLS n \<noteq> None \<longrightarrow> (\<exists>tc. resolveCredentials creds (nc_APIAddr n) = MutualTLS tc \<and>
           tc_MinVersion tc = VersionTLS13 \<and> k_HasCerts k (tc_RootCAs tc))) \<and>
        (resolveCredentials creds (nc_APIAddr n) = Insecure \<and> DeployMode n = ''grpc'' \<longrightarrow>
           nc_AllowPublicGRPC n \<or> isPrivateHostPort (nc_APIAddr n))"
proof (cases "start k env sv")
  case (Inl e)
  with node_credentials_error start_credentials(1) show ?thesis by (fastforce simp: configureNodeCredentials_def)
next
  case (Inr p)
  obtain creds s where p: "p = (creds, s)" by (cases p)
  from start_credentials(2) Inr p have "node_credentials k (c_Nodes (e_cfg env)) [] = Inr creds"
    by (simp add: configureNodeCredentials_def)
  note built = node_credentials_built [OF this, THEN conjunct1, THEN bspec]
  have tls: "\<exists>tc. resolveCredentials creds (nc_APIAddr n) = MutualTLS tc \<and> tc_MinVersion tc = VersionTLS13 \<and> k_HasCerts k (tc_RootCAs tc)"
    if "n \<in> set (c_Nodes (e_cfg env))" "nc_TLS n \<noteq> None" for n
    using built [OF that(1)] that(2) BuildTLS_mutual by (fastforce simp: resolveCredentials_def)
  moreover have "nc_AllowPublicGRPC n \<or> isPrivateHostPort (nc_APIAddr n)"
    if "n \<in> set (c_Nodes (e_cfg env))" "resolveCredentials creds (nc_APIAddr n) = Insecure" "DeployMode n = ''grpc''" for n
    using tls [OF that(1)] that Load_nodes_ok [OF assms] by (auto simp: nodes_ok_spec_def node_ok_def)
  ultimately show ?thesis using Inr p by auto
qed

section \<open>Samples\<close>

definition tls_config_doc :: json where
  "tls_config_doc = JObj [(''server_host'', JStr ''vpn.example.org''),
     (''nodes'', JArr [JObj [(''name'', JStr ''n1''), (''api_addr'', JStr ''203.0.113.5:10085''),
        (''tls'', JObj [(''ca_cert'', JStr ''ca.pem''), (''client_cert'', JStr ''c.pem''), (''client_key'', JStr ''c.key'')])]])]"

definition tls_node :: NodeConfig where
  "tls_node = zero_node\<lparr>nc_Name := ''n1'', nc_APIAddr := ''203.0.113.5:10085'',
     nc_TLS := Some \<lparr>tls_CACert = ''ca.pem'', tls_ClientCert = ''c.pem'', tls_ClientKey = ''c.key'', tls_ServerName = []\<rparr>\<rparr>"

lemma tls_decodes:
  "unmarshal dec_config default_config (Doc tls_config_doc) =
     Some (default_config\<lparr>c_ServerHost := ''vpn.example.org'', c_Nodes := [tls_node]\<rparr>)"
  by (simp add: tls_config_doc_def dec_config_def dec_node_def dec_tls_def EqualFold_def lower_name
      default_config_def zero_node_def zero_tls_def tls_node_def)

definition tls_pki :: pki where
  "tls_pki = \<lparr>k_ReadFile = (\<lambda>f. Inr (''PEM '' @ f)), k_HasCerts = (\<lambda>t. t = ''PEM ca.pem''), k_LoadKeyPair = (\<lambda>_ _. None)\<rparr>"

theorem no_public_plaintext_witness:
  "\<exists>env creds s tc. Load ''c.json'' (FileData (Doc tls_config_doc)) = Inr (e_cfg env) \<and> c_Nodes (e_cfg env) = [tls_node] \<and>
     \<not> isPrivateHostPort (nc_APIAddr tls_node) \<and>
     start tls_pki env sample_service = Inr (creds, s) \<and>
     resolveCredentials creds (nc_APIAddr tls_node) = MutualTLS tc \<and> tc_MinVersion tc = VersionTLS13"
proof -
  have parts: "normalizeBalancerStrategy ''leastPing'' = ''leastPing''"
    "validateNodes [tls_node] = None" "\<not> isPrivateHostPort (nc_APIAddr tls_node)"
    by code_simp+
  have d: "c_VLESSClientEncryption default_config = []" "c_BalancerStrategy default_config = ''leastPing''"
    "parseXrayConfigFileMode (c_XrayConfigFileMode default_config) = Inr 384"
    by code_simp+
  from parts d tls_decodes obtain cfg where load: "Load ''c.json'' (FileData (Doc tls_config_doc)) = Inr cfg" "c_Nodes cfg = [tls_node]"
    by (simp add: Load_def applyXrayFilePerm_def normalizeVLESSClientEncryption_def)
  define env where "env = sample_env\<lparr>e_cfg := cfg\<rparr>"
  have "\<exists>creds. node_credentials tls_pki [tls_node] [] = Inr creds"
    by (simp add: tls_node_def BuildTLSCredentials_def tls_pki_def)
  then obtain creds s where st: "start tls_pki env sample_service = Inr (creds, s)"
    using load(2) by (auto simp: start_def configureNodeCredentials_def env_def Let_def)
  have "nc_TLS tls_node \<noteq> None" by (simp add: tls_node_def)
  then obtain tc where "resolveCredentials creds (nc_APIAddr tls_node) = MutualTLS tc" "tc_MinVersion tc = VersionTLS13"
    using no_public_plaintext [of "''c.json''" "FileData (Doc tls_config_doc)" env tls_pki sample_service] load st
    by (auto simp: env_def)
  with load st parts(3) show ?thesis by (auto simp: env_def intro!: exI [of _ "sample_env\<lparr>e_cfg := cfg\<rparr>"])
qed

end
