(* ===== verification/Router_Properties.thy ===== *)
theory Router_Properties
  imports Server_Invariant Rate_Limit_Properties
begin

text \<open>
  What the routing table protects: without the token of the administrator no request, whatever its
  method and path, changes users, credentials, inbounds, nodes, the configuration directory or Xray.
\<close>

section \<open>Requests that change nothing but counters\<close>

primrec is_accessed :: "job \<Rightarrow> bool" where
  "is_accessed SyncJob = False"
| "is_accessed (AccessedJob _ _) = True"

text \<open>The service (database, configuration directory, Xray, status) and the state of the nodes are as
  before; the only goroutines started note when a fallback token was used.\<close>

definition only_noted :: "'x server \<Rightarrow> 'x server \<Rightarrow> bool" where
  "only_noted s s' \<longleftrightarrow> srv_service s' = srv_service s \<and> srv_nodeStatus s' = srv_nodeStatus s \<and>
     (\<exists>js. srv_jobs s' = srv_jobs s @ js \<and> list_all is_accessed js)"

lemma only_noted_refl [simp]: "only_noted s s"
  by (simp add: only_noted_def)

lemma only_noted_fields [simp]:
  "only_noted s (s'\<lparr>srv_denied := n\<rparr>) = only_noted s s'"
  "only_noted s (s'\<lparr>srv_fetches := m\<rparr>) = only_noted s s'"
  by (simp_all add: only_noted_def)

lemma only_noted_job: "only_noted s (add_job (AccessedJob u t) s)"
  by (auto simp: only_noted_def add_job_def)

definition harmless :: "'x endpoint \<Rightarrow> bool" where
  "harmless h \<longleftrightarrow> (\<forall>r s. only_noted s (snd (h r s)))"

lemma reading_harmless [simp]: "harmless (answering f (reading g))"
  by (simp add: harmless_def answering_def reading_def)

lemma fallback_harmless [simp]: "harmless (withFallbackAuth env (answering f (reading g)))"
  by (auto simp: harmless_def withFallbackAuth_def answering_def reading_def Let_def only_noted_job
      split: sum.splits bool.splits option.splits)

lemma public_harmless: "list_all (\<lambda>(m, tpl, h). harmless h \<and> \<not> HasPrefix tpl ''/api'') (fallback_routes env @ public_routes env)"
  by (simp add: fallback_routes_def public_routes_def HasPrefix_def)

section \<open>The guard\<close>

definition admin_request :: "'x env \<Rightarrow> request \<Rightarrow> bool" where
  "admin_request env r \<longleftrightarrow> c_AdminToken (e_cfg env) \<noteq> [] \<and>
     lookup (rq_headers r) ''X-Admin-Token'' = c_AdminToken (e_cfg env)"

lemma adminAuth_refuses:
  "\<not> admin_request env r \<Longrightarrow> \<exists>code msg. adminAuth env h r s = (JsonError code msg, s) \<and> code \<in> {401, 503}"
  by (auto simp: adminAuth_def admin_request_def)

lemma route_refuses:
  assumes "(m, tpl, h) \<in> set (routes env)" and "\<not> admin_request env r"
  shows "only_noted s (snd (h r s)) \<and> (HasPrefix tpl ''/api'' \<longrightarrow> reply_status (fst (h r s)) \<in> {401, 503})"
proof -
  consider "(m, tpl, h) \<in> set (fallback_routes env @ public_routes env)"
    | h' where "h = adminAuth env h'" | "tpl = ''/health''" "h = (\<lambda>_ s. (Reply 200 Healthy, s))"
    using assms(1) by (auto simp: routes_def guarded_def)
  then show ?thesis
  proof cases
    case 1
    with public_harmless [of env] have "harmless h" "\<not> HasPrefix tpl ''/api''" by (auto simp only: list_all_iff split: prod.splits)
    then show ?thesis by (simp add: harmless_def)
  next
    case 2
    with adminAuth_refuses [OF assms(2), of h' s] show ?thesis by auto
  next
    case 3
    then show ?thesis by (simp add: HasPrefix_def)
  qed
qed

lemma middleware_noted:
  assumes "only_noted s (snd (h r s))"
  shows "only_noted s (snd (subscriptionMiddleware route env h r s)) \<and>
    fst (subscriptionMiddleware route env h r s) = fst (h r s)"
  using assms by (auto simp: subscriptionMiddleware_def Let_def split: option.splits prod.splits)

lemma dispatch_refuses:
  assumes "\<not> admin_request env r"
  shows "only_noted s (snd (dispatch mx env m r s)) \<and>
    (\<forall>tpl h vars. find_route mx m (rq_path r) (routes env) = Some (tpl, h, vars) \<and> HasPrefix tpl ''/api'' \<longrightarrow>
       reply_status (fst (dispatch mx env m r s)) \<in> {401, 503})"
proof (cases "find_route mx m (rq_path r) (routes env)")
  case None
  then show ?thesis by (simp add: dispatch_def)
next
  case (Some p)
  obtain tpl h vars where p: "p = (tpl, h, vars)" by (cases p)
  have "\<not> admin_request env (r\<lparr>rq_vars := vars\<rparr>)" using assms by (simp add: admin_request_def)
  from route_refuses [OF find_route_mem [OF Some [unfolded p]] this, of s] middleware_noted [of s h "r\<lparr>rq_vars := vars\<rparr>" "Some tpl" env]
  show ?thesis using Some p by (auto simp: dispatch_def)
qed

lemma limited:
  "only_noted s (snd (h r s)) \<Longrightarrow> rateLimitWrap lib env h r (s, ls) = (rep, s', ls') \<Longrightarrow>
     only_noted s s' \<and> (rep = fst (h r s) \<or> reply_status rep = 429)"
  by (auto simp: rateLimitWrap_def rateLimitMiddleware_def split: rate_class.splits prod.splits if_splits bool.splits)

text \<open>C22: Nothing is administered without the administrator's token. For a request without it, or when
  no token is configured, of any method and to any path, and however the router library matches
  paths, the database, the configuration directory, Xray and the state of the nodes stay as they
  are, and the only goroutines started note the use of a fallback token. When the request reaches
  a route below \<open>/api\<close>, it is answered with 401, 503 or 429.\<close>

theorem admin_token_required:
  assumes "\<not> admin_request env r" and "Router mx lib env m r (s, ls) = (rep, s', ls')"
  shows "only_noted s s' \<and>
    (\<forall>tpl h vars. find_route mx m (rq_path r) (routes env) = Some (tpl, h, vars) \<and> HasPrefix tpl ''/api'' \<longrightarrow>
       reply_status rep \<in> {401, 503, 429})"
proof -
  note d = dispatch_refuses [OF assms(1), of s mx m]
  from limited [OF d [THEN conjunct1] assms(2) [unfolded Router_def]] d show ?thesis by auto
qed

definition delete_mux :: mux where
  "delete_mux = \<lparr>mx_match = (\<lambda>tpl path. if tpl = ''/api/users/{id}'' then Some [(''id'', ''1'')] else None)\<rparr>"

theorem admin_token_required_witness:
  "\<exists>rep s' ls'. Router delete_mux bucket_lib sample_env MethodDelete ((sample_get [])\<lparr>rq_path := ''/api/users/1''\<rparr>)
      (sample_server, \<lparr>lim_sub = [], lim_admin = []\<rparr>) = (rep, s', ls') \<and>
     db_of s' = sample_api_db \<and> reply_status rep \<in> {401, 503, 429}"
proof -
  let ?r = "(sample_get [])\<lparr>rq_path := ''/api/users/1''\<rparr>"
  obtain rep s' ls' where run: "Router delete_mux bucket_lib sample_env MethodDelete ?r
      (sample_server, \<lparr>lim_sub = [], lim_admin = []\<rparr>) = (rep, s', ls')" by (metis prod.exhaust)
  have "\<not> admin_request sample_env ?r"
    by (simp add: admin_request_def sample_env_def sample_api_config_def sample_get_def lookup_def)
  note req = admin_token_required [OF this run]
  have "\<exists>tpl h vars. find_route delete_mux MethodDelete ''/api/users/1'' (routes sample_env) = Some (tpl, h, vars) \<and> HasPrefix tpl ''/api''"
    by (simp add: routes_def fallback_routes_def public_routes_def admin_routes_def guarded_def delete_mux_def HasPrefix_def)
  then have "reply_status rep \<in> {401, 503, 429}" using req by (auto simp del: insert_iff)
  moreover have "db_of s' = sample_api_db" using req sample_server_db by (simp add: only_noted_def db_of_def)
  ultimately show ?thesis using run by blast
qed

end
