(* ===== verification/Recovery_Properties.thy ===== *)
theory Recovery_Properties
  imports Server_Invariant
begin

text \<open>
  Recovery of nodes: users that were added over gRPC are gone when a node restarts; a reconcile pass
  that reports success has brought every user back whom the database places on the node. Xray is
  not part of the repository; what is relied on is stated below.
\<close>

section \<open>What is relied on\<close>

text \<open>\<open>live x addr tag\<close> is the set of emails of the users of an inbound of the node at an address. Adding
  a user never takes a user away; when it succeeds, or fails because the user exists, the user is
  there afterwards; \<open>GetInboundUsers\<close> lists users that are there.\<close>

type_synonym 'x user_view = "'x \<Rightarrow> string \<Rightarrow> string \<Rightarrow> string set"

definition accepts_users :: "'x handler \<Rightarrow> 'x user_view \<Rightarrow> bool" where
  "accepts_users h live \<longleftrightarrow>
     (\<forall>addr tag u x e x'. h_AlterInbound h addr tag (AddUserOperation u) x = (e, x') \<longrightarrow>
        (\<forall>a t. live x a t \<subseteq> live x' a t) \<and>
        ((\<forall>m. e = Some m \<longrightarrow> isBenignAddExists m) \<longrightarrow> pu_Email u \<in> live x' addr tag)) \<and>
     (\<forall>addr tag x us. h_GetInboundUsers h addr tag x = Inr us \<longrightarrow> set us \<subseteq> live x addr tag)"

lemma accepts_add:
  assumes "accepts_users h live" and "h_AlterInbound h addr tag (AddUserOperation u) x = (e, x')"
  shows "live x a t \<subseteq> live x' a t" and "(\<And>m. e = Some m \<Longrightarrow> isBenignAddExists m) \<Longrightarrow> pu_Email u \<in> live x' addr tag"
  using assms unfolding accepts_users_def by blast+

section \<open>Adding the missing users\<close>

text \<open>An email is present up to surrounding space.\<close>

definition present :: "'x user_view \<Rightarrow> node \<Rightarrow> string \<Rightarrow> 'x server \<Rightarrow> bool" where
  "present live n email s \<longleftrightarrow>
     (\<exists>e\<in>live (w_xray (world_of s)) (n_APIAddr n) (n_InboundTag n). TrimSpace e = TrimSpace email)"

definition buildable :: "jtext \<Rightarrow> bool" where
  "buildable cc \<longleftrightarrow> (\<forall>email. \<not> isl (storedConfigToProtocolUser cc email))"

definition grew :: "'x user_view \<Rightarrow> 'x world \<Rightarrow> 'x world \<Rightarrow> bool" where
  "grew live w w' \<longleftrightarrow> (\<forall>a t. live (w_xray w) a t \<subseteq> live (w_xray w') a t)"

lemma grew_refl [simp]: "grew live w w"
  by (simp add: grew_def)

lemma grew_trans: "grew live a b \<Longrightarrow> grew live b c \<Longrightarrow> grew live a c"
  unfolding grew_def by blast

lemma grewD: "grew live w w' \<Longrightarrow> e \<in> live (w_xray w) a t \<Longrightarrow> e \<in> live (w_xray w') a t"
  unfolding grew_def by blast

lemma benign_label: "isBenignAddExists (''alter inbound: '' @ m) \<Longrightarrow> isBenignAddExists m"
proof -
  have "ToLower ''alter inbound: '' = ''alter inbound: ''" by code_simp
  then have "ToLower (''alter inbound: '' @ m) = ''alter inbound: '' @ ToLower m" by (simp add: ToLower_def)
  then show "isBenignAddExists (''alter inbound: '' @ m) \<Longrightarrow> ?thesis" by (simp add: isBenignAddExists_def HasPrefix_def)
qed

lemma stored_email: "storedConfigToProtocolUser cc email = Inr u \<Longrightarrow> pu_Email u = email"
  by (auto simp: storedConfigToProtocolUser_def Let_def map_sum_def split: option.splits if_splits sum.splits)

lemma add_one:
  assumes h: "accepts_users h live"
    and run: "AddExistingClientToInboundViaAPI h addr tag email cc w = (e, w')"
  shows "grew live w w' \<and> (buildable cc \<longrightarrow> (\<forall>m. e = Some m \<longrightarrow> isBenignAddExists m) \<longrightarrow>
     TrimSpace email \<in> live (w_xray w') addr tag)"
proof (cases "TrimSpace email = [] \<or> addr = []")
  case True
  have "\<not> isBenignAddExists ''username required''" "\<not> isBenignAddExists ''xray_api_addr required''" by code_simp+
  with True run show ?thesis by (auto simp: AddExistingClientToInboundViaAPI_def Let_def split: if_splits)
next
  case False
  show ?thesis
  proof (cases "storedConfigToProtocolUser cc (TrimSpace email)")
    case (Inl err)
    with False run show ?thesis by (auto simp: AddExistingClientToInboundViaAPI_def Let_def buildable_def isl_def)
  next
    case (Inr u)
    obtain e' x' where x: "h_AlterInbound h addr tag (AddUserOperation u) (w_xray w) = (e', x')" by (metis prod.exhaust)
    with False run Inr have "e = map_option (\<lambda>t. ''alter inbound: '' @ t) e'" "w' = w\<lparr>w_xray := x'\<rparr>"
      by (auto simp: AddExistingClientToInboundViaAPI_def Let_def on_xray_def)
    with accepts_add [OF h x] stored_email [OF Inr] benign_label show ?thesis by (auto simp: grew_def)
  qed
qed

lemma add_all:
  assumes h: "accepts_users h live"
  shows "add_wanted h n cs w = (errs, w') \<Longrightarrow> grew live w w' \<and>
    (errs = 0 \<longrightarrow> (\<forall>c\<in>set cs. buildable (w_ClientConfig c) \<longrightarrow>
       TrimSpace (w_Email c) \<in> live (w_xray w') (n_APIAddr n) (n_InboundTag n)))"
proof (induction cs arbitrary: w errs w')
  case (Cons c cs)
  obtain e w1 where one: "AddExistingClientToInboundViaAPI h (n_APIAddr n) (n_InboundTag n) (w_Email c) (w_ClientConfig c) w = (e, w1)"
    by (metis prod.exhaust)
  obtain errs1 w2 where rest: "add_wanted h n cs w1 = (errs1, w2)" by (metis prod.exhaust)
  have "w' = w2" "errs = 0 \<longrightarrow> errs1 = 0 \<and> (\<forall>m. e = Some m \<longrightarrow> isBenignAddExists m)"
    using Cons.prems one rest by (auto split: option.splits if_splits)
  with add_one [OF h one] Cons.IH [OF rest] show ?case
    by (auto intro: grew_trans dest: grewD)
qed simp

section \<open>One node\<close>

lemma listed_live: "accepts_users h live \<Longrightarrow> GetInboundUsersViaAPI h addr tag w = Inr us \<Longrightarrow> e \<in> set us \<Longrightarrow>
  \<exists>u\<in>live (w_xray w) addr tag. TrimSpace u = e"
  by (fastforce simp: GetInboundUsersViaAPI_def accepts_users_def split: if_splits sum.splits)

text \<open>Everybody whom the database places on the node, with a credential for its inbound, is present.\<close>

definition recovered :: "'x user_view \<Rightarrow> node \<Rightarrow> 'x server \<Rightarrow> bool" where
  "recovered live n s \<longleftrightarrow>
     (\<forall>want. ListWantedClientsForNode (n_ID n) (n_InboundTag n) (db_of s) = Inr want \<longrightarrow>
        (\<forall>c\<in>set want. buildable (w_ClientConfig c) \<longrightarrow> present live n (w_Email c) s))"

lemma recovered_grew: "recovered live n s \<Longrightarrow> db_of s' = db_of s \<Longrightarrow> grew live (world_of s) (world_of s') \<Longrightarrow> recovered live n s'"
  unfolding recovered_def present_def grew_def by (metis subsetD)

lemma status_access [simp]:
  "db_of (storeNodeStatus name st s) = db_of s" "world_of (storeNodeStatus name st s) = world_of s"
  "srv_nodeStatus (storeNodeStatus name st s) = map_put name st (srv_nodeStatus s)"
  "srv_nodeStatus (set_world w s) = srv_nodeStatus s"
  by (simp_all add: storeNodeStatus_def db_of_def world_of_def set_world_def)

lemma one_node:
  assumes h: "accepts_users (e_xray env) live"
  shows "grew live (world_of s) (world_of (reconcileOneNode env n s)) \<and>
    (\<exists>st. srv_nodeStatus (reconcileOneNode env n s) = map_put (n_Name n) st (srv_nodeStatus s) \<and>
       (ns_LastApplyOK st \<longrightarrow> recovered live n (reconcileOneNode env n s)))"
proof (cases "ListWantedClientsForNode (n_ID n) (n_InboundTag n) (db_of s)")
  case (Inl e)
  then show ?thesis by (simp add: reconcileOneNode_def) (rule exI, rule conjI, rule refl, simp)
next
  case want: (Inr want)
  show ?thesis
  proof (cases "GetInboundUsersViaAPI (e_xray env) (n_APIAddr n) (n_InboundTag n) (world_of s)")
    case (Inl e)
    with want show ?thesis by (simp add: reconcileOneNode_def) (rule exI, rule conjI, rule refl, simp)
  next
    case (Inr us)
    obtain errs w where add: "add_wanted (e_xray env) n (clientsToAdd want us) (world_of s) = (errs, w)" by (metis prod.exhaust)
    let ?s = "reconcileOneNode env n s"
    note grown = add_all [OF h add]
    have s: "world_of ?s = w" "db_of ?s = db_of s"
      and st: "\<exists>st. srv_nodeStatus ?s = map_put (n_Name n) st (srv_nodeStatus s) \<and> ns_LastApplyOK st = (errs = 0)"
      using want Inr add by (auto simp: reconcileOneNode_def on_world_def)
    have "present live n (w_Email c) ?s" if "errs = 0" "c \<in> set want" "buildable (w_ClientConfig c)" for c
    proof (cases "w_Email c \<in> set us")
      case True
      from listed_live [OF h Inr True] obtain u where
        "u \<in> live (w_xray (world_of s)) (n_APIAddr n) (n_InboundTag n)" "TrimSpace u = w_Email c" by blast
      moreover from this(2) have "TrimSpace u = TrimSpace (w_Email c)" by (metis TrimSpace_idem)
      ultimately show ?thesis using grewD grown s(1) unfolding present_def by metis
    next
      case False
      then have "c \<in> set (clientsToAdd want us)" using that(2) by (simp add: clientsToAdd_def)
      with that grown have "TrimSpace (w_Email c) \<in> live (w_xray w) (n_APIAddr n) (n_InboundTag n)" by blast
      then show ?thesis using s(1) by (auto simp: present_def intro: bexI [of _ "TrimSpace (w_Email c)"])
    qed
    then have "errs = 0 \<longrightarrow> recovered live n ?s" using want s(2) by (simp add: recovered_def)
    with grown s(1) st show ?thesis by auto
  qed
qed

section \<open>A pass\<close>

lemma pass_nodes:
  assumes h: "accepts_users (e_xray env) live"
  shows "distinct (map n_Name ns) \<Longrightarrow>
    grew live (world_of s) (world_of (fold (reconcileOneNode env) ns s)) \<and>
    (\<forall>n\<in>set ns. \<exists>st. map_of (srv_nodeStatus (fold (reconcileOneNode env) ns s)) (n_Name n) = Some st \<and>
       (ns_LastApplyOK st \<longrightarrow> recovered live n (fold (reconcileOneNode env) ns s)))"
proof (induction ns rule: rev_induct)
  case (snoc m ns)
  let ?s = "fold (reconcileOneNode env) ns s"
  from snoc have IH: "grew live (world_of s) (world_of ?s)"
    "\<forall>n\<in>set ns. \<exists>st. map_of (srv_nodeStatus ?s) (n_Name n) = Some st \<and> (ns_LastApplyOK st \<longrightarrow> recovered live n ?s)" by auto
  obtain st where st: "srv_nodeStatus (reconcileOneNode env m ?s) = map_put (n_Name m) st (srv_nodeStatus ?s)"
    "ns_LastApplyOK st \<longrightarrow> recovered live m (reconcileOneNode env m ?s)"
    and g: "grew live (world_of ?s) (world_of (reconcileOneNode env m ?s))" using one_node [OF h, of ?s m] by blast
  have "n_Name n \<noteq> n_Name m" if "n \<in> set ns" for n using snoc.prems that by (auto simp: image_iff)
  then have "\<forall>n\<in>set ns. \<exists>st. map_of (srv_nodeStatus (reconcileOneNode env m ?s)) (n_Name n) = Some st \<and>
      (ns_LastApplyOK st \<longrightarrow> recovered live n (reconcileOneNode env m ?s))"
    using IH(2) st(1) recovered_grew [OF _ reconcileOneNode_db g] by fastforce
  with st grew_trans [OF IH(1) g] show ?case by auto
qed simp

lemma wanted_listed:
  assumes "conn_ok db" and "(Database.row_id u, n_ID n) \<in> set (user_nodes db)" and "u \<in> set (users db)" and "row_enabled u"
    and "ib \<in> set (inbounds db)" and "ib_Tag ib = n_InboundTag n"
    and "c \<in> set (user_clients db)" and "uc_UserID c = Database.row_id u" and "uc_InboundID c = ib_ID ib" and "uc_Enabled c"
  shows "\<exists>want. ListWantedClientsForNode (n_ID n) (n_InboundTag n) db = Inr want \<and>
    \<lparr>w_Email = row_email u, w_ClientConfig = uc_ClientConfig c\<rparr> \<in> set want"
  using assms by (force simp: ListWantedClientsForNode_def with_conn_def)

text \<open>C17: A node recovers. For a reconcile pass over the nodes: every enabled node has a status from it,
  no user of any node is taken away, and when the status of a node says that everything was
  applied, each enabled user whom the database places on the node, with an enabled client on the
  inbound of the node whose stored credential is usable, is among the users of the node,
  whatever the node had before the pass.\<close>

theorem reconcile_recovers_nodes:
  assumes "accepts_users (e_xray env) live" and "db_reachable (db_of s)" and "conn_ok (db_of s)"
    and "n \<in> set (nodes (db_of s))" and "n_Enabled n"
  shows "db_of (reconcileNodesOnce env s) = db_of s \<and>
    grew live (world_of s) (world_of (reconcileNodesOnce env s)) \<and>
    (\<exists>st. map_of (srv_nodeStatus (reconcileNodesOnce env s)) (n_Name n) = Some st \<and>
       (ns_LastApplyOK st \<longrightarrow>
          (\<forall>u\<in>set (users (db_of s)). \<forall>ib\<in>set (inbounds (db_of s)). \<forall>c\<in>set (user_clients (db_of s)).
             row_enabled u \<and> (Database.row_id u, n_ID n) \<in> set (user_nodes (db_of s)) \<and> ib_Tag ib = n_InboundTag n \<and>
             uc_UserID c = Database.row_id u \<and> uc_InboundID c = ib_ID ib \<and> uc_Enabled c \<and> buildable (uc_ClientConfig c) \<longrightarrow>
             present live n (row_email u) (reconcileNodesOnce env s))))"
proof -
  let ?ns = "filter n_Enabled (sort_key n_Name (nodes (db_of s)))" and ?s = "reconcileNodesOnce env s"
  have l: "ListNodes (db_of s) = Inr (sort_key n_Name (nodes (db_of s)))" using assms(3) by (simp add: ListNodes_def with_conn_def)
  then have fold: "?s = fold (reconcileOneNode env) ?ns s" by (simp add: reconcileNodesOnce_def)
  have "distinct (map n_Name (nodes (db_of s)))" using reachable_inv [OF assms(2)] by (auto simp: db_inv_def nodes_ok_def)
  then have "distinct (map n_Name ?ns)" by (simp add: distinct_map distinct_map_filter inj_on_def)
  from pass_nodes [OF assms(1) this, of s] fold assms(4,5) obtain st where
    st: "map_of (srv_nodeStatus ?s) (n_Name n) = Some st" "ns_LastApplyOK st \<longrightarrow> recovered live n ?s"
    and g: "grew live (world_of s) (world_of ?s)" by auto
  have db: "db_of ?s = db_of s" by (simp add: fold fold_world_db)
  have "present live n (row_email u) ?s"
    if "ns_LastApplyOK st" "u \<in> set (users (db_of s))" "ib \<in> set (inbounds (db_of s))" "c \<in> set (user_clients (db_of s))"
      "row_enabled u" "(Database.row_id u, n_ID n) \<in> set (user_nodes (db_of s))" "ib_Tag ib = n_InboundTag n"
      "uc_UserID c = Database.row_id u" "uc_InboundID c = ib_ID ib" "uc_Enabled c" "buildable (uc_ClientConfig c)" for u ib c
    using wanted_listed [OF assms(3) that(6,2,5,3,7,4,8-10)] st(2) that(1,11) db by (fastforce simp: recovered_def)
  with st(1) g db show ?thesis by blast
qed

section \<open>Samples\<close>

definition recovery_client :: db where
  "recovery_client = projr (UpsertUserClient 1 1 sample_stored sample_db)"

definition recovery_db :: db where
  "recovery_db = projr (SetUserNodes 1 [1] recovery_client)"

definition recovery_server :: "xray_log server" where
  "recovery_server = set_db recovery_db sample_server"

definition log_users :: "xray_log user_view" where
  "log_users x addr tag = {pu_Email u | u. (addr, tag, AddUserOperation u) \<in> set x}"

lemma recovery_reachable: "db_reachable recovery_db"
proof -
  have "UpsertUserClient 1 1 sample_stored sample_db = Inr recovery_client" "SetUserNodes 1 [1] recovery_client = Inr recovery_db"
    by code_simp+
  then show ?thesis by (blast intro: sample_reachable reach_step step_client step_set_nodes)
qed

lemma sample_buildable: "buildable sample_stored"
proof -
  have "unmarshal dec_StoredClientConfig zero_StoredClientConfig sample_stored = Some sample_trojan" "ToLower (st_Protocol sample_trojan) = ''trojan''"
    by code_simp+
  then show ?thesis by (simp add: buildable_def storedConfigToProtocolUser_def)
qed

theorem reconcile_recovers_nodes_witness:
  "\<exists>st n. map_of (srv_nodeStatus (reconcileNodesOnce sample_env recovery_server)) ''n1'' = Some st \<and> ns_LastApplyOK st \<and>
     n_Name n = ''n1'' \<and> present log_users n ''alice@x'' (reconcileNodesOnce sample_env recovery_server)"
proof -
  have db: "db_of recovery_server = recovery_db" by (simp add: recovery_server_def)
  have x: "accepts_users (e_xray sample_env) log_users"
    by (auto simp: accepts_users_def sample_env_def sample_xray_def log_users_def)
  have conn: "conn_ok recovery_db" by code_simp
  obtain n where n: "n \<in> set (nodes recovery_db)" "n_Enabled n" "n_Name n = ''n1''" "n_ID n = 1" "n_InboundTag n = ''vless-in''"
  proof
    let ?n = "hd (nodes recovery_db)"
    show "?n \<in> set (nodes recovery_db)" "n_Enabled ?n" "n_Name ?n = ''n1''" "n_ID ?n = 1" "n_InboundTag ?n = ''vless-in''" by code_simp+
  qed
  obtain u ib c where rows: "u \<in> set (users recovery_db)" "ib \<in> set (inbounds recovery_db)" "c \<in> set (user_clients recovery_db)"
    "row_enabled u" "(Database.row_id u, 1) \<in> set (user_nodes recovery_db)" "ib_Tag ib = ''vless-in''" "uc_UserID c = Database.row_id u"
    "uc_InboundID c = ib_ID ib" "uc_Enabled c" "uc_ClientConfig c = sample_stored" "row_email u = ''alice@x''"
  proof
    let ?u = "hd (users recovery_db)" and ?ib = "hd (inbounds recovery_db)" and ?c = "hd (user_clients recovery_db)"
    show "?u \<in> set (users recovery_db)" "?ib \<in> set (inbounds recovery_db)" "?c \<in> set (user_clients recovery_db)"
      "row_enabled ?u" "(Database.row_id ?u, 1) \<in> set (user_nodes recovery_db)" "ib_Tag ?ib = ''vless-in''"
      "uc_UserID ?c = Database.row_id ?u" "uc_InboundID ?c = ib_ID ?ib" "uc_Enabled ?c" "uc_ClientConfig ?c = sample_stored"
      "row_email ?u = ''alice@x''" by code_simp+
  qed
  have ok: "case map_of (srv_nodeStatus (reconcileNodesOnce sample_env recovery_server)) ''n1'' of Some st \<Rightarrow> ns_LastApplyOK st | None \<Rightarrow> False"
    by code_simp
  from reconcile_recovers_nodes [OF x, of recovery_server n] db recovery_reachable conn n obtain st where
    st: "map_of (srv_nodeStatus (reconcileNodesOnce sample_env recovery_server)) ''n1'' = Some st"
    "ns_LastApplyOK st \<Longrightarrow> present log_users n ''alice@x'' (reconcileNodesOnce sample_env recovery_server)"
    using rows sample_buildable by metis
  with ok n(3) show ?thesis by auto
qed

end
