(* ===== verification/Emergency_Properties.thy ===== *)
theory Emergency_Properties
  imports Subscription_Properties Emergency_Api Db_Properties
begin

text \<open>
  The emergency mode through the API: what the handlers that switch it on and off do to the
  subscriptions that are served.
\<close>

section \<open>What a subscription reads\<close>

definition emergency_keys :: "string list" where
  "emergency_keys = [''emergency_active'', ''emergency_profile_id'', ''emergency_activated_at'']"

text \<open>Two databases that differ in the three settings of the emergency mode only.\<close>

definition same_but_emergency :: "db \<Rightarrow> db \<Rightarrow> bool" where
  "same_but_emergency db db' \<longleftrightarrow> (\<exists>kvs. db' = db\<lparr>app_settings := kvs\<rparr>) \<and>
     (\<forall>k. k \<notin> set emergency_keys \<longrightarrow> get_setting k db' = get_setting k db)"

lemma same_reads:
  assumes "same_but_emergency db db'"
  shows "GetUserByToken t db' = GetUserByToken t db" "GetUserClients u db' = GetUserClients u db"
    "ListNodeIDsForUser u db' = ListNodeIDsForUser u db" "ListNodes db' = ListNodes db"
    "GetEmergencyProfile i db' = GetEmergencyProfile i db"
    "GetGlobalClientRoutes db' = GetGlobalClientRoutes db" "GetBalancerRuntimeConfig db' = GetBalancerRuntimeConfig db"
proof -
  obtain kvs where db': "db' = db\<lparr>app_settings := kvs\<rparr>" using assms by (auto simp: same_but_emergency_def)
  then show "GetUserByToken t db' = GetUserByToken t db" "GetUserClients u db' = GetUserClients u db"
    "ListNodeIDsForUser u db' = ListNodeIDsForUser u db" "ListNodes db' = ListNodes db"
    "GetEmergencyProfile i db' = GetEmergencyProfile i db"
    by (simp_all add: GetUserByToken_def find_user_def with_conn_def GetUserClients_def clients_join_def
        ListNodeIDsForUser_def ListNodes_def GetEmergencyProfile_def)
  have "''global_client_routes'' \<notin> set emergency_keys" "''balancer_runtime_config'' \<notin> set emergency_keys" by code_simp+
  with assms have "get_setting ''global_client_routes'' db' = get_setting ''global_client_routes'' db"
    "get_setting ''balancer_runtime_config'' db' = get_setting ''balancer_runtime_config'' db"
    unfolding same_but_emergency_def by blast+
  moreover have "conn_ok db' = conn_ok db" by (simp add: db')
  ultimately show "GetGlobalClientRoutes db' = GetGlobalClientRoutes db" "GetBalancerRuntimeConfig db' = GetBalancerRuntimeConfig db"
    unfolding GetGlobalClientRoutes_def GetBalancerRuntimeConfig_def with_conn_def by simp_all
qed

lemma handleSubscription_same:
  assumes "same_but_emergency db db'" and "emergency_of db' = emergency_of db"
  shows "handleSubscription env r db' = handleSubscription env r db"
  unfolding handleSubscription_def generate_for_def expandClientsForNodes_def getEffectiveBalancerConfig_def
    selected_clients_def user_of_token_def hysteriaMainSubExtra_def same_reads [OF assms(1)] assms(2) ..

text \<open>The handlers that answer with share links, with the list of the VLESS links, with the index of the
  subscription URLs or with the reserve link.\<close>

definition same_link_answers :: "'x env \<Rightarrow> db \<Rightarrow> db \<Rightarrow> bool" where
  "same_link_answers env db db' \<longleftrightarrow> (\<forall>r format forcedProtocol b64.
     handleSubscriptionLinksByFormatAndProtocol env format forcedProtocol r db' =
       handleSubscriptionLinksByFormatAndProtocol env format forcedProtocol r db \<and>
     handleVLESSLinkByTag env format r db' = handleVLESSLinkByTag env format r db \<and>
     handleVLESSList env r db' = handleVLESSList env r db \<and>
     handleSubscriptionLinks env r db' = handleSubscriptionLinks env r db \<and>
     handleHysteriaSub env b64 r db' = handleHysteriaSub env b64 r db)"

text \<open>None of them looks at the emergency mode.\<close>

lemma links_ignore_emergency:
  assumes "same_but_emergency db db'"
  shows "same_link_answers env db db'"
  unfolding same_link_answers_def handleSubscriptionLinksByFormatAndProtocol_def handleVLESSLinkByTag_def handleVLESSList_def
    handleSubscriptionLinks_def handleHysteriaSub_def generateConfigForSubscriptionRequestWithForcedProtocol_def
    generate_for_def expandClientsForNodes_def getEffectiveBalancerConfig_def user_of_token_def hysteriaMainSubExtra_def
    same_reads [OF assms] by simp

lemma same_common:
  assumes "same_but_emergency db db1" and "same_but_emergency db db2"
  shows "same_but_emergency db1 db2"
proof -
  obtain x y where "db1 = db\<lparr>app_settings := x\<rparr>" "db2 = db\<lparr>app_settings := y\<rparr>"
    using assms by (auto simp: same_but_emergency_def)
  then have "db2 = db1\<lparr>app_settings := y\<rparr>" by simp
  then show ?thesis using assms by (auto simp: same_but_emergency_def)
qed

lemma put_setting_same:
  assumes "same_but_emergency db db'" and "k \<in> set emergency_keys"
  shows "same_but_emergency db (put_setting k v db')"
  using assms by (auto simp: same_but_emergency_def settings.get_put) (simp add: put_setting_def, blast)

lemma same_refl [simp]: "same_but_emergency db db"
  unfolding same_but_emergency_def by (metis db.surjective db.update_convs(8))

lemma emergency_keys_in [simp]:
  "''emergency_active'' \<in> set emergency_keys" "''emergency_profile_id'' \<in> set emergency_keys" "''emergency_activated_at'' \<in> set emergency_keys"
  by (simp_all add: emergency_keys_def)

lemma activated_same: "ActivateEmergency now i db = Inr db' \<Longrightarrow> same_but_emergency db db'"
  by (auto simp: ActivateEmergency_def with_conn_def intro!: put_setting_same split: if_splits)

text \<open>The database without the settings of the emergency mode, which is what a deactivation leaves.\<close>

lemma without_emergency:
  shows "same_but_emergency db (del_settings emergency_keys db)" "emergency_of (del_settings emergency_keys db) = None"
proof -
  show "same_but_emergency db (del_settings emergency_keys db)"
    by (auto simp: same_but_emergency_def settings.get_del) (simp add: del_settings_def, blast)
  have "get_setting ''emergency_active'' (del_settings emergency_keys db) = None" by (simp add: settings.get_del)
  then show "emergency_of (del_settings emergency_keys db) = None"
    by (simp add: emergency_of_def GetEmergencyStatus_def Let_def)
qed

lemma deactivated:
  assumes "same_but_emergency db db1" and "DeactivateEmergency db1 = Inr db2"
  shows "same_but_emergency db db2" "emergency_of db2 = None"
proof -
  have db2: "db2 = del_settings emergency_keys db1" using assms(2)
    by (simp add: DeactivateEmergency_def with_conn_def emergency_keys_def split: if_splits)
  show "emergency_of db2 = None" unfolding db2 by (rule without_emergency)
  have "same_but_emergency db1 db" using same_common [OF assms(1) same_refl] .
  then show "same_but_emergency db db2" unfolding db2 by (rule same_common) (rule without_emergency)
qed

section \<open>The clients of a profile\<close>

definition on_inbounds :: "'x env \<Rightarrow> request \<Rightarrow> string list \<Rightarrow> Outbound \<Rightarrow> bool" where
  "on_inbounds env r tags ob \<longleftrightarrow>
     (\<exists>c j. f_InboundTag c \<in> set tags \<and>
        buildOutbound (e_x25519 env) (client_host (effectiveHost (e_cfg env) r) (effectiveInboundHosts (e_cfg env) r) c)
          (c\<lparr>f_InboundPort := client_port (c_InboundPorts (e_cfg env)) c\<rparr>) j = Inr ob)"

text \<open>The clients of a user that are not excluded and on the right side of the fallback split.\<close>

abbreviation eligible :: "'x env \<Rightarrow> request \<Rightarrow> user_client_full list \<Rightarrow> user_client_full list" where
  "eligible env r cs \<equiv> split_fallback (e_cfg env) (rq_fallback r) (filterExcludedInbounds (e_cfg env) cs)"

lemma selected_in_profile:
  assumes "emergency_of db = Some em" and "es_Profile em = Some p"
    and "\<exists>c\<in>set (eligible env r cs). f_InboundTag c \<in> set (ep_InboundTags p)"
    and "c \<in> set (selected_clients (e_cfg env) r db cs)"
  shows "f_InboundTag c \<in> set (ep_InboundTags p)"
proof -
  have "c \<in> set (emergency_filter em (eligible env r cs))"
    using assms(1,4) filters_sub by (fastforce simp: selected_clients_def Let_def)
  then show ?thesis using assms(2,3) by (auto simp: emergency_filter_def Let_def filter_empty_conv split: if_splits)
qed

lemma generated_on_inbounds:
  assumes "generate_for env r db user sel = Inr cc" and "\<And>c. c \<in> set sel \<Longrightarrow> f_InboundTag c \<in> set tags"
    and "ob \<in> set (cc_Outbounds cc)"
  shows "system_outbound ob \<or> on_inbounds env r tags ob"
proof -
  let ?clients = "expandClientsForNodes (e_cfg env) db (u_ID user) sel"
  obtain gr bst bu bi where gen: "GenerateClientConfig (e_x25519 env) (effectiveHost (e_cfg env) r) (effectiveInboundHosts (e_cfg env) r)
      (c_InboundPorts (e_cfg env)) user ?clients gr bst bu bi (c_SocksInboundPort (e_cfg env)) (c_HTTPInboundPort (e_cfg env))
      (c_ClientDNSServers (e_cfg env)) (c_ClientBlackholeResponse (e_cfg env)) = Inr cc"
    using assms(1) by (auto simp: generate_for_def Let_def split: if_splits sum.splits)
  have "f_InboundTag uc \<in> set tags" if "uc \<in> set ?clients" for uc
    using expanded_from [OF that] assms(2) by (auto simp: at_node_def)
  with generated_outbound [OF gen assms(3)] show ?thesis
    unfolding on_inbounds_def system_outbound_def by blast
qed

section \<open>Switching\<close>

lemma activate_Reply:
  assumes "activateEmergency env r s = (Reply code st, s')"
  obtains i p db where "GetEmergencyProfile i (db_of s) = Inr (Some p)" "ActivateEmergency (e_now env) i (db_of s) = Inr db"
    "s' = set_db db s" "int64_min \<le> i" "i \<le> int64_max" "conn_ok (db_of s)"
proof -
  let ?dec = "dec_struct (\<lambda>p o'. fld ''profile_id'' dec_int o' p)"
  obtain i p db where a: "decode_body ?dec 0 r = Some i" "GetEmergencyProfile i (db_of s) = Inr (Some p)"
    "ActivateEmergency (e_now env) i (db_of s) = Inr db" "s' = set_db db s"
    using assms by (auto simp: activateEmergency_def internal_error_def split: option.splits if_splits sum.splits)
  obtain j where "?dec 0 j = Some i" using a(1) by (auto simp: decode_body_def split: http_body.splits)
  then have "int64_min \<le> i \<and> i \<le> int64_max" by (cases j) (auto dest!: fld_int_range)
  moreover have "conn_ok (db_of s)" using a(3) by (auto simp: ActivateEmergency_def with_conn_def split: if_splits)
  ultimately show thesis using a that by blast
qed

text \<open>C6: The emergency switch redirects the subscription handler and can be undone. After
  activateEmergency has answered with success, every answer of handleSubscription (the routes
  /sub/{token}, /sub/{token}/protocol/.., /sub/{token}/inbound/.. and, through
  handleCompactSubscription, /c/{token}) is marked, and when the user has a client on an inbound of the
  activated profile (not excluded, on the right side of the fallback split), all its endpoints are on
  inbounds of that profile. The handlers of the link routes do not look at the emergency mode: their
  answers are the same before and after the activation. After deactivateEmergency has answered with
  success every request to handleSubscription is answered as on the database of before with the three
  settings of the emergency mode deleted, also when an emergency was active before the activation; with
  none active before, that is exactly the answer of before, and the link routes answer as before.\<close>

theorem emergency_redirects:
  assumes "activateEmergency env r0 s = (Reply code0 st, s1)"
  shows "(\<exists>i p. GetEmergencyProfile i (db_of s) = Inr (Some p) \<and>
      (\<forall>(env' :: 'c env) r code b. handleSubscription env' r (db_of s1) = Reply code b \<longrightarrow> sb_emergency b \<and>
         (\<exists>user cs cc. user_of_token (var r ''token'') (db_of s1) = Inr user \<and> GetUserClients (u_ID user) (db_of s1) = Inr cs \<and>
            renders (hysteriaMainSubExtra (e_cfg env') (u_Token user) (db_of s1)) cc (sb_body b) \<and>
            ((\<exists>c\<in>set (eligible env' r cs). f_InboundTag c \<in> set (ep_InboundTags p)) \<longrightarrow>
               (\<forall>ob\<in>set (cc_Outbounds cc). system_outbound ob \<or> on_inbounds env' r (ep_InboundTags p) ob))))) \<and>
    (\<forall>env' :: 'c env. same_link_answers env' (db_of s) (db_of s1)) \<and>
    (\<forall>code2 u s2 (env' :: 'c env) r. deactivateEmergency s1 = (Reply code2 u, s2) \<longrightarrow>
       handleSubscription env' r (db_of s2) = handleSubscription env' r (del_settings emergency_keys (db_of s)) \<and>
       (emergency_of (db_of s) = None \<longrightarrow> handleSubscription env' r (db_of s2) = handleSubscription env' r (db_of s)) \<and>
       same_link_answers env' (db_of s) (db_of s2))"
proof -
  obtain i p db where act: "GetEmergencyProfile i (db_of s) = Inr (Some p)" "ActivateEmergency (e_now env) i (db_of s) = Inr db"
    "s1 = set_db db s" and ok: "int64_min \<le> i" "i \<le> int64_max" "conn_ok (db_of s)"
    using assms by (rule activate_Reply)
  obtain em where em: "emergency_of db = Some em" "es_Profile em = Some p"
    using emergency_switch_roundtrip [OF ok(3,1,2), of "e_now env"] act(1,2) by (auto simp: emergency_of_def)
  have served: "sb_emergency b \<and> (\<exists>user cs cc. user_of_token (var r ''token'') db = Inr user \<and> GetUserClients (u_ID user) db = Inr cs \<and>
      renders (hysteriaMainSubExtra (e_cfg env') (u_Token user) db) cc (sb_body b) \<and>
      ((\<exists>c\<in>set (eligible env' r cs). f_InboundTag c \<in> set (ep_InboundTags p)) \<longrightarrow>
         (\<forall>ob\<in>set (cc_Outbounds cc). system_outbound ob \<or> on_inbounds env' r (ep_InboundTags p) ob)))"
    if run: "handleSubscription env' r db = Reply code b" for env' :: "'c env" and r code b
  proof (rule handleSubscription_Reply [OF run])
    fix user cs cc
    assume a: "user_of_token (var r ''token'') db = Inr user" "GetUserClients (u_ID user) db = Inr cs"
      "generate_for env' r db user (selected_clients (e_cfg env') r db cs) = Inr cc"
      "renders (hysteriaMainSubExtra (e_cfg env') (u_Token user) db) (if isMobileProfileRequest r then applyMobileRoutingProfile cc else cc) (sb_body b)"
    have "sb_emergency b" using run em(1) a(1-3) by (auto simp: handleSubscription_def Let_def)
    moreover have "\<forall>ob\<in>set (cc_Outbounds (if isMobileProfileRequest r then applyMobileRoutingProfile cc else cc)).
        system_outbound ob \<or> on_inbounds env' r (ep_InboundTags p) ob"
      if "\<exists>c\<in>set (eligible env' r cs). f_InboundTag c \<in> set (ep_InboundTags p)"
      using generated_on_inbounds [OF a(3) selected_in_profile [OF em that]] by simp
    ultimately show ?thesis using a(1,2,4) by blast
  qed
  have links: "same_link_answers env' (db_of s) db" for env' :: "'c env"
    by (rule links_ignore_emergency) (rule activated_same [OF act(2)])
  have restored: "handleSubscription env' r (db_of s2) = handleSubscription env' r (del_settings emergency_keys (db_of s)) \<and>
      (emergency_of (db_of s) = None \<longrightarrow> handleSubscription env' r (db_of s2) = handleSubscription env' r (db_of s)) \<and>
      same_link_answers env' (db_of s) (db_of s2)"
    if "deactivateEmergency s1 = (Reply code2 u, s2)" for code2 u s2 r and env' :: "'c env"
  proof -
    have "DeactivateEmergency db = Inr (db_of s2)" using that act(3)
      by (auto simp: deactivateEmergency_def internal_error_def split: sum.splits)
    note off = deactivated [OF activated_same [OF act(2)] this]
    have "handleSubscription env' r (db_of s2) = handleSubscription env' r (del_settings emergency_keys (db_of s))"
      by (intro handleSubscription_same same_common [OF without_emergency(1) off(1)]) (simp add: off(2) without_emergency(2))
    moreover have "emergency_of (db_of s) = None \<longrightarrow> handleSubscription env' r (db_of s2) = handleSubscription env' r (db_of s)"
      by (auto intro: handleSubscription_same [OF off(1)] simp: off(2))
    ultimately show ?thesis using links_ignore_emergency [OF off(1)] by blast
  qed
  have "db_of s1 = db" using act(3) by simp
  then show ?thesis using act(1) served links restored by blast
qed

section \<open>Samples\<close>

definition emergency_server :: "xray_log server" where
  "emergency_server = set_db (fst (projr (CreateEmergencyProfile 5 ''reserve'' [] [''vless-in''] sample_api_db))) sample_server"

definition emergency_request :: request where
  "emergency_request = sample_admin_request [] (JObj [(''profile_id'', JInt 1)])"

theorem emergency_redirects_witness:
  "\<exists>code st s1 b. activateEmergency sample_env emergency_request emergency_server = (Reply code st, s1) \<and>
     handleSubscription sample_env (sample_get ''t-alice'') (db_of s1) = Reply 200 b \<and> sb_emergency b"
proof -
  define p where "p = activateEmergency sample_env emergency_request emergency_server"
  have "is_reply (fst p)" "is_reply (handleSubscription sample_env (sample_get ''t-alice'') (db_of (snd p)))"
    unfolding p_def by code_simp+
  then obtain code st c b where act: "activateEmergency sample_env emergency_request emergency_server = (Reply code st, snd p)"
    and sub: "handleSubscription sample_env (sample_get ''t-alice'') (db_of (snd p)) = Reply c b"
    unfolding p_def by (metis is_replyE prod.collapse)
  have "c = 200" using sub by (rule handleSubscription_Reply)
  with emergency_redirects [OF act] sub act show ?thesis by blast
qed

end
