(* ===== verification/Write_Back_Properties.thy ===== *)
theory Write_Back_Properties
  imports Syncer_Properties Writer_Properties
begin

text \<open>
  The write-back of a synchronisation edits the files that the next synchronisation parses, and the
  file watcher starts the next one because of these edits. Here: on files without unusual
  spellings of member names, a user that was written is found by the next pass, so that a pass
  after a pass writes nothing.
\<close>

section \<open>Members with one spelling\<close>

text \<open>The parser compares member names without case and takes the last, the writer compares them
  exactly. They agree when a name occurs at most once, spelled as the parser's field is.\<close>

definition plain_key :: "string \<Rightarrow> (string \<times> json) list \<Rightarrow> bool" where
  "plain_key k o' = (case filter (\<lambda>kv. EqualFold (fst kv) k) o' of [] \<Rightarrow> True | [kv] \<Rightarrow> fst kv = k | _ \<Rightarrow> False)"

lemma plain_key_Cons:
  "plain_key k ((k', v) # o') =
     (if EqualFold k' k then k' = k \<and> (\<forall>kv\<in>set o'. \<not> EqualFold (fst kv) k) else plain_key k o')"
proof -
  have "(\<forall>kv\<in>set o'. \<not> EqualFold (fst kv) k) = (filter (\<lambda>kv. EqualFold (fst kv) k) o' = [])"
    by (simp add: filter_empty_conv)
  then show ?thesis by (cases "filter (\<lambda>kv. EqualFold (fst kv) k) o'") (auto simp: plain_key_def)
qed

lemma plain_fld: "plain_key k o' \<Longrightarrow> fld k d o' p = (case obj_get k o' of None \<Rightarrow> Some p | Some v \<Rightarrow> d p v)"
proof (induction o')
  case (Cons kv o')
  obtain k' v where kv: "kv = (k', v)" by (cases kv)
  show ?case
  proof (cases "EqualFold k' k")
    case True
    with Cons.prems have "k' = k" and rest: "\<forall>kv\<in>set o'. \<not> EqualFold (fst kv) k" by (simp_all add: kv plain_key_Cons)
    moreover from rest have "obj_get k o' = None" by (auto simp: obj_get_None_iff)
    ultimately show ?thesis by (simp add: kv fld_skip split: option.splits)
  next
    case False
    then have "k' \<noteq> k" by auto
    with False Cons show ?thesis by (auto simp: kv plain_key_Cons split: option.splits)
  qed
qed simp

lemma fld_del_other: "\<not> EqualFold k n \<Longrightarrow> fld n d (obj_del k o') p = fld n d o' p"
  by (induction o' arbitrary: p) (auto simp: obj_del_def split: option.splits)

lemma fld_set_other: "\<not> EqualFold k n \<Longrightarrow> fld n d (obj_set k v o') p = fld n d o' p"
  by (simp add: obj_set_def fld_append fld_del_other split: option.splits)

lemma plain_key_set: "plain_key n o' \<Longrightarrow> k = n \<or> \<not> EqualFold k n \<Longrightarrow> plain_key n (obj_set k v o')"
proof (elim disjE)
  assume "plain_key n o'" "k = n"
  then have "\<forall>kv\<in>set (obj_del k o'). \<not> EqualFold (fst kv) n"
    by (induction o') (fastforce simp: plain_key_Cons obj_del_def split: if_splits)+
  then have "filter (\<lambda>kv. EqualFold (fst kv) n) (obj_del k o') = []" by (simp add: filter_empty_conv)
  with \<open>k = n\<close> show ?thesis by (simp add: plain_key_def obj_set_def)
next
  assume *: "plain_key n o'" "\<not> EqualFold k n"
  have "filter (\<lambda>kv. EqualFold (fst kv) n) (obj_del k o') = filter (\<lambda>kv. EqualFold (fst kv) n) o'"
    using *(2) by (induction o') (auto simp: obj_del_def)
  with * show ?thesis by (simp add: plain_key_def obj_set_def)
qed

lemma plain_fld_set: "plain_key k o' \<Longrightarrow> fld k d (obj_set k v o') p = d p v"
  using plain_fld [OF plain_key_set, of k o' k] by simp

section \<open>One more client in the settings\<close>

lemma dec_all_snoc:
  "dec_all d z js = Some xs \<Longrightarrow> d z j = Some x \<Longrightarrow> dec_all d z (js @ [j]) = Some (xs @ [x])"
  by (induction js arbitrary: xs) (auto split: option.splits)

abbreviation with_client :: "json \<Rightarrow> (string \<times> json) list \<Rightarrow> (string \<times> json) list" where
  "with_client c s \<equiv> obj_set ''clients'' (JArr (settings_clients s @ [c])) s"

lemma clients_field:
  assumes "plain_key ''clients'' s" and "fld ''clients'' (dec_list d z) s [] = Some xs" and "d z c = Some x"
  shows "fld ''clients'' (dec_list d z) (with_client c s) [] = Some (xs @ [x])"
proof -
  have "dec_all d z (settings_clients s) = Some xs"
    using assms(2) unfolding plain_fld [OF assms(1)]
    by (auto simp: settings_clients_def as_arr_def split: option.splits json.splits)
  from dec_all_snoc [of d, OF this assms(3)] show ?thesis by (simp add: plain_fld_set assms(1))
qed

lemma lower_names_settings [lower_name]:
  "ToLower ''decryption'' = ''decryption''" "ToLower ''testpre'' = ''testpre''" "ToLower ''method'' = ''method''"
  by code_simp+

lemma vless_settings_snoc:
  assumes "plain_key ''clients'' s" "dec_VLESSInboundSettings zero_VLESSInboundSettings (JObj s) = Some st"
    "dec_VLESSClient zero_VLESSClient c = Some x"
  shows "dec_VLESSInboundSettings zero_VLESSInboundSettings (JObj (with_client c s)) = Some (st\<lparr>vli_Clients := vli_Clients st @ [x]\<rparr>)"
  using assms(2) clients_field [of s dec_VLESSClient zero_VLESSClient, OF assms(1) _ assms(3)]
  by (auto simp: dec_VLESSInboundSettings_def zero_VLESSInboundSettings_def fld_set_other EqualFold_def lower_name
      split: Option.bind_splits)

lemma vmess_settings_snoc:
  assumes "plain_key ''clients'' s" "dec_VMessInboundSettings zero_VMessInboundSettings (JObj s) = Some st"
    "dec_VMessClient zero_VMessClient c = Some x"
  shows "dec_VMessInboundSettings zero_VMessInboundSettings (JObj (with_client c s)) = Some (st\<lparr>vmi_Clients := vmi_Clients st @ [x]\<rparr>)"
  using assms(2) clients_field [of s dec_VMessClient zero_VMessClient, OF assms(1) _ assms(3)]
  by (auto simp: dec_VMessInboundSettings_def zero_VMessInboundSettings_def split: Option.bind_splits)

lemma trojan_settings_snoc:
  assumes "plain_key ''clients'' s" "dec_TrojanInboundSettings zero_TrojanInboundSettings (JObj s) = Some st"
    "dec_TrojanClient zero_TrojanClient c = Some x"
  shows "dec_TrojanInboundSettings zero_TrojanInboundSettings (JObj (with_client c s)) = Some (st\<lparr>tji_Clients := tji_Clients st @ [x]\<rparr>)"
  using assms(2) clients_field [of s dec_TrojanClient zero_TrojanClient, OF assms(1) _ assms(3)]
  by (auto simp: dec_TrojanInboundSettings_def zero_TrojanInboundSettings_def split: Option.bind_splits)

lemma ss_settings_snoc:
  assumes "plain_key ''clients'' s" "dec_ShadowsocksInboundSettings zero_ShadowsocksInboundSettings (JObj s) = Some st"
    "dec_ShadowsocksClient zero_ShadowsocksClient c = Some x"
  shows "dec_ShadowsocksInboundSettings zero_ShadowsocksInboundSettings (JObj (with_client c s)) = Some (st\<lparr>sci_Clients := sci_Clients st @ [x]\<rparr>)"
  using assms(2) clients_field [of s dec_ShadowsocksClient zero_ShadowsocksClient, OF assms(1) _ assms(3)]
  by (auto simp: dec_ShadowsocksInboundSettings_def zero_ShadowsocksInboundSettings_def fld_set_other EqualFold_def lower_name
      split: Option.bind_splits)

section \<open>A written client is an identity\<close>

lemma stored_alter_id_range:
  assumes "unmarshal dec_StoredClientConfig zero_StoredClientConfig t = Some sc"
  shows "int64_min \<le> st_AlterId sc \<and> st_AlterId sc \<le> int64_max"
proof -
  have zero: "int64_min \<le> 0" "0 \<le> int64_max" by simp_all
  obtain j s where t: "t = Doc j" and s: "dec_stored_alias zero_StoredClientConfig j = Some s"
    and sc: "dec_StoredClientConfig zero_StoredClientConfig j = Some sc"
    using assms by (cases t) (auto simp: dec_StoredClientConfig_def)
  have "int64_min \<le> st_AlterId s \<and> st_AlterId s \<le> int64_max"
    using s zero fld_int_range [of "''alter_id''" _ 0]
    by (cases j) (auto simp: dec_stored_alias_def zero_StoredClientConfig_def split: Option.bind_splits)
  with sc s show ?thesis using zero
    by (auto simp: dec_StoredClientConfig_def split: if_splits json.splits option.splits dest: dec_int_range)
qed

text \<open>Whatever the protocol of the stored credential, each of the four parsers reads the entry, under
  the email that was written.\<close>

lemma written_entry:
  assumes "storedConfigToClientMap cc u = Inr m"
  shows "\<exists>x. dec_VLESSClient zero_VLESSClient (client_json m) = Some x \<and> vl_Email x = u"
    and "\<exists>x. dec_VMessClient zero_VMessClient (client_json m) = Some x \<and> vm_Email x = u"
    and "\<exists>x. dec_TrojanClient zero_TrojanClient (client_json m) = Some x \<and> tj_Email x = u"
    and "\<exists>x. dec_ShadowsocksClient zero_ShadowsocksClient (client_json m) = Some x \<and> sc_Email x = u"
  using assms
  by (auto simp: storedConfigToClientMap_def Let_def client_json_def dec_VLESSClient_def zero_VLESSClient_def
      dec_VMessClient_def zero_VMessClient_def dec_TrojanClient_def zero_TrojanClient_def dec_ShadowsocksClient_def
      zero_ShadowsocksClient_def EqualFold_def lower_name split: option.splits if_splits
      dest: stored_alter_id_range)

text \<open>A Shadowsocks inbound with one password and no clients has that password as its identity, and
  loses it with the first client: it is left aside.\<close>

definition multi_user :: "ServerInbound \<Rightarrow> bool" where
  "multi_user si =
     (case dec_settings dec_ShadowsocksInboundSettings zero_ShadowsocksInboundSettings (si_Settings si) of
        Some st \<Rightarrow> sci_Clients st \<noteq> [] \<or> sci_Password st = []
      | None \<Rightarrow> True)"

abbreviation client_protocols :: "string list" where
  "client_protocols \<equiv> [''vmess'', ''vless'', ''trojan'', ''shadowsocks'']"

lemma extract_snoc:
  assumes proto: "ToLower (si_Protocol si) \<in> set client_protocols" and s: "si_Settings si = Some (JObj s)"
    and plain: "plain_key ''clients'' s" and ex: "extractClients m si = Some pcs" and mu: "ToLower (si_Protocol si) = ''shadowsocks'' \<Longrightarrow> multi_user si"
    and cm: "storedConfigToClientMap cc u = Inr cm" and u: "u \<noteq> []"
  shows "\<exists>pc. extractClients m (si\<lparr>si_Settings := Some (JObj (with_client (client_json cm) s))\<rparr>) = Some (pcs @ [pc]) \<and> pc_Identity pc = u"
proof -
  from proto consider "ToLower (si_Protocol si) = ''vmess''" | "ToLower (si_Protocol si) = ''vless''"
    | "ToLower (si_Protocol si) = ''trojan''" | "ToLower (si_Protocol si) = ''shadowsocks''" by auto
  then show ?thesis
  proof cases
    case 1
    with ex s obtain st where st: "dec_VMessInboundSettings zero_VMessInboundSettings (JObj s) = Some st"
      by (auto simp: extractClients_def extractVMess_def dec_settings_def split: option.splits)
    obtain x where x: "dec_VMessClient zero_VMessClient (client_json cm) = Some x" "vm_Email x = u" using written_entry(2) [OF cm] by blast
    show ?thesis using 1 ex s st vmess_settings_snoc [OF plain st x(1)] x(2) u
      by (auto simp: extractClients_def extractVMess_def dec_settings_def stored_def)
  next
    case 2
    with ex s obtain st where st: "dec_VLESSInboundSettings zero_VLESSInboundSettings (JObj s) = Some st"
      by (auto simp: extractClients_def extractVLESS_def dec_settings_def split: option.splits)
    obtain x where x: "dec_VLESSClient zero_VLESSClient (client_json cm) = Some x" "vl_Email x = u" using written_entry(1) [OF cm] by blast
    show ?thesis using 2 ex s st vless_settings_snoc [OF plain st x(1)] x(2) u
      by (auto simp: extractClients_def extractVLESS_def dec_settings_def stored_def Let_def)
  next
    case 3
    with ex s obtain st where st: "dec_TrojanInboundSettings zero_TrojanInboundSettings (JObj s) = Some st"
      by (auto simp: extractClients_def extractTrojan_def dec_settings_def split: option.splits)
    obtain x where x: "dec_TrojanClient zero_TrojanClient (client_json cm) = Some x" "tj_Email x = u" using written_entry(3) [OF cm] by blast
    show ?thesis using 3 ex s st trojan_settings_snoc [OF plain st x(1)] x(2) u
      by (auto simp: extractClients_def extractTrojan_def dec_settings_def stored_def)
  next
    case 4
    with ex s obtain st where st: "dec_ShadowsocksInboundSettings zero_ShadowsocksInboundSettings (JObj s) = Some st"
      by (auto simp: extractClients_def extractShadowsocks_def dec_settings_def Let_def split: option.splits)
    obtain x where x: "dec_ShadowsocksClient zero_ShadowsocksClient (client_json cm) = Some x" "sc_Email x = u"
      using written_entry(4) [OF cm] by blast
    from mu [OF 4] st s have "sci_Clients st \<noteq> [] \<or> sci_Password st = []" by (simp add: multi_user_def dec_settings_def)
    then show ?thesis using 4 ex s st ss_settings_snoc [OF plain st x(1)] x(2) u
      by (auto simp: extractClients_def extractShadowsocks_def dec_settings_def stored_def Let_def split: if_splits)
  qed
qed

lemma multi_user_snoc:
  assumes "plain_key ''clients'' s" "storedConfigToClientMap cc u = Inr cm" "si_Settings si = Some (JObj s)"
    "extractClients m si \<noteq> None" "ToLower (si_Protocol si) = ''shadowsocks''"
  shows "multi_user (si\<lparr>si_Settings := Some (JObj (with_client (client_json cm) s))\<rparr>)"
proof -
  obtain st where st: "dec_ShadowsocksInboundSettings zero_ShadowsocksInboundSettings (JObj s) = Some st"
    using assms(3-5) by (auto simp: extractClients_def extractShadowsocks_def dec_settings_def Let_def split: option.splits)
  obtain x where "dec_ShadowsocksClient zero_ShadowsocksClient (client_json cm) = Some x" using written_entry(4) [OF assms(2)] by blast
  from ss_settings_snoc [OF assms(1) st this] show ?thesis by (simp add: multi_user_def dec_settings_def)
qed

section \<open>Inbounds\<close>

text \<open>An inbound that parser and writer identify by the same tag, and one whose clients the parser
  reads.\<close>

definition plain_inbound :: "json \<Rightarrow> bool" where
  "plain_inbound j = (case j of
     JObj ib \<Rightarrow> plain_key ''tag'' ib \<and> plain_key ''settings'' ib \<and> parse_inbound [] j \<noteq> None | _ \<Rightarrow> False)"

definition readable :: "json \<Rightarrow> bool" where
  "readable j = (case dec_ServerInbound zero_ServerInbound j of
     None \<Rightarrow> False
   | Some si \<Rightarrow> ToLower (si_Protocol si) \<in> set client_protocols \<and> extractClients [] si \<noteq> None \<and>
       (ToLower (si_Protocol si) = ''shadowsocks'' \<longrightarrow> multi_user si) \<and>
       (case si_Settings si of Some (JObj s) \<Rightarrow> plain_key ''clients'' s | _ \<Rightarrow> False))"

definition idents :: "json \<Rightarrow> string list" where
  "idents j = (case parse_inbound [] j of None \<Rightarrow> [] | Some p \<Rightarrow> filter (\<lambda>i. i \<noteq> []) (map pc_Identity (pi_Clients p)))"

lemma lower_names_inbound [lower_name]:
  "ToLower ''listen'' = ''listen''" "ToLower ''streamSettings'' = ''streamsettings''" "ToLower ''inbounds'' = ''inbounds''"
  by code_simp+

lemma dec_set_settings:
  assumes "plain_key ''settings'' ib" and "dec_ServerInbound zero_ServerInbound (JObj ib) = Some si"
  shows "dec_ServerInbound zero_ServerInbound (JObj (obj_set ''settings'' v ib)) = Some (si\<lparr>si_Settings := Some v\<rparr>)"
  using assms(2) plain_fld [OF assms(1), of dec_raw] plain_fld_set [OF assms(1), of dec_raw]
  by (auto simp: dec_ServerInbound_def zero_ServerInbound_def fld_set_other EqualFold_def lower_name split: Option.bind_splits)

lemma settings_member:
  "plain_key ''settings'' ib \<Longrightarrow> dec_ServerInbound zero_ServerInbound (JObj ib) = Some si \<Longrightarrow> si_Settings si = obj_get ''settings'' ib"
  by (auto simp: dec_ServerInbound_def zero_ServerInbound_def plain_fld split: Option.bind_splits option.splits)

lemma tag_member:
  "plain_key ''tag'' ib \<Longrightarrow> dec_ServerInbound zero_ServerInbound (JObj ib) = Some si \<Longrightarrow> si_Tag si = as_str (obj_get ''tag'' ib)"
  by (auto simp: dec_ServerInbound_def zero_ServerInbound_def plain_fld as_str_def split: Option.bind_splits option.splits json.splits)

lemma parse_tag:
  assumes "plain_inbound j"
  obtains p where "parse_inbound [] j = Some p" and "\<And>tag. TrimSpace (pi_Tag p) = tag \<longleftrightarrow> is_inbound tag j"
  using assms tag_member by (auto simp: plain_inbound_def parse_inbound_def is_inbound_def split: json.splits option.splits)

lemma head_tag:
  assumes "plain_inbound j"
  obtains h where "dec_inbound_head \<lparr>ih_Tag = [], ih_Protocol = [], ih_Settings = None\<rparr> j = Some h"
    and "\<And>tag. TrimSpace (ih_Tag h) = tag \<longleftrightarrow> is_inbound tag j"
proof -
  obtain ib si where j: "j = JObj ib" "plain_key ''tag'' ib" "dec_ServerInbound zero_ServerInbound (JObj ib) = Some si"
    using assms by (auto simp: plain_inbound_def parse_inbound_def split: json.splits option.splits)
  then obtain h where "dec_inbound_head \<lparr>ih_Tag = [], ih_Protocol = [], ih_Settings = None\<rparr> j = Some h" "ih_Tag h = si_Tag si"
    by (auto simp: dec_ServerInbound_def zero_ServerInbound_def dec_inbound_head_def split: Option.bind_splits)
  with that tag_member [OF j(2,3)] show thesis by (simp add: j(1) is_inbound_def)
qed

lemma inbound_snoc:
  assumes "plain_inbound (JObj ib)" "readable (JObj ib)" "storedConfigToClientMap cc u = Inr cm" "u \<noteq> []"
  obtains s j' where "as_obj (obj_get ''settings'' ib) = Some s" "j' = JObj (obj_set ''settings'' (JObj (with_client (client_json cm) s)) ib)"
    "plain_inbound j'" "readable j'" "idents j' = idents (JObj ib) @ [u]"
proof -
  obtain si port where pl: "plain_key ''tag'' ib" "plain_key ''settings'' ib" and si: "dec_ServerInbound zero_ServerInbound (JObj ib) = Some si"
    and port: "parsePort (si_Port si) = Some port"
    using assms(1) by (auto simp: plain_inbound_def parse_inbound_def split: option.splits)
  obtain s pcs where s: "si_Settings si = Some (JObj s)" "plain_key ''clients'' s" "extractClients [] si = Some pcs"
    and pr: "ToLower (si_Protocol si) \<in> set client_protocols" "ToLower (si_Protocol si) = ''shadowsocks'' \<longrightarrow> multi_user si"
    using assms(2) si by (auto simp: readable_def split: option.splits json.splits)
  let ?si = "si\<lparr>si_Settings := Some (JObj (with_client (client_json cm) s))\<rparr>"
  let ?j = "JObj (obj_set ''settings'' (JObj (with_client (client_json cm) s)) ib)"
  obtain pc where pc: "extractClients [] ?si = Some (pcs @ [pc])" "pc_Identity pc = u"
    using extract_snoc [OF pr(1) s _ assms(3,4)] pr(2) by blast
  have d: "dec_ServerInbound zero_ServerInbound ?j = Some ?si" using dec_set_settings [OF pl(2) si] .
  have "plain_inbound ?j" using pl d port
    by (auto simp: plain_inbound_def parse_inbound_def EqualFold_def lower_name intro!: plain_key_set)
  moreover have "readable ?j" using d pr pc(1) multi_user_snoc [OF s(2) assms(3) s(1)] s(2,3)
    by (auto simp: readable_def intro!: plain_key_set)
  moreover have "idents ?j = idents (JObj ib) @ [u]" using d si port pc s(3) assms(4) by (simp add: idents_def parse_inbound_def)
  moreover have "as_obj (obj_get ''settings'' ib) = Some s" by (simp add: as_obj_def settings_member [OF pl(2) si, symmetric] s(1))
  ultimately show thesis using that by blast
qed

section \<open>Files and directories\<close>

definition plain_file :: "jtext \<Rightarrow> bool" where
  "plain_file t = (case file_inbounds t of
     Some (root, ibs) \<Rightarrow> plain_key ''inbounds'' root \<and> inbounds_of_file t = Some ibs \<and> list_all plain_inbound ibs
   | None \<Rightarrow> inbounds_of_file t = None \<or> inbounds_of_file t = Some [])"

definition file_raws :: "file_read \<Rightarrow> json list" where
  "file_raws data = (case data of FileData t \<Rightarrow> (case inbounds_of_file t of Some js \<Rightarrow> js | None \<Rightarrow> []) | _ \<Rightarrow> [])"

fun entry_raws :: "dir_entry \<Rightarrow> json list" where
  "entry_raws (name, isDir, data) = (if isDir \<or> \<not> HasSuffix name ''.json'' then [] else file_raws data)"

fun plain_entry :: "dir_entry \<Rightarrow> bool" where
  "plain_entry (name, isDir, data) =
     (isDir \<or> \<not> HasSuffix name ''.json'' \<or> (case data of FileData t \<Rightarrow> plain_file t | _ \<Rightarrow> True))"

definition dir_raws :: "dir_read \<Rightarrow> json list" where
  "dir_raws d = (case d of DirEntries es \<Rightarrow> concat (map entry_raws es) | _ \<Rightarrow> [])"

text \<open>No two inbounds of the directory have the same tag: whichever file is looked at first, the inbound
  is the same.\<close>

definition raw_tag :: "json \<Rightarrow> string" where
  "raw_tag j = (case j of JObj ib \<Rightarrow> TrimSpace (as_str (obj_get ''tag'' ib)) | _ \<Rightarrow> [])"

definition plain_dir :: "dir_read \<Rightarrow> bool" where
  "plain_dir d = (distinct (map raw_tag (dir_raws d)) \<and>
     (case d of DirEntries es \<Rightarrow> distinct (map fst es) \<and> list_all plain_entry es | _ \<Rightarrow> True))"

definition found :: "string \<Rightarrow> dir_read \<Rightarrow> json option" where
  "found tag d = find (is_inbound tag) (dir_raws d)"

lemma plain_entry_raws: "plain_entry e \<Longrightarrow> list_all plain_inbound (entry_raws e)"
  by (cases e) (auto simp: file_raws_def plain_file_def split: file_read.splits option.splits)

lemma plain_dir_raws: "plain_dir d \<Longrightarrow> j \<in> set (dir_raws d) \<Longrightarrow> plain_inbound j"
  using plain_entry_raws by (fastforce simp: plain_dir_def dir_raws_def list_all_iff split: dir_read.splits)

lemma map_filter_concat: "List.map_filter f (concat xss) = concat (map (List.map_filter f) xss)"
  by (induction xss) (simp_all add: map_filter_def)

lemma parsed_entries:
  "concat (map snd (List.map_filter (\<lambda>(name, isDir, data).
       if isDir \<or> \<not> HasSuffix name ''.json'' then None
       else (case parseConfigFileWith m data of Inl _ \<Rightarrow> None | Inr ibs \<Rightarrow> Some (Join_path dir name, ibs))) es)) =
   concat (map (List.map_filter (parse_inbound m)) (map entry_raws es))"
  by (induction es) (auto simp: List.map_filter_simps parseConfigFileWith_def file_raws_def split: file_read.splits option.splits)

lemma parsed_raws:
  "ParseConfigDir dir d = Inr parsed \<Longrightarrow> concat (map snd parsed) = List.map_filter (parse_inbound []) (dir_raws d)"
  by (auto simp: ParseConfigDir_def parseConfigDirWith_def dir_raws_def parsed_entries map_filter_concat
      List.map_filter_simps split: dir_read.splits)

lemma find_map_filter:
  "(\<And>x. x \<in> set xs \<Longrightarrow> \<exists>y. f x = Some y \<and> P y = Q x) \<Longrightarrow>
     find P (List.map_filter f xs) = Option.bind (find Q xs) f"
  by (induction xs) (fastforce simp: List.map_filter_simps)+

lemma find_filter: "find P xs = (case filter P xs of [] \<Rightarrow> None | x # _ \<Rightarrow> Some x)"
  by (induction xs) auto

lemma find_any_order:
  assumes "mset xs = mset ys" and "length (filter P ys) \<le> 1"
  shows "find P xs = find P ys"
proof -
  have m: "mset (filter P xs) = mset (filter P ys)" using assms(1) by simp
  show ?thesis
  proof (cases "filter P ys")
    case Nil
    with m show ?thesis by (simp add: find_filter)
  next
    case (Cons y zs)
    with assms(2) have "filter P ys = [y]" by simp
    with m have "mset (filter P xs) = {#y#}" by (simp del: mset_filter)
    then have "filter P xs = [y]" by (simp only: mset_single_iff)
    with \<open>filter P ys = [y]\<close> show ?thesis by (simp add: find_filter)
  qed
qed

lemma distinct_tag_once: "distinct (map f xs) \<Longrightarrow> length (filter (\<lambda>x. f x = t) xs) \<le> 1"
proof (induction xs)
  case (Cons x xs)
  from Cons.prems have "filter (\<lambda>x. f x = t) xs = []" if "f x = t"
    using that by (auto simp: filter_empty_conv image_iff)
  with Cons show ?case by auto
qed simp

lemma filter_map_filter:
  "(\<And>x. x \<in> set xs \<Longrightarrow> \<exists>y. f x = Some y \<and> P y = Q x) \<Longrightarrow> length (filter P (List.map_filter f xs)) = length (filter Q xs)"
proof (induction xs)
  case (Cons x xs)
  from Cons.prems [of x] obtain y where "f x = Some y" "P y = Q x" by auto
  with Cons.IH Cons.prems show ?case by (simp add: List.map_filter_simps)
qed (simp add: List.map_filter_simps)

lemma mset_concat_sum: "mset (concat (map snd xs)) = (\<Sum>x\<in>#mset xs. mset (snd x))"
  by (induction xs) auto

lemma mset_concat_snd: "mset xs = mset ys \<Longrightarrow> mset (concat (map snd xs)) = mset (concat (map snd ys))"
  by (simp only: mset_concat_sum)

lemma raw_tag_inbound: "plain_inbound j \<Longrightarrow> raw_tag j = tag \<longleftrightarrow> is_inbound tag j"
  by (auto simp: plain_inbound_def raw_tag_def is_inbound_def split: json.splits)

lemma parsed_once:
  assumes "plain_dir d"
  shows "length (filter (\<lambda>p. TrimSpace (pi_Tag p) = tag) (List.map_filter (parse_inbound []) (dir_raws d))) \<le> 1"
proof -
  have "length (filter (\<lambda>p. TrimSpace (pi_Tag p) = tag) (List.map_filter (parse_inbound []) (dir_raws d))) =
      length (filter (\<lambda>j. raw_tag j = tag) (dir_raws d))"
    using plain_dir_raws [OF assms] parse_tag raw_tag_inbound by (intro filter_map_filter) metis
  then show ?thesis using distinct_tag_once [of raw_tag "dir_raws d" tag] assms by (simp add: plain_dir_def)
qed

lemma existing_found:
  assumes "plain_dir d" and "visits_all order"
  shows "found tag d = None \<Longrightarrow> \<exists>e. GetExistingIdentitiesInInbound order dir tag d = Inl e"
    and "found tag d = Some j \<Longrightarrow> GetExistingIdentitiesInInbound order dir tag d = Inr (idents j)"
proof -
  have *: "find (\<lambda>p. TrimSpace (pi_Tag p) = tag) (List.map_filter (parse_inbound []) (dir_raws d)) = Option.bind (found tag d) (parse_inbound [])"
    unfolding found_def using plain_dir_raws [OF assms(1)] parse_tag by (intro find_map_filter) metis
  have o: "find (\<lambda>p. TrimSpace (pi_Tag p) = tag) (concat (map snd (order parsed))) = Option.bind (found tag d) (parse_inbound [])"
    if "ParseConfigDir dir d = Inr parsed" for parsed
  proof -
    have "mset (concat (map snd (order parsed))) = mset (List.map_filter (parse_inbound []) (dir_raws d))"
      using assms(2) parsed_raws [OF that] mset_concat_snd [of "order parsed" parsed] by (simp add: visits_all_def)
    from find_any_order [OF this parsed_once [OF assms(1)]] * show ?thesis by simp
  qed
  show "\<exists>e. GetExistingIdentitiesInInbound order dir tag d = Inl e" if "found tag d = None"
    using o that
    by (auto simp: GetExistingIdentitiesInInbound_def split: sum.splits option.splits)
  show "GetExistingIdentitiesInInbound order dir tag d = Inr (idents j)" if f: "found tag d = Some j"
  proof -
    have "j \<in> set (dir_raws d)" using f by (auto simp: found_def find_Some_iff)
    then obtain p where p: "parse_inbound [] j = Some p" using plain_dir_raws [OF assms(1)] parse_tag by metis
    obtain es where "d = DirEntries es" using f by (cases d) (auto simp: found_def dir_raws_def)
    then obtain parsed where "ParseConfigDir dir d = Inr parsed" by (simp add: ParseConfigDir_def parseConfigDirWith_def)
    with o [OF this] f p show ?thesis by (simp add: GetExistingIdentitiesInInbound_def idents_def)
  qed
qed

lemma heads_find:
  assumes "list_all plain_inbound (file_raws data)"
  shows "find (\<lambda>h. TrimSpace (ih_Tag h) = tag) (heads_of_file data) =
    Option.bind (find (is_inbound tag) (file_raws data)) (dec_inbound_head \<lparr>ih_Tag = [], ih_Protocol = [], ih_Settings = None\<rparr>)"
proof -
  have "heads_of_file data = List.map_filter (dec_inbound_head \<lparr>ih_Tag = [], ih_Protocol = [], ih_Settings = None\<rparr>) (file_raws data)"
    by (simp add: heads_of_file_def file_raws_def List.map_filter_simps split: file_read.splits option.splits)
  then show ?thesis using assms head_tag
    by (simp only:) (rule find_map_filter, metis list_all_iff)
qed

lemma find_split: "find P xs = Some x \<Longrightarrow> \<exists>pre post. xs = pre @ x # post \<and> (\<forall>y\<in>set pre. \<not> P y) \<and> P x"
proof (induction xs)
  case (Cons a xs)
  show ?case
  proof (cases "P a")
    case True
    with Cons.prems show ?thesis by (intro exI [of _ "[]"] exI [of _ xs]) auto
  next
    case False
    with Cons obtain pre post where "xs = pre @ x # post" "\<forall>y\<in>set pre. \<not> P y" "P x" by auto
    with False show ?thesis by (intro exI [of _ "a # pre"] exI [of _ post]) auto
  qed
qed simp

text \<open>Parser, search and editor come to the same inbound.\<close>

lemma located:
  assumes "list_all plain_entry es" and "find (is_inbound tag) (concat (map entry_raws es)) = Some j"
  obtains es1 name t es2 root pre post h where "es = es1 @ (name, False, FileData t) # es2" "HasSuffix name ''.json''"
    "file_inbounds t = Some (root, pre @ j # post)" "\<forall>x\<in>set pre. \<not> is_inbound tag x"
    "find (is_inbound tag) (concat (map entry_raws es1)) = None" "find_in_entries tag es = Some (name, h)"
  using assms
proof (induction es arbitrary: thesis)
  case (Cons e es)
  obtain name isDir data where e: "e = (name, isDir, data)" by (cases e)
  have pl: "list_all plain_inbound (entry_raws e)" using Cons.prems(2) plain_entry_raws by auto
  show ?case
  proof (cases "find (is_inbound tag) (entry_raws e)")
    case None
    then have skip: "find_in_entries tag (e # es) = find_in_entries tag es" using pl
      by (auto simp: e heads_find)
    have pes: "list_all plain_entry es" using Cons.prems(2) by simp
    from None Cons.prems(3) have fnd: "find (is_inbound tag) (concat (map entry_raws es)) = Some j"
      by (simp add: find_append)
    obtain es1 nm t es2 root pre post h where loc: "es = es1 @ (nm, False, FileData t) # es2"
      "HasSuffix nm ''.json''" "file_inbounds t = Some (root, pre @ j # post)" "\<forall>x\<in>set pre. \<not> is_inbound tag x"
      "find (is_inbound tag) (concat (map entry_raws es1)) = None" "find_in_entries tag es = Some (nm, h)"
      by (rule Cons.IH [OF _ pes fnd])
    with None skip show ?thesis by (intro Cons.prems(1) [of "e # es1"]) (auto simp: find_append)
  next
    case (Some j')
    then have "j' = j" using Cons.prems(3) by (simp add: find_append)
    with Some have f: "find (is_inbound tag) (file_raws data) = Some j" and js: "\<not> isDir" "HasSuffix name ''.json''"
      by (auto simp: e split: if_splits)
    then obtain t where t: "data = FileData t" "plain_file t" using Cons.prems(2)
      by (auto simp: e file_raws_def split: file_read.splits)
    then obtain root ibs where ibs: "file_inbounds t = Some (root, ibs)" "inbounds_of_file t = Some ibs"
      using f by (auto simp: plain_file_def file_raws_def split: option.splits)
    then have "find (is_inbound tag) ibs = Some j" using f t(1) by (simp add: file_raws_def)
    then obtain pre post where sp: "ibs = pre @ j # post" "\<forall>x\<in>set pre. \<not> is_inbound tag x" "is_inbound tag j"
      using find_split by metis
    have "j \<in> set (file_raws data)" using f by (auto simp: find_Some_iff)
    then have "plain_inbound j" using pl js by (auto simp: e list_all_iff)
    then obtain h where "dec_inbound_head \<lparr>ih_Tag = [], ih_Protocol = [], ih_Settings = None\<rparr> j = Some h" using head_tag by metis
    then have "find_in_entries tag (e # es) = Some (name, h)" using js f pl by (simp add: e heads_find)
    with ibs sp js t(1) show ?thesis by (intro Cons.prems(1) [of "[]"]) (auto simp: e)
  qed
qed simp

lemma edit_first_at:
  "\<forall>x\<in>set pre. \<not> is_inbound tag x \<Longrightarrow> is_inbound tag (JObj ib) \<Longrightarrow> as_obj (obj_get ''settings'' ib) = Some s \<Longrightarrow> f s = Change s' \<Longrightarrow>
     edit_first tag f (pre @ JObj ib # post) = Some (Change (pre @ JObj (obj_set ''settings'' (JObj s') ib) # post))"
  by (induction pre) simp_all

lemma plain_file_edit:
  assumes "plain_file t" and "file_inbounds t = Some (root, ibs)" and "ibs' \<noteq> []" and "list_all plain_inbound ibs'"
  defines "t' \<equiv> Doc (JObj (obj_set ''inbounds'' (JArr ibs') root))"
  shows "plain_file t'" and "inbounds_of_file t' = Some ibs'"
proof -
  have pl: "plain_key ''inbounds'' root" using assms(1,2) by (simp add: plain_file_def)
  have "dec_all (\<lambda>_. Some) z js = Some js" for z :: json and js by (induction js) simp_all
  then show i: "inbounds_of_file t' = Some ibs'" by (simp add: t'_def inbounds_of_file_def plain_fld_set [OF pl])
  show "plain_file t'" using assms(3,4) plain_key_set [OF pl, of "''inbounds''"] i
    by (simp add: plain_file_def t'_def file_inbounds_set)
qed

lemma write_entry_split:
  "distinct (map fst (es1 @ (name, False, c) # es2)) \<Longrightarrow>
     write_entry name t (es1 @ (name, False, c) # es2) = es1 @ (name, False, FileData t) # es2"
  by (auto simp: write_entry_def intro!: map_idI) (metis fst_conv image_eqI)+

section \<open>One more client in the directory\<close>

text \<open>\<open>grown u tag d d'\<close>: the inbound with the tag has one more identity, every other one is as before.\<close>

definition grown :: "string \<Rightarrow> string \<Rightarrow> dir_read \<Rightarrow> dir_read \<Rightarrow> bool" where
  "grown u tag d d' \<longleftrightarrow> plain_dir d' \<and> (\<forall>t. t \<noteq> tag \<longrightarrow> found t d' = found t d) \<and>
     (\<exists>j j'. found tag d = Some j \<and> found tag d' = Some j' \<and> readable j' \<and> idents j' = idents j @ [u])"

lemma find_replace:
  assumes "\<forall>x\<in>set A. \<not> is_inbound tag x" "is_inbound tag j" "\<And>t. is_inbound t j' = is_inbound t j"
  shows "find (is_inbound tag) (A @ j' # B) = Some j'"
    and "t \<noteq> tag \<Longrightarrow> find (is_inbound t) (A @ j' # B) = find (is_inbound t) (A @ j # B)"
proof -
  have "find (is_inbound tag) A = None" using assms(1) by (simp add: find_None_iff)
  then show "find (is_inbound tag) (A @ j' # B) = Some j'" using assms(2,3) by (simp add: find_append)
  assume "t \<noteq> tag"
  then have "\<not> is_inbound t j" using assms(2) by (auto simp: is_inbound_def split: json.splits)
  then show "find (is_inbound t) (A @ j' # B) = find (is_inbound t) (A @ j # B)" using assms(3) by (simp add: find_append split: option.splits)
qed

lemma add_grows:
  assumes d: "plain_dir d" "found tag d = Some j" "readable j"
    and u: "TrimSpace u = u" "u \<noteq> []" and cm: "storedConfigToClientMap cc u = Inr cm"
  shows "\<exists>d'. AddExistingClientToInbound True tag u cc d = (None, d') \<and> grown u tag d d'"
proof -
  obtain es where es: "d = DirEntries es" using d(2) by (cases d) (auto simp: found_def dir_raws_def)
  have pe: "list_all plain_entry es" "distinct (map fst es)" using d(1) by (simp_all add: es plain_dir_def)
  from pe(1) d(2) obtain es1 name t es2 root pre post h where loc: "es = es1 @ (name, False, FileData t) # es2" "HasSuffix name ''.json''"
    "file_inbounds t = Some (root, pre @ j # post)" "\<forall>x\<in>set pre. \<not> is_inbound tag x"
    "find (is_inbound tag) (concat (map entry_raws es1)) = None" "find_in_entries tag es = Some (name, h)"
    by (auto simp: found_def es dir_raws_def elim: located)
  have pf: "plain_file t" using pe(1) loc(1,2) by simp
  then have raws: "inbounds_of_file t = Some (pre @ j # post)" "list_all plain_inbound (pre @ j # post)"
    using loc(3) by (simp_all add: plain_file_def)
  have ti: "is_inbound tag j" using d(2) by (auto simp: found_def find_Some_iff)
  then obtain ib where j: "j = JObj ib" by (auto simp: is_inbound_def split: json.splits)
  obtain s j' where s: "as_obj (obj_get ''settings'' ib) = Some s"
    "j' = JObj (obj_set ''settings'' (JObj (with_client (client_json cm) s)) ib)" "plain_inbound j'" "readable j'" "idents j' = idents j @ [u]"
    using inbound_snoc [OF _ _ cm u(2), of ib] raws(2) d(3) unfolding j by auto
  let ?t = "Doc (JObj (obj_set ''inbounds'' (JArr (pre @ j' # post)) root))"
  let ?d = "DirEntries (es1 @ (name, False, FileData ?t) # es2)"
  have "edit_first tag (add_to_settings (client_json cm)) (pre @ JObj ib # post) = Some (Change (pre @ j' # post))"
    unfolding s(2) using ti j by (intro edit_first_at [OF loc(4)]) (simp_all add: s(1) add_to_settings_def Let_def settings_clients_def)
  then have ed: "edit_file tag (add_to_settings (client_json cm)) (FileData t) = Inr (Some (Some ?t))"
    using loc(3) by (simp add: edit_file_def j)
  have "read_file name d = FileData t" using pe(2) by (auto simp: es loc(1) read_file_def read_entry_def map_of_append split: option.splits)
      (force dest: map_of_SomeD)
  then have run: "AddExistingClientToInbound True tag u cc d = (None, ?d)"
    using loc(6) ed cm u pe(2) write_entry_split [of es1 name "FileData t" es2 ?t]
    by (simp add: AddExistingClientToInbound_def findInboundSettings_def es addClientToFile_def writeConfigFile_def loc(1))
  have pl': "list_all plain_inbound (pre @ j' # post)" using raws(2) s(3) by simp
  note ft = plain_file_edit [OF pf loc(3) _ pl', simplified]
  let ?A = "concat (map entry_raws es1) @ pre" and ?B = "post @ concat (map entry_raws es2)"
  have dr: "dir_raws d = ?A @ j # ?B" "dir_raws ?d = ?A @ j' # ?B"
    using loc(2) raws(1) ft(2) by (simp_all add: dir_raws_def es loc(1) file_raws_def)
  have "\<forall>x\<in>set ?A. \<not> is_inbound tag x" using loc(4,5) by (auto simp: find_None_iff)
  note fr = find_replace [OF this ti]
  have "is_inbound t' j' = is_inbound t' j" for t' by (simp add: s(2) j)
  from fr [OF this] have "found tag ?d = Some j'" "\<And>t'. t' \<noteq> tag \<Longrightarrow> found t' ?d = found t' d" by (simp_all add: found_def dr)
  moreover have "raw_tag j' = raw_tag j" by (simp add: s(2) j raw_tag_def)
  then have "plain_dir ?d" using pe ft(1) d(1) dr by (auto simp: plain_dir_def loc(1))
  ultimately show ?thesis using run s(4,5) d(2) unfolding grown_def by blast
qed

text \<open>An addition that is not possible leaves the directory alone.\<close>

lemma add_fails:
  assumes "\<not> wr \<or> (\<exists>e. storedConfigToClientMap cc u = Inl e)" and "TrimSpace u = u"
  shows "\<exists>e. AddExistingClientToInbound wr tag u cc d = (Some e, d)"
proof -
  have "\<exists>e. addClientToFile False name tag cm d = (Some e, d)" for name cm
  proof (cases "addClientToFile False name tag cm d")
    case (Pair e d')
    have "add_to_settings c s \<noteq> Keep" for c s by (simp add: add_to_settings_def Let_def)
    with Pair edit_first_Keep [of tag "add_to_settings (client_json cm)"] show ?thesis
      by (fastforce simp: addClientToFile_def writeConfigFile_def edit_file_def
          split: sum.splits option.splits if_splits file_read.splits edit.splits)
  qed
  with assms show ?thesis
    by (auto simp: AddExistingClientToInbound_def Let_def split: sum.splits prod.splits)
qed

section \<open>A pass over the users of an inbound\<close>

text \<open>\<open>extends d d'\<close>: no inbound is lost, no identity is lost, no inbound becomes unreadable.\<close>

definition extends :: "dir_read \<Rightarrow> dir_read \<Rightarrow> bool" where
  "extends d d' \<longleftrightarrow> plain_dir d' \<and> (\<forall>t. (found t d = None \<longrightarrow> found t d' = None) \<and>
     (\<forall>j. found t d = Some j \<longrightarrow> (\<exists>j'. found t d' = Some j' \<and> set (idents j) \<subseteq> set (idents j') \<and> (readable j \<longrightarrow> readable j'))))"

lemma extends_refl: "plain_dir d \<Longrightarrow> extends d d"
  by (simp add: extends_def)

lemma extends_trans: "extends d1 d2 \<Longrightarrow> extends d2 d3 \<Longrightarrow> extends d1 d3"
  unfolding extends_def by (meson subset_trans)

lemma grown_extends: "plain_dir d \<Longrightarrow> grown u tag d d' \<Longrightarrow> extends d d'"
  unfolding grown_def extends_def by (metis (no_types, lifting) Un_upper1 option.inject option.simps(3) set_append subset_refl)

text \<open>A user is settled in the inbound with the tag: blank, present, or impossible to write.\<close>

definition settled :: "bool \<Rightarrow> string \<Rightarrow> dir_read \<Rightarrow> stored_user \<Rightarrow> bool" where
  "settled wr tag d uc \<longleftrightarrow> (let u = TrimSpace (fst uc) in
     u = [] \<or> (\<forall>j. found tag d = Some j \<longrightarrow> u \<in> set (idents j)) \<or> \<not> wr \<or> (\<exists>e. storedConfigToClientMap (snd uc) u = Inl e))"

lemma settled_extends: "settled wr tag d uc \<Longrightarrow> extends d d' \<Longrightarrow> settled wr tag d' uc"
  unfolding settled_def extends_def Let_def by (metis not_Some_eq option.inject subsetD)

lemma sync_loop_settles:
  assumes "plain_dir d" "found tag d = Some j" "readable j" "set existing = set (idents j)"
    and "sync_loop wr tag us existing res d = (res', existing', d')"
  shows "extends d d' \<and> (\<forall>uc\<in>set us. settled wr tag d' uc)"
  using assms
proof (induction us arbitrary: existing res d j)
  case Nil
  then show ?case by (simp add: extends_refl)
next
  case (Cons uc us)
  obtain name cc where uc: "uc = (name, cc)" by (cases uc)
  let ?u = "TrimSpace name"
  show ?case
  proof (cases "?u = [] \<or> ?u \<in> set existing")
    case True
    with Cons have *: "extends d d' \<and> (\<forall>uc\<in>set us. settled wr tag d' uc)" by (simp add: uc)
    moreover have "settled wr tag d uc" using True Cons.prems(2,4) by (auto simp: settled_def uc)
    ultimately show ?thesis using settled_extends by auto
  next
    case new: False
    show ?thesis
    proof (cases "\<not> wr \<or> (\<exists>e. storedConfigToClientMap cc ?u = Inl e)")
      case True
      then obtain e where "AddExistingClientToInbound wr tag ?u cc d = (Some e, d)" using add_fails [of wr cc ?u] by auto
      with new Cons have "extends d d' \<and> (\<forall>uc\<in>set us. settled wr tag d' uc)" by (simp add: uc)
      moreover have "settled wr tag d' uc" using True by (auto simp: settled_def uc)
      ultimately show ?thesis by simp
    next
      case False
      then obtain cm where wr: "wr" and cm: "storedConfigToClientMap cc ?u = Inr cm" by (metis sum.exhaust)
      obtain d1 where d1: "AddExistingClientToInbound wr tag ?u cc d = (None, d1)" "grown ?u tag d d1"
        using add_grows [OF Cons.prems(1-3) _ _ cm] new wr by auto
      then obtain j1 where j1: "plain_dir d1" "found tag d1 = Some j1" "readable j1" "idents j1 = idents j @ [?u]"
        using Cons.prems(2) by (auto simp: grown_def)
      have "sync_loop wr tag us (?u # existing) (res\<lparr>sr_Added := Suc (sr_Added res)\<rparr>) d1 = (res', existing', d')"
        using Cons.prems(5) new d1(1) by (simp add: uc)
      moreover have "set (?u # existing) = set (idents j1)" using j1(4) Cons.prems(4) by auto
      ultimately have *: "extends d1 d'" "\<forall>uc\<in>set us. settled wr tag d' uc" using Cons.IH [OF j1(1-3)] by blast+
      moreover have "settled wr tag d1 uc" using j1(2,4) by (simp add: settled_def uc)
      ultimately show ?thesis using extends_trans [OF grown_extends [OF Cons.prems(1) d1(2)]] settled_extends by auto
    qed
  qed
qed

lemma sync_loop_still:
  assumes "found tag d = Some j" "set (idents j) \<subseteq> set existing" "\<forall>uc\<in>set us. settled wr tag d uc"
  shows "snd (snd (sync_loop wr tag us existing res d)) = d"
  using assms
proof (induction us arbitrary: existing res)
  case (Cons uc us)
  obtain name cc where uc: "uc = (name, cc)" by (cases uc)
  show ?case
  proof (cases "TrimSpace name = [] \<or> TrimSpace name \<in> set existing")
    case True
    with Cons show ?thesis by (simp add: uc)
  next
    case False
    with Cons.prems have "\<not> wr \<or> (\<exists>e. storedConfigToClientMap cc (TrimSpace name) = Inl e)"
      by (auto simp: settled_def uc Let_def)
    then obtain e where "AddExistingClientToInbound wr tag (TrimSpace name) cc d = (Some e, d)"
      using add_fails [of wr cc "TrimSpace name"] by auto
    with False Cons show ?thesis by (simp add: uc)
  qed
qed simp

section \<open>A pass over all inbounds\<close>

definition users_on :: "db \<Rightarrow> inbound \<Rightarrow> stored_user list" where
  "users_on db ib = (case ListUserClientsByInboundTag (ib_Tag ib) db of Inl _ \<Rightarrow> [] | Inr us \<Rightarrow> to_stored us)"

text \<open>The files do not keep a user of the inbound away from the parser.\<close>

definition legible :: "db \<Rightarrow> dir_read \<Rightarrow> inbound \<Rightarrow> bool" where
  "legible db d ib = (users_on db ib = [] \<or> (case found (ib_Tag ib) d of None \<Rightarrow> True | Some j \<Rightarrow> readable j))"

definition all_settled :: "Config \<Rightarrow> bool \<Rightarrow> db \<Rightarrow> dir_read \<Rightarrow> inbound \<Rightarrow> bool" where
  "all_settled cfg wr db d ib \<longleftrightarrow> c_ConfigDir cfg = [] \<or> ib_Tag ib = [] \<or> (\<forall>uc\<in>set (users_on db ib). settled wr (ib_Tag ib) d uc)"

lemma no_users: "(case ListUserClientsByInboundTag tag db of Inl _ \<Rightarrow> [] | Inr us \<Rightarrow> us) = [] \<longleftrightarrow>
    (case ListUserClientsByInboundTag tag db of Inl _ \<Rightarrow> [] | Inr us \<Rightarrow> to_stored us) = []"
  by (simp add: to_stored_def split: sum.splits)

text \<open>What a step of the pass does to the directory.\<close>

lemma write_back_dir:
  "wb_dir (write_back_inbound order cfg wr db ib b) =
     (if users_on db ib = [] then wb_dir b
      else case GetExistingIdentitiesInInbound order (c_ConfigDir cfg) (ib_Tag ib) (wb_dir b) of
        Inl _ \<Rightarrow> wb_dir b
      | Inr ids \<Rightarrow> if c_ConfigDir cfg = [] \<or> ib_Tag ib = [] then wb_dir b
          else snd (snd (sync_loop wr (ib_Tag ib) (users_on db ib) ids \<lparr>sr_Added = 0, sr_FailedUsers = [], sr_FirstError = []\<rparr> (wb_dir b))))"
  by (auto simp: write_back_inbound_def users_on_def Let_def SyncDBToConfig_def to_stored_def split: sum.splits prod.splits)

lemma pass_settles:
  assumes "plain_dir (wb_dir b)" and "legible db (wb_dir b) ib"
    and d'_def: "d' = wb_dir (write_back_inbound order cfg wr db ib b)" and ord: "visits_all order"
  shows "extends (wb_dir b) d' \<and> all_settled cfg wr db d' ib"
proof (cases "users_on db ib = [] \<or> found (ib_Tag ib) (wb_dir b) = None \<or> c_ConfigDir cfg = [] \<or> ib_Tag ib = []")
  case True
  then have "d' = wb_dir b" using existing_found(1) [OF assms(1) ord, of "ib_Tag ib" "c_ConfigDir cfg"]
    by (auto simp: d'_def write_back_dir split: sum.splits)
  moreover have "all_settled cfg wr db (wb_dir b) ib" using True by (auto simp: all_settled_def settled_def Let_def)
  ultimately show ?thesis by (simp add: extends_refl assms(1))
next
  case False
  then obtain j where j: "found (ib_Tag ib) (wb_dir b) = Some j" "readable j" using assms(2) by (auto simp: legible_def)
  define r where "r = sync_loop wr (ib_Tag ib) (users_on db ib) (idents j) \<lparr>sr_Added = 0, sr_FailedUsers = [], sr_FirstError = []\<rparr> (wb_dir b)"
  have "d' = snd (snd r)" using False existing_found(2) [OF assms(1) ord j(1)] by (simp add: d'_def write_back_dir r_def)
  then have "sync_loop wr (ib_Tag ib) (users_on db ib) (idents j) \<lparr>sr_Added = 0, sr_FailedUsers = [], sr_FirstError = []\<rparr> (wb_dir b) =
      (fst r, fst (snd r), d')" by (simp add: r_def)
  from sync_loop_settles [OF assms(1) j refl this] show ?thesis by (simp add: all_settled_def)
qed

lemma pass_still:
  assumes "plain_dir (wb_dir b)" and "all_settled cfg wr db (wb_dir b) ib" and ord: "visits_all order"
  shows "wb_dir (write_back_inbound order cfg wr db ib b) = wb_dir b"
proof (cases "found (ib_Tag ib) (wb_dir b)")
  case None
  then show ?thesis using existing_found(1) [OF assms(1) ord, of "ib_Tag ib" "c_ConfigDir cfg"] by (auto simp: write_back_dir)
next
  case (Some j)
  then show ?thesis using existing_found(2) [OF assms(1) ord Some, of "c_ConfigDir cfg"] assms(2) sync_loop_still [OF Some order_refl]
    by (auto simp: write_back_dir all_settled_def)
qed

lemma legible_extends: "legible db d ib \<Longrightarrow> extends d d' \<Longrightarrow> legible db d' ib"
  unfolding legible_def extends_def by (cases "found (ib_Tag ib) d") fastforce+

lemma all_settled_extends: "all_settled cfg wr db d ib \<Longrightarrow> extends d d' \<Longrightarrow> all_settled cfg wr db d' ib"
  unfolding all_settled_def using settled_extends by blast

lemma passes_settle:
  assumes "plain_dir (wb_dir b)" and "\<forall>ib\<in>set ibs. legible db (wb_dir b) ib"
    and d'_def: "d' = wb_dir (fold (write_back_inbound order cfg wr db) ibs b)" and ord: "visits_all order"
  shows "extends (wb_dir b) d' \<and> (\<forall>ib\<in>set ibs. all_settled cfg wr db d' ib)"
  using assms(1,2) unfolding d'_def
proof (induction ibs arbitrary: b)
  case Nil
  then show ?case by (simp add: extends_refl)
next
  case (Cons ib ibs)
  let ?b = "write_back_inbound order cfg wr db ib b"
  have 1: "extends (wb_dir b) (wb_dir ?b)" "all_settled cfg wr db (wb_dir ?b) ib" using pass_settles [OF _ _ refl ord] Cons.prems by auto
  with Cons.prems have "plain_dir (wb_dir ?b)" "\<forall>ib\<in>set ibs. legible db (wb_dir ?b) ib"
    by (auto simp: extends_def intro: legible_extends)
  from Cons.IH [OF this] 1 show ?case by (auto intro: extends_trans all_settled_extends)
qed

lemma passes_still:
  "visits_all order \<Longrightarrow> plain_dir (wb_dir b) \<Longrightarrow> \<forall>ib\<in>set ibs. all_settled cfg wr db (wb_dir b) ib \<Longrightarrow> wb_dir (fold (write_back_inbound order cfg wr db) ibs b) = wb_dir b"
  by (induction ibs arbitrary: b) (auto simp: pass_still)

section \<open>Properties\<close>

text \<open>C31: The write-back settles. Let the names of members in the files be spelled as the parser's
  fields are, without repetition, let no tag be used twice, and let the inbounds on which the database has users be ones
  whose clients the parser can read. Then, after one pass of the write-back, every user of such an
  inbound whose credential can be written is found there by the parser, nobody who was there is
  lost, and another pass changes no file, in whatever order the passes visit the files: the file watcher, which synchronises again because files
  were written, has nothing to write the second time. This holds also when the files cannot be
  written.\<close>

theorem write_back_settles:
  assumes "plain_dir d" and "\<forall>ib\<in>set (inbounds db). legible db d ib"
    and ord: "visits_all order" "visits_all order'"
    and d1_def: "d1 = wb_dir (write_back_all order cfg wr db d)"
  shows "wb_dir (write_back_all order' cfg wr db d1) = d1 \<and> extends d d1 \<and>
    (wr \<and> c_ConfigDir cfg \<noteq> [] \<and> TrimSpace (c_XrayAPIAddr cfg) \<noteq> [] \<and> conn_ok db \<longrightarrow>
       (\<forall>ib\<in>set (inbounds db). \<forall>uc\<in>set (users_on db ib). \<forall>j m. ib_Tag ib \<noteq> [] \<and> found (ib_Tag ib) d1 = Some j \<and>
          TrimSpace (fst uc) \<noteq> [] \<and> storedConfigToClientMap (snd uc) (TrimSpace (fst uc)) = Inr m \<longrightarrow>
          TrimSpace (fst uc) \<in> set (idents j)))"
proof (cases "TrimSpace (c_XrayAPIAddr cfg) = []")
  case True
  then show ?thesis using assms(1) by (simp add: d1_def write_back_all_def extends_refl)
next
  case False
  define ibs where "ibs = (case ListInbounds db of Inl _ \<Rightarrow> [] | Inr ibs \<Rightarrow> ibs)"
  define b where "b d = \<lparr>wb_drift = [], wb_firstErr = [], wb_dbUsers = 0, wb_confUsers = 0, wb_dir = d\<rparr>" for d
  have run: "write_back_all od cfg wr db d = fold (write_back_inbound od cfg wr db) ibs (b d)" for od d
    using False by (simp add: write_back_all_def ibs_def b_def)
  have sub: "set ibs \<subseteq> set (inbounds db)" and all: "conn_ok db \<Longrightarrow> set ibs = set (inbounds db)"
    by (auto simp: ibs_def ListInbounds_def ListInboundsPaginated_def paginate_def with_conn_def split: if_splits)
  have *: "extends d d1" "\<forall>ib\<in>set ibs. all_settled cfg wr db d1 ib"
    using passes_settle [OF _ _ refl ord(1), of "b d" ibs db cfg wr] assms(1,2) sub by (auto simp: d1_def run b_def)
  then have "plain_dir d1" by (simp add: extends_def)
  with *(2) have "wb_dir (write_back_all order' cfg wr db d1) = d1" using passes_still [OF ord(2), of "b d1" ibs] by (simp add: run b_def)
  moreover have "TrimSpace (fst uc) \<in> set (idents j)"
    if "wr" "c_ConfigDir cfg \<noteq> []" "conn_ok db" "ib \<in> set (inbounds db)" "uc \<in> set (users_on db ib)" "ib_Tag ib \<noteq> []"
      "found (ib_Tag ib) d1 = Some j" "TrimSpace (fst uc) \<noteq> []" "storedConfigToClientMap (snd uc) (TrimSpace (fst uc)) = Inr m"
    for ib uc j m
  proof -
    have "settled wr (ib_Tag ib) d1 uc" using *(2) all that(2-6) by (auto simp: all_settled_def)
    with that(1,7-9) show ?thesis by (simp add: settled_def)
  qed
  ultimately show ?thesis using *(1) by blast
qed

definition settle_db :: db where
  "settle_db = projr (UpsertUserClient 1 1 sample_stored sample_db)"

definition settle_config :: Config where
  "settle_config = default_config\<lparr>c_ConfigDir := ''/d'', c_XrayAPIAddr := ''127.0.0.1:10085''\<rparr>"

definition settle_dir :: "string \<Rightarrow> dir_read" where
  "settle_dir protocol = DirEntries [(''a.json'', False, FileData (Doc (JObj [(''inbounds'', JArr
     [JObj [(''tag'', JStr ''vless-in''), (''port'', JInt 443), (''protocol'', JStr protocol),
       (''settings'', JObj [(''clients'', JArr [])])]])])))]"

theorem write_back_settles_witness:
  "\<exists>d1. wb_dir (write_back_all id settle_config True settle_db (settle_dir ''trojan'')) = d1 \<and>
     wb_dir (write_back_all id settle_config True settle_db d1) = d1 \<and> (\<exists>j. found ''vless-in'' d1 = Some j \<and> ''alice@x'' \<in> set (idents j))"
proof -
  define d1 where "d1 = wb_dir (write_back_all id settle_config True settle_db (settle_dir ''trojan''))"
  have pl: "plain_dir (settle_dir ''trojan'')" "\<forall>ib\<in>set (inbounds settle_db). legible settle_db (settle_dir ''trojan'') ib" by code_simp+
  have ord: "visits_all id" by (simp add: visits_all_def)
  note ws = write_back_settles [OF pl ord ord d1_def]
  have cfg: "c_ConfigDir settle_config \<noteq> []" "TrimSpace (c_XrayAPIAddr settle_config) \<noteq> []" "conn_ok settle_db" by code_simp+
  let ?ib = "hd (inbounds settle_db)"
  have ib: "?ib \<in> set (inbounds settle_db)" "ib_Tag ?ib = ''vless-in''" "(''alice@x'', sample_stored) \<in> set (users_on settle_db ?ib)"
    "TrimSpace ''alice@x'' = ''alice@x''" by code_simp+
  have "case storedConfigToClientMap sample_stored ''alice@x'' of Inr _ \<Rightarrow> True | Inl _ \<Rightarrow> False" "found ''vless-in'' d1 \<noteq> None"
    unfolding d1_def by code_simp+
  then obtain m j where m: "storedConfigToClientMap sample_stored ''alice@x'' = Inr m" and j: "found ''vless-in'' d1 = Some j"
    by (auto split: sum.splits)
  have "''alice@x'' \<in> set (idents j)" using ws cfg ib m j by fastforce
  with ws j d1_def show ?thesis by blast
qed

text \<open>Without the condition on the inbounds the claim fails: an inbound that got another protocol keeps
  its users in the database, the parser finds no clients in it, and every pass appends all of
  them again. With the file watcher running, each pass starts the next.\<close>

lemma unreadable_inbound_grows:
  "let d1 = wb_dir (write_back_all id settle_config True settle_db (settle_dir ''dokodemo-door''));
       d2 = wb_dir (write_back_all id settle_config True settle_db d1);
       clients = (\<lambda>d. case read_file ''a.json'' d of FileData t \<Rightarrow> map_option length (file_clients ''vless-in'' t) | _ \<Rightarrow> None)
   in clients d1 = Some 1 \<and> clients d2 = Some 2"
  by code_simp

end
