(* ===== verification/Watcher.thy ===== *)
theory Watcher
  imports Syncer
begin

text \<open>
  The background part of \<^verbatim>\<open>internal/syncer/syncer.go\<close>: \<open>Start\<close> with its ticker and \<open>watch\<close> with its
  debounce timer, as a machine that reacts to what its two \<open>select\<close> statements receive. Events of
  the library \<^verbatim>\<open>fsnotify\<close> are inputs. A case of a \<open>select\<close> that is not ready is \<open>None\<close>.
\<close>

section \<open>The two loops\<close>

text \<open>\<open>time.Duration(s.cfg.SyncInterval) * time.Second\<close> wraps around at 64 bits.\<close>

definition wrap64 :: "int \<Rightarrow> int" where
  "wrap64 i = (i + 2 ^ 63) mod 2 ^ 64 - 2 ^ 63"

definition sync_interval :: "Config \<Rightarrow> time" where
  "sync_interval cfg =
     (let interval = wrap64 (c_SyncInterval cfg * Second) in if interval < Second then 60 * Second else interval)"

abbreviation Debounce :: time where "Debounce \<equiv> 500 * 1000000"

record 'x loops =
  lp_service :: "'x service"
  lp_ticker :: "time option"
  lp_timer :: "time option"
  lp_watching :: bool

datatype received =
    Tick
  | FsEvent string
  | EventsClosed
  | TimerFired
  | FsError string
  | ErrorsClosed
  | CtxDone

text \<open>\<open>NewWatcher\<close> or \<open>Add\<close> may fail; the ticker runs anyway.\<close>

definition Start :: "Config \<Rightarrow> bool \<Rightarrow> time \<Rightarrow> 'x service \<Rightarrow> 'x loops" where
  "Start cfg watchable now s = \<lparr>lp_service = s, lp_ticker = Some (now + sync_interval cfg), lp_timer = None, lp_watching = watchable\<rparr>"

definition watch :: "(parsed_dir \<Rightarrow> parsed_dir) \<Rightarrow> Config \<Rightarrow> time \<Rightarrow> received \<Rightarrow> 'x loops \<Rightarrow> 'x loops option" where
  "watch order cfg now r l =
     (if \<not> lp_watching l then None
      else case r of
        FsEvent name \<Rightarrow> Some (if HasSuffix name ''.json'' then l\<lparr>lp_timer := Some (now + Debounce)\<rparr> else l)
      | EventsClosed \<Rightarrow> Some (l\<lparr>lp_watching := False, lp_timer := None\<rparr>)
      | TimerFired \<Rightarrow> (case lp_timer l of
            Some t \<Rightarrow> if t \<le> now then Some (l\<lparr>lp_timer := None, lp_service := snd (Sync order cfg now (lp_service l))\<rparr>) else None
          | None \<Rightarrow> None)
      | FsError _ \<Rightarrow> Some l
      | ErrorsClosed \<Rightarrow> Some (l\<lparr>lp_watching := False, lp_timer := None\<rparr>)
      | _ \<Rightarrow> None)"

definition loop_step :: "(parsed_dir \<Rightarrow> parsed_dir) \<Rightarrow> Config \<Rightarrow> time \<Rightarrow> received \<Rightarrow> 'x loops \<Rightarrow> 'x loops option" where
  "loop_step order cfg now r l =
     (case r of
        CtxDone \<Rightarrow> Some (l\<lparr>lp_ticker := None, lp_watching := False, lp_timer := None\<rparr>)
      | Tick \<Rightarrow> (case lp_ticker l of
            Some t \<Rightarrow> if t \<le> now then Some (l\<lparr>lp_ticker := Some (t + sync_interval cfg),
                lp_service := snd (Sync order cfg now (lp_service l))\<rparr>) else None
          | None \<Rightarrow> None)
      | _ \<Rightarrow> watch order cfg now r l)"

fun loop_run :: "(parsed_dir \<Rightarrow> parsed_dir) \<Rightarrow> Config \<Rightarrow> (time \<times> received) list \<Rightarrow> 'x loops \<Rightarrow> 'x loops option" where
  "loop_run order cfg [] l = Some l"
| "loop_run order cfg ((now, r) # rs) l = Option.bind (loop_step order cfg now r l) (loop_run order cfg rs)"

section \<open>Properties\<close>

text \<open>The ticker never gets an interval that \<open>NewTicker\<close> refuses, whatever the configuration says.\<close>

lemma interval_positive: "sync_interval cfg \<ge> Second"
  by (simp add: sync_interval_def Let_def)

lemma watch_off: "\<not> lp_watching l \<Longrightarrow> loop_step order cfg now r l = Some l' \<Longrightarrow> \<not> lp_watching l'"
  by (auto simp: loop_step_def watch_def split: received.splits option.splits if_splits)

lemma run_off: "\<not> lp_watching l \<Longrightarrow> loop_run order cfg rs l = Some l' \<Longrightarrow> \<not> lp_watching l'"
proof (induction rs arbitrary: l)
  case (Cons x rs)
  obtain now r where x: "x = (now, r)" by (cases x)
  with Cons.prems(2) obtain l1 where l1: "loop_step order cfg now r l = Some l1" "loop_run order cfg rs l1 = Some l'"
    by (auto split: Option.bind_splits)
  from Cons.IH [OF watch_off [OF Cons.prems(1) l1(1)] l1(2)] show ?case .
qed simp

text \<open>A pending timer stays pending until it fires, the watcher ends, or an event postpones it.\<close>

lemma pending_step:
  assumes "lp_timer l = Some t" "lp_watching l" "loop_step order cfg now r l = Some l'"
  shows "\<not> lp_watching l' \<or> (r = TimerFired \<and> t \<le> now) \<or> lp_timer l' = Some t \<or> (lp_timer l' = Some (now + Debounce) \<and> (\<exists>n. r = FsEvent n))"
  using assms by (auto simp: loop_step_def watch_def split: received.splits option.splits if_splits)

text \<open>No change is lost: with times that do not decrease, a pending synchronisation is still pending
  at the end of a run, or the watcher ended, or the timer fired, not before its time.\<close>

lemma pending_run:
  assumes "lp_timer l = Some t" "lp_watching l" "loop_run order cfg rs l = Some l'" "sorted (map fst rs)" "\<forall>(now, r)\<in>set rs. t \<le> now + Debounce"
  shows "\<not> lp_watching l' \<or> lp_timer l' \<noteq> None \<or> (\<exists>now. (now, TimerFired) \<in> set rs \<and> t \<le> now)"
  using assms
proof (induction rs arbitrary: l t)
  case (Cons x rs)
  obtain now r where x: "x = (now, r)" by (cases x)
  with Cons.prems(3) obtain l1 where l1: "loop_step order cfg now r l = Some l1" "loop_run order cfg rs l1 = Some l'"
    by (auto split: Option.bind_splits)
  have le: "now \<le> n" if "(n, q) \<in> set rs" for n q using Cons.prems(4) that x by auto
  show ?case
  proof (cases "lp_watching l1")
    case False
    with l1(2) run_off show ?thesis by blast
  next
    case True
    from pending_step [OF Cons.prems(1,2) l1(1)] True consider "r = TimerFired" "t \<le> now" | "lp_timer l1 = Some t"
      | "lp_timer l1 = Some (now + Debounce)" by auto
    then show ?thesis
    proof cases
      case 2
      then show ?thesis using Cons.IH [OF _ True l1(2)] Cons.prems(4,5) x by fastforce
    next
      case 3
      from Cons.IH [OF 3 True l1(2)] Cons.prems(4) x le
      have "\<not> lp_watching l' \<or> lp_timer l' \<noteq> None \<or> (\<exists>n. (n, TimerFired) \<in> set rs \<and> now + Debounce \<le> n)" by fastforce
      moreover have "t \<le> now + Debounce" using Cons.prems(5) x by auto
      ultimately show ?thesis by fastforce
    qed (auto simp: x)
  qed
qed simp

text \<open>After an event for a JSON file a synchronisation follows, at the earliest 500 milliseconds later.\<close>

lemma change_synced:
  assumes "lp_watching l" "HasSuffix name ''.json''" "sorted (now # map fst rs)"
    and "loop_run order cfg ((now, FsEvent name) # rs) l = Some l'" "lp_watching l'" "lp_timer l' = None"
  shows "\<exists>t. (t, TimerFired) \<in> set rs \<and> now + Debounce \<le> t"
proof -
  have "loop_run order cfg rs (l\<lparr>lp_timer := Some (now + Debounce)\<rparr>) = Some l'"
    using assms(1,2,4) by (simp add: loop_step_def watch_def)
  from pending_run [OF _ _ this, of "now + Debounce"] assms(1,3,5,6) show ?thesis by fastforce
qed

end
