(* ===== verification/Process.thy ===== *)
theory Process
  imports Startup Router Watcher
begin

text \<open>
  The process: \<^verbatim>\<open>main\<close> of \<^verbatim>\<open>main.go\<close> with \<open>New\<close> of \<^verbatim>\<open>internal/database\<close>, and what runs after it, as a
  machine. The three goroutines of \<open>main\<close> (synchronisation, kill switch, nodes) start at any time
  after their \<open>go\<close> statement and then wait for their tickers; requests, scrapes of the metrics,
  goroutines of handlers, changes from outside and the end of the process come in any order. What
  \<open>sql.Open\<close>, \<open>MkdirAll\<close> and \<open>Close\<close> report are arguments; the text of a configuration error is left out.
\<close>

section \<open>Opening the database\<close>

record sqlite =
  sq_mkdir :: "string option"
  sq_open :: "string + db"
  sq_close :: "string option"

definition New :: "sqlite \<Rightarrow> string + db" where
  "New sq = (case sq_mkdir sq of
     Some e \<Rightarrow> Inl (''create db dir: '' @ e)
   | None \<Rightarrow>
       (case sq_open sq of
          Inl e \<Rightarrow> Inl (''open sqlite: '' @ e)
        | Inr db \<Rightarrow>
            if conn_ok db then Inr (migrate db)
            else (case sq_close sq of
                    Some c \<Rightarrow> Inl (''migrate: '' @ db_text DBUnavailable @ ''; close db: '' @ c)
                  | None \<Rightarrow> Inl (''migrate: '' @ db_text DBUnavailable))))"

section \<open>Tickers\<close>

text \<open>\<open>time.Duration(n) * time.Second\<close>, and \<open>time.NewTicker\<close>, which panics on an interval that is
  not positive (\<open>None\<close>) and otherwise ticks first at the time given.\<close>

definition seconds :: "int \<Rightarrow> time" where
  "seconds n = wrap64 (n * Second)"

definition NewTicker :: "time \<Rightarrow> time \<Rightarrow> time option" where
  "NewTicker d now = (if d \<le> 0 then None else Some (now + d))"

definition kill_interval :: "Config \<Rightarrow> time" where
  "kill_interval cfg = seconds (c_KillSwitchReconcileInterval cfg)"

definition nodes_interval :: "Config \<Rightarrow> time" where
  "nodes_interval cfg = seconds (c_SyncInterval cfg)"

definition nodes_loop_runs :: "Config \<Rightarrow> time \<Rightarrow> bool" where
  "nodes_loop_runs cfg interval = (c_Nodes cfg \<noteq> [] \<and> interval > 0)"

section \<open>State of the process\<close>

text \<open>A goroutine that was started but has not run yet, one that waits for its next tick, and one that
  returned.\<close>

datatype loop = Starting | Ticking time | Returned

record ('x, 'l) process =
  pm_server :: "'x server"
  pm_limits :: "'l limits"
  pm_sync :: loop
  pm_timer :: "time option"
  pm_watching :: bool
  pm_kill :: loop
  pm_nodes :: loop
  pm_stopping :: bool

datatype 'a progress = Running 'a | Exited string | Panicked

definition main :: "pki \<Rightarrow> 'x env \<Rightarrow> sqlite \<Rightarrow> string \<Rightarrow> file_read \<Rightarrow> 'x service \<Rightarrow> ('x, 'l) process progress" where
  "main k env sq configPath data sv =
     (case Load configPath data of
        Inl _ \<Rightarrow> Exited ''Config error''
      | Inr cfg \<Rightarrow>
          (case configureNodeCredentials k cfg of
             Inl e \<Rightarrow> Exited e
           | Inr _ \<Rightarrow>
               (case New sq of
                  Inl e \<Rightarrow> Exited (''Database error: '' @ e)
                | Inr db \<Rightarrow>
                    (case start k (env\<lparr>e_cfg := cfg\<rparr>) (sv\<lparr>sv_db := db\<rparr>) of
                       Inl e \<Rightarrow> Exited e
                     | Inr (_, s) \<Rightarrow> Running \<lparr>pm_server = s, pm_limits = \<lparr>lim_sub = [], lim_admin = []\<rparr>,
                         pm_sync = Starting, pm_timer = None, pm_watching = False, pm_kill = Starting, pm_nodes = Starting,
                         pm_stopping = False\<rparr>))))"

section \<open>Steps\<close>

datatype 'x event =
    SyncStarts bool
  | KillStarts
  | NodesStarts
  | SyncReceives received
  | KillTicks
  | NodesTick
  | KillDone
  | NodesDone
  | Serves http_method request
  | Scraped
  | JobRuns job
  | WorldChanges "'x world"
  | ConnChanges bool
  | ListenFails string
  | MetricsFail string
  | Interrupted
  | Stops

text \<open>The two loops of \<open>Start\<close> and \<open>watch\<close> work on the service of the process.\<close>

definition loops_of :: "('x, 'l) process \<Rightarrow> 'x loops" where
  "loops_of p = \<lparr>lp_service = srv_service (pm_server p),
     lp_ticker = (case pm_sync p of Ticking t \<Rightarrow> Some t | _ \<Rightarrow> None), lp_timer = pm_timer p, lp_watching = pm_watching p\<rparr>"

definition with_loops :: "'x loops \<Rightarrow> ('x, 'l) process \<Rightarrow> ('x, 'l) process" where
  "with_loops l p = p\<lparr>pm_server := (pm_server p)\<lparr>srv_service := lp_service l\<rparr>,
     pm_sync := (case lp_ticker l of Some t \<Rightarrow> Ticking t | None \<Rightarrow> Returned), pm_timer := lp_timer l, pm_watching := lp_watching l\<rparr>"

definition sync_starts :: "Config \<Rightarrow> time \<Rightarrow> bool \<Rightarrow> ('x, 'l) process \<Rightarrow> ('x, 'l) process progress" where
  "sync_starts cfg now watchable p = (case NewTicker (sync_interval cfg) now of
     None \<Rightarrow> Panicked
   | Some _ \<Rightarrow> Running (with_loops (Start cfg watchable now (srv_service (pm_server p))) p))"

definition kill_starts :: "Config \<Rightarrow> time \<Rightarrow> ('x, 'l) process \<Rightarrow> ('x, 'l) process progress" where
  "kill_starts cfg now p =
     (if \<not> killswitch_loop_runs cfg (kill_interval cfg) then Running (p\<lparr>pm_kill := Returned\<rparr>)
      else case NewTicker (kill_interval cfg) now of
        None \<Rightarrow> Panicked
      | Some t \<Rightarrow> Running (p\<lparr>pm_kill := Ticking t\<rparr>))"

definition nodes_start :: "'x env \<Rightarrow> ('x, 'l) process \<Rightarrow> ('x, 'l) process progress" where
  "nodes_start env p =
     (let interval = nodes_interval (e_cfg env)
      in if \<not> nodes_loop_runs (e_cfg env) interval then Running (p\<lparr>pm_nodes := Returned\<rparr>)
         else case NewTicker interval (e_now env) of
           None \<Rightarrow> Panicked
         | Some t \<Rightarrow> Running (p\<lparr>pm_nodes := Ticking t, pm_server := reconcileNodesOnce env (pm_server p)\<rparr>))"

text \<open>One step; an event that cannot happen in the state is \<open>None\<close>. The argument \<open>env\<close> has the
  configuration and the time of the event. A signal cancels the context of the loops, which return
  when they notice; until \<open>Shutdown\<close> is over, requests and goroutines in flight still come to their end.\<close>

definition process_step ::
  "mux \<Rightarrow> 'l limiter_lib \<Rightarrow> (string \<Rightarrow> nat list) \<Rightarrow> 'x env \<Rightarrow> 'x event \<Rightarrow> ('x, 'l) process \<Rightarrow> ('x, 'l) process progress option" where
  "process_step mx lib sha256 env ev p =
     (let s = pm_server p; cfg = e_cfg env; now = e_now env
      in case ev of
        SyncStarts watchable \<Rightarrow> if pm_sync p = Starting then Some (sync_starts cfg now watchable p) else None
      | KillStarts \<Rightarrow> if pm_kill p = Starting then Some (kill_starts cfg now p) else None
      | NodesStarts \<Rightarrow> if pm_nodes p = Starting then Some (nodes_start env p) else None
      | SyncReceives r \<Rightarrow> if r = CtxDone \<and> \<not> pm_stopping p then None
          else map_option (\<lambda>l. Running (with_loops l p)) (loop_step (e_order env) cfg now r (loops_of p))
      | KillTicks \<Rightarrow> (case pm_kill p of
            Ticking t \<Rightarrow> if t \<le> now
              then Some (Running (p\<lparr>pm_kill := Ticking (t + kill_interval cfg), pm_server := reconcileKillSwitchLocked env s\<rparr>))
              else None
          | _ \<Rightarrow> None)
      | NodesTick \<Rightarrow> (case pm_nodes p of
            Ticking t \<Rightarrow> if t \<le> now
              then Some (Running (p\<lparr>pm_nodes := Ticking (t + nodes_interval cfg), pm_server := reconcileNodesOnce env s\<rparr>))
              else None
          | _ \<Rightarrow> None)
      | KillDone \<Rightarrow> if pm_stopping p then Some (Running (p\<lparr>pm_kill := Returned\<rparr>)) else None
      | NodesDone \<Rightarrow> if pm_stopping p then Some (Running (p\<lparr>pm_nodes := Returned\<rparr>)) else None
      | Serves m r \<Rightarrow> (case Router mx lib env m r (s, pm_limits p) of
            (_, s', ls) \<Rightarrow> Some (Running (p\<lparr>pm_server := s', pm_limits := ls\<rparr>)))
      | Scraped \<Rightarrow> if c_MetricsListen cfg = [] then None
          else Some (Running (p\<lparr>pm_server := snd (MetricsHandler sha256 env s)\<rparr>))
      | JobRuns j \<Rightarrow> if j \<in> set (srv_jobs s)
          then Some (Running (p\<lparr>pm_server := run_job env j (s\<lparr>srv_jobs := remove1 j (srv_jobs s)\<rparr>)\<rparr>)) else None
      | WorldChanges w \<Rightarrow> Some (Running (p\<lparr>pm_server := set_world w s\<rparr>))
      | ConnChanges up \<Rightarrow> Some (Running (p\<lparr>pm_server := set_db ((db_of s)\<lparr>conn_ok := up\<rparr>) s\<rparr>))
      | ListenFails e \<Rightarrow> Some (Exited (''HTTP server error: '' @ e))
      | MetricsFail e \<Rightarrow> if c_MetricsListen cfg = [] then None else Some (Exited (''Metrics server error: '' @ e))
      | Interrupted \<Rightarrow> if pm_stopping p then None else Some (Running (p\<lparr>pm_stopping := True\<rparr>))
      | Stops \<Rightarrow> if pm_stopping p then Some (Exited ''Stopped'') else None)"

text \<open>A run: the process ends with the first result that is not running.\<close>

fun process_run ::
  "mux \<Rightarrow> 'l limiter_lib \<Rightarrow> (string \<Rightarrow> nat list) \<Rightarrow> ('x env \<times> 'x event) list \<Rightarrow> ('x, 'l) process \<Rightarrow> ('x, 'l) process progress option" where
  "process_run mx lib sha256 [] p = Some (Running p)"
| "process_run mx lib sha256 ((env, ev) # evs) p =
     (case process_step mx lib sha256 env ev p of
        None \<Rightarrow> None
      | Some (Running p') \<Rightarrow> process_run mx lib sha256 evs p'
      | Some out \<Rightarrow> if evs = [] then Some out else None)"

end
