(* ===== verification/Typed_Store.thy ===== *)
theory Typed_Store
  imports Server_Invariant Db_Properties
begin

text \<open>
  Every document of the database has a type, and nothing the service does stores a document of
  another type, so that reading never fails on what was written: \<open>document_store\<close> interpreted
  on the types of the documents.
\<close>

section \<open>Types of documents\<close>

text \<open>A routing rule that validation accepts on its own. A list of such rules may still be refused
  as a whole, for two rules with the same id.\<close>

definition route_ok :: "user_route_rule \<Rightarrow> bool" where
  "route_ok r = (validateUserRoutes [r] = None)"

definition typed_rules :: "jtext \<Rightarrow> bool" where
  "typed_rules t = (case parseUserRoutes t of Some rs \<Rightarrow> list_all route_ok rs | None \<Rightarrow> False)"

definition balancer_strategies :: "string list" where
  "balancer_strategies = [''random'', ''roundRobin'', ''leastPing'', ''leastLoad'']"

definition typed_setting :: "string \<Rightarrow> setting \<Rightarrow> bool" where
  "typed_setting key v =
     (if key = ''fallback_enabled'' then v = SText ''true'' \<or> v = SText ''false''
      else if key = ''global_client_routes'' then typed_rules (setting_text v)
      else if key = ''balancer_runtime_config''
      then (case unmarshal dec_balancer zero_balancer (setting_text v) of
              Some c \<Rightarrow> brc_Strategy c \<in> set balancer_strategies | None \<Rightarrow> False)
      else if key = ''emergency_active'' then v = SText ''true''
      else if key = ''emergency_profile_id''
      then (case v of SText s \<Rightarrow> (case Sscanf_d s of Some i \<Rightarrow> 0 < i | None \<Rightarrow> False) | _ \<Rightarrow> False)
      else key = ''emergency_activated_at'' \<and> (case v of SStamp _ \<Rightarrow> True | _ \<Rightarrow> False))"

fun typed_doc :: "document \<Rightarrow> bool" where
  "typed_doc (ClientDoc t) = is_credential t"
| "typed_doc (RoutesDoc t) = typed_rules t"
| "typed_doc (ProfileDoc t) = (unmarshal dec_strings [] t \<noteq> None)"
| "typed_doc (SettingDoc key v) = typed_setting key v"

definition typed_db :: "db \<Rightarrow> bool" where
  "typed_db = stored_docs typed_doc"

section \<open>The writers respect the types\<close>

lemma parse_written_rules [simp]: "parseUserRoutes (routes_text rules) = Some (case rules of None \<Rightarrow> [] | Some rs \<Rightarrow> rs)"
  by (cases rules) (simp_all add: parseUserRoutes_def routes_text_def blank_text_def dec_enc_route_rules, simp add: dec_route_rules_def)

lemma typed_written: "pred_option (list_all route_ok) rules \<Longrightarrow> typed_rules (routes_text rules)"
  by (cases rules) (simp_all add: typed_rules_def)

lemma selectors_renamed:
  "validateRouteSelectors j (r\<lparr>rr_ID := i\<rparr>) = validateRouteSelectors j r"
  "has_effective_field (r\<lparr>rr_ID := i\<rparr>) = has_effective_field r"
  by (simp_all add: validateRouteSelectors_def has_effective_field_def cong: option.case_cong)

lemma route_ok_renamed [simp]: "route_ok (r\<lparr>rr_ID := i\<rparr>) = route_ok r"
  by (simp add: route_ok_def validateUserRoutes_def selectors_renamed Let_def split: option.split)

lemma lower_balancer [lower_name]:
  "ToLower ''strategy'' = ''strategy''" "ToLower ''probe_url'' = ''probe_url''" "ToLower ''probe_interval'' = ''probe_interval''"
  by code_simp+

lemma dec_enc_balancer: "dec_balancer zero_balancer (enc_balancer c) = Some c"
  by (cases c) (simp add: dec_balancer_def enc_balancer_def zero_balancer_def EqualFold_def lower_name)

lemma normal_strategy: "normalizeBalancerStrategyInput v \<noteq> [] \<Longrightarrow> normalizeBalancerStrategyInput v \<in> set balancer_strategies"
  by (auto simp: normalizeBalancerStrategyInput_def balancer_strategies_def Let_def split: if_split_asm)

interpretation typed: document_store typed_doc route_ok
proof (unfold_locales, goal_cases)
  case (4 t rs)
  then show ?case by (simp add: typed_rules_def)
next
  case (5 v rs)
  then show ?case by (simp add: typed_setting_def typed_rules_def)
next
  case (9 v url freq)
  then show ?case by (simp add: typed_setting_def setting_text_def dec_enc_balancer normal_strategy)
next
  case (11 i)
  then show ?case by (simp add: typed_setting_def Sscanf_Itoa)
qed (simp_all add: typed_written typed_setting_def setting_text_def route_ok_def [symmetric] tags_json_def)

section \<open>Reading what is stored\<close>

lemma credential_reads:
  "is_credential t \<Longrightarrow> \<exists>sc. unmarshal dec_StoredClientConfig zero_StoredClientConfig t = Some sc \<and> stored_ok sc"
  by (erule is_credentialE) (simp add: dec_enc_stored)

lemma typed_client:
  assumes "typed_db db" and "GetUserClients uid db = Inr cs" and "c \<in> set cs"
  shows "\<exists>sc. unmarshal dec_StoredClientConfig zero_StoredClientConfig (uc_ClientConfig c) = Some sc \<and> stored_ok sc"
  using assms by (intro credential_reads) (auto simp: typed_db_def stored_docs_iff GetUserClients_def clients_join_def join_client_def)

lemma scan_all: "(\<And>r. r \<in> set rs \<Longrightarrow> typed_doc (ProfileDoc (pr_inbound_tags r))) \<Longrightarrow> \<exists>ps. scanProfiles rs = Inr ps"
proof (induction rs)
  case (Cons r rs)
  from Cons.prems [of r] obtain p where "scanProfile r = Inr p" by (auto simp: scanProfile_def)
  moreover obtain ps where "scanProfiles rs = Inr ps" using Cons by auto
  ultimately show ?case by simp
qed simp

lemma typed_profiles:
  assumes "typed_db db"
  shows "ListEmergencyProfiles db \<noteq> Inl BadJSON" and "GetEmergencyProfile i db \<noteq> Inl BadJSON"
proof -
  have t: "typed_doc (ProfileDoc (pr_inbound_tags r))" if "r \<in> set (emergency_profiles db)" for r
    using assms that by (simp add: typed_db_def stored_docs_iff del: typed_doc.simps)
  show "ListEmergencyProfiles db \<noteq> Inl BadJSON"
    using scan_all [of "sort_key pr_name (emergency_profiles db)"] t by (auto simp: ListEmergencyProfiles_def simp del: typed_doc.simps)
  show "GetEmergencyProfile i db \<noteq> Inl BadJSON"
  proof (cases "find (\<lambda>p. pr_id p = i) (emergency_profiles db)")
    case (Some p)
    then have "typed_doc (ProfileDoc (pr_inbound_tags p))" by (blast intro: t find_Some_mem)
    with Some show ?thesis by (auto simp: GetEmergencyProfile_def scanProfile_def)
  qed (simp add: GetEmergencyProfile_def)
qed

lemma typed_get: "typed_db db \<Longrightarrow> get_setting k db = Some v \<Longrightarrow> typed_setting k v"
  by (auto simp: typed_db_def stored_docs_iff get_setting_def dest!: map_of_SomeD)

lemma typed_balancer:
  assumes "typed_db db"
  shows "GetBalancerRuntimeConfig db \<noteq> Inl BadJSON"
    and "GetBalancerRuntimeConfig db = Inr (Some c) \<Longrightarrow> brc_Strategy c \<in> set balancer_strategies"
  using typed_get [OF assms, of "''balancer_runtime_config''"]
  by (auto simp: GetBalancerRuntimeConfig_def typed_setting_def split: option.splits if_splits)

lemma db_text_other: "db_text e \<noteq> ''invalid stored routes''" "db_text e \<noteq> ''invalid stored global routes''"
  by (cases e; simp)+

lemma typed_user_routes:
  assumes "typed_db (db_of s)"
  shows "fst (getUserRoutes env r s) \<noteq> JsonError 500 ''invalid stored routes''"
proof -
  have "parseUserRoutes (u_ClientRoutes u) \<noteq> None" if u: "getByID r (db_of s) = Inr u" for u
  proof -
    obtain row where "row \<in> set (users (db_of s))" "u = scanUser row"
      using getByID_row [OF u] by blast
    with assms show ?thesis by (auto simp: typed_db_def stored_docs_iff scanUser_def typed_rules_def split: option.splits)
  qed
  moreover have "fst (with_stored_rules env u k s) \<noteq> JsonError 500 ''invalid stored routes''"
    if "parseUserRoutes (u_ClientRoutes u) \<noteq> None" "\<And>rs s. fst (k rs s) \<noteq> JsonError 500 ''invalid stored routes''" for u k
    using that db_text_other by (auto simp: with_stored_rules_def split: option.splits prod.splits)
  moreover have "m \<noteq> ''invalid stored routes''" if "getByID r (db_of s) = Inl (c, m)" for c m
    using that db_text_other by (auto simp: getByID_def Let_def split: if_splits option.splits sum.splits)
  ultimately show ?thesis by (auto simp: getUserRoutes_def with_user_def split: sum.splits)
qed

lemma typed_global_routes:
  assumes "typed_db (db_of s)"
  shows "fst (getGlobalRoutes s) \<noteq> JsonError 500 ''invalid stored global routes''"
proof -
  have "parseUserRoutes raw \<noteq> None" if "GetGlobalClientRoutes (db_of s) = Inr raw" for raw
    using that typed_get [OF assms, of "''global_client_routes''"]
    by (auto simp: GetGlobalClientRoutes_def typed_setting_def typed_rules_def parseUserRoutes_def blank_text_def dec_route_rules_def
        split: option.splits if_splits)
  then show ?thesis using db_text_other
    by (auto simp: getGlobalRoutes_def with_global_rules_def split: option.splits sum.splits prod.splits)
qed

text \<open>C11: The store is typed, and reading it never goes wrong. When the service is started on a
  database whose documents have their types (a fresh one, for instance), then in every state it
  reaches, through requests, goroutines, timers, failures and changes from outside, they have
  them: stored credentials decode with their integers in range, every stored routing rule passes
  validation, settings have their forms. So no read fails on a document that does not decode:
  not the clients of a user, the profiles of the emergency mode, the balancer settings (which
  name a known strategy), nor the routing rules of users and the global ones.\<close>

theorem typed_store_safe:
  assumes "reachable_from (\<lambda>db. db_reachable db \<and> typed_db db) s"
  shows "typed_db (db_of s) \<and>
    (\<forall>uid cs c. GetUserClients uid (db_of s) = Inr cs \<and> c \<in> set cs \<longrightarrow>
       (\<exists>sc. unmarshal dec_StoredClientConfig zero_StoredClientConfig (uc_ClientConfig c) = Some sc \<and> stored_ok sc)) \<and>
    ListEmergencyProfiles (db_of s) \<noteq> Inl BadJSON \<and>
    (\<forall>i. GetEmergencyProfile i (db_of s) \<noteq> Inl BadJSON) \<and>
    GetBalancerRuntimeConfig (db_of s) \<noteq> Inl BadJSON \<and>
    (\<forall>c. GetBalancerRuntimeConfig (db_of s) = Inr (Some c) \<longrightarrow> brc_Strategy c \<in> set balancer_strategies) \<and>
    (\<forall>env r. fst (getUserRoutes env r s) \<noteq> JsonError 500 ''invalid stored routes'') \<and>
    fst (getGlobalRoutes s) \<noteq> JsonError 500 ''invalid stored global routes''"
proof -
  have "sound_db typed_doc = (\<lambda>db. db_reachable db \<and> typed_db db)"
    by (simp add: fun_eq_iff sound_db_def typed_db_def)
  then have t: "typed_db (db_of s)"
    using typed.reachable_good assms by (metis sound_db_def typed_db_def)
  show ?thesis
    using t typed_client [OF t] typed_profiles [OF t] typed_balancer [OF t] typed_user_routes [OF t] typed_global_routes [OF t]
    by blast
qed

text \<open>A first start on an empty database, and the creation of a user.\<close>

definition fresh_service :: "xray_log service" where
  "fresh_service = sample_service\<lparr>sv_db := empty_db\<rparr>"

lemma fresh_start: "\<exists>s. start sample_pki sample_env fresh_service = Inr ([], s)"
  by (simp add: start_def configureNodeCredentials_def Let_def sample_env_def sample_api_config_def sample_sync_config_def default_config_def)

theorem typed_store_safe_witness:
  "\<exists>s. start sample_pki sample_env fresh_service = Inr ([], s) \<and>
     typed_db (db_of (fst (snd (Router literal_mux open_limiter sample_env MethodPost
       (sample_admin_request [] (JObj [(''username'', JStr ''carol'')])) (s, \<lparr>lim_sub = [], lim_admin = []\<rparr>)))))"
proof -
  obtain s where s: "start sample_pki sample_env fresh_service = Inr ([], s)"
    using fresh_start by blast
  have "db_reachable (sv_db fresh_service) \<and> typed_db (sv_db fresh_service)"
    by (simp add: fresh_service_def typed_db_def reach_new)
  then have "reachable_from (\<lambda>db. db_reachable db \<and> typed_db db) s"
    by (rule srv_start [OF _ _ s]) (simp add: sample_env_def)
  then have "reachable_from (\<lambda>db. db_reachable db \<and> typed_db db) (fst (snd (Router literal_mux open_limiter sample_env MethodPost
       (sample_admin_request [] (JObj [(''username'', JStr ''carol'')])) (s, \<lparr>lim_sub = [], lim_admin = []\<rparr>))))"
    by (rule srv_next) (rule srv_request [of sample_env literal_mux open_limiter MethodPost], simp add: sample_env_def, rule surjective_pairing3)
  with s typed_store_safe show ?thesis by blast
qed

end
