(* ===== verification/Process_Properties.thy ===== *)
theory Process_Properties
  imports Process Typed_Store
begin

text \<open>
  The process refines the steps of the server, so everything that holds in every state of the server
  holds in every run of the process, and no configuration makes one of its tickers panic.
\<close>

section \<open>The process refines the server\<close>

text \<open>A ticker that is armed belongs to a loop whose guards hold.\<close>

definition armed :: "Config \<Rightarrow> ('x, 'l) process \<Rightarrow> bool" where
  "armed cfg p \<longleftrightarrow> (\<forall>t. pm_kill p = Ticking t \<longrightarrow> killswitch_loop_runs cfg (kill_interval cfg)) \<and>
     (\<forall>t. pm_nodes p = Ticking t \<longrightarrow> nodes_loop_runs cfg (nodes_interval cfg))"

text \<open>A limiter decides a request by a single bit.\<close>

lemma limiter_bit:
  assumes "rateLimitMiddleware lib perMin now h r (s, m) = (rep, s', m')"
  shows "\<exists>(lib' :: unit limiter_lib) m''. rateLimitMiddleware lib' perMin now h r (s, []) = (rep, s', m'')"
proof -
  let ?ok = "fst (admit lib perMin (clientIP r) now m)"
  let ?lib = "\<lparr>l_new = (\<lambda>_ _. ()), l_allow = (\<lambda>_ _. (?ok, ()))\<rparr>"
  have "fst (admit ?lib perMin (clientIP r) now []) = ?ok" by (simp add: admit_def)
  then show ?thesis using assms
    by (intro exI [of _ ?lib]) (auto simp: rateLimitMiddleware_def split: if_splits prod.splits bool.splits)
qed

lemma router_bit:
  assumes "Router mx lib env m r (s, ls) = (rep, s', ls')"
  shows "\<exists>(lib' :: unit limiter_lib) ls0 ls0'. Router mx lib' env m r (s, ls0) = (rep, s', ls0')"
proof -
  have *: "\<exists>(lib' :: unit limiter_lib) ls0 ls0'. rateLimitWrap lib' env h r (s, ls0) = (rep, s', ls0')"
    if w: "rateLimitWrap lib env h r (s, ls) = (rep, s', ls')" for h
  proof (cases "rate_class_of (rq_path r)")
    case Unlimited
    with w show ?thesis by (auto simp: rateLimitWrap_def split: prod.splits)
  next
    case AdminLimit
    with w obtain m' where "rateLimitMiddleware lib (c_RateLimitAdminPerMin (e_cfg env)) (e_now env) h r (s, lim_admin ls) = (rep, s', m')"
      by (auto simp: rateLimitWrap_def split: prod.splits)
    from limiter_bit [OF this] obtain lib' :: "unit limiter_lib" and m''
      where "rateLimitMiddleware lib' (c_RateLimitAdminPerMin (e_cfg env)) (e_now env) h r (s, []) = (rep, s', m'')" by blast
    with AdminLimit show ?thesis
      by - (rule exI [of _ lib'], rule exI [of _ "\<lparr>lim_sub = [], lim_admin = []\<rparr>"], simp add: rateLimitWrap_def)
  next
    case SubLimit
    with w obtain m' where "rateLimitMiddleware lib (c_RateLimitSubPerMin (e_cfg env)) (e_now env) h r (s, lim_sub ls) = (rep, s', m')"
      by (auto simp: rateLimitWrap_def split: prod.splits)
    from limiter_bit [OF this] obtain lib' :: "unit limiter_lib" and m''
      where "rateLimitMiddleware lib' (c_RateLimitSubPerMin (e_cfg env)) (e_now env) h r (s, []) = (rep, s', m'')" by blast
    with SubLimit show ?thesis
      by - (rule exI [of _ lib'], rule exI [of _ "\<lparr>lim_sub = [], lim_admin = []\<rparr>"], simp add: rateLimitWrap_def)
  qed
  then show ?thesis using assms by (simp add: Router_def)
qed

lemma stay: "server_step s s"
proof -
  have "set_world (world_of s) s = s" by (simp add: set_world_def world_of_def)
  then show ?thesis by (metis srv_outside)
qed

lemma loop_step_service:
  "loop_step order cfg now r l = Some l' \<Longrightarrow>
     lp_service l' = lp_service l \<or> lp_service l' = snd (Sync order cfg now (lp_service l))"
  by (auto simp: loop_step_def watch_def split: received.splits option.splits if_splits)

lemma step_refines:
  assumes "process_step mx lib sha256 env ev p = Some (Running p')" and "armed (e_cfg env) p" and "visits_all (e_order env)"
  shows "server_step (pm_server p) (pm_server p') \<and> armed (e_cfg env) p'"
proof (cases ev)
  case (SyncReceives r)
  then obtain l where l: "loop_step (e_order env) (e_cfg env) (e_now env) r (loops_of p) = Some l" "p' = with_loops l p"
    using assms(1) by (auto simp: process_step_def Let_def split: if_splits)
  from loop_step_service [OF l(1)] have "pm_server p' = pm_server p \<or> pm_server p' = sync_now env (pm_server p)"
    by (auto simp: l(2) with_loops_def loops_of_def sync_now_def)
  with assms(2,3) show ?thesis by (auto simp: l(2) with_loops_def armed_def intro: stay srv_tick_sync)
next
  case KillTicks
  then obtain t where "pm_kill p = Ticking t" "pm_server p' = reconcileKillSwitchLocked env (pm_server p)"
    "pm_kill p' = Ticking (t + kill_interval (e_cfg env))" "pm_nodes p' = pm_nodes p"
    using assms(1) by (auto simp: process_step_def Let_def split: loop.splits if_splits)
  then show ?thesis using assms(2) srv_tick_kill_switch [of "pm_server p" env "kill_interval (e_cfg env)"]
    by (auto simp: armed_def killswitch_tick_def)
next
  case (Serves m r)
  then obtain rep ls where "Router mx lib env m r (pm_server p, pm_limits p) = (rep, pm_server p', ls)"
    "pm_kill p' = pm_kill p" "pm_nodes p' = pm_nodes p"
    using assms(1) by (auto simp: process_step_def Let_def split: prod.splits)
  then show ?thesis using assms(2,3) router_bit by (fastforce simp: armed_def intro: srv_request)
next
  case (JobRuns j)
  then show ?thesis using assms by (auto simp: process_step_def Let_def armed_def split: if_splits intro: srv_job)
qed (use assms in \<open>auto simp: process_step_def Let_def armed_def sync_starts_def kill_starts_def nodes_start_def NewTicker_def
    with_loops_def Start_def split: if_splits option.splits loop.splits intro: stay srv_metrics srv_tick_nodes srv_outside srv_connection\<close>)

lemma run_refines:
  assumes "process_run mx lib sha256 evs p = Some (Running p')" and "armed cfg p" and "reachable_from P (pm_server p)"
    and "list_all (\<lambda>(env, _). e_cfg env = cfg \<and> visits_all (e_order env)) evs"
  shows "reachable_from P (pm_server p')"
  using assms
proof (induction evs arbitrary: p)
  case (Cons x evs)
  obtain env ev where x: "x = (env, ev)" by force
  from Cons.prems(1) x obtain q where q: "process_step mx lib sha256 env ev p = Some (Running q)" "process_run mx lib sha256 evs q = Some (Running p')"
    by (auto split: option.splits progress.splits if_splits)
  have c: "e_cfg env = cfg" "visits_all (e_order env)" using Cons.prems(4) x by simp_all
  from step_refines [OF q(1)] Cons.prems(2) c have "server_step (pm_server p) (pm_server q)" "armed cfg q" by simp_all
  with Cons.IH [OF q(2)] Cons.prems(3,4) show ?case by (simp add: srv_next)
qed simp

lemma main_running:
  assumes "main k env sq path data sv = Running p"
  obtains cfg db creds where "Load path data = Inr cfg" "New sq = Inr db" "armed c p"
    "start k (env\<lparr>e_cfg := cfg\<rparr>) (sv\<lparr>sv_db := db\<rparr>) = Inr (creds, pm_server p)"
  using assms by (auto simp: main_def armed_def split: sum.splits prod.splits)

lemma New_Inr: "New sq = Inr db' \<Longrightarrow> \<exists>db. sq_open sq = Inr db \<and> db' = migrate db"
  by (auto simp: New_def split: option.splits sum.splits if_splits)

lemma migrate_documents: "stored_docs T (migrate db) = stored_docs T db"
  by (simp add: stored_docs_def documents_def migrate_def map_key_update_where)

lemma reachable_weaken:
  assumes "reachable_from P s" and "\<And>db. P db \<Longrightarrow> Q db"
  shows "reachable_from Q s"
  using assms(1) by (induction rule: reachable_from.induct) (auto intro: srv_start srv_next assms(2))

text \<open>C4: The process as \<open>main\<close> builds it refines the steps of the server. Whatever the configuration
  file, the goroutines of \<open>main\<close>, their tickers, the file watcher, the rate limiters, requests,
  signals and failures do and in whatever order, a process that is still running is in a state
  that the server reaches from its start on the migrated database. So a database that was
  consistent is consistent, and one whose documents were well-typed is well-typed.\<close>

theorem process_refines_server:
  assumes "main k env sq path data sv = Running p" and "visits_all (e_order env)"
    and "process_run mx lib sha256 evs p = Some (Running p')"
    and "list_all (\<lambda>(env', _). Load path data = Inr (e_cfg env') \<and> visits_all (e_order env')) evs"
  shows "\<exists>db. sq_open sq = Inr db \<and> reachable_from (\<lambda>d. d = migrate db) (pm_server p') \<and>
    (db_reachable db \<longrightarrow> db_inv (db_of (pm_server p'))) \<and>
    (db_reachable db \<and> typed_db db \<longrightarrow> typed_db (db_of (pm_server p')))"
proof -
  obtain cfg db' creds where m: "Load path data = Inr cfg" "New sq = Inr db'" "armed cfg p"
    "start k (env\<lparr>e_cfg := cfg\<rparr>) (sv\<lparr>sv_db := db'\<rparr>) = Inr (creds, pm_server p)"
    using main_running [OF assms(1), of cfg for cfg] by metis
  from New_Inr [OF m(2)] obtain db where db: "sq_open sq = Inr db" "db' = migrate db" by blast
  have "reachable_from (\<lambda>d. d = migrate db) (pm_server p)"
    by (rule srv_start [OF _ _ m(4)]) (simp_all add: db assms(2))
  moreover have "list_all (\<lambda>(env, _). e_cfg env = cfg \<and> visits_all (e_order env)) evs"
    using assms(4) m(1) by (auto simp: list_all_iff)
  ultimately have r: "reachable_from (\<lambda>d. d = migrate db) (pm_server p')"
    using run_refines [OF assms(3) m(3)] by blast
  have "db_inv (db_of (pm_server p'))" if "db_reachable db"
    using untyped.reachable_good [unfolded sound_untyped, OF reachable_weaken [OF r]] that
    by (simp add: reach_step [OF _ step_migrate] reachable_inv)
  moreover have "typed_db (db_of (pm_server p'))" if "db_reachable db" "typed_db db"
    using typed.reachable_good [OF reachable_weaken [OF r]] that
    by (simp add: sound_db_def typed_db_def migrate_documents reach_step [OF _ step_migrate])
  ultimately show ?thesis using db(1) r by blast
qed

text \<open>A process on an empty database and the default configuration, whose loops start and which creates a
  user.\<close>

definition sample_sqlite :: sqlite where
  "sample_sqlite = \<lparr>sq_mkdir = None, sq_open = Inr empty_db, sq_close = None\<rparr>"

definition process_env :: "xray_log env" where
  "process_env = sample_env\<lparr>e_cfg := projr (Load [] FileNotFound)\<rparr>"

definition sample_main :: "(xray_log, unit) process progress" where
  "sample_main = main sample_pki sample_env sample_sqlite [] FileNotFound fresh_service"

definition sample_events :: "(xray_log env \<times> xray_log event) list" where
  "sample_events = map (Pair process_env) [KillStarts, SyncStarts True, NodesStarts,
     Serves MethodPost (sample_admin_request [] (JObj [(''username'', JStr ''carol'')]))]"

definition running :: "'a progress \<Rightarrow> 'a option" where
  "running out = (case out of Running p \<Rightarrow> Some p | _ \<Rightarrow> None)"

lemma running_Some: "running out = Some p \<longleftrightarrow> out = Running p"
  by (auto simp: running_def split: progress.splits)

definition sample_run :: "(xray_log, unit) process option" where
  "sample_run = Option.bind (running sample_main) (\<lambda>p.
     Option.bind (process_run literal_mux open_limiter (\<lambda>_. []) sample_events p) running)"

theorem process_refines_server_witness:
  "\<exists>p p'. sample_main = Running p \<and> process_run literal_mux open_limiter (\<lambda>_. []) sample_events p = Some (Running p') \<and>
     db_inv (db_of (pm_server p')) \<and> typed_db (db_of (pm_server p'))"
proof -
  have "sample_run \<noteq> None" by code_simp
  then obtain p p' where p: "sample_main = Running p" "process_run literal_mux open_limiter (\<lambda>_. []) sample_events p = Some (Running p')"
    by (auto simp: sample_run_def running_Some split: Option.bind_splits)
  have l: "Load [] FileNotFound = Inr (e_cfg process_env)" by code_simp
  have "list_all (\<lambda>(env', _). Load [] FileNotFound = Inr (e_cfg env') \<and> visits_all (e_order env')) sample_events"
    by (simp add: sample_events_def l) (simp add: process_env_def sample_env_def)
  from process_refines_server [OF p(1) [unfolded sample_main_def] _ p(2) this] p
  show ?thesis by (auto simp: sample_sqlite_def sample_env_def reach_new typed_db_def)
qed

section \<open>Tickers\<close>

lemma wrap64_range: "int64_min \<le> wrap64 i" "wrap64 i \<le> int64_max"
  by (simp_all add: wrap64_def)

lemma wrap64_exact: "int64_min \<le> i \<Longrightarrow> i \<le> int64_max \<Longrightarrow> wrap64 i = i"
  by (simp add: wrap64_def)

lemma seconds_exact: "- 9223372036 \<le> n \<Longrightarrow> n \<le> 9223372036 \<Longrightarrow> seconds n = n * Second"
  unfolding seconds_def by (rule wrap64_exact) simp_all

lemma step_no_panic: "process_step mx lib sha256 env ev p \<noteq> Some Panicked"
  using interval_positive [of "e_cfg env"]
  by (auto simp: process_step_def Let_def sync_starts_def kill_starts_def nodes_start_def NewTicker_def killswitch_loop_runs_def
      nodes_loop_runs_def split: event.splits loop.splits prod.splits)

lemma run_no_panic: "process_run mx lib sha256 evs p \<noteq> Some Panicked"
proof (induction evs arbitrary: p)
  case (Cons x evs)
  then show ?case using step_no_panic by (cases x) (fastforce split: option.splits progress.splits if_splits)
qed simp

lemma limiter_interval:
  assumes "0 < perMin"
  shows "limit_interval perMin * perMin \<le> Minute" "Minute < (limit_interval perMin + 1) * perMin" "0 \<le> limit_interval perMin"
proof -
  have "Minute = limit_interval perMin * perMin + Minute mod perMin" by (simp add: limit_interval_def)
  moreover have "0 \<le> Minute mod perMin" "Minute mod perMin < perMin" using assms by simp_all
  ultimately show "limit_interval perMin * perMin \<le> Minute" "Minute < (limit_interval perMin + 1) * perMin"
    by (simp_all add: algebra_simps)
  show "0 \<le> limit_interval perMin" using assms by (simp add: limit_interval_def pos_imp_zdiv_nonneg_iff)
qed

text \<open>C19: Intervals stay within their bounds. No configuration, however large or negative its
  numbers, makes a ticker panic, although seconds are multiplied into 64-bit nanoseconds and may
  wrap around: the synchronisation ticks at most once per second, with the seconds that the
  configuration says when they are 1 to 9223372036, and every minute when they are not positive;
  the loops of kill switch and nodes tick only with positive intervals. A limit
  of requests per minute gives an interval that allows as many and not one more, with
  bursts of 2 to 20; only a limit beyond 60 billion has the interval 0.\<close>

theorem intervals_in_bounds:
  "process_run mx lib sha256 evs p \<noteq> Some Panicked \<and>
   Second \<le> sync_interval cfg \<and> sync_interval cfg \<le> int64_max \<and>
   (1 \<le> c_SyncInterval cfg \<and> c_SyncInterval cfg \<le> 9223372036 \<longrightarrow>
      sync_interval cfg = c_SyncInterval cfg * Second \<and> nodes_interval cfg = c_SyncInterval cfg * Second) \<and>
   (- 9223372036 \<le> c_SyncInterval cfg \<and> c_SyncInterval cfg \<le> 0 \<longrightarrow>
      sync_interval cfg = Minute \<and> \<not> nodes_loop_runs cfg (nodes_interval cfg)) \<and>
   (killswitch_loop_runs cfg (kill_interval cfg) \<longrightarrow> 0 < kill_interval cfg \<and> kill_interval cfg \<le> int64_max) \<and>
   (nodes_loop_runs cfg (nodes_interval cfg) \<longrightarrow> 0 < nodes_interval cfg \<and> nodes_interval cfg \<le> int64_max) \<and>
   (0 < perMin \<longrightarrow> limit_interval perMin * perMin \<le> Minute \<and> Minute < (limit_interval perMin + 1) * perMin \<and>
      (limit_interval perMin = 0 \<longleftrightarrow> perMin > Minute) \<and> 2 \<le> limit_burst perMin \<and> limit_burst perMin \<le> 20)"
proof -
  have s: "Second \<le> sync_interval cfg" "sync_interval cfg \<le> int64_max"
    using interval_positive [of cfg] wrap64_range [of "c_SyncInterval cfg * Second"] by (simp_all add: sync_interval_def Let_def)
  have n: "sync_interval cfg = c_SyncInterval cfg * Second" "nodes_interval cfg = c_SyncInterval cfg * Second"
    if "1 \<le> c_SyncInterval cfg" "c_SyncInterval cfg \<le> 9223372036"
    using seconds_exact [of "c_SyncInterval cfg"] that by (simp_all add: sync_interval_def nodes_interval_def seconds_def Let_def)
  have z: "sync_interval cfg = Minute" "\<not> nodes_loop_runs cfg (nodes_interval cfg)"
    if "- 9223372036 \<le> c_SyncInterval cfg" "c_SyncInterval cfg \<le> 0"
    using seconds_exact [of "c_SyncInterval cfg"] that
    by (simp_all add: sync_interval_def nodes_interval_def nodes_loop_runs_def seconds_def Let_def)
  have k: "0 < kill_interval cfg \<and> kill_interval cfg \<le> int64_max" if "killswitch_loop_runs cfg (kill_interval cfg)"
    using that wrap64_range by (simp add: killswitch_loop_runs_def kill_interval_def seconds_def)
  have l: "0 < nodes_interval cfg \<and> nodes_interval cfg \<le> int64_max" if "nodes_loop_runs cfg (nodes_interval cfg)"
    using that wrap64_range by (simp add: nodes_loop_runs_def nodes_interval_def seconds_def)
  have i: "limit_interval perMin = 0 \<longleftrightarrow> perMin > Minute" if "0 < perMin"
    using limiter_interval [OF that] that by (auto simp: limit_interval_def zdiv_eq_0_iff)
  have b: "2 \<le> limit_burst perMin" "limit_burst perMin \<le> 20" by (simp_all add: limit_burst_def Let_def)
  show ?thesis
    using run_no_panic s n z k l i limiter_interval [of perMin] b by blast
qed

theorem intervals_in_bounds_witness:
  "sync_interval (default_config\<lparr>c_SyncInterval := 30\<rparr>) = 30 * Second \<and>
   sync_interval (default_config\<lparr>c_SyncInterval := 2 ^ 62\<rparr>) \<ge> Second \<and> limit_interval 60 * 60 \<le> Minute"
  using intervals_in_bounds [of literal_mux open_limiter "\<lambda>_. []" sample_events _ "default_config\<lparr>c_SyncInterval := 30\<rparr>" 60]
    intervals_in_bounds [of literal_mux open_limiter "\<lambda>_. []" sample_events _ "default_config\<lparr>c_SyncInterval := 2 ^ 62\<rparr>" 60]
  by simp

end
