(* ===== verification/Spec2Isabelle.thy ===== *)
theory Spec2Isabelle
  imports Db_Properties Placement Config_Properties Generator_Safety Writer_Properties Admin_Properties Syncer_Properties
    Routes_Api Users_Api Fallback_Api Emergency_Api Server_Invariant Subscription_Properties Node_Properties
    Link_Properties Killswitch_Properties Route_Properties User_Properties Rate_Limit_Properties Startup_Properties
    Router_Properties Recovery_Properties Emergency_Properties Write_Back_Properties Process_Properties
begin

text \<open>
  Raven-subscribe is a subscription service in front of the Xray proxy. It keeps users, the inbounds
  of Xray and the credentials of users on inbounds in a SQLite database, synchronises that database
  with Xray's configuration directory and its gRPC API, and serves every user a client configuration
  (JSON or share links) under a secret token, with a second, emergency path that has its own tokens,
  inbounds and kill switch. This development models the service and proves what makes it correct.

  \<^bold>\<open>Parts of the program and theories.\<close>

  \<^item> \<open>Prelude\<close>, \<open>Json\<close>: strings as byte lists with the functions of \<^verbatim>\<open>strings\<close>, \<^verbatim>\<open>strconv\<close> and
    \<^verbatim>\<open>net\<close> that the source uses, and JSON values with the decoding rules of \<^verbatim>\<open>encoding/json\<close>
    (case-insensitive members, \<open>null\<close>, zero values, errors). A stored text that is JSON is a value
    \<open>Doc\<close>, any other text \<open>Plain\<close>. \<open>Base64\<close>, \<open>Url\<close>: the encodings of links; \<open>Link_Reader\<close>: how a
    client takes a link apart, the specification that the link builders are measured against.
  \<^item> \<open>Models\<close>, \<open>Database\<close> (\<^verbatim>\<open>internal/models\<close>, \<^verbatim>\<open>internal/database\<close>): tables as lists of rows with the
    constraints of the schema; one definition per method of \<open>DB\<close>, which returns an error or the new
    tables. \<open>Db_Invariant\<close> has the integrity conditions and the step relation \<open>db_step\<close> of all
    methods; \<open>Db_Properties\<close>, \<open>Tokens\<close> and \<open>Placement\<close> the theorems.
  \<^item> \<open>Config\<close> (\<^verbatim>\<open>internal/config\<close>): loading, defaults, validation and the derived values.
  \<^item> \<open>Xray_Types\<close>, \<open>Parser\<close>, \<open>Generator\<close>, \<open>Config_Writer\<close>, \<open>Admin\<close> (\<^verbatim>\<open>internal/xray\<close>,
    \<^verbatim>\<open>internal/core/admin.go\<close>): Xray's documents, reading the configuration directory, generating
    client configurations, editing the files, and the implementations of \<open>AdminAPI\<close>: files, gRPC, and
    the fan-out to several nodes. The state \<open>world\<close> holds the directory, Xray's own state and the
    random bytes that are still to be drawn.
  \<^item> \<open>Syncer\<close> (\<^verbatim>\<open>internal/syncer\<close>): synchronisation, restore after a restart, status with its ring of
    error times. \<open>Watcher\<close>: the ticker and the debounced file watcher that run it.
  \<^item> \<open>Api_Base\<close>, \<open>Routes_Api\<close>, \<open>Nodes_Api\<close>, \<open>Users_Api\<close>, \<open>Subscription\<close>, \<open>Links\<close>, \<open>Fallback_Api\<close>,
    \<open>Emergency_Api\<close>, \<open>Liveness\<close>, \<open>Rate_Limit\<close> (\<^verbatim>\<open>internal/api\<close>): every handler and middleware as a
    function from a request and the state \<open>server\<close> to a reply and the new state. A goroutine that a
    handler starts is a job in the state that runs at any later time. \<open>Router\<close> is the table of all
    routes with their methods, middleware and the dispatch of a request.
  \<^item> \<open>Startup\<close> (\<^verbatim>\<open>main.go\<close>, \<^verbatim>\<open>internal/xray/tls.go\<close>): what runs before the listeners start, and the
    transport credentials of the nodes. \<open>Process\<close>: \<open>main\<close> itself, from the configuration file to the
    running process with its goroutines, tickers, listeners and shutdown as a machine on events.
  \<^item> \<open>Document_Store\<close>, \<open>Typed_Store\<close>: the columns that hold documents (credentials, routing rules,
    profiles, settings), what every method writes into them, and their types.
  \<^item> \<open>Samples\<close>, \<open>Api_Samples\<close>: concrete values on which the theorems are applied.

  \<^bold>\<open>How the parts interact.\<close> Handlers change the database directly, Xray through the \<open>AdminAPI\<close> that
  \<open>buildAdmin\<close> selects from the configuration, and start synchronisations. A synchronisation reads
  the directory, upserts inbounds, users and clients, and writes users that are missing in the files
  back. Subscriptions read the database only. The kill switch and the reconcile pass of the nodes
  bring Xray back to what the database says, at startup and by timers. \<open>Server_Invariant\<close> puts these
  steps together in one relation, \<open>server_step\<close>, from the states that \<open>start\<close> yields; every request
  goes through \<open>Router\<close>. \<open>Process_Properties\<close> shows that the process, as \<open>main\<close> puts it together,
  takes no other steps.

  \<^bold>\<open>What the theorems show.\<close>

  \<^item> Database: integrity of all tables under any sequence of calls (C1), and in every state of the
    running server (C29) and of the process (C4); every document keeps its type, so that no read fails
    on what was stored (C11); token rotation revokes (C2); deletion (C5), nodes and placement (C7, C8).
  \<^item> Configuration and startup: what an accepted configuration satisfies (C9), the private address
    guard (C10), that no public node is dialled in plaintext (C3), and that no number in a configuration
    makes a ticker panic, overflow included (C19).
  \<^item> Credentials and client configurations: no private key of the server in stored client credentials (C12)
    and no server secret in generated configurations (C14);
    generated configurations are closed under their tags, up to routes that misspell a target, have their
    settings in place, carry the credential and order rules (C13, C15, C16, C18); the share links of all
    four protocols read back (C36).
  \<^item> Files and Xray: exact edits of the files (C20, C21), round trips between
    database, file and account (C23, C24), agreement of backends (C25), the failure policy of all five
    operations of the fan-out (C26), the write-back, write by write (C27), blank identities under every
    configuration (C28).
  \<^item> Synchronisation: the inbounds mirror the files (C30), the write-back settles (C31), the error
    window (C32).
  \<^item> Service: everything below \<open>/api\<close> needs the administrator's token (C22), subscriptions are isolated
    (C33), an emergency profile redirects those of the subscription handler, leaves the link handlers alone, and
    its end undoes that (C6), the fallback route is gated (C34), placement decides
    endpoints (C35), a restarted node is brought back by the reconcile pass (C17), the kill switch takes its
    inbounds away as far as Xray confirms it (C37), edits of routing rules read back (C38), the answer to
    every request to create a user (C39), the cleanup of rate limiters cannot be noticed (C40).

  \<^bold>\<open>Interfaces as locales.\<close> Operations that share a contract are stated as locales with their
  interpretations on the model: token columns in \<open>Tokens\<close>, one node and the nodes of a
  fan-out in \<open>Admin_Properties\<close>, the selection of clients for the JSON and link handlers in
  \<open>Subscription_Properties\<close>, the properties of databases that a synchronisation keeps in
  \<open>Syncer_Properties\<close>, interpreted for reachability and for the growth of the user table, and the
  types that the writers of documents respect in \<open>Server_Invariant\<close> (\<open>document_store\<close>, which is a
  sublocale of the former), interpreted without types and for the types of \<open>Typed_Store\<close>.

  \<^bold>\<open>Parameters.\<close> Code outside the repository is an argument: X25519 and SHA-256, Xray's
  HandlerService and inbound loader, the path matching of \<^verbatim>\<open>gorilla/mux\<close>, the token
  bucket of \<^verbatim>\<open>golang.org/x/time/rate\<close>, the events of \<^verbatim>\<open>fsnotify\<close>, reading certificate files, the order in which Go ranges over a map. Hypotheses about them are named:
  \<open>removes_inbounds\<close> (a removal that Xray confirms, by success or by a text that says there is no such
  inbound, leaves the inbound absent; no removal touches other inbounds; one that fails otherwise may have
  had no effect), \<open>refills\<close> (an idle token bucket is full
  again), \<open>accepts_users\<close> (a user whose addition succeeded, or failed because the user exists, is there),
  \<open>rand_ok\<close> (random bytes are bytes), \<open>visits_all\<close> (ranging over a map visits every entry once). The recursions of the program are structural or have
  a termination proof; only the reader of JSON objects in \<open>Link_Reader\<close> has fuel, the length of its
  text, which \<open>read_object_text\<close> shows to be enough. Times are in nanoseconds, integers of the JSON decoder are bounded to 64
  bits where the source's types are, and durations wrap around at 64 bits.

  \<^bold>\<open>Not modelled.\<close> The SQL text and the file of the database, sockets and the timeouts of
  \<^verbatim>\<open>net/http\<close>, log output, response headers, the text layout of JSON, and the interfaces of
  \<^verbatim>\<open>internal/core\<close> for further engines, which nothing implements. Each event of the process is one step:
  where the source holds a mutex or a database transaction that is exact, elsewhere two handlers that
  run at the same time are taken one after the other. The counter of a table is not advanced by an upsert
  that updates a row (SQLite may skip a value there), so row numbers are new, but not the very numbers
  SQLite would choose.
\<close>

end
